(* ===== verification/Prelude.thy ===== *)
theory Prelude
  imports Main "HOL-Library.Word" "HOL-Library.Char_ord" "HOL-Library.List_Lexorder"
    "HOL-Library.Sublist"
begin

section \<open>Prelude: machine integers, results and keyed tables\<close>

text \<open>
  What the components share: the Rust integer types as words with the saturating operations
  the source calls, the result combinators that stand for the \<open>?\<close> operator, and the generic
  lemmas about tables (lists of rows with a key), which are the shape every SQL table of
  \<open>persistence.rs\<close> has in the model.
\<close>

named_theorems word_arith "unsigned readings of the saturating operations"
named_theorems table_simps "what a keyed table returns after an insert or an update"

subsection \<open>Machine integers\<close>

type_synonym u8 = "8 word"
type_synonym u16 = "16 word"
type_synonym u32 = "32 word"
type_synonym u64 = "64 word"

abbreviation u64_max :: u64 where
  "u64_max \<equiv> 18446744073709551615"

text \<open>\<open>u64::saturating_add\<close>, \<open>u64::saturating_sub\<close> and \<open>u64::saturating_mul\<close>.\<close>

definition sat_add :: "u64 \<Rightarrow> u64 \<Rightarrow> u64" where
  "sat_add a b = (if unat a + unat b < 2 ^ 64 then a + b else u64_max)"

definition sat_sub :: "u64 \<Rightarrow> u64 \<Rightarrow> u64" where
  "sat_sub a b = (if b \<le> a then a - b else 0)"

definition sat_mul :: "u64 \<Rightarrow> u64 \<Rightarrow> u64" where
  "sat_mul a b = (if unat a * unat b < 2 ^ 64 then a * b else u64_max)"

text \<open>A 32-bit value read as 64 bits (\<open>as u64\<close>).\<close>

definition u32_to_u64 :: "u32 \<Rightarrow> u64" where
  "u32_to_u64 x = ucast x"

text \<open>
  SQLite integers are signed 64-bit values. An unsigned value that does not fit is refused
  when the statement is bound, so a row never holds one; \<open>sql_u64\<close> is that test.
\<close>

definition sql_u64 :: "u64 \<Rightarrow> bool" where
  "sql_u64 v \<longleftrightarrow> unat v < 2 ^ 63"

lemma unat_u64_less: "unat (a :: u64) < 2 ^ 64"
  using unsigned_less [of a] by simp

lemma unat_sat_add [word_arith]: "unat (sat_add a b) = min (unat a + unat b) (2 ^ 64 - 1)"
proof -
  have "unat (u64_max) = 2 ^ 64 - 1" by simp
  then show ?thesis by (auto simp: sat_add_def unat_word_ariths)
qed

lemma unat_sat_sub [word_arith]: "unat (sat_sub a b) = unat a - unat b"
  by (auto simp: sat_sub_def unat_sub word_le_nat_alt)

lemma unat_u32_less: "unat (a :: u32) < 2 ^ 32"
  using unsigned_less [of a] by simp

lemma unat_u32_to_u64 [word_arith]: "unat (u32_to_u64 x) = unat x"
  using unat_u32_less [of x]
  by (simp add: u32_to_u64_def unsigned_ucast_eq take_bit_nat_eq_self_iff)

lemma sat_add_ge: "a \<le> sat_add a b"
  using unat_u64_less [of a] by (simp add: word_le_nat_alt word_arith)

lemma unat_sat_add_sql [word_arith]: "sql_u64 a \<Longrightarrow> unat (sat_add a 1) = unat a + 1"
  by (simp add: unat_sat_add sql_u64_def)

lemma sat_add_Suc: "sql_u64 a \<Longrightarrow> a < sat_add a 1"
  by (simp add: word_less_nat_alt unat_sat_add_sql)

lemma sat_sub_le: "sat_sub a b \<le> a"
  by (simp add: word_le_nat_alt word_arith)

text \<open>A plain \<open>cur + 1\<close> on a value read from a row never wraps.\<close>

lemma unat_Suc_sql [word_arith]: "sql_u64 a \<Longrightarrow> unat (a + 1) = unat a + 1"
  by (simp add: sql_u64_def unat_word_ariths)

lemma sql_u64_Suc: "sql_u64 a \<Longrightarrow> a < a + 1"
  by (simp add: word_less_nat_alt unat_Suc_sql)

lemma sql_u64_0 [simp]: "sql_u64 0" and sql_u64_1 [simp]: "sql_u64 1"
  by (simp_all add: sql_u64_def)

lemma sql_u64_mono: "sql_u64 b \<Longrightarrow> a \<le> b \<Longrightarrow> sql_u64 a"
  by (simp add: sql_u64_def word_le_nat_alt)

subsection \<open>Results\<close>

text \<open>
  A fallible Rust function returns \<open>Result\<close>: here a sum, \<open>Inl\<close> the error. The operator
  \<open>?\<close> is \<open>bind_r\<close>; a \<open>for\<close> loop whose body may return early is \<open>all_r\<close>.
\<close>

fun bind_r :: "'e + 'a \<Rightarrow> ('a \<Rightarrow> 'e + 'b) \<Rightarrow> 'e + 'b" where
  "bind_r (Inl e) f = Inl e"
| "bind_r (Inr x) f = f x"

definition ensure :: "bool \<Rightarrow> 'e \<Rightarrow> 'e + unit" where
  "ensure b e = (if b then Inr () else Inl e)"

fun all_r :: "('a \<Rightarrow> 'e + unit) \<Rightarrow> 'a list \<Rightarrow> 'e + unit" where
  "all_r f [] = Inr ()"
| "all_r f (x # xs) = bind_r (f x) (\<lambda>_. all_r f xs)"

definition ok_or :: "'e \<Rightarrow> 'a option \<Rightarrow> 'e + 'a" where
  "ok_or e x = (case x of None \<Rightarrow> Inl e | Some v \<Rightarrow> Inr v)"

definition is_ok :: "'e + 'a \<Rightarrow> bool" where
  "is_ok r = (case r of Inl _ \<Rightarrow> False | Inr _ \<Rightarrow> True)"

lemma bind_r_Inr_iff [simp]: "bind_r m f = Inr y \<longleftrightarrow> (\<exists>x. m = Inr x \<and> f x = Inr y)"
  by (cases m) auto

lemma bind_r_Inl_iff: "bind_r m f = Inl e \<longleftrightarrow> m = Inl e \<or> (\<exists>x. m = Inr x \<and> f x = Inl e)"
  by (cases m) auto

lemma ensure_Inr [simp]: "ensure b e = Inr x \<longleftrightarrow> b"
  by (simp add: ensure_def)

lemma ensure_Inl [simp]: "ensure b e = Inl x \<longleftrightarrow> \<not> b \<and> x = e"
  by (auto simp: ensure_def)

lemma ok_or_Inr [simp]: "ok_or e x = Inr y \<longleftrightarrow> x = Some y"
  by (simp add: ok_or_def split: option.split)

lemma ok_or_Inl [simp]: "ok_or e x = Inl y \<longleftrightarrow> x = None \<and> y = e"
  by (auto simp: ok_or_def split: option.split)

lemma all_r_Inr [simp]: "all_r f xs = Inr u \<longleftrightarrow> (\<forall>x\<in>set xs. f x = Inr ())"
  by (induction xs) auto

lemma is_ok_iff [simp]: "is_ok r \<longleftrightarrow> (\<exists>x. r = Inr x)"
  by (simp add: is_ok_def split: sum.split)

subsection \<open>Keyed tables\<close>

text \<open>
  A table is the list of its rows in insertion order. \<open>row_get\<close> is a \<open>SELECT\<close> by
  primary key, \<open>row_update\<close> an \<open>UPDATE ... WHERE key = ?\<close> (every row with the key, which
  a primary key makes one at most), \<open>row_insert\<close> a plain \<open>INSERT\<close> (\<open>None\<close> on a key
  conflict), \<open>row_insert_ignore\<close> an \<open>INSERT OR IGNORE\<close>.
\<close>

definition row_get :: "('r \<Rightarrow> 'k) \<Rightarrow> 'k \<Rightarrow> 'r list \<Rightarrow> 'r option" where
  "row_get key k rs = find (\<lambda>r. key r = k) rs"

definition row_update :: "('r \<Rightarrow> 'k) \<Rightarrow> 'k \<Rightarrow> ('r \<Rightarrow> 'r) \<Rightarrow> 'r list \<Rightarrow> 'r list" where
  "row_update key k f rs = map (\<lambda>r. if key r = k then f r else r) rs"

definition row_insert :: "('r \<Rightarrow> 'k) \<Rightarrow> 'r \<Rightarrow> 'r list \<Rightarrow> 'r list option" where
  "row_insert key r rs = (if key r \<in> set (map key rs) then None else Some (rs @ [r]))"

definition row_insert_ignore :: "('r \<Rightarrow> 'k) \<Rightarrow> 'r \<Rightarrow> 'r list \<Rightarrow> 'r list" where
  "row_insert_ignore key r rs = (if key r \<in> set (map key rs) then rs else rs @ [r])"

lemma find_map_key:
  assumes "\<And>r. key (f r) = key r"
  shows "find (\<lambda>r. key r = k) (map f rs) = map_option f (find (\<lambda>r. key r = k) rs)"
  by (induction rs) (auto simp: assms)

lemma row_get_Some: "row_get key k rs = Some r \<Longrightarrow> r \<in> set rs \<and> key r = k"
  by (auto simp: row_get_def find_Some_iff)

lemma row_get_None: "row_get key k rs = None \<longleftrightarrow> k \<notin> key ` set rs"
  by (auto simp: row_get_def find_None_iff)

lemma row_get_in: "distinct (map key rs) \<Longrightarrow> r \<in> set rs \<Longrightarrow> row_get key (key r) rs = Some r"
  by (induction rs) (auto simp: row_get_def rev_image_eqI)

lemma row_get_iff:
  "distinct (map key rs) \<Longrightarrow> row_get key k rs = Some r \<longleftrightarrow> r \<in> set rs \<and> key r = k"
  using row_get_in row_get_Some by metis

lemma row_get_append [table_simps]:
  "row_get key k (rs @ [r]) =
     (case row_get key k rs of Some x \<Rightarrow> Some x | None \<Rightarrow> if key r = k then Some r else None)"
  by (induction rs) (auto simp: row_get_def)

lemma row_get_update [table_simps]:
  assumes "\<And>r. key (f r) = key r"
  shows "row_get key k (row_update key k' f rs) =
    (if k = k' then map_option f (row_get key k rs) else row_get key k rs)"
  by (induction rs) (auto simp: row_get_def row_update_def assms)

lemma row_update_keys [simp]:
  assumes "\<And>r. key (f r) = key r"
  shows "map key (row_update key k f rs) = map key rs"
  by (simp add: row_update_def assms)

lemma row_update_in:
  "r \<in> set (row_update key k f rs) \<Longrightarrow>
     (\<exists>x \<in> set rs. key x = k \<and> r = f x) \<or> (r \<in> set rs \<and> key r \<noteq> k)"
  by (auto simp: row_update_def split: if_splits)

lemma set_row_update:
  "set (row_update key k f rs) = (\<lambda>r. if key r = k then f r else r) ` set rs"
  by (simp add: row_update_def)

lemma row_update_id: "row_get key k rs = None \<Longrightarrow> row_update key k f rs = rs"
  by (induction rs) (auto simp: row_get_def row_update_def split: if_splits)

lemma row_insert_Some:
  "row_insert key r rs = Some rs' \<longleftrightarrow> key r \<notin> key ` set rs \<and> rs' = rs @ [r]"
  by (auto simp: row_insert_def)

lemma row_insert_distinct:
  "row_insert key r rs = Some rs' \<Longrightarrow> distinct (map key rs) \<Longrightarrow> distinct (map key rs')"
  by (auto simp: row_insert_Some)

lemma row_insert_ignore_distinct:
  "distinct (map key rs) \<Longrightarrow> distinct (map key (row_insert_ignore key r rs))"
  by (auto simp: row_insert_ignore_def)

lemma row_insert_ignore_mono: "set rs \<subseteq> set (row_insert_ignore key r rs)"
  by (auto simp: row_insert_ignore_def)

lemma row_insert_ignore_key: "key r \<in> key ` set (row_insert_ignore key r rs)"
  by (auto simp: row_insert_ignore_def)

text \<open>A relation every updated row satisfies relates the old table to the new one.\<close>

lemma row_update_related:
  assumes "\<And>x. x \<in> set rs \<Longrightarrow> key x = k \<Longrightarrow> P x (f x)" and "\<And>x. P x x"
  shows "\<forall>x \<in> set rs. \<exists>y \<in> set (row_update key k f rs). P x y"
proof
  fix x assume x: "x \<in> set rs"
  show "\<exists>y \<in> set (row_update key k f rs). P x y"
  proof (cases "key x = k")
    case True
    with x have "f x \<in> set (row_update key k f rs)" by (force simp: row_update_def)
    with assms(1) [OF x True] show ?thesis by blast
  next
    case False
    with x have "x \<in> set (row_update key k f rs)" by (force simp: row_update_def)
    with assms(2) show ?thesis by blast
  qed
qed

lemma row_get_unique:
  "distinct (map key rs) \<Longrightarrow> row_get key k rs = Some r \<Longrightarrow> r' \<in> set rs \<Longrightarrow> key r' = k \<Longrightarrow> r' = r"
  using row_get_in [of key rs r'] by simp

subsection \<open>Decimal text\<close>

text \<open>What \<open>{}\<close> prints of an unsigned integer.\<close>

fun show_nat :: "nat \<Rightarrow> string" where
  "show_nat n = (if n < 10 then [char_of (48 + n)] else show_nat (n div 10) @ [char_of (48 + n mod 10)])"

declare show_nat.simps [simp del]

end
