(* ===== verification/Errors.thy ===== *)
theory Errors
  imports Prelude
begin

section \<open>The error model (errors.rs)\<close>

text \<open>
  One constructor per variant of \<open>FabricError\<close>. A variant that carries a \<open>String\<close>
  carries one here. Where the source builds the text with \<open>format!\<close> the model keeps the
  format string with its placeholders as written: no decision of the program reads the
  interpolated text, and the variant and its template identify the branch that was taken.
\<close>

datatype fabric_error =
    InvalidLifecycleTransition string string
  | StaleCoordinatorEpoch u64 u64
  | StaleWorkloadEpoch u64 u64
  | StaleCaptureAttempt string
  | StaleRestoreAttempt string
  | ReservationConflict string
  | QuiescenceFailure string
  | CaptureProviderFailure string
  | IncompleteCheckpoint string
  | FrontierInconsistency string
  | IntegrityFailure string
  | CompatibilityFailure string
  | MissingDependency string
  | UnsupportedBackend string
  | UnsupportedComponent string
  | CorruptedCheckpoint string
  | PersistenceError string
  | TransportError string
  | ProtocolError string
  | StorageError string
  | RestoreFailure string
  | MigrationFailure string
  | FencingFailure string
  | LineageViolation string
  | PolicyViolation string
  | CheckpointNotFound string
  | WorkloadNotFound string
  | GenerationMismatch string
  | Timeout string
  | CleanupFailure string
  | InvalidArgument string
  | Internal string
  | Io string
  | Json string
  | Sqlite string
  | FailPoint string

type_synonym 'a fabric_result = "fabric_error + 'a"

text \<open>A text between single quotes, as several messages have it.\<close>

definition quoted :: "string \<Rightarrow> string" where
  "quoted s = [CHR 0x27] @ s @ [CHR 0x27]"

text \<open>The \<open>Display\<close> rendering: the category prefix and the carried text.\<close>

fun error_to_string :: "fabric_error \<Rightarrow> string" where
  "error_to_string (InvalidLifecycleTransition f t) =
     ''invalid lifecycle transition: '' @ f @ '' -> '' @ t"
| "error_to_string (StaleCoordinatorEpoch ex g) =
     ''stale coordinator epoch: coordinator expects {expected}, actor holds {got}''"
| "error_to_string (StaleWorkloadEpoch ex g) = ''stale workload epoch: expected {expected}, got {got}''"
| "error_to_string (StaleCaptureAttempt s) = ''stale capture attempt: '' @ s"
| "error_to_string (StaleRestoreAttempt s) = ''stale restore attempt: '' @ s"
| "error_to_string (ReservationConflict s) = ''reservation conflict: '' @ s"
| "error_to_string (QuiescenceFailure s) = ''quiescence failure: '' @ s"
| "error_to_string (CaptureProviderFailure s) = ''capture provider failure: '' @ s"
| "error_to_string (IncompleteCheckpoint s) = ''incomplete checkpoint: '' @ s"
| "error_to_string (FrontierInconsistency s) = ''execution frontier inconsistency: '' @ s"
| "error_to_string (IntegrityFailure s) = ''integrity failure: '' @ s"
| "error_to_string (CompatibilityFailure s) = ''compatibility failure: '' @ s"
| "error_to_string (MissingDependency s) = ''missing dependency: '' @ s"
| "error_to_string (UnsupportedBackend s) = ''unsupported backend: '' @ s"
| "error_to_string (UnsupportedComponent s) = ''unsupported component: '' @ s"
| "error_to_string (CorruptedCheckpoint s) = ''corrupted checkpoint: '' @ s"
| "error_to_string (PersistenceError s) = ''persistence error: '' @ s"
| "error_to_string (TransportError s) = ''transport error: '' @ s"
| "error_to_string (ProtocolError s) = ''protocol error: '' @ s"
| "error_to_string (StorageError s) = ''storage error: '' @ s"
| "error_to_string (RestoreFailure s) = ''restore failure: '' @ s"
| "error_to_string (MigrationFailure s) = ''migration failure: '' @ s"
| "error_to_string (FencingFailure s) = ''fencing failure: '' @ s"
| "error_to_string (LineageViolation s) = ''lineage violation: '' @ s"
| "error_to_string (PolicyViolation s) = ''policy violation: '' @ s"
| "error_to_string (CheckpointNotFound s) = ''checkpoint not found: '' @ s"
| "error_to_string (WorkloadNotFound s) = ''workload not found: '' @ s"
| "error_to_string (GenerationMismatch s) = ''generation mismatch: '' @ s"
| "error_to_string (Timeout s) = ''timeout: '' @ s"
| "error_to_string (CleanupFailure s) = ''cleanup failure: '' @ s"
| "error_to_string (InvalidArgument s) = ''invalid argument: '' @ s"
| "error_to_string (Internal s) = ''internal error: '' @ s"
| "error_to_string (Io s) = ''io error: '' @ s"
| "error_to_string (Json s) = ''serialization error: '' @ s"
| "error_to_string (Sqlite s) = ''sqlite error: '' @ s"
| "error_to_string (FailPoint s) = ''injected failpoint: '' @ s"

end
