(* ===== verification/Ids.thy ===== *)
theory Ids
  imports Errors
begin

section \<open>Stable identities (id.rs)\<close>

text \<open>
  An identity is 16 bytes. The \<open>hex\<close> crate that renders it is not part of the
  repository, so its two functions are the parameters \<open>enc\<close> and \<open>dec\<close> of the
  definitions; \<open>hex_codec\<close> states the documented behaviour of the crate the code relies
  on. \<open>Id::random\<close> draws the 16 bytes from the thread's generator: the model takes the
  drawn bytes from the state of the coordinator (theory \<open>Sys\<close>).
\<close>

type_synonym bytes = "u8 list"

datatype ident = Id (as_bytes: bytes)

definition ID_BYTES :: nat where
  "ID_BYTES = 16"

definition valid_id :: "ident \<Rightarrow> bool" where
  "valid_id i \<longleftrightarrow> length (as_bytes i) = ID_BYTES"

definition to_hex :: "(bytes \<Rightarrow> string) \<Rightarrow> ident \<Rightarrow> string" where
  "to_hex enc i = enc (as_bytes i)"

definition from_hex :: "(string \<Rightarrow> bytes option) \<Rightarrow> string \<Rightarrow> ident fabric_result" where
  "from_hex dec s =
     (if length s \<noteq> ID_BYTES * 2
      then Inl (InvalidArgument ''id must be {} hex chars, got {}'')
      else case dec s of
        None \<Rightarrow> Inl (InvalidArgument ''invalid id hex: {e}'')
      | Some bs \<Rightarrow> Inr (Id bs))"

text \<open>What the code relies on of \<open>hex::encode\<close> and \<open>hex::decode\<close>.\<close>

definition hex_codec :: "(bytes \<Rightarrow> string) \<Rightarrow> (string \<Rightarrow> bytes option) \<Rightarrow> bool" where
  "hex_codec enc dec \<longleftrightarrow>
     (\<forall>bs. dec (enc bs) = Some bs) \<and>
     (\<forall>bs. length (enc bs) = 2 * length bs) \<and>
     (\<forall>s bs. dec s = Some bs \<longrightarrow> length s = 2 * length bs)"

text \<open>A codec with these properties: two letters per byte, the low and the high nibble.\<close>

definition nibble :: "nat \<Rightarrow> char" where
  "nibble n = char_of (n + (if n < 10 then 48 else 87))"

definition unnibble :: "char \<Rightarrow> nat option" where
  "unnibble c = (let n = of_char c in
     if 48 \<le> n \<and> n < 58 then Some (n - 48)
     else if 97 \<le> n \<and> n < 103 then Some (n - 87)
     else if 65 \<le> n \<and> n < 71 then Some (n - 55) else None)"

fun hex_enc :: "bytes \<Rightarrow> string" where
  "hex_enc [] = []"
| "hex_enc (b # bs) = nibble (unat b div 16) # nibble (unat b mod 16) # hex_enc bs"

fun hex_dec :: "string \<Rightarrow> bytes option" where
  "hex_dec [] = Some []"
| "hex_dec [c] = None"
| "hex_dec (c # d # s) =
     (case (unnibble c, unnibble d, hex_dec s) of
        (Some h, Some l, Some bs) \<Rightarrow> Some (word_of_nat (16 * h + l) # bs)
      | _ \<Rightarrow> None)"

lemma unnibble_nibble [simp]: "n < 16 \<Longrightarrow> unnibble (nibble n) = Some n"
  by (auto simp: unnibble_def nibble_def Let_def)

lemma hex_dec_enc [simp]: "hex_dec (hex_enc bs) = Some bs"
proof (induction bs)
  case (Cons b bs)
  have "unat b < 256" using unsigned_less [of b] by simp
  then have "unat b div 16 < 16" by simp
  then show ?case using Cons by simp
qed simp

lemma hex_dec_length: "hex_dec s = Some bs \<Longrightarrow> length s = 2 * length bs"
  by (induction s arbitrary: bs rule: hex_dec.induct) (auto split: option.splits)

lemma hex_enc_length [simp]: "length (hex_enc bs) = 2 * length bs"
  by (induction bs) auto

lemma hex_codec_instance: "hex_codec hex_enc hex_dec"
  using hex_dec_length by (auto simp: hex_codec_def)

lemma to_hex_inject: "hex_codec enc dec \<Longrightarrow> to_hex enc i = to_hex enc j \<longleftrightarrow> i = j"
  by (auto simp: hex_codec_def to_hex_def) (metis ident.expand option.inject)

text \<open>An identity survives printing and parsing, and parsing accepts only 16-byte identities.
  \<open>from_hex\<close> inverts \<open>to_hex\<close> on every identity, and whatever text it accepts is a valid
  identity, so the length test of the source makes the copy into the fixed-size array safe.\<close>

theorem id_hex_roundtrip:
  assumes "hex_codec enc dec"
  shows "(valid_id i \<longrightarrow> from_hex dec (to_hex enc i) = Inr i) \<and>
         (from_hex dec s = Inr j \<longrightarrow> valid_id j \<and> length s = 32)"
  using assms
  by (auto simp: hex_codec_def valid_id_def from_hex_def to_hex_def ID_BYTES_def
      split: if_splits option.splits)

theorem id_hex_roundtrip_witness:
  "from_hex hex_dec (to_hex hex_enc (Id (replicate 16 171))) = Inr (Id (replicate 16 171))"
  using id_hex_roundtrip [OF hex_codec_instance, of "Id (replicate 16 171)" "[]"]
  by (simp add: valid_id_def ID_BYTES_def)

end
