(* ===== verification/Lifecycle.thy ===== *)
theory Lifecycle
  imports Errors
begin

section \<open>The checkpoint lifecycle (lifecycle.rs)\<close>

text \<open>
  The states of \<open>LifecycleState\<close>, the transition test with its typed error, and the two
  documented paths. \<open>life_step\<close> is the step relation the test decides; the lemmas about
  it (what is terminal, what lies behind \<open>Available\<close>) are what the coordinator's
  invariants rest on.
\<close>

datatype lifecycle_state =
    Created | Capturing | Captured | Validating | Sealed | Persisting | Available
  | RestorePending | Restoring | Restored | Retired | Failed

fun lifecycle_as_str :: "lifecycle_state \<Rightarrow> string" where
  "lifecycle_as_str Created = ''CREATED''"
| "lifecycle_as_str Capturing = ''CAPTURING''"
| "lifecycle_as_str Captured = ''CAPTURED''"
| "lifecycle_as_str Validating = ''VALIDATING''"
| "lifecycle_as_str Sealed = ''SEALED''"
| "lifecycle_as_str Persisting = ''PERSISTING''"
| "lifecycle_as_str Available = ''AVAILABLE''"
| "lifecycle_as_str RestorePending = ''RESTORE_PENDING''"
| "lifecycle_as_str Restoring = ''RESTORING''"
| "lifecycle_as_str Restored = ''RESTORED''"
| "lifecycle_as_str Retired = ''RETIRED''"
| "lifecycle_as_str Failed = ''FAILED''"

definition is_restorable :: "lifecycle_state \<Rightarrow> bool" where
  "is_restorable s \<longleftrightarrow> s \<in> {Available, Restored}"

definition is_terminal :: "lifecycle_state \<Rightarrow> bool" where
  "is_terminal s \<longleftrightarrow> s \<in> {Retired, Failed}"

fun can_transition :: "lifecycle_state \<Rightarrow> lifecycle_state \<Rightarrow> bool" where
  "can_transition Created t = (t \<in> {Capturing})"
| "can_transition Capturing t = (t \<in> {Captured, Failed})"
| "can_transition Captured t = (t \<in> {Validating, Failed})"
| "can_transition Validating t = (t \<in> {Sealed, Failed})"
| "can_transition Sealed t = (t \<in> {Persisting, Failed})"
| "can_transition Persisting t = (t \<in> {Available, Failed})"
| "can_transition Available t = (t \<in> {RestorePending, Retired, Failed})"
| "can_transition RestorePending t = (t \<in> {Restoring, Failed, Available})"
| "can_transition Restoring t = (t \<in> {Restored, Available, Failed})"
| "can_transition Restored t = (t \<in> {Available, Failed})"
| "can_transition Retired t = (t \<in> {RestorePending, Failed})"
| "can_transition Failed t = False"

definition transition :: "lifecycle_state \<Rightarrow> lifecycle_state \<Rightarrow> unit fabric_result" where
  "transition s t =
     (if can_transition s t then Inr ()
      else Inl (InvalidLifecycleTransition (lifecycle_as_str s) (lifecycle_as_str t)))"

definition HAPPY_PATH :: "lifecycle_state list" where
  "HAPPY_PATH = [Created, Capturing, Captured, Validating, Sealed, Persisting, Available]"

definition RESTORE_PATH :: "lifecycle_state list" where
  "RESTORE_PATH = [RestorePending, Restoring, Restored, Available]"

subsection \<open>The step relation\<close>

inductive life_step :: "lifecycle_state \<Rightarrow> lifecycle_state \<Rightarrow> bool" where
  life_stepI: "transition s t = Inr () \<Longrightarrow> life_step s t"

inductive_simps life_step_iff: "life_step s t"

inductive life_path :: "lifecycle_state \<Rightarrow> lifecycle_state list \<Rightarrow> lifecycle_state \<Rightarrow> bool" where
  life_nil: "life_path s [] s"
| life_cons: "life_step s t \<Longrightarrow> life_path t ts u \<Longrightarrow> life_path s (t # ts) u"

inductive_cases life_path_ConsE: "life_path s (t # ts) u"

lemma transition_Inr [simp]: "transition s t = Inr u \<longleftrightarrow> can_transition s t"
  by (simp add: transition_def)

lemma life_step_can [simp]: "life_step s t \<longleftrightarrow> can_transition s t"
  by (simp add: life_step_iff)

lemma lifecycle_as_str_inject [simp]: "lifecycle_as_str s = lifecycle_as_str t \<longleftrightarrow> s = t"
  by (cases s; cases t; simp)

text \<open>The states a committed checkpoint can be in: behind the atomic capture commit.\<close>

definition committed_state :: "lifecycle_state \<Rightarrow> bool" where
  "committed_state s \<longleftrightarrow> s \<in> {Available, RestorePending, Restoring, Restored}"

definition pre_commit_state :: "lifecycle_state \<Rightarrow> bool" where
  "pre_commit_state s \<longleftrightarrow> s \<in> {Created, Capturing, Captured, Validating, Sealed, Persisting}"

lemma enter_committed:
  "can_transition s t \<Longrightarrow> committed_state t \<Longrightarrow> \<not> committed_state s \<Longrightarrow>
     (s = Persisting \<and> t = Available) \<or> (s = Retired \<and> t = RestorePending)"
  by (cases s) (auto simp: committed_state_def)

lemma no_return_before_commit:
  "can_transition s t \<Longrightarrow> \<not> pre_commit_state s \<Longrightarrow> \<not> pre_commit_state t"
  by (cases s) (auto simp: pre_commit_state_def)

lemma life_path_no_return:
  "life_path s ts u \<Longrightarrow> \<not> pre_commit_state s \<Longrightarrow> \<not> pre_commit_state u"
  by (induction rule: life_path.induct) (auto dest: no_return_before_commit)

lemma life_path_to_commit:
  "life_path s ts u \<Longrightarrow> pre_commit_state s \<Longrightarrow> committed_state u \<Longrightarrow> Persisting \<in> set (s # ts)"
proof (induction rule: life_path.induct)
  case (life_nil s)
  then show ?case by (auto simp: pre_commit_state_def committed_state_def)
next
  case (life_cons s t ts u)
  show ?case
  proof (cases "pre_commit_state t")
    case True
    with life_cons show ?thesis by auto
  next
    case False
    with life_cons.hyps(1) life_cons.prems(1) have "s = Persisting \<or> t = Failed"
      by (cases s) (auto simp: pre_commit_state_def)
    moreover have "t = Failed \<Longrightarrow> False"
      using life_cons.hyps(2) life_cons.prems(2)
      by (cases rule: life_path.cases) (auto simp: committed_state_def)
    ultimately show ?thesis by auto
  qed
qed

subsection \<open>Properties\<close>

text \<open>C38: the lifecycle is a strict state machine. A checkpoint created by a capture can become
  restorable only by way of \<open>Persisting\<close> (the state in which the promotion to durable
  storage happens), a failed checkpoint takes no further step, and no checkpoint that left the
  capture phase ever returns to it.\<close>

theorem lifecycle_strict:
  assumes "life_path s ts u"
  shows "(s = Created \<longrightarrow> is_restorable u \<longrightarrow> Persisting \<in> set ts) \<and>
         (s = Failed \<longrightarrow> ts = []) \<and>
         (\<not> pre_commit_state s \<longrightarrow> \<not> pre_commit_state u)"
proof (intro conjI impI)
  assume "s = Created" and "is_restorable u"
  with life_path_to_commit [OF assms] show "Persisting \<in> set ts"
    by (auto simp: pre_commit_state_def committed_state_def is_restorable_def)
next
  assume "s = Failed"
  with assms show "ts = []" by (cases rule: life_path.cases) auto
next
  assume "\<not> pre_commit_state s"
  with assms show "\<not> pre_commit_state u" by (rule life_path_no_return)
qed

theorem lifecycle_strict_witness:
  "life_path Created (tl HAPPY_PATH) Available \<and> is_restorable Available \<and>
   Persisting \<in> set (tl HAPPY_PATH)"
proof -
  have p: "life_path Created (tl HAPPY_PATH) Available"
    by (auto simp: HAPPY_PATH_def intro!: life_path.intros)
  moreover have "is_restorable Available" by (simp add: is_restorable_def)
  ultimately show ?thesis using lifecycle_strict [OF p] by simp
qed

end
