(* ===== verification/Domain.thy ===== *)
theory Domain
  imports Ids Lifecycle
begin

section \<open>The object model (checkpoint.rs, workload.rs, frontier.rs, sideeffect.rs, policy.rs)\<close>

text \<open>
  The structs and enums the other components exchange, field by field. A field keeps the
  name of the source behind a prefix for its struct (\<open>ck\<close> checkpoint, \<open>w\<close> workload,
  \<open>p\<close> policy, and so on). \<open>BTreeMap\<close> values are association lists, free-form
  \<open>serde_json::Value\<close> fields are the datatype \<open>json\<close>, which no decision of the modelled
  code inspects. The enums that derive \<open>Ord\<close> get the order of their declaration.
\<close>

datatype json =
    JNull | JBool bool | JNumber int | JString string
  | JArray "json list" | JObject "(string \<times> json) list"

subsection \<open>Frontier and side effects\<close>

record in_flight_operation =
  if_operation_id :: string
  if_kind :: string
  if_started_ms :: u64
  if_idempotent :: bool
  if_externally_committed :: bool

record resumability_flags =
  rf_exact :: bool
  rf_equivalent :: bool
  rf_degraded :: bool
  rf_deterministic_replay_verified :: bool
  rf_pending_non_replayable :: bool
  rf_unknown_side_effects :: bool

definition default_flags :: resumability_flags where
  "default_flags = \<lparr>rf_exact = True, rf_equivalent = True, rf_degraded = True,
     rf_deterministic_replay_verified = False, rf_pending_non_replayable = False,
     rf_unknown_side_effects = False\<rparr>"

record execution_frontier =
  fr_workload_generation :: u64
  fr_execution_epoch :: u64
  fr_logical_step :: u64
  fr_application_sequence :: "string option"
  fr_durable_side_effect_boundary :: u64
  fr_state_generation_map :: "(string \<times> u64) list"
  fr_tool_item_frontier :: "string option"
  fr_external_commit_frontier :: "string option"
  fr_last_completed_operation_id :: "string option"
  fr_in_flight_operations :: "in_flight_operation list"
  fr_flags :: resumability_flags

definition default_frontier :: execution_frontier where
  "default_frontier = \<lparr>fr_workload_generation = 0, fr_execution_epoch = 0, fr_logical_step = 0,
     fr_application_sequence = None, fr_durable_side_effect_boundary = 0,
     fr_state_generation_map = [], fr_tool_item_frontier = None,
     fr_external_commit_frontier = None, fr_last_completed_operation_id = None,
     fr_in_flight_operations = [], fr_flags = default_flags\<rparr>"

definition rebase :: "execution_frontier \<Rightarrow> u64 \<Rightarrow> u64 \<Rightarrow> execution_frontier" where
  "rebase f gen epoch = f\<lparr>fr_workload_generation := gen, fr_execution_epoch := epoch\<rparr>"

datatype side_effect_status = Uncommitted | Committed | Replayable | NonReplayable | Unknown

record side_effect_entry =
  se_side_effect_id :: string
  se_kind :: string
  se_status :: side_effect_status
  se_idempotency_key :: "string option"
  se_committed_ms :: "u64 option"

record side_effect_manifest =
  sem_entries :: "side_effect_entry list"
  sem_frontier_boundary :: u64

subsection \<open>Compatibility descriptors\<close>

record runtime_descriptor =
  rd_os :: string
  rd_arch :: string
  rd_runtime_version :: string
  rd_state_schema_version :: u32
  rd_workload_class :: string
  rd_backend_class :: string
  rd_accelerator_capabilities :: "string list"
  rd_provider_versions :: "(string \<times> string) list"
  rd_application :: "string option"

record accelerator_requirement =
  ar_vendor :: string
  ar_model :: "string option"
  ar_capability :: string
  ar_memory_bytes :: "u64 option"

record hardware_descriptor =
  hd_os :: string
  hd_arch :: string
  hd_accelerator :: "accelerator_requirement option"
  hd_word_size_bits :: u32
  hd_endianness :: string

definition default_hardware :: hardware_descriptor where
  "default_hardware = \<lparr>hd_os = [], hd_arch = [], hd_accelerator = None, hd_word_size_bits = 0,
     hd_endianness = []\<rparr>"

subsection \<open>Checkpoints\<close>

datatype checkpoint_type =
  Full | Incremental | Delta | Application | Process | ExecutionFrontier | Portable | LocalOnly

datatype consistency_class = CrashConsistent | ApplicationConsistent | ExecutionConsistent

datatype resumability_class =
  NonResumable | RestartFromCheckpoint | Degraded | Equivalent | Exact

datatype compat_verdict =
  Compatible | CompatibleWithTranslation | CompatibleDegraded | Incompatible

datatype integrity_state = IPending | IValid | ICorrupt | IUnverifiable

datatype protection_state = PNone | PProtected | PPinned

datatype retirement_eligibility =
  Eligible | REProtected | REPinned | MinimumGenerations | ActiveRestore | NotEligible

datatype component_type =
    ProcessMetadata | ApplicationState | MemoryRegion | AcceleratorState | RuntimeState
  | QueueState | SchedulerState | RngState | FilesystemState | OpenResourceDescriptor
  | ToolState | ModelState | KvState | CustomState

record durable_location =
  dl_node :: string
  dl_path :: string
  dl_verified :: bool

record storage_representation =
  sr_codec :: string
  sr_original_size :: u64
  sr_stored_size :: u64
  sr_stored_hash :: string
  sr_relative_path :: string

record component_entry =
  ce_component_id :: string
  ce_component_type :: component_type
  ce_generation :: u64
  ce_required :: bool
  ce_logical_size :: u64
  ce_storage_representation :: storage_representation
  ce_content_hash :: string
  ce_schema_version :: u32
  ce_restore_handler :: string
  ce_compatibility :: json
  ce_dependencies :: "string list"
  ce_capture_status :: string
  ce_restore_status :: string

text \<open>The descriptor of a component a provider captures (providers.rs).\<close>

record provider_spec =
  ps_component_id :: string
  ps_component_type :: component_type
  ps_required :: bool
  ps_schema_version :: u32
  ps_restore_handler :: string
  ps_compatibility :: json
  ps_dependencies :: "string list"

record external_dependency =
  ed_kind :: string
  ed_identity :: string
  ed_expected_hash :: "string option"
  ed_required :: bool

record checkpoint_object =
  ck_checkpoint_id :: ident
  ck_workload_id :: ident
  ck_workload_generation :: u64
  ck_checkpoint_generation :: u64
  ck_parent_checkpoint :: "ident option"
  ck_capture_attempt :: string
  ck_coordinator_epoch :: u64
  ck_created_ms :: u64
  ck_seal_ms :: u64
  ck_source_node :: string
  ck_source_backend :: string
  ck_frontier :: execution_frontier
  ck_checkpoint_type :: checkpoint_type
  ck_consistency :: consistency_class
  ck_resumability :: resumability_class
  ck_components :: "component_entry list"
  ck_total_logical_bytes :: u64
  ck_total_physical_bytes :: u64
  ck_compressed_bytes :: u64
  ck_durable_locations :: "durable_location list"
  ck_replica_count :: u32
  ck_lineage_parents :: "ident list"
  ck_lineage_children :: "ident list"
  ck_supersedes :: "ident option"
  ck_superseded_by :: "ident option"
  ck_policy_version :: u32
  ck_runtime_descriptor :: runtime_descriptor
  ck_hardware_descriptor :: hardware_descriptor
  ck_dependencies :: "external_dependency list"
  ck_integrity_state :: integrity_state
  ck_lifecycle :: lifecycle_state
  ck_restore_count :: u64
  ck_last_restore_result :: "string option"
  ck_protection :: protection_state
  ck_retirement_eligibility :: retirement_eligibility
  ck_metadata :: json
  ck_manifest_digest :: "string option"
  ck_manifest_json :: "string option"

definition checkpoint_is_restorable :: "checkpoint_object \<Rightarrow> bool" where
  "checkpoint_is_restorable c \<longleftrightarrow>
     is_restorable (ck_lifecycle c) \<and> ck_integrity_state c = IValid"

subsection \<open>Workloads\<close>

record protection_spec =
  ps_protected_generations :: u32
  ps_allow_pin :: bool

definition default_protection :: protection_spec where
  "default_protection = \<lparr>ps_protected_generations = 1, ps_allow_pin = True\<rparr>"

record workload_spec =
  ws_workload_id :: "ident option"
  ws_owner :: string
  ws_class :: string
  ws_backend_class :: string
  ws_state_schema_version :: u32
  ws_runtime :: runtime_descriptor
  ws_metadata :: json
  ws_protection :: protection_spec
  ws_single_active :: bool

record workload =
  w_workload_id :: ident
  w_workload_generation :: u64
  w_owner :: string
  w_class :: string
  w_created_ms :: u64
  w_execution_epoch :: u64
  w_active_node :: "string option"
  w_backend_class :: string
  w_checkpoint_generation :: u64
  w_parent_workload :: "ident option"
  w_fork_generation :: u64
  w_policy_version :: u32
  w_metadata :: json
  w_state_schema_version :: u32
  w_runtime :: runtime_descriptor
  w_resumability_class :: resumability_class
  w_protection :: protection_spec
  w_single_active :: bool
  w_fence_token :: "string option"
  w_fence_epoch :: u64

definition is_fenced :: "workload \<Rightarrow> bool" where
  "is_fenced w \<longleftrightarrow> w_fence_token w = None \<or> w_active_node w = None"

definition validate_fence :: "workload \<Rightarrow> string \<Rightarrow> string \<Rightarrow> string + unit" where
  "validate_fence w actor token =
     (if w_active_node w \<noteq> Some actor
      then Inl ''actor {actor} is not the active continuation {:?}''
      else case w_fence_token w of
        None \<Rightarrow> Inl ''workload has no active authority''
      | Some t \<Rightarrow>
          if t \<noteq> token
          then Inl ''stale fence token from {actor}; workload is fenced by another continuation''
          else Inr ())"

lemma validate_fence_Inr [simp]:
  "validate_fence w actor token = Inr u \<longleftrightarrow>
     w_active_node w = Some actor \<and> w_fence_token w = Some token"
  by (auto simp: validate_fence_def split: option.splits if_splits)

subsection \<open>Policy\<close>

datatype codec = CodecNone | CodecZstd

record compression_spec =
  cs_codec :: codec
  cs_level :: int
  cs_format_version :: string

record authority_policy =
  ap_capture :: "string list"
  ap_restore :: "string list"
  ap_seal :: "string list"
  ap_retire :: "string list"
  ap_migrate :: "string list"
  ap_fence :: "string list"
  ap_fork :: "string list"
  ap_rollback :: "string list"
  ap_verify :: "string list"

definition default_authority_policy :: authority_policy where
  "default_authority_policy = \<lparr>ap_capture = [''owner''], ap_restore = [''owner'', ''operator''],
     ap_seal = [''owner''], ap_retire = [''operator''], ap_migrate = [''operator''],
     ap_fence = [''operator''], ap_fork = [''owner''], ap_rollback = [''operator''],
     ap_verify = [''operator'', ''auditor'']\<rparr>"

record compatibility_policy =
  cp_allow_cross_os :: bool
  cp_allow_cross_arch :: bool
  cp_schema_strict :: bool

definition default_compatibility_policy :: compatibility_policy where
  "default_compatibility_policy =
     \<lparr>cp_allow_cross_os = False, cp_allow_cross_arch = False, cp_schema_strict = True\<rparr>"

record policy_set =
  p_version :: u32
  p_min_capture_interval_ms :: u64
  p_max_checkpoint_age_ms :: "u64 option"
  p_min_valid_replicas :: u32
  p_required_consistency :: "consistency_class option"
  p_require_portable :: bool
  p_forbid_degraded_restore :: bool
  p_protected_generations :: u32
  p_min_generations_retained :: u32
  p_max_incremental_chain_depth :: u32
  p_single_active_default :: bool
  p_archive_restore_permitted :: bool
  p_max_component_bytes :: "u64 option"
  p_compression :: codec
  p_compression_level :: int
  p_authority :: authority_policy
  p_compatibility :: compatibility_policy

definition default_policy :: policy_set where
  "default_policy = \<lparr>p_version = 1, p_min_capture_interval_ms = 0, p_max_checkpoint_age_ms = None,
     p_min_valid_replicas = 1, p_required_consistency = None, p_require_portable = False,
     p_forbid_degraded_restore = False, p_protected_generations = 1,
     p_min_generations_retained = 1, p_max_incremental_chain_depth = 8,
     p_single_active_default = True, p_archive_restore_permitted = False,
     p_max_component_bytes = None, p_compression = CodecZstd, p_compression_level = 3,
     p_authority = default_authority_policy, p_compatibility = default_compatibility_policy\<rparr>"

record authority =
  au_actor :: string
  au_roles :: "string list"

subsection \<open>Operation options and records\<close>

datatype quiescence_mode = Cooperative | Forced | QNone

record capture_component_request =
  cr_component_id :: string
  cr_component_type :: component_type
  cr_required :: bool
  cr_schema_version :: u32
  cr_restore_handler :: string

record capture_options =
  co_consistency :: "consistency_class option"
  co_quiescence :: quiescence_mode
  co_frontier :: "execution_frontier option"
  co_side_effects :: "side_effect_manifest option"
  co_components :: "capture_component_request list"
  co_metadata :: json

definition default_capture_options :: capture_options where
  "default_capture_options = \<lparr>co_consistency = None, co_quiescence = QNone, co_frontier = None,
     co_side_effects = None, co_components = [], co_metadata = JObject []\<rparr>"

record attempt_record =
  at_id :: string
  at_kind :: string
  at_checkpoint_id :: "ident option"
  at_workload_id :: "ident option"
  at_node :: string
  at_state :: string
  at_started_ms :: u64
  at_finished_ms :: "u64 option"
  at_result :: "string option"
  at_error :: "string option"

datatype context_ref_semantics = Embed | Reference | RequireReplica | MaterializeOnCheckpoint

record context_ref_resolution =
  cx_object_id :: ident
  cx_required :: bool
  cx_semantics :: context_ref_semantics

record restore_options =
  ro_resume :: bool
  ro_rollback :: bool
  ro_migration :: bool
  ro_target_fence_token :: "string option"
  ro_resolved_context_refs :: "context_ref_resolution list"

definition default_restore_options :: restore_options where
  "default_restore_options = \<lparr>ro_resume = True, ro_rollback = False, ro_migration = False,
     ro_target_fence_token = None, ro_resolved_context_refs = []\<rparr>"

datatype lineage_relation = Parent | Supersedes | ForkedFrom | RollbackOf | DeltaBase | MigratedFrom

record lineage_record =
  lr_seq :: int
  lr_relation :: lineage_relation
  lr_workload_id :: "ident option"
  lr_checkpoint_id :: "ident option"
  lr_other_workload :: "ident option"
  lr_other_checkpoint :: "ident option"
  lr_ts_ms :: u64
  lr_detail :: string

datatype audit_result = AuditOk | AuditFailed | AuditRecovered | AuditRejected

record audit_record =
  ar_seq :: int
  ar_ts_ms :: u64
  ar_actor :: string
  ar_op :: string
  ar_workload_id :: "ident option"
  ar_checkpoint_id :: "ident option"
  ar_result :: audit_result
  ar_detail :: string

subsection \<open>The derived orders\<close>

fun consistency_rank :: "consistency_class \<Rightarrow> nat" where
  "consistency_rank CrashConsistent = 0"
| "consistency_rank ApplicationConsistent = 1"
| "consistency_rank ExecutionConsistent = 2"

fun resumability_rank :: "resumability_class \<Rightarrow> nat" where
  "resumability_rank NonResumable = 0"
| "resumability_rank RestartFromCheckpoint = 1"
| "resumability_rank Degraded = 2"
| "resumability_rank Equivalent = 3"
| "resumability_rank Exact = 4"

fun verdict_rank :: "compat_verdict \<Rightarrow> nat" where
  "verdict_rank Compatible = 0"
| "verdict_rank CompatibleWithTranslation = 1"
| "verdict_rank CompatibleDegraded = 2"
| "verdict_rank Incompatible = 3"

lemma consistency_rank_inject [simp]: "consistency_rank a = consistency_rank b \<longleftrightarrow> a = b"
  by (cases a; cases b; simp)

lemma resumability_rank_inject [simp]: "resumability_rank a = resumability_rank b \<longleftrightarrow> a = b"
  by (cases a; cases b; simp)

lemma verdict_rank_inject [simp]: "verdict_rank a = verdict_rank b \<longleftrightarrow> a = b"
  by (cases a; cases b; simp)

instantiation consistency_class :: linorder
begin
definition less_eq_consistency_class :: "consistency_class \<Rightarrow> consistency_class \<Rightarrow> bool" where
  "less_eq_consistency_class a b \<longleftrightarrow> consistency_rank a \<le> consistency_rank b"
definition less_consistency_class :: "consistency_class \<Rightarrow> consistency_class \<Rightarrow> bool" where
  "less_consistency_class a b \<longleftrightarrow> consistency_rank a < consistency_rank b"
instance
  by standard (auto simp: less_eq_consistency_class_def less_consistency_class_def)
end

instantiation resumability_class :: linorder
begin
definition less_eq_resumability_class :: "resumability_class \<Rightarrow> resumability_class \<Rightarrow> bool" where
  "less_eq_resumability_class a b \<longleftrightarrow> resumability_rank a \<le> resumability_rank b"
definition less_resumability_class :: "resumability_class \<Rightarrow> resumability_class \<Rightarrow> bool" where
  "less_resumability_class a b \<longleftrightarrow> resumability_rank a < resumability_rank b"
instance
  by standard (auto simp: less_eq_resumability_class_def less_resumability_class_def)
end

instantiation compat_verdict :: linorder
begin
definition less_eq_compat_verdict :: "compat_verdict \<Rightarrow> compat_verdict \<Rightarrow> bool" where
  "less_eq_compat_verdict a b \<longleftrightarrow> verdict_rank a \<le> verdict_rank b"
definition less_compat_verdict :: "compat_verdict \<Rightarrow> compat_verdict \<Rightarrow> bool" where
  "less_compat_verdict a b \<longleftrightarrow> verdict_rank a < verdict_rank b"
instance
  by standard (auto simp: less_eq_compat_verdict_def less_compat_verdict_def)
end

lemmas class_order_defs =
  less_eq_consistency_class_def less_consistency_class_def
  less_eq_resumability_class_def less_resumability_class_def
  less_eq_compat_verdict_def less_compat_verdict_def

lemma NonResumable_le [simp]: "NonResumable \<le> r" and Exact_ge [simp]: "r \<le> Exact"
  by (cases r; simp add: class_order_defs)+

lemma Compatible_le [simp]: "Compatible \<le> v" and Incompatible_ge [simp]: "v \<le> Incompatible"
  by (cases v; simp add: class_order_defs)+

lemma CrashConsistent_le [simp]: "CrashConsistent \<le> c"
  by (cases c; simp add: class_order_defs)

subsection \<open>Sample values\<close>

text \<open>Concrete values at which the witnesses of the properties are evaluated.\<close>

definition sample_runtime :: runtime_descriptor where
  "sample_runtime = \<lparr>rd_os = ''linux'', rd_arch = ''x86_64'', rd_runtime_version = ''checkpoint-fabric/1.0.0'',
     rd_state_schema_version = 1, rd_workload_class = ''generic'', rd_backend_class = ''cpu'',
     rd_accelerator_capabilities = [], rd_provider_versions = [], rd_application = None\<rparr>"

definition sample_workload :: workload where
  "sample_workload = \<lparr>w_workload_id = Id (replicate 16 1), w_workload_generation = 0, w_owner = ''owner'',
     w_class = ''demo'', w_created_ms = 0, w_execution_epoch = 0, w_active_node = Some ''n1'',
     w_backend_class = ''cpu'', w_checkpoint_generation = 0, w_parent_workload = None,
     w_fork_generation = 0, w_policy_version = 1, w_metadata = JObject [],
     w_state_schema_version = 1, w_runtime = sample_runtime,
     w_resumability_class = RestartFromCheckpoint, w_protection = default_protection,
     w_single_active = True, w_fence_token = Some ''tok'', w_fence_epoch = 0\<rparr>"

definition sample_checkpoint :: checkpoint_object where
  "sample_checkpoint = \<lparr>
     ck_checkpoint_id = Id (replicate 16 2), ck_workload_id = Id (replicate 16 1),
     ck_workload_generation = 0, ck_checkpoint_generation = 1, ck_parent_checkpoint = None,
     ck_capture_attempt = ''att'', ck_coordinator_epoch = 1, ck_created_ms = 0, ck_seal_ms = 0,
     ck_source_node = ''n1'', ck_source_backend = ''cpu'', ck_frontier = default_frontier,
     ck_checkpoint_type = Full, ck_consistency = CrashConsistent,
     ck_resumability = RestartFromCheckpoint, ck_components = [], ck_total_logical_bytes = 0,
     ck_total_physical_bytes = 0, ck_compressed_bytes = 0, ck_durable_locations = [],
     ck_replica_count = 0, ck_lineage_parents = [], ck_lineage_children = [],
     ck_supersedes = None, ck_superseded_by = None, ck_policy_version = 1,
     ck_runtime_descriptor = sample_runtime, ck_hardware_descriptor = default_hardware,
     ck_dependencies = [], ck_integrity_state = IPending, ck_lifecycle = Created,
     ck_restore_count = 0, ck_last_restore_result = None, ck_protection = PNone,
     ck_retirement_eligibility = NotEligible, ck_metadata = JObject [],
     ck_manifest_digest = None, ck_manifest_json = None\<rparr>"

end
