(* ===== verification/Policy.thy ===== *)
theory Policy
  imports Domain
begin

section \<open>The policy engine (policy.rs)\<close>

text \<open>
  Role authorisation, policy selection and the two enforcement checks. \<open>select\<close> with no
  version takes the last policy of maximal version, as \<open>Iterator::max_by_key\<close> does.
\<close>

definition authorize :: "string list \<Rightarrow> string list \<Rightarrow> unit fabric_result" where
  "authorize roles required_roles =
     (if required_roles = [] then Inr ()
      else if (\<exists>r \<in> set roles. r = ''operator'') \<or> (\<exists>r \<in> set roles. r = ''root'') then Inr ()
      else if \<exists>need \<in> set required_roles. \<exists>r \<in> set roles. r = need then Inr ()
      else Inl (PolicyViolation ''actor roles {:?} lack required roles {:?}''))"

definition zstd_spec :: "int \<Rightarrow> compression_spec" where
  "zstd_spec level = \<lparr>cs_codec = CodecZstd, cs_level = max 1 (min 22 level), cs_format_version = ''1''\<rparr>"

definition none_spec :: compression_spec where
  "none_spec = \<lparr>cs_codec = CodecNone, cs_level = 0, cs_format_version = ''1''\<rparr>"

definition compression_spec_of :: "policy_set \<Rightarrow> compression_spec" where
  "compression_spec_of p =
     (case p_compression p of CodecNone \<Rightarrow> none_spec | CodecZstd \<Rightarrow> zstd_spec (p_compression_level p))"

fun max_by_version :: "policy_set option \<Rightarrow> policy_set list \<Rightarrow> policy_set option" where
  "max_by_version acc [] = acc"
| "max_by_version acc (p # ps) =
     max_by_version
       (case acc of None \<Rightarrow> Some p
        | Some q \<Rightarrow> if p_version q \<le> p_version p then Some p else Some q) ps"

definition select :: "policy_set list \<Rightarrow> u32 option \<Rightarrow> policy_set fabric_result" where
  "select policies version =
     (case version of
        None \<Rightarrow> ok_or (PolicyViolation ''no policies loaded'') (max_by_version None policies)
      | Some v \<Rightarrow> ok_or (PolicyViolation ''policy version {v} not found'')
                    (find (\<lambda>p. p_version p = v) policies))"

definition enforce_consistency :: "policy_set \<Rightarrow> consistency_class \<Rightarrow> unit fabric_result" where
  "enforce_consistency policy achieved =
     (case p_required_consistency policy of
        None \<Rightarrow> Inr ()
      | Some required \<Rightarrow>
          if achieved < required
          then Inl (PolicyViolation ''capture achieved {} but policy requires {}'')
          else Inr ())"

definition enforce_degraded :: "policy_set \<Rightarrow> compat_verdict \<Rightarrow> unit fabric_result" where
  "enforce_degraded policy verdict =
     (if p_forbid_degraded_restore policy \<and> verdict = CompatibleDegraded
      then Inl (PolicyViolation ''degraded restore is forbidden by policy'')
      else Inr ())"

record retirement_policy_view =
  rv_min_generations_retained :: u32
  rv_protected_generations :: u32
  rv_max_checkpoint_age_ms :: "u64 option"

definition retirement_view :: "policy_set \<Rightarrow> retirement_policy_view" where
  "retirement_view p = \<lparr>rv_min_generations_retained = p_min_generations_retained p,
     rv_protected_generations = p_protected_generations p,
     rv_max_checkpoint_age_ms = p_max_checkpoint_age_ms p\<rparr>"

definition policy_from_json :: "(string \<Rightarrow> policy_set option) \<Rightarrow> string \<Rightarrow> policy_set fabric_result" where
  "policy_from_json from_str s =
     (case from_str s of
        None \<Rightarrow> Inl (InvalidArgument ''bad policy json: {e}'')
      | Some p \<Rightarrow>
          if p_version p = 0 then Inl (InvalidArgument ''policy version must be >= 1'') else Inr p)"

subsection \<open>Lemmas\<close>

lemma authorize_Inr:
  "authorize roles req = Inr u \<longleftrightarrow>
     req = [] \<or> ''operator'' \<in> set roles \<or> ''root'' \<in> set roles \<or> set roles \<inter> set req \<noteq> {}"
  by (auto simp: authorize_def split: if_splits)

lemma authorize_mono:
  "authorize roles req = Inr () \<Longrightarrow> set roles \<subseteq> set roles' \<Longrightarrow> authorize roles' req = Inr ()"
  by (auto simp: authorize_Inr)

lemma max_by_version_Some:
  "max_by_version (Some q) ps = Some r \<Longrightarrow>
     r \<in> insert q (set ps) \<and> p_version q \<le> p_version r \<and> (\<forall>p \<in> set ps. p_version p \<le> p_version r)"
proof (induction ps arbitrary: q)
  case (Cons p ps)
  show ?case
  proof (cases "p_version q \<le> p_version p")
    case True
    with Cons.prems Cons.IH [of p] show ?thesis by auto
  next
    case False
    with Cons.prems Cons.IH [of q] show ?thesis by auto
  qed
qed simp

lemma max_by_version_None: "max_by_version None ps = None \<longleftrightarrow> ps = []"
proof (cases ps)
  case (Cons p qs)
  have "max_by_version (Some q) qs \<noteq> None" for q
    by (induction qs arbitrary: q) auto
  with Cons show ?thesis by simp
qed simp

lemma enforce_consistency_Inr [simp]:
  "enforce_consistency p c = Inr u \<longleftrightarrow> (\<forall>r. p_required_consistency p = Some r \<longrightarrow> r \<le> c)"
  by (auto simp: enforce_consistency_def not_less split: option.splits if_splits)

lemma enforce_degraded_Inr [simp]:
  "enforce_degraded p v = Inr u \<longleftrightarrow> \<not> (p_forbid_degraded_restore p \<and> v = CompatibleDegraded)"
  by (auto simp: enforce_degraded_def)

text \<open>Policy selection is deterministic and total on non-empty lists. Without a version the
  selected policy is one of the list and no other has a higher version; with a version it is
  the first policy of that version; it fails exactly when there is no candidate.\<close>

theorem select_correct:
  "(select ps None = Inr p \<longrightarrow> p \<in> set ps \<and> (\<forall>q \<in> set ps. p_version q \<le> p_version p)) \<and>
   (select ps (Some v) = Inr p \<longrightarrow> p \<in> set ps \<and> p_version p = v) \<and>
   ((\<exists>e. select ps None = Inl e) \<longleftrightarrow> ps = []) \<and>
   ((\<exists>e. select ps (Some v) = Inl e) \<longleftrightarrow> v \<notin> p_version ` set ps)"
proof (intro conjI)
  show "select ps None = Inr p \<longrightarrow> p \<in> set ps \<and> (\<forall>q \<in> set ps. p_version q \<le> p_version p)"
    by (cases ps) (auto simp: select_def dest: max_by_version_Some)
  show "select ps (Some v) = Inr p \<longrightarrow> p \<in> set ps \<and> p_version p = v"
    by (auto simp: select_def find_Some_iff)
  show "(\<exists>e. select ps None = Inl e) \<longleftrightarrow> ps = []"
    by (simp add: select_def max_by_version_None)
  show "(\<exists>e. select ps (Some v) = Inl e) \<longleftrightarrow> v \<notin> p_version ` set ps"
    by (auto simp: select_def find_None_iff)
qed

theorem select_correct_witness:
  "select [default_policy, default_policy\<lparr>p_version := 2\<rparr>] None = Inr (default_policy\<lparr>p_version := 2\<rparr>) \<and>
   p_version default_policy \<le> 2"
proof -
  have s: "select [default_policy, default_policy\<lparr>p_version := 2\<rparr>] None
      = Inr (default_policy\<lparr>p_version := 2\<rparr>)"
    by (simp add: select_def default_policy_def)
  with select_correct [of "[default_policy, default_policy\<lparr>p_version := 2\<rparr>]"
      "default_policy\<lparr>p_version := 2\<rparr>" 0] show ?thesis by simp
qed

end
