(* ===== verification/Compatibility.thy ===== *)
theory Compatibility
  imports Policy
begin

section \<open>Restore compatibility (compatibility.rs)\<close>

text \<open>
  \<open>evaluate\<close> accumulates a verdict, the worst one any check returns, and the list of
  reasons. Each check of the source is one definition that returns its verdict
  (\<open>Compatible\<close> where the source only records a reason) and the reason it pushes.
\<close>

definition FORMAT_VERSION :: u32 where
  "FORMAT_VERSION = 1"

type_synonym check_result = "compat_verdict \<times> string"

record compatibility_result =
  cres_verdict :: compat_verdict
  cres_reasons :: "string list"
  cres_checkpoint_id :: "ident option"
  cres_source :: runtime_descriptor
  cres_target :: runtime_descriptor
  cres_policy_version :: u32

definition resumability_for :: "compat_verdict \<Rightarrow> resumability_class \<Rightarrow> resumability_class" where
  "resumability_for verdict captured =
     (case verdict of
        Compatible \<Rightarrow> captured
      | CompatibleWithTranslation \<Rightarrow>
          (case captured of Exact \<Rightarrow> Equivalent | Equivalent \<Rightarrow> Equivalent | Degraded \<Rightarrow> Degraded
           | RestartFromCheckpoint \<Rightarrow> RestartFromCheckpoint | NonResumable \<Rightarrow> NonResumable)
      | CompatibleDegraded \<Rightarrow>
          (case captured of Exact \<Rightarrow> Degraded | Equivalent \<Rightarrow> Degraded | Degraded \<Rightarrow> Degraded
           | RestartFromCheckpoint \<Rightarrow> RestartFromCheckpoint | NonResumable \<Rightarrow> NonResumable)
      | Incompatible \<Rightarrow> NonResumable)"

definition worse :: "compat_verdict \<Rightarrow> compat_verdict \<Rightarrow> compat_verdict" where
  "worse a b = max a b"

definition check_os :: "runtime_descriptor \<Rightarrow> runtime_descriptor \<Rightarrow> policy_set \<Rightarrow> check_result" where
  "check_os src tgt policy =
     (if rd_os src = rd_os tgt then (Compatible, ''os matches: {}'')
      else if cp_allow_cross_os (p_compatibility policy)
      then (CompatibleWithTranslation, ''os differs ({} -> {}), translation required'')
      else (Incompatible, ''os differs ({} -> {}) and policy forbids translation''))"

definition check_arch :: "runtime_descriptor \<Rightarrow> runtime_descriptor \<Rightarrow> policy_set \<Rightarrow> check_result" where
  "check_arch src tgt policy =
     (if rd_arch src = rd_arch tgt then (Compatible, ''arch matches: {}'')
      else if cp_allow_cross_arch (p_compatibility policy)
      then (CompatibleWithTranslation, ''arch differs ({} -> {}), translation required'')
      else (Incompatible, ''arch differs ({} -> {}) and policy forbids translation''))"

definition check_backend :: "runtime_descriptor \<Rightarrow> runtime_descriptor \<Rightarrow> check_result" where
  "check_backend src tgt =
     (if rd_backend_class src = rd_backend_class tgt then (Compatible, ''backend matches: {}'')
      else (CompatibleDegraded, ''backend differs ({} -> {}): degraded resume only''))"

definition check_schema :: "runtime_descriptor \<Rightarrow> runtime_descriptor \<Rightarrow> policy_set \<Rightarrow> check_result" where
  "check_schema src tgt policy =
     (if rd_state_schema_version src = rd_state_schema_version tgt
      then (Compatible, ''state schema matches: v{}'')
      else if cp_schema_strict (p_compatibility policy)
      then (Incompatible, ''state schema mismatch (v{} -> v{}) and policy is strict'')
      else (CompatibleDegraded, ''state schema differs (v{} -> v{}): degraded resume only''))"

definition check_class :: "runtime_descriptor \<Rightarrow> runtime_descriptor \<Rightarrow> check_result" where
  "check_class src tgt =
     (if rd_workload_class src = rd_workload_class tgt
      then (Compatible, ''workload class matches: {}'')
      else (CompatibleDegraded, ''workload class differs ({} -> {})''))"

definition check_accel :: "runtime_descriptor \<Rightarrow> runtime_descriptor \<Rightarrow> check_result" where
  "check_accel src tgt =
     (let required_accel = filter (prefix ''REQUIRED:'') (rd_accelerator_capabilities src)
      in if required_accel \<noteq> [] \<and>
            \<not> list_all (\<lambda>c. c \<in> set (rd_accelerator_capabilities tgt)) required_accel
         then (Incompatible, ''target lacks required accelerator capabilities'')
         else (Compatible, ''accelerator capabilities satisfied''))"

definition format_version_of :: "runtime_descriptor \<Rightarrow> u32" where
  "format_version_of d = FORMAT_VERSION"

definition check_format :: "runtime_descriptor \<Rightarrow> check_result" where
  "check_format src =
     (let checkpoint_format = FORMAT_VERSION; target_format = format_version_of src
      in if checkpoint_format = target_format
         then (Compatible, ''checkpoint format matches: v{checkpoint_format}'')
         else if target_format > checkpoint_format
         then (CompatibleWithTranslation,
           ''checkpoint format v{checkpoint_format} restored by newer runtime v{target_format}'')
         else (Incompatible,
           ''checkpoint format v{checkpoint_format} newer than target v{target_format}''))"

definition check_handler :: "runtime_descriptor \<Rightarrow> component_entry \<Rightarrow> check_result list" where
  "check_handler tgt c =
     (if ce_restore_handler c = [] then []
      else case map_of (rd_provider_versions tgt) (ce_restore_handler c) of
        None \<Rightarrow> [(if ce_required c then Incompatible else CompatibleDegraded,
                  ''target has no provider for required handler '' @ quoted ''{}'')]
      | Some v \<Rightarrow> [(Compatible, ''handler '' @ quoted ''{}'' @ '' available at version {v}'')])"

definition compat_checks ::
  "checkpoint_object \<Rightarrow> runtime_descriptor \<Rightarrow> policy_set \<Rightarrow> check_result list" where
  "compat_checks ck tgt policy =
     (let src = ck_runtime_descriptor ck
      in [check_os src tgt policy, check_arch src tgt policy, check_backend src tgt,
          check_schema src tgt policy, check_class src tgt, check_accel src tgt, check_format src]
         @ concat (map (check_handler tgt) (ck_components ck)))"

definition evaluate ::
  "checkpoint_object \<Rightarrow> runtime_descriptor \<Rightarrow> policy_set \<Rightarrow> compatibility_result" where
  "evaluate ck tgt policy =
     (let checks = compat_checks ck tgt policy;
          verdict = foldl worse Compatible (map fst checks);
          reasons = map snd checks @
            (if verdict = Compatible then [''all compatibility checks passed''] else [])
      in \<lparr>cres_verdict = verdict, cres_reasons = reasons,
          cres_checkpoint_id = Some (ck_checkpoint_id ck),
          cres_source = ck_runtime_descriptor ck, cres_target = tgt,
          cres_policy_version = p_version policy\<rparr>)"

definition evaluate_hardware ::
  "hardware_descriptor \<Rightarrow> string \<Rightarrow> string \<Rightarrow> string list \<Rightarrow> compat_verdict fabric_result" where
  "evaluate_hardware source os arch accel_caps =
     (let v1 = (if hd_os source \<noteq> os then CompatibleWithTranslation else Compatible);
          v2 = (if hd_arch source \<noteq> arch then worse v1 CompatibleWithTranslation else v1);
          v3 = (case hd_accelerator source of
                  None \<Rightarrow> v2
                | Some req \<Rightarrow> if ar_capability req \<in> set accel_caps then v2 else Incompatible)
      in if v3 = Incompatible
         then Inl (CompatibilityFailure ''hardware requirements cannot be satisfied by the target'')
         else Inr v3)"

subsection \<open>The contract of a resumability cap\<close>

text \<open>
  Restoring into an environment with a verdict caps the resumability class. The contract: a
  cap never raises the class, respects the order of classes, gets stricter with the verdict
  and gives nothing on an incompatible target. Whatever caps are chained (a restore of a
  restore, a migration after a migration), the class never recovers.
\<close>

locale class_cap =
  fixes cap :: "compat_verdict \<Rightarrow> resumability_class \<Rightarrow> resumability_class"
  assumes cap_le: "cap v r \<le> r"
    and cap_mono: "r \<le> r' \<Longrightarrow> cap v r \<le> cap v r'"
    and cap_antimono: "v \<le> v' \<Longrightarrow> cap v' r \<le> cap v r"
    and cap_incompatible: "cap Incompatible r = NonResumable"
begin

lemma chain_le: "fold cap vs r \<le> r"
  by (induction vs arbitrary: r) (auto intro: order_trans cap_le)

lemma chain_mono: "r \<le> r' \<Longrightarrow> fold cap vs r \<le> fold cap vs r'"
  by (induction vs arbitrary: r r') (auto intro: cap_mono)

lemma chain_NonResumable: "fold cap vs NonResumable = NonResumable"
  using chain_le [of vs NonResumable] by (simp add: order_antisym)

lemma chain_incompatible: "Incompatible \<in> set vs \<Longrightarrow> fold cap vs r = NonResumable"
  by (induction vs arbitrary: r) (auto simp: cap_incompatible chain_NonResumable)

end

locale faithful_cap = class_cap +
  assumes cap_compatible: "cap Compatible r = r"
    and cap_translation: "cap CompatibleWithTranslation Exact < Exact"
begin

lemma cap_exact_iff: "cap v r = Exact \<longleftrightarrow> v = Compatible \<and> r = Exact"
proof
  assume e: "cap v r = Exact"
  then have r: "r = Exact" using cap_le [of v r] by (simp add: order_antisym)
  have "\<not> CompatibleWithTranslation \<le> v"
    using cap_antimono [of CompatibleWithTranslation v Exact] cap_translation e r by auto
  then show "v = Compatible \<and> r = Exact"
    using r by (cases v) (auto simp: class_order_defs)
qed (simp add: cap_compatible)

lemma chain_exact: "fold cap vs r = Exact \<longleftrightarrow> r = Exact \<and> set vs \<subseteq> {Compatible}"
  by (induction vs arbitrary: r) (auto simp: cap_exact_iff)

end

interpretation compat_cap: faithful_cap resumability_for
proof
  fix v v' :: compat_verdict and r r' :: resumability_class
  show "resumability_for v r \<le> r"
    by (cases v; cases r; simp add: resumability_for_def class_order_defs)
  show "r \<le> r' \<Longrightarrow> resumability_for v r \<le> resumability_for v r'"
    by (cases v; cases r; cases r'; simp add: resumability_for_def class_order_defs)
  show "v \<le> v' \<Longrightarrow> resumability_for v' r \<le> resumability_for v r"
    by (cases v; cases v'; cases r; simp add: resumability_for_def class_order_defs)
  show "resumability_for Incompatible r = NonResumable"
    by (simp add: resumability_for_def)
  show "resumability_for Compatible r = r"
    by (simp add: resumability_for_def)
  show "resumability_for CompatibleWithTranslation Exact < Exact"
    by (simp add: resumability_for_def class_order_defs)
qed

subsection \<open>The verdict\<close>

lemma foldl_worse: "foldl worse v vs \<le> u \<longleftrightarrow> v \<le> u \<and> (\<forall>x \<in> set vs. x \<le> u)"
  by (induction vs arbitrary: v) (auto simp: worse_def)

lemma foldl_worse_attained: "foldl worse v vs \<in> insert v (set vs)"
  by (induction vs arbitrary: v) (auto simp: worse_def max_def)

lemma evaluate_verdict:
  "cres_verdict (evaluate ck tgt policy) = foldl worse Compatible (map fst (compat_checks ck tgt policy))"
  by (simp add: evaluate_def Let_def)

lemma verdict_le_iff:
  "cres_verdict (evaluate ck tgt policy) \<le> v \<longleftrightarrow>
     (\<forall>c \<in> set (compat_checks ck tgt policy). fst c \<le> v)"
  by (auto simp: evaluate_verdict foldl_worse)

lemma verdict_Incompatible_iff:
  "cres_verdict (evaluate ck tgt policy) = Incompatible \<longleftrightarrow>
     (\<exists>c \<in> set (compat_checks ck tgt policy). fst c = Incompatible)"
proof -
  have le: "v = Incompatible \<longleftrightarrow> \<not> v \<le> CompatibleDegraded" for v
    by (cases v) (auto simp: class_order_defs)
  show ?thesis unfolding le by (auto simp: verdict_le_iff)
qed

lemma check_handler_Incompatible:
  "(\<exists>x \<in> set (check_handler tgt c). fst x = Incompatible) \<longleftrightarrow>
     ce_required c \<and> ce_restore_handler c \<noteq> [] \<and>
     ce_restore_handler c \<notin> fst ` set (rd_provider_versions tgt)"
proof (cases "map_of (rd_provider_versions tgt) (ce_restore_handler c)")
  case None
  then have "ce_restore_handler c \<notin> fst ` set (rd_provider_versions tgt)"
    by (simp add: map_of_eq_None_iff)
  with None show ?thesis by (simp add: check_handler_def)
next
  case (Some v)
  then have "ce_restore_handler c \<in> fst ` set (rd_provider_versions tgt)"
    by (force dest: map_of_SomeD)
  with Some show ?thesis by (simp add: check_handler_def)
qed

lemma check_accel_Incompatible:
  "fst (check_accel src tgt) = Incompatible \<longleftrightarrow>
     (\<exists>c \<in> set (rd_accelerator_capabilities src).
        prefix ''REQUIRED:'' c \<and> c \<notin> set (rd_accelerator_capabilities tgt))"
  by (auto simp: check_accel_def Let_def list_all_iff filter_empty_conv)


end
