(* ===== verification/Capture.thy ===== *)
theory Capture
  imports Policy
begin

section \<open>Capture decisions (capture.rs, sideeffect.rs, sanitize\_segment of storage.rs)\<close>

text \<open>
  The pure decision logic of a capture: validation of the request, the honest derivation of
  the consistency and resumability classes, the checkpoint scaffold and the completeness check
  on what the node captured.
\<close>

subsection \<open>Side effects\<close>

definition side_effect_ok :: "side_effect_entry \<Rightarrow> unit fabric_result" where
  "side_effect_ok e =
     (case se_status e of
        Unknown \<Rightarrow> Inl (FrontierInconsistency
          ''side effect {} has UNKNOWN state; exact resumability cannot be claimed'')
      | NonReplayable \<Rightarrow> Inl (FrontierInconsistency
          ''side effect {} is NON_REPLAYABLE and not committed; capture must not cross an unresolved non-idempotent side-effect boundary'')
      | _ \<Rightarrow> Inr ())"

definition validate_for_exact :: "side_effect_manifest \<Rightarrow> unit fabric_result" where
  "validate_for_exact m = all_r side_effect_ok (sem_entries m)"

definition classify :: "side_effect_manifest \<Rightarrow> string \<Rightarrow> side_effect_status option" where
  "classify m i = map_option se_status (find (\<lambda>e. se_side_effect_id e = i) (sem_entries m))"

subsection \<open>Path segments\<close>

definition ascii_alnum :: "char \<Rightarrow> bool" where
  "ascii_alnum c \<longleftrightarrow> (let n = (of_char c :: nat) in
     (48 \<le> n \<and> n < 58) \<or> (65 \<le> n \<and> n < 91) \<or> (97 \<le> n \<and> n < 123))"

definition safe_char :: "char \<Rightarrow> bool" where
  "safe_char c \<longleftrightarrow> ascii_alnum c \<or> c \<in> {CHR ''-'', CHR ''_'', CHR ''.'', CHR ''@''}"

text \<open>
  A Rust string is UTF-8 and the loop runs over its characters; the model's string is the list
  of its bytes, so the bytes that continue a character push nothing.
\<close>

definition utf8_continuation :: "char \<Rightarrow> bool" where
  "utf8_continuation c \<longleftrightarrow> (let n = (of_char c :: nat) in 128 \<le> n \<and> n < 192)"

definition sanitize_char :: "char \<Rightarrow> string" where
  "sanitize_char c = (if safe_char c then [c] else if utf8_continuation c then [] else ''_'')"

definition sanitize_segment :: "string \<Rightarrow> string" where
  "sanitize_segment name =
     (let out = concat (map sanitize_char name)
      in if out = [] \<or> out = ''.'' \<or> out = ''..''
         then ''_'' @ replicate (max (length name) 1 - 1) (CHR ''_'')
         else out)"

subsection \<open>Derived classes\<close>

definition derive_checkpoint_type :: "capture_options \<Rightarrow> policy_set \<Rightarrow> checkpoint_type" where
  "derive_checkpoint_type opts policy =
     (if list_all cr_required (co_components opts) \<and> p_require_portable policy then Portable
      else if list_ex cr_required (co_components opts) then Application
      else Full)"

definition derive_consistency ::
  "consistency_class option \<Rightarrow> quiescence_mode \<Rightarrow> execution_frontier option \<Rightarrow> bool \<Rightarrow> consistency_class" where
  "derive_consistency requested quiescence frontier cooperative_ack =
     (case requested of
        Some ExecutionConsistent \<Rightarrow>
          if quiescence = Cooperative \<and> cooperative_ack \<and> frontier \<noteq> None
          then ExecutionConsistent else CrashConsistent
      | Some ApplicationConsistent \<Rightarrow>
          if quiescence = Cooperative \<and> cooperative_ack
          then ApplicationConsistent else CrashConsistent
      | Some CrashConsistent \<Rightarrow> CrashConsistent
      | None \<Rightarrow> CrashConsistent)"

definition derive_resumability ::
  "consistency_class \<Rightarrow> execution_frontier option \<Rightarrow> side_effect_manifest option \<Rightarrow> resumability_class" where
  "derive_resumability consistency frontier side_effects =
     (if consistency \<noteq> ExecutionConsistent then RestartFromCheckpoint
      else case frontier of
        None \<Rightarrow> RestartFromCheckpoint
      | Some f \<Rightarrow>
          if (case side_effects of None \<Rightarrow> False | Some se \<Rightarrow> \<not> is_ok (validate_for_exact se))
          then Degraded
          else if rf_pending_non_replayable (fr_flags f) \<or> rf_unknown_side_effects (fr_flags f)
          then Degraded
          else if rf_deterministic_replay_verified (fr_flags f) \<and> rf_exact (fr_flags f) then Exact
          else if rf_equivalent (fr_flags f) then Equivalent
          else Degraded)"

subsection \<open>Request validation\<close>

definition component_id_ok :: "capture_component_request \<Rightarrow> unit fabric_result" where
  "component_id_ok c =
     (if cr_component_id c = [] \<or> length (cr_component_id c) > 256
      then Inl (InvalidArgument ''component id must be 1..=256 chars'')
      else if sanitize_segment (cr_component_id c) \<noteq> cr_component_id c
      then Inl (InvalidArgument (''component id '' @ quoted ''{}'' @ '' contains unsafe path characters''))
      else Inr ())"

definition side_effects_ok :: "side_effect_manifest \<Rightarrow> unit fabric_result" where
  "side_effects_ok se =
     bind_r (all_r (\<lambda>e. ensure (se_side_effect_id e \<noteq> [])
                      (InvalidArgument ''side effect id must not be empty'')) (sem_entries se))
       (\<lambda>_. ensure (\<not> unat (sem_frontier_boundary se) > length (sem_entries se))
              (FrontierInconsistency ''side-effect boundary exceeds entry count''))"

definition validate_capture_request ::
  "workload \<Rightarrow> capture_options \<Rightarrow> policy_set \<Rightarrow> u64 option \<Rightarrow> u64 \<Rightarrow> unit fabric_result" where
  "validate_capture_request workload opts policy last_capture_ms now =
     (if p_min_capture_interval_ms policy > 0 \<and>
         (case last_capture_ms of None \<Rightarrow> False
          | Some last_ms \<Rightarrow> sat_sub now last_ms < p_min_capture_interval_ms policy)
      then Inl (PolicyViolation ''capture interval {}ms not elapsed since last capture'')
      else bind_r (all_r component_id_ok (co_components opts)) (\<lambda>_.
        if \<not> distinct (map cr_component_id (co_components opts))
        then Inl (InvalidArgument ''duplicate component ids in capture request'')
        else bind_r
          (case co_frontier opts of
             None \<Rightarrow> Inr ()
           | Some f \<Rightarrow> ensure (fr_workload_generation f = w_workload_generation workload)
               (FrontierInconsistency
                 ''frontier workload generation {} does not match workload generation {}'')) (\<lambda>_.
          case co_side_effects opts of
            None \<Rightarrow> Inr ()
          | Some se \<Rightarrow> side_effects_ok se)))"

definition workload_captureable :: "workload \<Rightarrow> string option \<Rightarrow> unit fabric_result" where
  "workload_captureable workload actor_node =
     (if is_fenced workload
      then Inl (FencingFailure ''workload {} is fenced; capture requires an active continuation'')
      else if w_single_active workload \<and>
        (case (actor_node, w_active_node workload) of
           (Some node, Some active) \<Rightarrow> active \<noteq> node | _ \<Rightarrow> False)
      then Inl (FencingFailure ''capture requested from node {node} but active node is {active}'')
      else Inr ())"

subsection \<open>Scaffold and completeness\<close>

definition checkpoint_scaffold ::
  "workload \<Rightarrow> ident \<Rightarrow> u64 \<Rightarrow> string \<Rightarrow> u64 \<Rightarrow> string \<Rightarrow> capture_options \<Rightarrow> policy_set \<Rightarrow> u64
     \<Rightarrow> checkpoint_object" where
  "checkpoint_scaffold workload checkpoint_id checkpoint_generation attempt_id coordinator_epoch
     source_node opts policy now = \<lparr>
     ck_checkpoint_id = checkpoint_id,
     ck_workload_id = w_workload_id workload,
     ck_workload_generation = w_workload_generation workload,
     ck_checkpoint_generation = checkpoint_generation,
     ck_parent_checkpoint = None,
     ck_capture_attempt = attempt_id,
     ck_coordinator_epoch = coordinator_epoch,
     ck_created_ms = now,
     ck_seal_ms = 0,
     ck_source_node = source_node,
     ck_source_backend = w_backend_class workload,
     ck_frontier = (case co_frontier opts of None \<Rightarrow> default_frontier | Some f \<Rightarrow> f),
     ck_checkpoint_type = derive_checkpoint_type opts policy,
     ck_consistency = (case co_consistency opts of None \<Rightarrow> CrashConsistent | Some c \<Rightarrow> c),
     ck_resumability = RestartFromCheckpoint,
     ck_components = [],
     ck_total_logical_bytes = 0,
     ck_total_physical_bytes = 0,
     ck_compressed_bytes = 0,
     ck_durable_locations = [],
     ck_replica_count = 0,
     ck_lineage_parents = [],
     ck_lineage_children = [],
     ck_supersedes = None,
     ck_superseded_by = None,
     ck_policy_version = p_version policy,
     ck_runtime_descriptor = w_runtime workload,
     ck_hardware_descriptor = default_hardware,
     ck_dependencies = [],
     ck_integrity_state = IPending,
     ck_lifecycle = Created,
     ck_restore_count = 0,
     ck_last_restore_result = None,
     ck_protection = PNone,
     ck_retirement_eligibility = NotEligible,
     ck_metadata = co_metadata opts,
     ck_manifest_digest = None,
     ck_manifest_json = None\<rparr>"

definition validate_component_completeness ::
  "capture_component_request list \<Rightarrow> component_entry list \<Rightarrow> unit fabric_result" where
  "validate_component_completeness requested captured =
     all_r (\<lambda>r. ensure (\<not> (cr_required r \<and> cr_component_id r \<notin> set (map ce_component_id captured)))
                  (IncompleteCheckpoint (''required component '' @ quoted ''{}'' @ '' was not captured'')))
       requested"

subsection \<open>Lemmas\<close>

lemma side_effect_ok_Inr [simp]:
  "side_effect_ok e = Inr u \<longleftrightarrow> se_status e \<notin> {Unknown, NonReplayable}"
  by (cases "se_status e") (simp_all add: side_effect_ok_def)

lemma validate_for_exact_ok:
  "is_ok (validate_for_exact se) \<longleftrightarrow>
     (\<forall>e \<in> set (sem_entries se). se_status e \<notin> {Unknown, NonReplayable})"
  by (simp add: validate_for_exact_def)

lemma validate_component_completeness_Inr [simp]:
  "validate_component_completeness req cap = Inr u \<longleftrightarrow>
     (\<forall>r \<in> set req. cr_required r \<longrightarrow> cr_component_id r \<in> ce_component_id ` set cap)"
  by (auto simp: validate_component_completeness_def)

lemma workload_captureable_Inr [simp]:
  "workload_captureable w (w_active_node w) = Inr u \<longleftrightarrow> \<not> is_fenced w"
  by (auto simp: workload_captureable_def split: option.splits if_splits)

lemma not_safe_slash [simp]: "\<not> safe_char (CHR ''/'')" "\<not> safe_char (CHR 0x5C)" "\<not> safe_char (CHR 0x00)"
  by (simp_all add: safe_char_def ascii_alnum_def)

lemma safe_underscore [simp]: "safe_char (CHR ''_'')"
  by (simp add: safe_char_def)

lemma sanitize_char_safe: "x \<in> set (sanitize_char c) \<Longrightarrow> safe_char x"
  by (simp add: sanitize_char_def split: if_splits)

lemma sanitize_filter: "\<forall>x \<in> set (concat (map sanitize_char name)). safe_char x"
  using sanitize_char_safe by (simp add: ball_Un)

lemma underscores_safe: "\<forall>x \<in> set (''_'' @ replicate n (CHR ''_'')). safe_char x"
  by simp

lemma sanitize_safe: "\<forall>x \<in> set (sanitize_segment name). safe_char x"
  unfolding sanitize_segment_def Let_def
  by (rule if_split [THEN iffD2], intro conjI impI) (rule underscores_safe, rule sanitize_filter)

lemma sanitize_nonempty: "sanitize_segment name \<noteq> []"
  by (simp add: sanitize_segment_def Let_def)

lemma sanitize_not_dot: "sanitize_segment name \<noteq> ''.''" "sanitize_segment name \<noteq> ''..''"
  by (auto simp: sanitize_segment_def Let_def)

lemma sanitize_fixpoint:
  assumes "\<forall>x \<in> set s. safe_char x" and "s \<notin> {[], ''.'', ''..''}"
  shows "sanitize_segment s = s"
proof -
  have "concat (map sanitize_char s) = s"
    using assms(1) by (induction s) (simp_all add: sanitize_char_def)
  with assms(2) show ?thesis by (simp add: sanitize_segment_def Let_def)
qed

lemma sanitize_id_iff:
  "sanitize_segment s = s \<longleftrightarrow> (\<forall>x \<in> set s. safe_char x) \<and> s \<notin> {[], ''.'', ''..''}"
  using sanitize_fixpoint sanitize_safe sanitize_nonempty sanitize_not_dot
  by (metis insert_iff singletonD)

lemma component_id_ok_Inr:
  "component_id_ok c = Inr u \<longleftrightarrow>
     length (cr_component_id c) \<le> 256 \<and> (\<forall>x \<in> set (cr_component_id c). safe_char x) \<and>
     cr_component_id c \<notin> {[], ''.'', ''..''}"
  by (auto simp: component_id_ok_def sanitize_id_iff split: if_splits)

subsection \<open>Properties\<close>

text \<open>C33: a capture never overstates its consistency. The derived class is at most the
  requested one (crash consistency if none was requested), and anything above crash
  consistency is backed by cooperative quiescence the node acknowledged, the highest class
  also by an explicit execution frontier.\<close>

theorem derive_consistency_honest:
  "derive_consistency req q fr ack \<le> (case req of None \<Rightarrow> CrashConsistent | Some c \<Rightarrow> c) \<and>
   (derive_consistency req q fr ack \<noteq> CrashConsistent \<longrightarrow> q = Cooperative \<and> ack) \<and>
   (derive_consistency req q fr ack = ExecutionConsistent \<longrightarrow> fr \<noteq> None)"
  by (cases req; cases "the req")
    (auto simp: derive_consistency_def class_order_defs split: if_splits)

theorem derive_consistency_honest_witness:
  "derive_consistency (Some ExecutionConsistent) Cooperative (Some default_frontier) True
     = ExecutionConsistent \<and> Some default_frontier \<noteq> None"
proof -
  have "derive_consistency (Some ExecutionConsistent) Cooperative (Some default_frontier) True
     = ExecutionConsistent" by (simp add: derive_consistency_def)
  with derive_consistency_honest [of "Some ExecutionConsistent" Cooperative "Some default_frontier" True]
  show ?thesis by simp
qed

text \<open>C34: exact resumability is claimed exactly when all its evidence is present: execution
  consistency, a frontier flagged exact with deterministic replay verified, no pending
  non-replayable and no unknown side effects in the frontier, and no unresolved entry in the
  side-effect manifest. Without execution consistency the class is restart-from-checkpoint.\<close>

theorem derive_resumability_exact_iff:
  "(derive_resumability c fr se = Exact \<longleftrightarrow>
     c = ExecutionConsistent \<and>
     (\<exists>f. fr = Some f \<and> rf_exact (fr_flags f) \<and> rf_deterministic_replay_verified (fr_flags f) \<and>
          \<not> rf_pending_non_replayable (fr_flags f) \<and> \<not> rf_unknown_side_effects (fr_flags f)) \<and>
     (\<forall>m. se = Some m \<longrightarrow> (\<forall>e \<in> set (sem_entries m). se_status e \<notin> {Unknown, NonReplayable}))) \<and>
   (c \<noteq> ExecutionConsistent \<longrightarrow> derive_resumability c fr se = RestartFromCheckpoint)"
  unfolding derive_resumability_def validate_for_exact_ok
  by (auto split: option.splits)

theorem derive_resumability_exact_iff_witness:
  "derive_resumability ExecutionConsistent
     (Some (default_frontier\<lparr>fr_flags := default_flags\<lparr>rf_deterministic_replay_verified := True\<rparr>\<rparr>))
     None = Exact"
  using derive_resumability_exact_iff [of ExecutionConsistent
     "Some (default_frontier\<lparr>fr_flags := default_flags\<lparr>rf_deterministic_replay_verified := True\<rparr>\<rparr>)"
     None]
  by (simp add: default_flags_def)

text \<open>C40: component identifiers cannot escape their directory. Every component identifier of
  an accepted capture request is a plain path segment of at most 256 bytes: it is not empty,
  not \<open>.\<close> or \<open>..\<close>, has no slash, backslash or NUL, no two requests share it, and
  \<open>sanitize_segment\<close> maps any text to such a segment and leaves these unchanged.\<close>

theorem accepted_component_ids_are_segments:
  "(validate_capture_request w opts policy prev now = Inr () \<longrightarrow>
      distinct (map cr_component_id (co_components opts)) \<and>
      (\<forall>c \<in> set (co_components opts).
         length (cr_component_id c) \<le> 256 \<and> cr_component_id c \<notin> {[], ''.'', ''..''} \<and>
         set (cr_component_id c) \<inter> {CHR ''/'', CHR 0x5C, CHR 0x00} = {})) \<and>
   sanitize_segment (sanitize_segment name) = sanitize_segment name \<and>
   sanitize_segment name \<notin> {[], ''.'', ''..''} \<and>
   set (sanitize_segment name) \<inter> {CHR ''/'', CHR 0x5C, CHR 0x00} = {}"
proof (intro conjI impI ballI)
  fix c assume v: "validate_capture_request w opts policy prev now = Inr ()"
    and "c \<in> set (co_components opts)"
  then have "component_id_ok c = Inr ()"
    by (auto simp: validate_capture_request_def split: if_splits)
  then show "length (cr_component_id c) \<le> 256" and "cr_component_id c \<notin> {[], ''.'', ''..''}"
    and "set (cr_component_id c) \<inter> {CHR ''/'', CHR 0x5C, CHR 0x00} = {}"
    using not_safe_slash by (auto simp: component_id_ok_Inr)
next
  assume "validate_capture_request w opts policy prev now = Inr ()"
  then show "distinct (map cr_component_id (co_components opts))"
    by (auto simp: validate_capture_request_def split: if_splits)
next
  show "sanitize_segment (sanitize_segment name) = sanitize_segment name"
    using sanitize_safe sanitize_nonempty sanitize_not_dot by (simp add: sanitize_id_iff)
  show "sanitize_segment name \<notin> {[], ''.'', ''..''}"
    using sanitize_nonempty sanitize_not_dot by simp
  show "set (sanitize_segment name) \<inter> {CHR ''/'', CHR 0x5C, CHR 0x00} = {}"
    using sanitize_safe [of name] not_safe_slash by blast
qed

definition sample_request :: capture_component_request where
  "sample_request = \<lparr>cr_component_id = ''app.state'', cr_component_type = ApplicationState,
     cr_required = True, cr_schema_version = 1, cr_restore_handler = ''application''\<rparr>"

theorem accepted_component_ids_are_segments_witness:
  "validate_capture_request sample_workload
     (default_capture_options\<lparr>co_components := [sample_request]\<rparr>) default_policy None 0 = Inr () \<and>
   CHR ''/'' \<notin> set (cr_component_id sample_request)"
proof -
  have "validate_capture_request sample_workload
     (default_capture_options\<lparr>co_components := [sample_request]\<rparr>) default_policy None 0 = Inr ()"
    by (simp add: validate_capture_request_def default_policy_def default_capture_options_def
        component_id_ok_Inr sample_request_def safe_char_def ascii_alnum_def)
  with accepted_component_ids_are_segments [of sample_workload
      "default_capture_options\<lparr>co_components := [sample_request]\<rparr>" default_policy None 0 "[]"]
  show ?thesis by simp
qed

end
