(* ===== verification/Restore.thy ===== *)
theory Restore
  imports Compatibility
begin

section \<open>Restore and migration decisions (restore.rs, migration.rs)\<close>

text \<open>
  The checks a restore passes before any state moves, the resumability class the restored
  execution may claim, and the basic validation of a migration request. The check of the
  source for an unverified replica on the target node has no effect there and none here.
\<close>

definition validate_restore_request ::
  "checkpoint_object \<Rightarrow> policy_set \<Rightarrow> string \<Rightarrow> unit fabric_result" where
  "validate_restore_request checkpoint policy target_node =
     (if \<not> is_restorable (ck_lifecycle checkpoint)
      then Inl (CorruptedCheckpoint ''checkpoint {} is not restorable in lifecycle state {}'')
      else if ck_lifecycle checkpoint = Retired
      then Inl (PolicyViolation ''retired checkpoint requires archive-restore policy'')
      else if ck_integrity_state checkpoint = ICorrupt
      then Inl (CorruptedCheckpoint ''checkpoint {} is marked corrupt; restore refused'')
      else if ck_replica_count checkpoint < p_min_valid_replicas policy
      then Inl (CorruptedCheckpoint ''checkpoint {} has {} replicas but policy requires {}'')
      else if ck_durable_locations checkpoint = []
      then Inl (CorruptedCheckpoint ''checkpoint {} has no durable locations'')
      else Inr ())"

definition context_ref_ok ::
  "(bytes \<Rightarrow> string) \<Rightarrow> checkpoint_object \<Rightarrow> context_ref_resolution \<Rightarrow> unit fabric_result" where
  "context_ref_ok hex_encode checkpoint r =
     ensure (\<not> cx_required r \<or>
         list_ex (\<lambda>d. ed_kind d = ''context'' \<and> ed_identity d = to_hex hex_encode (cx_object_id r))
           (ck_dependencies checkpoint))
       (MissingDependency ''required context object {} is not referenced by this checkpoint'')"

definition validate_context_refs ::
  "(bytes \<Rightarrow> string) \<Rightarrow> checkpoint_object \<Rightarrow> context_ref_resolution list \<Rightarrow> unit fabric_result" where
  "validate_context_refs hex_encode checkpoint resolved =
     all_r (context_ref_ok hex_encode checkpoint) resolved"

definition restored_resumability ::
  "resumability_class \<Rightarrow> compat_verdict \<Rightarrow> bool \<Rightarrow> resumability_class" where
  "restored_resumability captured verdict resumed =
     (let base = (case verdict of
            Compatible \<Rightarrow> captured
          | CompatibleWithTranslation \<Rightarrow> (case captured of Exact \<Rightarrow> Equivalent | other \<Rightarrow> other)
          | CompatibleDegraded \<Rightarrow>
              (case captured of Exact \<Rightarrow> Degraded | Equivalent \<Rightarrow> Degraded | other \<Rightarrow> other)
          | Incompatible \<Rightarrow> NonResumable)
      in if \<not> resumed \<and> base > RestartFromCheckpoint then RestartFromCheckpoint else base)"

definition validate_target_claim :: "workload \<Rightarrow> string \<Rightarrow> bool \<Rightarrow> unit fabric_result" where
  "validate_target_claim workload target_node migration =
     (if w_single_active workload \<and>
         (case w_active_node workload of None \<Rightarrow> False
          | Some active \<Rightarrow> active \<noteq> target_node \<and> active \<noteq> ''MIGRATING'' \<and> \<not> migration)
      then Inl (FencingFailure ''restore target {target_node} is not the active node ({active}); single-active workloads require migration or an explicit fence'')
      else Inr ())"

definition restore_eligible :: "checkpoint_object \<Rightarrow> policy_set \<Rightarrow> unit fabric_result" where
  "restore_eligible checkpoint policy =
     (if ck_lifecycle checkpoint = Retired \<and> \<not> p_archive_restore_permitted policy
      then Inl (PolicyViolation ''archived checkpoint restore requires archive_restore_permitted policy'')
      else Inr ())"

subsection \<open>Migration\<close>

datatype migration_step =
  Planned | MCaptured | SourceFenced | TargetRestored | AuthorityTransferred | SourceStopped

fun migration_step_as_str :: "migration_step \<Rightarrow> string" where
  "migration_step_as_str Planned = ''planned''"
| "migration_step_as_str MCaptured = ''captured''"
| "migration_step_as_str SourceFenced = ''source_fenced''"
| "migration_step_as_str TargetRestored = ''target_restored''"
| "migration_step_as_str AuthorityTransferred = ''authority_transferred''"
| "migration_step_as_str SourceStopped = ''source_stopped''"

definition migration_step_parse_str :: "string \<Rightarrow> migration_step" where
  "migration_step_parse_str s =
     (if s = ''planned'' then Planned else if s = ''captured'' then MCaptured
      else if s = ''source_fenced'' then SourceFenced
      else if s = ''target_restored'' then TargetRestored
      else if s = ''authority_transferred'' then AuthorityTransferred else SourceStopped)"

definition validate_migration_request ::
  "ident \<Rightarrow> ident \<Rightarrow> string \<Rightarrow> string \<Rightarrow> unit fabric_result" where
  "validate_migration_request workload_id checkpoint_id source_node target_node =
     (if source_node = target_node
      then Inl (MigrationFailure ''migration source and target are the same node'')
      else if workload_id = checkpoint_id
      then Inl (InvalidArgument ''workload and checkpoint ids must differ'')
      else if source_node = [] \<or> target_node = []
      then Inl (InvalidArgument ''node names must not be empty'')
      else Inr ())"

subsection \<open>Lemmas\<close>

lemma validate_restore_request_Inr [simp]:
  "validate_restore_request ck policy n = Inr u \<longleftrightarrow>
     ck_lifecycle ck \<in> {Available, Restored} \<and> ck_integrity_state ck \<noteq> ICorrupt \<and>
     p_min_valid_replicas policy \<le> ck_replica_count ck \<and> ck_durable_locations ck \<noteq> []"
  by (auto simp: validate_restore_request_def is_restorable_def)

lemma validate_target_claim_Inr [simp]:
  "validate_target_claim w n migration = Inr u \<longleftrightarrow>
     (w_single_active w \<longrightarrow> migration \<or> w_active_node w \<in> {None, Some n, Some ''MIGRATING''})"
  by (auto simp: validate_target_claim_def split: option.splits)

lemma validate_context_refs_Nil: "validate_context_refs h ck [] = Inr ()"
  by (simp add: validate_context_refs_def)

lemma restore_eligible_Inr [simp]:
  "restore_eligible ck policy = Inr u \<longleftrightarrow> (ck_lifecycle ck = Retired \<longrightarrow> p_archive_restore_permitted policy)"
  by (simp add: restore_eligible_def)

lemma migration_step_roundtrip: "migration_step_parse_str (migration_step_as_str s) = s"
  by (cases s) (simp_all add: migration_step_parse_str_def)

lemma restored_resumed: "restored_resumability r v True = resumability_for v r"
  by (cases v; cases r) (simp_all add: restored_resumability_def resumability_for_def)

lemma restored_held: "restored_resumability r v False = min (resumability_for v r) RestartFromCheckpoint"
  by (cases v; cases r)
    (simp_all add: restored_resumability_def resumability_for_def class_order_defs min_def)

text \<open>A restore that does not resume still honours the contract of a class cap.\<close>

interpretation held_cap: class_cap "\<lambda>v r. restored_resumability r v False"
proof
  fix v v' :: compat_verdict and r r' :: resumability_class
  show "restored_resumability r v False \<le> r"
    unfolding restored_held using compat_cap.cap_le [of v r] by (simp add: min_le_iff_disj)
  show "r \<le> r' \<Longrightarrow> restored_resumability r v False \<le> restored_resumability r' v False"
    unfolding restored_held using compat_cap.cap_mono [of r r' v] by (auto simp: min_le_iff_disj)
  show "v \<le> v' \<Longrightarrow> restored_resumability r v' False \<le> restored_resumability r v False"
    unfolding restored_held using compat_cap.cap_antimono [of v v' r] by (auto simp: min_le_iff_disj)
  show "restored_resumability r Incompatible False = NonResumable"
    by (simp add: restored_resumability_def class_order_defs)
qed

interpretation resumed_cap: faithful_cap "\<lambda>v r. restored_resumability r v True"
  unfolding restored_resumed by (rule compat_cap.faithful_cap_axioms)

subsection \<open>Properties\<close>



end
