(* ===== verification/Lineage.thy ===== *)
theory Lineage
  imports Domain
begin

section \<open>Lineage chains (lineage.rs)\<close>

text \<open>
  The two walks over parent links. The lookup of a parent is an argument, as in the source.
  \<open>validate_incremental_chain\<close> is bounded by the policy's depth limit and so total; its
  depth counter is a natural number (the \<open>u32\<close> of the source agrees with it up to
  \<open>2 ^ 32\<close> links). \<open>ancestor_path\<close> has no depth bound and is a partial function
  whose totality, for a lookup with finitely many answers, is a theorem.
\<close>

type_synonym lookup = "ident \<Rightarrow> checkpoint_object option fabric_result"

fun lineage_as_str :: "lineage_relation \<Rightarrow> string" where
  "lineage_as_str Parent = ''PARENT''"
| "lineage_as_str Supersedes = ''SUPERSEDES''"
| "lineage_as_str ForkedFrom = ''FORKED_FROM''"
| "lineage_as_str RollbackOf = ''ROLLBACK_OF''"
| "lineage_as_str DeltaBase = ''DELTA_BASE''"
| "lineage_as_str MigratedFrom = ''MIGRATED_FROM''"

definition lineage_parse_str :: "string \<Rightarrow> lineage_relation" where
  "lineage_parse_str s =
     (if s = ''PARENT'' then Parent else if s = ''SUPERSEDES'' then Supersedes
      else if s = ''FORKED_FROM'' then ForkedFrom else if s = ''ROLLBACK_OF'' then RollbackOf
      else if s = ''DELTA_BASE'' then DeltaBase else MigratedFrom)"

text \<open>The link a checkpoint depends on: only incremental and delta checkpoints have one.\<close>

definition chain_base :: "checkpoint_object \<Rightarrow> ident option" where
  "chain_base c =
     (if ck_checkpoint_type c \<in> {Incremental, Delta} then ck_parent_checkpoint c else None)"

definition parent_unusable :: "checkpoint_object \<Rightarrow> bool" where
  "parent_unusable p \<longleftrightarrow> is_terminal (ck_lifecycle p) \<or> ck_integrity_state p = ICorrupt"

function chain_walk ::
  "lookup \<Rightarrow> u32 \<Rightarrow> nat \<Rightarrow> ident list \<Rightarrow> checkpoint_object \<Rightarrow> unit fabric_result" where
  "chain_walk get_parent max_depth depth seen c =
     (if ck_checkpoint_id c \<in> set seen
      then Inl (LineageViolation ''incremental chain contains a cycle at {}'')
      else if depth + 1 > unat max_depth
      then Inl (LineageViolation ''incremental chain exceeds policy depth limit of {max_depth}'')
      else case chain_base c of
        None \<Rightarrow> Inr ()
      | Some parent_id \<Rightarrow>
         (case get_parent parent_id of
            Inl e \<Rightarrow> Inl e
          | Inr None \<Rightarrow> Inl (MissingDependency
              ''incremental chain requires parent checkpoint {parent_id} which is missing'')
          | Inr (Some parent) \<Rightarrow>
              if parent_unusable parent
              then Inl (MissingDependency ''parent checkpoint {parent_id} is not restorable ({:?}, {:?})'')
              else chain_walk get_parent max_depth (depth + 1) (ck_checkpoint_id c # seen) parent))"
  by pat_completeness auto
termination
  by (relation "measure (\<lambda>(_, max_depth, depth, _, _). unat max_depth - depth)") auto

declare chain_walk.simps [simp del]

definition validate_incremental_chain ::
  "checkpoint_object \<Rightarrow> lookup \<Rightarrow> u32 \<Rightarrow> unit fabric_result" where
  "validate_incremental_chain checkpoint get_parent max_depth =
     chain_walk get_parent max_depth 0 [] checkpoint"

partial_function (option) ancestor_walk ::
  "lookup \<Rightarrow> ident list \<Rightarrow> ident option \<Rightarrow> ident list fabric_result option" where
  "ancestor_walk get path cur =
     (case cur of
        None \<Rightarrow> Some (Inr path)
      | Some i \<Rightarrow>
          if i \<in> set path then Some (Inl (LineageViolation ''lineage cycle detected''))
          else case get i of
            Inl e \<Rightarrow> Some (Inl e)
          | Inr None \<Rightarrow> Some (Inl (MissingDependency ''lineage ancestor {id} missing''))
          | Inr (Some c) \<Rightarrow> ancestor_walk get (path @ [i]) (chain_base c))"

declare ancestor_walk.simps [code]

definition ancestor_path ::
  "checkpoint_object \<Rightarrow> lookup \<Rightarrow> ident list fabric_result option" where
  "ancestor_path checkpoint get = ancestor_walk get [] (ck_parent_checkpoint checkpoint)"

subsection \<open>The specification: a chain of links\<close>

text \<open>\<open>inc_chain get c cs\<close>: following the links from \<open>c\<close> visits exactly \<open>cs\<close>, every
  parent found and usable, and ends at a checkpoint with no link.\<close>

inductive inc_chain :: "lookup \<Rightarrow> checkpoint_object \<Rightarrow> checkpoint_object list \<Rightarrow> bool" where
  chain_end: "chain_base c = None \<Longrightarrow> inc_chain get c [c]"
| chain_link: "chain_base c = Some pid \<Longrightarrow> get pid = Inr (Some p) \<Longrightarrow> \<not> parent_unusable p \<Longrightarrow>
     inc_chain get p cs \<Longrightarrow> inc_chain get c (c # cs)"

inductive_cases inc_chainE: "inc_chain get c cs"

lemma lineage_str_roundtrip: "lineage_parse_str (lineage_as_str r) = r"
  by (cases r) (simp_all add: lineage_parse_str_def)

lemma inc_chain_nonempty: "inc_chain get c cs \<Longrightarrow> cs \<noteq> [] \<and> hd cs = c"
  by (induction rule: inc_chain.induct) auto

lemma chain_walk_sound:
  "chain_walk get md depth seen c = Inr () \<Longrightarrow>
     \<exists>cs. inc_chain get c cs \<and> distinct (map ck_checkpoint_id cs) \<and>
          ck_checkpoint_id ` set cs \<inter> set seen = {} \<and> depth + length cs \<le> unat md"
proof (induction get md depth seen c rule: chain_walk.induct)
  case (1 get md depth seen c)
  have ok: "ck_checkpoint_id c \<notin> set seen" "depth + 1 \<le> unat md"
    using "1.prems" by (auto simp: chain_walk.simps split: if_splits)
  show ?case
  proof (cases "chain_base c")
    case None
    then show ?thesis using ok chain_end [of c get] by (intro exI [of _ "[c]"]) auto
  next
    case (Some pid)
    with "1.prems" ok obtain p where p: "get pid = Inr (Some p)" "\<not> parent_unusable p"
      and w: "chain_walk get md (depth + 1) (ck_checkpoint_id c # seen) p = Inr ()"
      by (auto simp: chain_walk.simps [of get md depth] split: if_splits sum.splits option.splits)
    have "\<exists>cs. inc_chain get p cs \<and> distinct (map ck_checkpoint_id cs) \<and>
        ck_checkpoint_id ` set cs \<inter> set (ck_checkpoint_id c # seen) = {} \<and>
        depth + 1 + length cs \<le> unat md"
      using "1.IH" [OF ok(1) _ Some p(1) _ p(2) w] ok(2) by simp
    then obtain cs where "inc_chain get p cs" and "distinct (map ck_checkpoint_id cs)"
      and "ck_checkpoint_id ` set cs \<inter> set (ck_checkpoint_id c # seen) = {}"
      and "depth + 1 + length cs \<le> unat md" by blast
    then show ?thesis
      using ok chain_link [where get = get, OF Some p] by (intro exI [of _ "c # cs"]) auto
  qed
qed

lemma chain_walk_complete:
  "inc_chain get c cs \<Longrightarrow> distinct (map ck_checkpoint_id cs) \<Longrightarrow>
     ck_checkpoint_id ` set cs \<inter> set seen = {} \<Longrightarrow> depth + length cs \<le> unat md \<Longrightarrow>
     chain_walk get md depth seen c = Inr ()"
proof (induction arbitrary: depth seen rule: inc_chain.induct)
  case (chain_end c get)
  then show ?case by (simp add: chain_walk.simps [of get md depth])
next
  case (chain_link c pid get p cs)
  have "chain_walk get md (depth + 1) (ck_checkpoint_id c # seen) p = Inr ()"
    using chain_link.prems by (intro chain_link.IH) auto
  with chain_link show ?case by (simp add: chain_walk.simps [of get md depth])
qed

text \<open>Totality of the unbounded walk: every step consumes one of the finitely many identifiers
  the lookup answers.\<close>

lemma ancestor_walk_total:
  assumes fin: "finite {i. \<exists>c. get i = Inr (Some c)}"
  shows "\<exists>r. ancestor_walk get path cur = Some r"
proof (induction "card ({i. \<exists>c. get i = Inr (Some c)} - set path)" arbitrary: path cur rule: less_induct)
  case less
  show ?case
  proof (cases "\<exists>i c. cur = Some i \<and> i \<notin> set path \<and> get i = Inr (Some c)")
    case True
    then obtain i c where i: "cur = Some i" "i \<notin> set path" "get i = Inr (Some c)" by blast
    have "card ({i. \<exists>c. get i = Inr (Some c)} - set (path @ [i]))
        < card ({i. \<exists>c. get i = Inr (Some c)} - set path)"
      using i fin by (intro psubset_card_mono) auto
    from less [OF this] i show ?thesis by (simp add: ancestor_walk.simps [of get path])
  next
    case False
    then show ?thesis
      by (auto simp: ancestor_walk.simps [of get path] split: option.splits sum.splits)
  qed
qed

lemma ancestor_walk_chain:
  "inc_chain get c cs \<Longrightarrow> (\<And>i p. get i = Inr (Some p) \<Longrightarrow> ck_checkpoint_id p = i) \<Longrightarrow>
     distinct (map ck_checkpoint_id cs) \<Longrightarrow> ck_checkpoint_id ` set (tl cs) \<inter> set path = {} \<Longrightarrow>
     ancestor_walk get path (chain_base c) = Some (Inr (path @ map ck_checkpoint_id (tl cs)))"
proof (induction arbitrary: path rule: inc_chain.induct)
  case (chain_end c get)
  then show ?case by (simp add: ancestor_walk.simps [of get path])
next
  case (chain_link c pid get p cs)
  have pid: "ck_checkpoint_id p = pid" using chain_link by blast
  obtain cs' where cs: "cs = p # cs'"
    using inc_chain_nonempty [OF chain_link.hyps(4)] by (cases cs) auto
  have "ancestor_walk get (path @ [pid]) (chain_base p)
      = Some (Inr ((path @ [pid]) @ map ck_checkpoint_id (tl cs)))"
    using chain_link.prems pid cs by (intro chain_link.IH) auto
  moreover have "pid \<notin> set path" using chain_link.prems pid cs by auto
  ultimately show ?case
    using chain_link.hyps pid cs by (simp add: ancestor_walk.simps [of get path])
qed

subsection \<open>Properties\<close>

text \<open>C35: an incremental chain is accepted exactly when it is sound. The walk succeeds if and
  only if following the links from the checkpoint reaches a checkpoint with no link through
  parents that all exist, are neither retired nor failed nor corrupt, are pairwise different,
  and the chain has at most the policy's number of checkpoints.\<close>

theorem validate_incremental_chain_iff:
  "validate_incremental_chain c get max_depth = Inr () \<longleftrightarrow>
     (\<exists>cs. inc_chain get c cs \<and> distinct (map ck_checkpoint_id cs) \<and> length cs \<le> unat max_depth)"
  using chain_walk_sound [of get max_depth 0 "[]" c]
    chain_walk_complete [of get c _ "[]" 0 max_depth]
  unfolding validate_incremental_chain_def by auto

text \<open>C36: the ancestor walk always ends on a store of finitely many checkpoints, with a path
  or a typed error, although nothing bounds its depth; and on an incremental checkpoint whose
  chain validates it returns exactly the ancestors of that chain, nearest first.\<close>

theorem ancestor_path_total_correct:
  assumes "finite {i. \<exists>c. get i = Inr (Some c)}"
    and "\<And>i p. get i = Inr (Some p) \<Longrightarrow> ck_checkpoint_id p = i"
  shows "(\<exists>r. ancestor_path c get = Some r) \<and>
    (inc_chain get c cs \<longrightarrow> distinct (map ck_checkpoint_id cs) \<longrightarrow>
     ck_checkpoint_type c \<in> {Incremental, Delta} \<longrightarrow>
     ancestor_path c get = Some (Inr (map ck_checkpoint_id (tl cs))))"
proof (intro conjI impI)
  show "\<exists>r. ancestor_path c get = Some r"
    unfolding ancestor_path_def by (rule ancestor_walk_total [OF assms(1)])
next
  assume "inc_chain get c cs" "distinct (map ck_checkpoint_id cs)"
    and "ck_checkpoint_type c \<in> {Incremental, Delta}"
  then show "ancestor_path c get = Some (Inr (map ck_checkpoint_id (tl cs)))"
    using ancestor_walk_chain [of get c cs "[]"] assms(2)
    by (auto simp: ancestor_path_def chain_base_def)
qed

definition sample_delta :: checkpoint_object where
  "sample_delta = sample_checkpoint\<lparr>ck_checkpoint_id := Id (replicate 16 3),
     ck_checkpoint_type := Delta, ck_parent_checkpoint := Some (ck_checkpoint_id sample_checkpoint)\<rparr>"

definition sample_lookup :: lookup where
  "sample_lookup i = Inr (if i = ck_checkpoint_id sample_checkpoint then Some sample_checkpoint else None)"

theorem ancestor_path_total_correct_witness:
  "ancestor_path sample_delta sample_lookup = Some (Inr [ck_checkpoint_id sample_checkpoint])"
proof -
  have fin: "finite {i. \<exists>c. sample_lookup i = Inr (Some c)}"
    by (rule finite_subset [of _ "{ck_checkpoint_id sample_checkpoint}"])
      (auto simp: sample_lookup_def split: if_splits)
  have ids: "\<And>i p. sample_lookup i = Inr (Some p) \<Longrightarrow> ck_checkpoint_id p = i"
    by (auto simp: sample_lookup_def split: if_splits)
  have "inc_chain sample_lookup sample_delta [sample_delta, sample_checkpoint]"
    by (rule chain_link [of _ "ck_checkpoint_id sample_checkpoint"])
      (auto simp: sample_delta_def sample_lookup_def chain_base_def parent_unusable_def
        sample_checkpoint_def is_terminal_def intro!: chain_end)
  moreover have "distinct (map ck_checkpoint_id [sample_delta, sample_checkpoint])"
    by (simp add: sample_delta_def sample_checkpoint_def)
  moreover have "ck_checkpoint_type sample_delta \<in> {Incremental, Delta}"
    by (simp add: sample_delta_def)
  ultimately show ?thesis
    using ancestor_path_total_correct [OF fin ids, of sample_delta "[sample_delta, sample_checkpoint]"]
    by simp
qed

end
