(* ===== verification/Manifest.thy ===== *)
theory Manifest
  imports Domain
begin

section \<open>The canonical manifest (manifest.rs, compute\_integrity\_root of integrity.rs)\<close>

text \<open>
  Sealing and parsing of the manifest. Serialisation (\<open>serde_json\<close>), the SHA-256 digest
  (\<open>sha2\<close>) and the hex encoding (\<open>hex\<close>) are third-party code: they are the fields of
  the argument \<open>lib\<close>. What a theorem needs of them is stated as its hypothesis, for the
  values it is about.
\<close>

definition MANIFEST_FORMAT_VERSION :: u32 where
  "MANIFEST_FORMAT_VERSION = 1"

record integrity_info =
  ii_content_hash_algorithm :: string
  ii_root :: string

record manifest =
  m_format_version :: u32
  m_checkpoint_id :: ident
  m_workload_id :: ident
  m_workload_generation :: u64
  m_checkpoint_generation :: u64
  m_parent_checkpoint :: "ident option"
  m_capture_attempt :: string
  m_coordinator_epoch :: u64
  m_created_ms :: u64
  m_seal_ms :: u64
  m_source_node :: string
  m_source_backend :: string
  m_frontier :: execution_frontier
  m_checkpoint_type :: checkpoint_type
  m_consistency :: consistency_class
  m_resumability :: resumability_class
  m_components :: "component_entry list"
  m_total_logical_bytes :: u64
  m_total_physical_bytes :: u64
  m_compressed_bytes :: u64
  m_durable_locations :: "durable_location list"
  m_replica_count :: u32
  m_lineage_parents :: "ident list"
  m_policy_version :: u32
  m_runtime_descriptor :: runtime_descriptor
  m_hardware_descriptor :: hardware_descriptor
  m_dependencies :: "external_dependency list"
  m_integrity :: integrity_info
  m_metadata :: json

record sealed_manifest =
  sm_manifest :: manifest
  sm_canonical_bytes :: bytes
  sm_digest :: string
  sm_integrity_root :: string

record lib =
  lib_to_vec :: "manifest \<Rightarrow> bytes"
  lib_from_slice :: "bytes \<Rightarrow> manifest option"
  lib_sha256 :: "bytes \<Rightarrow> bytes"
  lib_hex_encode :: "bytes \<Rightarrow> string"

text \<open>The bytes of a string (\<open>as_bytes\<close>).\<close>

definition string_bytes :: "string \<Rightarrow> bytes" where
  "string_bytes s = map (\<lambda>c. of_nat (of_char c)) s"

definition bytes_string :: "bytes \<Rightarrow> string" where
  "bytes_string bs = map (\<lambda>b. char_of (unat b)) bs"

definition sha256_hex :: "lib \<Rightarrow> bytes \<Rightarrow> string" where
  "sha256_hex L bs = lib_hex_encode L (lib_sha256 L bs)"

text \<open>The streaming digest is fed the component hashes in order, then the manifest bytes.\<close>

definition integrity_root_of :: "lib \<Rightarrow> string list \<Rightarrow> bytes \<Rightarrow> string" where
  "integrity_root_of L component_hashes manifest_bytes =
     lib_hex_encode L (lib_sha256 L (concat (map string_bytes component_hashes) @ manifest_bytes))"

definition canonical_without_root :: "lib \<Rightarrow> manifest \<Rightarrow> bytes" where
  "canonical_without_root L m = lib_to_vec L (m\<lparr>m_integrity := (m_integrity m)\<lparr>ii_root := []\<rparr>\<rparr>)"

definition compute_integrity_root :: "lib \<Rightarrow> manifest \<Rightarrow> string" where
  "compute_integrity_root L m =
     integrity_root_of L (map ce_content_hash (m_components m))
       (lib_to_vec L (m\<lparr>m_integrity := (m_integrity m)\<lparr>ii_root := []\<rparr>\<rparr>))"

definition verify_integrity_root :: "lib \<Rightarrow> manifest \<Rightarrow> bool" where
  "verify_integrity_root L m \<longleftrightarrow> compute_integrity_root L m = ii_root (m_integrity m)"

definition manifest_digest :: "lib \<Rightarrow> manifest \<Rightarrow> string" where
  "manifest_digest L m = sha256_hex L (lib_to_vec L m)"

definition manifest_scaffold :: "checkpoint_object \<Rightarrow> manifest" where
  "manifest_scaffold c = \<lparr>
     m_format_version = MANIFEST_FORMAT_VERSION,
     m_checkpoint_id = ck_checkpoint_id c,
     m_workload_id = ck_workload_id c,
     m_workload_generation = ck_workload_generation c,
     m_checkpoint_generation = ck_checkpoint_generation c,
     m_parent_checkpoint = ck_parent_checkpoint c,
     m_capture_attempt = ck_capture_attempt c,
     m_coordinator_epoch = ck_coordinator_epoch c,
     m_created_ms = ck_created_ms c,
     m_seal_ms = ck_seal_ms c,
     m_source_node = ck_source_node c,
     m_source_backend = ck_source_backend c,
     m_frontier = ck_frontier c,
     m_checkpoint_type = ck_checkpoint_type c,
     m_consistency = ck_consistency c,
     m_resumability = ck_resumability c,
     m_components = ck_components c,
     m_total_logical_bytes = ck_total_logical_bytes c,
     m_total_physical_bytes = ck_total_physical_bytes c,
     m_compressed_bytes = ck_compressed_bytes c,
     m_durable_locations = ck_durable_locations c,
     m_replica_count = ck_replica_count c,
     m_lineage_parents = ck_lineage_parents c,
     m_policy_version = ck_policy_version c,
     m_runtime_descriptor = ck_runtime_descriptor c,
     m_hardware_descriptor = ck_hardware_descriptor c,
     m_dependencies = ck_dependencies c,
     m_integrity = \<lparr>ii_content_hash_algorithm = ''sha256'', ii_root = []\<rparr>,
     m_metadata = ck_metadata c\<rparr>"

definition seal :: "lib \<Rightarrow> manifest \<Rightarrow> sealed_manifest" where
  "seal L m =
     (let root = compute_integrity_root L m;
          m' = m\<lparr>m_integrity := (m_integrity m)\<lparr>ii_root := root\<rparr>\<rparr>;
          canonical_bytes = lib_to_vec L m'
      in \<lparr>sm_manifest = m', sm_canonical_bytes = canonical_bytes,
          sm_digest = sha256_hex L canonical_bytes, sm_integrity_root = root\<rparr>)"

definition manifest_parse :: "lib \<Rightarrow> bytes \<Rightarrow> manifest fabric_result" where
  "manifest_parse L canonical =
     (case lib_from_slice L canonical of
        None \<Rightarrow> Inl (CorruptedCheckpoint ''bad manifest: {e}'')
      | Some m \<Rightarrow>
          if m_format_version m \<noteq> MANIFEST_FORMAT_VERSION
          then Inl (CorruptedCheckpoint ''unsupported manifest format version {}'')
          else if \<not> verify_integrity_root L m
          then Inl (IntegrityFailure ''manifest integrity root mismatch'')
          else Inr m)"

definition claims_exact :: "manifest \<Rightarrow> bool" where
  "claims_exact m \<longleftrightarrow> m_resumability m = Exact"

definition validate_policy :: "manifest \<Rightarrow> policy_set \<Rightarrow> unit fabric_result" where
  "validate_policy m policy =
     ensure (m_policy_version m = p_version policy)
       (PolicyViolation ''manifest policy version {} does not match active policy {}'')"

subsection \<open>Lemmas\<close>

lemma compute_root_ignores_root [simp]:
  "compute_integrity_root L (m\<lparr>m_integrity := (m_integrity m)\<lparr>ii_root := r\<rparr>\<rparr>) = compute_integrity_root L m"
  by (simp add: compute_integrity_root_def)

lemma seal_root_valid: "verify_integrity_root L (sm_manifest (seal L m))"
  by (simp add: verify_integrity_root_def seal_def Let_def)

lemma seal_fields [simp]:
  "m_format_version (sm_manifest (seal L m)) = m_format_version m"
  "m_components (sm_manifest (seal L m)) = m_components m"
  "sm_canonical_bytes (seal L m) = lib_to_vec L (sm_manifest (seal L m))"
  "sm_digest (seal L m) = manifest_digest L (sm_manifest (seal L m))"
  "sm_integrity_root (seal L m) = ii_root (m_integrity (sm_manifest (seal L m)))"
  by (simp_all add: seal_def Let_def manifest_digest_def)

lemma manifest_parse_Inr:
  "manifest_parse L bs = Inr m \<longleftrightarrow>
     lib_from_slice L bs = Some m \<and> m_format_version m = MANIFEST_FORMAT_VERSION \<and>
     verify_integrity_root L m"
  by (auto simp: manifest_parse_def split: option.splits if_splits)

lemma scaffold_version [simp]: "m_format_version (manifest_scaffold c) = MANIFEST_FORMAT_VERSION"
  by (simp add: manifest_scaffold_def)

subsection \<open>Properties\<close>

text \<open>C19: the manifest digest anchors the checkpoint. Sealing the scaffold of any checkpoint
  gives bytes that parse back to the sealed manifest, with a valid integrity root that does not
  depend on a root already present; and bytes whose digest equals the sealed digest parse to
  that very manifest, unless they are a SHA-256 collision with the sealed bytes. The hypotheses
  are the round trip of the serialiser on the sealed manifest and the absence of that collision.\<close>

theorem manifest_seal_parse:
  fixes ck :: checkpoint_object and L :: lib
  defines "s \<equiv> seal L (manifest_scaffold ck)"
  assumes "lib_from_slice L (lib_to_vec L (sm_manifest s)) = Some (sm_manifest s)"
    and "sha256_hex L bs = sha256_hex L (sm_canonical_bytes s) \<Longrightarrow> bs = sm_canonical_bytes s"
  shows "manifest_parse L (sm_canonical_bytes s) = Inr (sm_manifest s) \<and>
    verify_integrity_root L (sm_manifest s) \<and>
    seal L (sm_manifest s) = s \<and>
    (sha256_hex L bs = sm_digest s \<longrightarrow> manifest_parse L bs = Inr (sm_manifest s))"
proof -
  have p: "manifest_parse L (sm_canonical_bytes s) = Inr (sm_manifest s)"
    using assms(2) seal_root_valid unfolding s_def by (simp add: manifest_parse_Inr)
  moreover have "seal L (sm_manifest s) = s"
    unfolding s_def by (simp add: seal_def Let_def)
  moreover have "sha256_hex L bs = sm_digest s \<Longrightarrow> bs = sm_canonical_bytes s"
    using assms(3) unfolding s_def by (simp add: manifest_digest_def)
  ultimately show ?thesis using seal_root_valid unfolding s_def by auto
qed

text \<open>A library whose serialiser keeps the integrity root only, enough to round-trip the
  manifests of one checkpoint, and whose digest is the identity.\<close>

definition sample_lib :: "checkpoint_object \<Rightarrow> lib" where
  "sample_lib ck = \<lparr>
     lib_to_vec = (\<lambda>m. string_bytes (ii_root (m_integrity m))),
     lib_from_slice = (\<lambda>bs. Some ((manifest_scaffold ck)\<lparr>m_integrity :=
        \<lparr>ii_content_hash_algorithm = ''sha256'', ii_root = map (\<lambda>b. char_of (unat b)) bs\<rparr>\<rparr>)),
     lib_sha256 = (\<lambda>bs. bs),
     lib_hex_encode = hex_enc\<rparr>"

lemma string_bytes_inverse [simp]: "map (\<lambda>b. char_of (unat b)) (string_bytes s) = s"
proof -
  have "char_of (unat (of_nat (of_char c) :: u8)) = c" for c
    by (simp add: unat_of_nat)
  then show ?thesis by (simp add: string_bytes_def o_def map_idI)
qed

theorem manifest_seal_parse_witness:
  "manifest_parse (sample_lib sample_checkpoint)
      (sm_canonical_bytes (seal (sample_lib sample_checkpoint) (manifest_scaffold sample_checkpoint)))
    = Inr (sm_manifest (seal (sample_lib sample_checkpoint) (manifest_scaffold sample_checkpoint)))"
proof -
  let ?L = "sample_lib sample_checkpoint"
  let ?s = "seal ?L (manifest_scaffold sample_checkpoint)"
  have rt: "lib_from_slice ?L (lib_to_vec ?L (sm_manifest ?s)) = Some (sm_manifest ?s)"
    by (simp add: sample_lib_def seal_def Let_def manifest_scaffold_def)
  from manifest_seal_parse [OF rt, of "sm_canonical_bytes ?s"] show ?thesis by simp
qed

end
