(* ===== verification/Store.thy ===== *)
theory Store
  imports Manifest Lineage
begin

section \<open>The durable store (persistence.rs)\<close>

text \<open>
  The SQLite database is a record of tables, each the list of its rows in insertion order. A
  method of \<open>Store\<close> is one transaction: it returns an error, which leaves the database as
  it was, or a value and the new database. The columns are typed: a column that holds JSON
  text or a hexadecimal identifier holds the value that text stands for, and the two columns
  of the source that fall back on a default when their text is bad are never given bad text.

  An unsigned parameter above \<open>2 ^ 63 - 1\<close> is refused when the statement is bound
  (\<open>sql_u64\<close>). Timestamps are the argument \<open>now\<close> of the operation: one reading of the
  clock per transaction, taken to be below that bound. The counter of replicas is the number of
  locations as 32 bits. The \<open>state\<close> column of a workload is written as \<open>ACTIVE\<close> and
  never read, so the model leaves it out.
\<close>

subsection \<open>Rows and tables\<close>

record node_resources =
  nr_data_dir :: string
  nr_runtime :: runtime_descriptor
  nr_hardware :: hardware_descriptor
  nr_details :: json

record node_record =
  n_id :: string
  n_addr :: string
  n_boot_id :: string
  n_status :: string
  n_registered_ms :: u64
  n_last_heartbeat_ms :: u64
  n_resources :: node_resources

record reservation =
  rs_id :: string
  rs_kind :: string
  rs_workload_id :: "ident option"
  rs_checkpoint_id :: "ident option"
  rs_node :: string
  rs_state :: string
  rs_created_ms :: u64
  rs_expires_ms :: u64

record journal_row =
  j_kind :: string
  j_key :: string
  j_state :: string
  j_detail :: string
  j_ts_ms :: u64

record policy_row =
  pr_policy :: policy_set
  pr_active :: bool

record component_row =
  cm_checkpoint_id :: ident
  cm_entry :: component_entry

record store =
  st_coordinator_epoch :: "u64 option"
  st_policies :: "policy_row list"
  st_workloads :: "workload list"
  st_checkpoints :: "checkpoint_object list"
  st_components :: "component_row list"
  st_lineage :: "lineage_record list"
  st_attempts :: "attempt_record list"
  st_nodes :: "node_record list"
  st_reservations :: "reservation list"
  st_audit :: "audit_record list"
  st_journal :: "journal_row list"

type_synonym 'a tx = "store \<Rightarrow> fabric_error + ('a \<times> store)"
type_synonym 'a query = "store \<Rightarrow> 'a fabric_result"

definition empty_store :: store where
  "empty_store = \<lparr>st_coordinator_epoch = None, st_policies = [], st_workloads = [],
     st_checkpoints = [], st_components = [], st_lineage = [], st_attempts = [], st_nodes = [],
     st_reservations = [], st_audit = [], st_journal = []\<rparr>"

abbreviation sql_range :: fabric_error where
  "sql_range \<equiv> Sqlite ''out of range''"

abbreviation sql_unique :: fabric_error where
  "sql_unique \<equiv> Sqlite ''UNIQUE constraint failed''"

abbreviation sql_no_rows :: fabric_error where
  "sql_no_rows \<equiv> Sqlite ''Query returned no rows''"

subsection \<open>Coordinator epoch and policies\<close>

definition claim_coordinator_epoch :: "u64 option \<Rightarrow> u64 tx" where
  "claim_coordinator_epoch requested s =
     (let stored = (case st_coordinator_epoch s of None \<Rightarrow> 0 | Some e \<Rightarrow> e)
      in bind_r
        (case requested of
           Some v \<Rightarrow> if v > stored then Inr v
                     else Inl (StaleCoordinatorEpoch (sat_add stored 1) v)
         | None \<Rightarrow> Inr (sat_add stored 1))
        (\<lambda>epoch. Inr (epoch, s\<lparr>st_coordinator_epoch := Some epoch\<rparr>)))"

definition policy_insert :: "policy_set \<Rightarrow> bool \<Rightarrow> unit tx" where
  "policy_insert policy active s =
     (let row = \<lparr>pr_policy = policy, pr_active = active\<rparr>; key = (\<lambda>r. p_version (pr_policy r))
      in Inr ((), s\<lparr>st_policies :=
           (if p_version policy \<in> set (map key (st_policies s))
            then row_update key (p_version policy) (\<lambda>_. row) (st_policies s)
            else st_policies s @ [row])\<rparr>))"

definition policy_versions :: "u32 list query" where
  "policy_versions s = Inr (sort (map (\<lambda>r. p_version (pr_policy r)) (st_policies s)))"

text \<open>Loading parses each row with \<open>PolicySet::from_json\<close>, which refuses version 0.\<close>

definition policy_load_all :: "policy_set list query" where
  "policy_load_all s =
     bind_r (all_r (\<lambda>r. ensure (p_version (pr_policy r) \<noteq> 0)
                      (InvalidArgument ''policy version must be >= 1'')) (st_policies s))
       (\<lambda>_. Inr (sort_key p_version (map pr_policy (st_policies s))))"

subsection \<open>Workloads\<close>

definition workload_sql_ok :: "workload \<Rightarrow> bool" where
  "workload_sql_ok w \<longleftrightarrow> sql_u64 (w_workload_generation w) \<and> sql_u64 (w_created_ms w) \<and>
     sql_u64 (w_execution_epoch w) \<and> sql_u64 (w_checkpoint_generation w) \<and>
     sql_u64 (w_fork_generation w) \<and> sql_u64 (w_fence_epoch w)"

definition upd_workload :: "ident \<Rightarrow> (workload \<Rightarrow> workload) \<Rightarrow> store \<Rightarrow> store" where
  "upd_workload i f s = s\<lparr>st_workloads := row_update w_workload_id i f (st_workloads s)\<rparr>"

definition workload_row :: "ident \<Rightarrow> store \<Rightarrow> workload option" where
  "workload_row i s = row_get w_workload_id i (st_workloads s)"

definition lineage_row ::
  "store \<Rightarrow> lineage_relation \<Rightarrow> ident option \<Rightarrow> ident option \<Rightarrow> ident option \<Rightarrow> ident option
     \<Rightarrow> u64 \<Rightarrow> string \<Rightarrow> lineage_record" where
  "lineage_row s rel w c ow oc now detail =
     \<lparr>lr_seq = int (length (st_lineage s)) + 1, lr_relation = rel, lr_workload_id = w,
      lr_checkpoint_id = c, lr_other_workload = ow, lr_other_checkpoint = oc,
      lr_ts_ms = now, lr_detail = detail\<rparr>"

definition add_lineage ::
  "lineage_relation \<Rightarrow> ident option \<Rightarrow> ident option \<Rightarrow> ident option \<Rightarrow> ident option
     \<Rightarrow> u64 \<Rightarrow> string \<Rightarrow> store \<Rightarrow> store" where
  "add_lineage rel w c ow oc now detail s =
     s\<lparr>st_lineage := st_lineage s @ [lineage_row s rel w c ow oc now detail]\<rparr>"

definition insert_workload_row :: "workload \<Rightarrow> unit tx" where
  "insert_workload_row w s =
     (if \<not> workload_sql_ok w then Inl sql_range
      else case row_insert w_workload_id w (st_workloads s) of
        None \<Rightarrow> Inl sql_unique
      | Some rows \<Rightarrow> Inr ((), s\<lparr>st_workloads := rows\<rparr>))"

definition workload_insert :: "workload \<Rightarrow> unit tx" where
  "workload_insert w s = insert_workload_row w s"

definition workload_insert_fork :: "u64 \<Rightarrow> workload \<Rightarrow> ident \<Rightarrow> ident \<Rightarrow> string \<Rightarrow> unit tx" where
  "workload_insert_fork now child parent checkpoint detail s =
     bind_r (insert_workload_row child s) (\<lambda>(_, s').
       Inr ((), add_lineage ForkedFrom (Some (w_workload_id child)) None (Some parent)
                  (Some checkpoint) now detail s'))"

definition workload_get :: "ident \<Rightarrow> workload option query" where
  "workload_get i s = Inr (workload_row i s)"

definition workload_list :: "workload list query" where
  "workload_list s = Inr (sort_key w_created_ms (st_workloads s))"

definition workload_update :: "workload \<Rightarrow> unit tx" where
  "workload_update w s =
     (if \<not> (sql_u64 (w_workload_generation w) \<and> sql_u64 (w_execution_epoch w) \<and>
            sql_u64 (w_checkpoint_generation w) \<and> sql_u64 (w_fence_epoch w))
      then Inl sql_range
      else Inr ((), upd_workload (w_workload_id w) (\<lambda>r. r\<lparr>
        w_workload_generation := w_workload_generation w,
        w_execution_epoch := w_execution_epoch w,
        w_active_node := w_active_node w,
        w_checkpoint_generation := w_checkpoint_generation w,
        w_policy_version := w_policy_version w,
        w_resumability_class := w_resumability_class w,
        w_protection := w_protection w,
        w_single_active := w_single_active w,
        w_fence_token := w_fence_token w,
        w_fence_epoch := w_fence_epoch w\<rparr>) s))"

definition workload_bump_fence :: "ident \<Rightarrow> u64 \<Rightarrow> u64 tx" where
  "workload_bump_fence i expected_epoch s =
     bind_r (ok_or (WorkloadNotFound ''{id}'') (workload_row i s)) (\<lambda>w.
       let cur = w_execution_epoch w in
       if cur \<noteq> expected_epoch then Inl (StaleWorkloadEpoch expected_epoch cur)
       else let new_epoch = cur + 1 in
         if \<not> sql_u64 new_epoch then Inl sql_range
         else Inr (new_epoch, upd_workload i (\<lambda>r. r\<lparr>w_execution_epoch := new_epoch,
                w_fence_token := None, w_active_node := None\<rparr>) s))"

definition workload_claim :: "ident \<Rightarrow> string \<Rightarrow> string \<Rightarrow> u64 \<Rightarrow> unit tx" where
  "workload_claim i node token fence_epoch s =
     bind_r (ok_or (WorkloadNotFound ''{id}'') (workload_row i s)) (\<lambda>w.
       if w_single_active w \<and>
          (case w_active_node w of None \<Rightarrow> False | Some an \<Rightarrow> an \<noteq> node \<and> an \<noteq> ''MIGRATING'')
       then Inl (FencingFailure ''workload is single-active and already claimed by node {an}'')
       else if w_execution_epoch w \<noteq> fence_epoch
       then Inl (StaleWorkloadEpoch (w_execution_epoch w) fence_epoch)
       else Inr ((), upd_workload i (\<lambda>r. r\<lparr>w_active_node := Some node, w_fence_token := Some token,
              w_fence_epoch := w_execution_epoch w\<rparr>) s))"

definition workload_release :: "ident \<Rightarrow> string \<Rightarrow> unit tx" where
  "workload_release i node s =
     Inr ((), upd_workload i (\<lambda>r. if w_active_node r = Some node
       then r\<lparr>w_fence_token := None, w_active_node := None\<rparr> else r) s)"

definition workload_advance :: "ident \<Rightarrow> u64 \<Rightarrow> u64 \<Rightarrow> bool \<Rightarrow> unit tx" where
  "workload_advance i new_workload_generation checkpoint_generation bump_execution s =
     bind_r (ok_or (WorkloadNotFound ''{id}'') (workload_row i s)) (\<lambda>w.
       let new_gen = (if bump_execution then w_workload_generation w + 1 else new_workload_generation);
           new_epoch = (if bump_execution then w_execution_epoch w + 1 else w_execution_epoch w)
       in if new_gen \<le> w_workload_generation w \<and> bump_execution
          then Inl (GenerationMismatch ''workload generation must be monotonic: {} -> {new_gen}'')
          else if \<not> (sql_u64 new_gen \<and> sql_u64 checkpoint_generation \<and> sql_u64 new_epoch)
          then Inl sql_range
          else Inr ((), upd_workload i (\<lambda>r. r\<lparr>w_workload_generation := new_gen,
                 w_checkpoint_generation := checkpoint_generation,
                 w_execution_epoch := new_epoch\<rparr>) s))"

end
