(* ===== verification/StoreCheckpoints.thy ===== *)
theory StoreCheckpoints
  imports Store
begin

section \<open>Checkpoint rows and the two atomic commits (persistence.rs)\<close>

text \<open>
  A row of the checkpoint table is a \<open>checkpoint_object\<close> whose components and lineage
  lists are empty: the components live in their own table and the lineage lists are computed
  when a row is read. \<open>capture_commit\<close> and \<open>restore_commit\<close> are the two transactions
  that make a capture or a restore visible at once.
\<close>

subsection \<open>Rows\<close>

definition checkpoint_to_row :: "checkpoint_object \<Rightarrow> checkpoint_object" where
  "checkpoint_to_row c = c\<lparr>ck_components := [], ck_lineage_parents := [], ck_lineage_children := []\<rparr>"

fun opt_list :: "'a option \<Rightarrow> 'a list" where
  "opt_list None = []"
| "opt_list (Some x) = [x]"

definition row_to_checkpoint :: "checkpoint_object \<Rightarrow> checkpoint_object" where
  "row_to_checkpoint r = r\<lparr>
     ck_lineage_parents := opt_list (ck_parent_checkpoint r) @ opt_list (ck_supersedes r),
     ck_lineage_children := opt_list (ck_superseded_by r),
     ck_components := []\<rparr>"

definition checkpoint_sql_ok :: "checkpoint_object \<Rightarrow> bool" where
  "checkpoint_sql_ok c \<longleftrightarrow> sql_u64 (ck_workload_generation c) \<and> sql_u64 (ck_checkpoint_generation c) \<and>
     sql_u64 (ck_coordinator_epoch c) \<and> sql_u64 (ck_created_ms c) \<and> sql_u64 (ck_seal_ms c) \<and>
     sql_u64 (ck_total_logical_bytes c) \<and> sql_u64 (ck_total_physical_bytes c) \<and>
     sql_u64 (ck_compressed_bytes c) \<and> sql_u64 (ck_restore_count c)"

definition component_key :: "component_row \<Rightarrow> ident \<times> string" where
  "component_key r = (cm_checkpoint_id r, ce_component_id (cm_entry r))"

fun insert_components :: "ident \<Rightarrow> component_entry list \<Rightarrow> component_row list \<Rightarrow>
    component_row list fabric_result" where
  "insert_components i [] rows = Inr rows"
| "insert_components i (e # es) rows =
     (if \<not> (sql_u64 (ce_generation e) \<and> sql_u64 (ce_logical_size e)) then Inl sql_range
      else case row_insert component_key \<lparr>cm_checkpoint_id = i, cm_entry = e\<rparr> rows of
        None \<Rightarrow> Inl sql_unique
      | Some rows' \<Rightarrow> insert_components i es rows')"

definition generation_key :: "checkpoint_object \<Rightarrow> ident \<times> u64" where
  "generation_key c = (ck_workload_id c, ck_checkpoint_generation c)"

definition checkpoint_row :: "ident \<Rightarrow> store \<Rightarrow> checkpoint_object option" where
  "checkpoint_row i s = row_get ck_checkpoint_id i (st_checkpoints s)"

definition upd_checkpoint :: "ident \<Rightarrow> (checkpoint_object \<Rightarrow> checkpoint_object) \<Rightarrow> store \<Rightarrow> store" where
  "upd_checkpoint i f s = s\<lparr>st_checkpoints := row_update ck_checkpoint_id i f (st_checkpoints s)\<rparr>"

subsection \<open>Insertion and update\<close>

definition checkpoint_insert :: "checkpoint_object \<Rightarrow> unit tx" where
  "checkpoint_insert c s =
     (if \<not> checkpoint_sql_ok c \<or>
         ck_checkpoint_id c \<in> set (map ck_checkpoint_id (st_checkpoints s)) \<or>
         generation_key c \<in> set (map generation_key (st_checkpoints s))
      then Inl (PersistenceError ''checkpoint {} insertion conflict: {e}'')
      else bind_r (insert_components (ck_checkpoint_id c) (ck_components c) (st_components s)) (\<lambda>comps.
        Inr ((), s\<lparr>st_checkpoints := st_checkpoints s @ [checkpoint_to_row c],
                   st_components := comps\<rparr>)))"

text \<open>The \<open>UPDATE\<close> leaves the workload of the row alone and fails when the new generation
  collides with another row of that workload.\<close>

definition checkpoint_update :: "checkpoint_object \<Rightarrow> unit tx" where
  "checkpoint_update c s =
     (if \<not> checkpoint_sql_ok c then Inl sql_range
      else case checkpoint_row (ck_checkpoint_id c) s of
        None \<Rightarrow> Inl (CheckpointNotFound ''{id}'')
      | Some old \<Rightarrow>
          let new = (checkpoint_to_row c)\<lparr>ck_workload_id := ck_workload_id old\<rparr> in
          if list_ex (\<lambda>r. ck_checkpoint_id r \<noteq> ck_checkpoint_id c \<and> generation_key r = generation_key new)
               (st_checkpoints s)
          then Inl sql_unique
          else bind_r (insert_components (ck_checkpoint_id c) (ck_components c)
                 (filter (\<lambda>r. cm_checkpoint_id r \<noteq> ck_checkpoint_id c) (st_components s))) (\<lambda>comps.
            Inr ((), (upd_checkpoint (ck_checkpoint_id c) (\<lambda>_. new) s)\<lparr>st_components := comps\<rparr>)))"

definition checkpoint_set_lifecycle :: "ident \<Rightarrow> lifecycle_state \<Rightarrow> integrity_state \<Rightarrow> unit tx" where
  "checkpoint_set_lifecycle i lifecycle integrity s =
     (if checkpoint_row i s = None then Inl (CheckpointNotFound ''{id}'')
      else Inr ((), upd_checkpoint i (\<lambda>c. c\<lparr>ck_lifecycle := lifecycle, ck_integrity_state := integrity\<rparr>) s))"

subsection \<open>The capture commit\<close>

definition visible :: "checkpoint_object \<Rightarrow> bool" where
  "visible c \<longleftrightarrow> ck_lifecycle c \<in> {Available, Restored}"

text \<open>\<open>ORDER BY checkpoint_generation DESC LIMIT 1\<close> and \<open>ASC LIMIT 1\<close>.\<close>

definition latest_of :: "checkpoint_object list \<Rightarrow> ident option" where
  "latest_of cs = (if cs = [] then None
     else Some (ck_checkpoint_id (last (sort_key ck_checkpoint_generation cs))))"

definition earliest_of :: "checkpoint_object list \<Rightarrow> ident option" where
  "earliest_of cs = (if cs = [] then None
     else Some (ck_checkpoint_id (hd (sort_key ck_checkpoint_generation cs))))"

definition prev_visible :: "ident \<Rightarrow> u64 \<Rightarrow> store \<Rightarrow> ident option" where
  "prev_visible w gen s = latest_of (filter (\<lambda>c. ck_workload_id c = w \<and>
     ck_checkpoint_generation c < gen \<and> visible c) (st_checkpoints s))"

definition next_visible :: "ident \<Rightarrow> u64 \<Rightarrow> store \<Rightarrow> ident option" where
  "next_visible w gen s = earliest_of (filter (\<lambda>c. ck_workload_id c = w \<and>
     ck_checkpoint_generation c > gen \<and> visible c) (st_checkpoints s))"

definition journal_key :: "journal_row \<Rightarrow> string \<times> string \<times> string" where
  "journal_key r = (j_kind r, j_key r, j_state r)"

definition add_journal :: "string \<Rightarrow> string \<Rightarrow> string \<Rightarrow> string \<Rightarrow> u64 \<Rightarrow> store \<Rightarrow> store" where
  "add_journal kind key state detail now s =
     s\<lparr>st_journal := row_insert_ignore journal_key
         \<lparr>j_kind = kind, j_key = key, j_state = state, j_detail = detail, j_ts_ms = now\<rparr>
         (st_journal s)\<rparr>"

definition lineage_known :: "lineage_relation \<Rightarrow> ident \<Rightarrow> ident \<Rightarrow> store \<Rightarrow> bool" where
  "lineage_known rel c oc s \<longleftrightarrow> list_ex (\<lambda>r. lr_relation r = rel \<and> lr_checkpoint_id r = Some c \<and>
     lr_other_checkpoint r = Some oc) (st_lineage s)"

text \<open>The writes of the transaction, in their order, once its checks have passed.\<close>

definition upd_opt :: "ident option \<Rightarrow> (checkpoint_object \<Rightarrow> checkpoint_object) \<Rightarrow> store \<Rightarrow> store" where
  "upd_opt p f s = (case p of None \<Rightarrow> s | Some i \<Rightarrow> upd_checkpoint i f s)"

definition commit_links :: "ident \<Rightarrow> ident option \<Rightarrow> ident option \<Rightarrow> store \<Rightarrow> store" where
  "commit_links i prev next s =
     (let s1 = upd_checkpoint i (\<lambda>c. c\<lparr>ck_lifecycle := Available, ck_integrity_state := IValid,
                 ck_supersedes := prev, ck_superseded_by := next\<rparr>) s;
          s2 = upd_opt prev (\<lambda>c. c\<lparr>ck_superseded_by := Some i\<rparr>) s1
      in upd_opt next (\<lambda>c. c\<lparr>ck_supersedes := Some i\<rparr>) s2)"

definition commit_lineage :: "u64 \<Rightarrow> ident \<Rightarrow> ident \<Rightarrow> ident option \<Rightarrow> store \<Rightarrow> store" where
  "commit_lineage now w i prev s =
     (case prev of
        None \<Rightarrow> s
      | Some p \<Rightarrow> if lineage_known Supersedes i p s then s
                  else add_lineage Supersedes (Some w) (Some i) None (Some p) now
                         ''generation {checkpoint_generation} supersedes {p}'' s)"

definition commit_workload :: "checkpoint_object \<Rightarrow> workload \<Rightarrow> store \<Rightarrow> store" where
  "commit_workload c w s =
     (if ck_checkpoint_generation c \<ge> w_checkpoint_generation w
      then upd_workload (ck_workload_id c) (\<lambda>r. r\<lparr>w_checkpoint_generation := ck_checkpoint_generation c,
             w_resumability_class := ck_resumability c\<rparr>) s
      else s)"

definition commit_effect :: "u64 \<Rightarrow> ident \<Rightarrow> string \<Rightarrow> checkpoint_object \<Rightarrow> workload \<Rightarrow> store \<Rightarrow> store" where
  "commit_effect now i attempt_id c w s =
     (let prev = prev_visible (ck_workload_id c) (ck_checkpoint_generation c) s;
          next = next_visible (ck_workload_id c) (ck_checkpoint_generation c) s
      in add_journal ''capture'' attempt_id ''db_committed'' ''metadata committed atomically'' now
           (commit_workload c w
             (commit_lineage now (ck_workload_id c) i prev (commit_links i prev next s))))"

definition capture_commit :: "u64 \<Rightarrow> ident \<Rightarrow> string \<Rightarrow> unit tx" where
  "capture_commit now i attempt_id s =
     bind_r (ok_or (CheckpointNotFound ''{id}'') (checkpoint_row i s)) (\<lambda>c.
       if ck_lifecycle c \<noteq> Persisting \<and> ck_lifecycle c \<noteq> Available
       then Inl (InvalidLifecycleTransition (lifecycle_as_str (ck_lifecycle c)) (lifecycle_as_str Available))
       else if ck_durable_locations c = [] \<or>
               (case ck_manifest_digest c of None \<Rightarrow> True | Some d \<Rightarrow> d = [])
       then Inl (IncompleteCheckpoint
              ''persisted checkpoint {id} lacks a durable location or manifest anchor'')
       else bind_r (ok_or (WorkloadNotFound ''{workload_hex}'') (workload_row (ck_workload_id c) s)) (\<lambda>w.
         if ck_lifecycle c = Persisting \<and> w_workload_generation w \<noteq> ck_workload_generation c
         then Inl (GenerationMismatch
                ''capture generation {workload_generation} is stale; workload is generation {current_workload_generation}'')
         else Inr ((), commit_effect now i attempt_id c w s)))"

subsection \<open>The restore commit\<close>

definition restore_workload ::
  "checkpoint_object \<Rightarrow> u64 \<Rightarrow> u64 \<Rightarrow> string \<Rightarrow> string \<Rightarrow> store \<Rightarrow> store" where
  "restore_workload c new_generation new_epoch target_node fence_token s =
     upd_workload (ck_workload_id c) (\<lambda>r. r\<lparr>
       w_workload_generation := new_generation,
       w_checkpoint_generation := ck_checkpoint_generation c,
       w_execution_epoch := new_epoch,
       w_active_node := Some target_node,
       w_fence_token := Some fence_token,
       w_fence_epoch := new_epoch\<rparr>) s"

definition restore_checkpoint_row :: "ident \<Rightarrow> store \<Rightarrow> store" where
  "restore_checkpoint_row i s =
     upd_checkpoint i (\<lambda>r. r\<lparr>ck_lifecycle := Restored, ck_integrity_state := IValid,
       ck_restore_count := ck_restore_count r + 1, ck_last_restore_result := Some ''restored''\<rparr>) s"

definition restore_records ::
  "u64 \<Rightarrow> ident \<Rightarrow> string \<Rightarrow> checkpoint_object \<Rightarrow> bool \<Rightarrow> bool \<Rightarrow> store \<Rightarrow> store" where
  "restore_records now i attempt_id c migration rollback s =
     (let s1 = (if rollback
                then add_lineage RollbackOf (Some (ck_workload_id c)) (Some i) None None now
                       ''rollback: workload generation {generation} -> {new_generation} via checkpoint {checkpoint_generation}'' s
                else s)
      in if migration
         then add_journal ''migration'' attempt_id ''authority_transferred''
                ''authority transferred atomically'' now
                (add_lineage MigratedFrom (Some (ck_workload_id c)) (Some i) None None now
                   ''migrated to {target_node}'' s1)
         else s1)"

definition restore_commit ::
  "u64 \<Rightarrow> ident \<Rightarrow> string \<Rightarrow> string \<Rightarrow> string \<Rightarrow> bool \<Rightarrow> bool \<Rightarrow> unit tx" where
  "restore_commit now i attempt_id target_node fence_token migration rollback s =
     bind_r (ok_or (CheckpointNotFound ''{checkpoint_id}'') (checkpoint_row i s)) (\<lambda>c.
     bind_r (transition (ck_lifecycle c) Restored) (\<lambda>_.
     bind_r (ok_or (WorkloadNotFound ''{workload_hex}'') (workload_row (ck_workload_id c) s)) (\<lambda>w.
       let new_generation = sat_add (w_workload_generation w) 1;
           new_epoch = sat_add (sat_add (w_execution_epoch w) 1) (if migration then 1 else 0)
       in if \<not> (sql_u64 new_generation \<and> sql_u64 new_epoch) then Inl sql_range
          else Inr ((), add_journal ''restore'' attempt_id ''generation_committed''
                 ''generation committed atomically'' now
                 (restore_records now i attempt_id c migration rollback
                   (restore_checkpoint_row i
                     (restore_workload c new_generation new_epoch target_node fence_token s)))))))"

subsection \<open>Queries\<close>

definition checkpoint_max_generation :: "ident \<Rightarrow> u64 query" where
  "checkpoint_max_generation w s =
     Inr (fold max (map ck_checkpoint_generation
            (filter (\<lambda>c. ck_workload_id c = w) (st_checkpoints s))) 0)"

definition checkpoint_max_available :: "ident \<Rightarrow> ident option query" where
  "checkpoint_max_available w s =
     Inr (latest_of (filter (\<lambda>c. ck_workload_id c = w \<and> visible c) (st_checkpoints s)))"

definition checkpoint_components :: "store \<Rightarrow> ident \<Rightarrow> component_entry list" where
  "checkpoint_components s i =
     sort_key ce_component_id (map cm_entry (filter (\<lambda>r. cm_checkpoint_id r = i) (st_components s)))"

definition load_checkpoint :: "store \<Rightarrow> checkpoint_object \<Rightarrow> checkpoint_object" where
  "load_checkpoint s r =
     (row_to_checkpoint r)\<lparr>ck_components := checkpoint_components s (ck_checkpoint_id r)\<rparr>"

definition checkpoint_get :: "ident \<Rightarrow> checkpoint_object option query" where
  "checkpoint_get i s = Inr (map_option (load_checkpoint s) (checkpoint_row i s))"

definition checkpoint_list :: "ident option \<Rightarrow> checkpoint_object list query" where
  "checkpoint_list workload_id s =
     Inr (map (load_checkpoint s)
       (case workload_id of
          None \<Rightarrow> sort_key ck_created_ms (st_checkpoints s)
        | Some w \<Rightarrow> sort_key ck_checkpoint_generation
                     (filter (\<lambda>c. ck_workload_id c = w) (st_checkpoints s))))"

subsection \<open>Single-column updates\<close>

definition checkpoint_set_superseded :: "ident \<Rightarrow> ident option \<Rightarrow> unit tx" where
  "checkpoint_set_superseded i superseded_by s =
     Inr ((), upd_checkpoint i (\<lambda>c. c\<lparr>ck_superseded_by := superseded_by\<rparr>) s)"

definition checkpoint_set_supersedes :: "ident \<Rightarrow> ident option \<Rightarrow> unit tx" where
  "checkpoint_set_supersedes i supersedes s =
     Inr ((), upd_checkpoint i (\<lambda>c. c\<lparr>ck_supersedes := supersedes\<rparr>) s)"

definition checkpoint_set_digest :: "ident \<Rightarrow> string \<Rightarrow> string \<Rightarrow> unit tx" where
  "checkpoint_set_digest i digest manifest_json s =
     Inr ((), upd_checkpoint i (\<lambda>c. c\<lparr>ck_manifest_digest := Some digest,
                ck_manifest_json := Some manifest_json\<rparr>) s)"

definition checkpoint_record_restore :: "ident \<Rightarrow> string \<Rightarrow> unit tx" where
  "checkpoint_record_restore i result s =
     Inr ((), upd_checkpoint i (\<lambda>c. c\<lparr>ck_restore_count := ck_restore_count c + 1,
                ck_last_restore_result := Some result\<rparr>) s)"

definition checkpoint_set_protection :: "ident \<Rightarrow> protection_state \<Rightarrow> unit tx" where
  "checkpoint_set_protection i p s =
     Inr ((), upd_checkpoint i (\<lambda>c. c\<lparr>ck_protection := p,
                ck_retirement_eligibility := REProtected\<rparr>) s)"

definition checkpoint_retire :: "ident \<Rightarrow> unit tx" where
  "checkpoint_retire i s =
     bind_r (ok_or (CheckpointNotFound ''{id}'') (checkpoint_row i s)) (\<lambda>c.
       if ck_protection c = PPinned then Inl (PolicyViolation ''pinned checkpoint cannot be retired'')
       else bind_r (transition (ck_lifecycle c) Retired) (\<lambda>_.
         Inr ((), upd_checkpoint i (\<lambda>r. r\<lparr>ck_lifecycle := Retired,
                ck_retirement_eligibility := NotEligible, ck_durable_locations := [],
                ck_replica_count := 0\<rparr>) s)))"

definition checkpoint_set_integrity :: "ident \<Rightarrow> integrity_state \<Rightarrow> unit tx" where
  "checkpoint_set_integrity i state s =
     Inr ((), upd_checkpoint i (\<lambda>c. c\<lparr>ck_integrity_state := state\<rparr>) s)"

subsection \<open>Locations\<close>

definition set_locations :: "ident \<Rightarrow> durable_location list \<Rightarrow> store \<Rightarrow> store" where
  "set_locations i ls s = upd_checkpoint i (\<lambda>r. r\<lparr>ck_durable_locations := ls,
     ck_replica_count := of_nat (length ls)\<rparr>) s"

definition checkpoint_add_location :: "ident \<Rightarrow> durable_location \<Rightarrow> unit tx" where
  "checkpoint_add_location i location s =
     bind_r (ok_or sql_no_rows (checkpoint_row i s)) (\<lambda>c.
       let ls = ck_durable_locations c;
           ls' = (if list_ex (\<lambda>l. dl_node l = dl_node location) ls then ls else ls @ [location])
       in Inr ((), set_locations i ls' s))"

definition checkpoint_remove_location :: "ident \<Rightarrow> string \<Rightarrow> unit tx" where
  "checkpoint_remove_location i node s =
     bind_r (ok_or sql_no_rows (checkpoint_row i s)) (\<lambda>c.
       Inr ((), set_locations i (filter (\<lambda>l. dl_node l \<noteq> node) (ck_durable_locations c)) s))"

text \<open>
  Paths are compared by component, as \<open>std::path::Path\<close> does on Unix: repeated separators
  and inner or trailing \<open>.\<close> components do not count, a leading \<open>.\<close> of a relative path does.
\<close>

fun split_slash :: "string \<Rightarrow> string \<Rightarrow> string list" where
  "split_slash acc [] = [rev acc]"
| "split_slash acc (c # cs) =
     (if c = CHR ''/'' then rev acc # split_slash [] cs else split_slash (c # acc) cs)"

definition path_components :: "string \<Rightarrow> string list" where
  "path_components p =
     (let parts = split_slash [] p
      in (if parts \<noteq> [] \<and> hd parts = [] \<and> p \<noteq> [] then [''/''] else
          if parts \<noteq> [] \<and> hd parts = ''.'' then [''.''] else [])
         @ filter (\<lambda>c. c \<noteq> [] \<and> c \<noteq> ''.'') parts)"

definition path_eq :: "string \<Rightarrow> string \<Rightarrow> bool" where
  "path_eq p q \<longleftrightarrow> path_components p = path_components q"

definition path_join :: "string \<Rightarrow> string \<Rightarrow> string" where
  "path_join p q =
     (if (q \<noteq> [] \<and> hd q = CHR ''/'') \<or> p = [] then q
      else if last p = CHR ''/'' then p @ q else p @ ''/'' @ q)"

definition commit_dir :: "(bytes \<Rightarrow> string) \<Rightarrow> string \<Rightarrow> ident \<Rightarrow> string" where
  "commit_dir hex_encode data_dir i = path_join (path_join data_dir ''checkpoints'') (to_hex hex_encode i)"

definition checkpoint_rebind_location ::
  "(bytes \<Rightarrow> string) \<Rightarrow> ident \<Rightarrow> string \<Rightarrow> string \<Rightarrow> unit tx" where
  "checkpoint_rebind_location hex_encode i node data_dir s =
     (case checkpoint_row i s of
        None \<Rightarrow> Inr ((), s)
      | Some c \<Rightarrow>
          let commit = commit_dir hex_encode data_dir i;
              ls = ck_durable_locations c;
              verified = list_ex (\<lambda>l. (path_eq (dl_path l) commit \<or> dl_node l = node) \<and> dl_verified l) ls;
              ls' = filter (\<lambda>l. \<not> path_eq (dl_path l) commit \<and> dl_node l \<noteq> node) ls
                    @ [\<lparr>dl_node = node, dl_path = commit, dl_verified = verified\<rparr>]
          in Inr ((), set_locations i ls' s))"

end
