(* ===== verification/StoreTables.thy ===== *)
theory StoreTables
  imports StoreCheckpoints
begin

section \<open>Lineage, attempts, nodes, reservations, audit and journal (persistence.rs)\<close>

text \<open>The tables around checkpoints and workloads, with the partial unique indexes on active
  reservations written out: two active capture reservations never name one workload and two
  active restore reservations never name one checkpoint (a \<open>NULL\<close> scope never conflicts).\<close>

subsection \<open>Lineage\<close>

definition lineage_append ::
  "u64 \<Rightarrow> lineage_relation \<Rightarrow> ident option \<Rightarrow> ident option \<Rightarrow> ident option \<Rightarrow> ident option \<Rightarrow> string
     \<Rightarrow> unit tx" where
  "lineage_append now rel w c ow oc detail s = Inr ((), add_lineage rel w c ow oc now detail s)"

definition lineage_query :: "ident option \<Rightarrow> ident option \<Rightarrow> lineage_record list query" where
  "lineage_query workload_id checkpoint_id s =
     Inr (case (workload_id, checkpoint_id) of
        (Some w, None) \<Rightarrow> filter (\<lambda>r. lr_workload_id r = Some w \<or> lr_other_workload r = Some w) (st_lineage s)
      | (None, Some c) \<Rightarrow> filter (\<lambda>r. lr_checkpoint_id r = Some c \<or> lr_other_checkpoint r = Some c) (st_lineage s)
      | _ \<Rightarrow> st_lineage s)"

subsection \<open>Attempts\<close>

definition attempt_begin ::
  "u64 \<Rightarrow> string \<Rightarrow> string \<Rightarrow> ident option \<Rightarrow> ident option \<Rightarrow> string \<Rightarrow> unit tx" where
  "attempt_begin now i kind checkpoint_id workload_id node s =
     Inr ((), s\<lparr>st_attempts := row_insert_ignore at_id
       \<lparr>at_id = i, at_kind = kind, at_checkpoint_id = checkpoint_id, at_workload_id = workload_id,
        at_node = node, at_state = ''ACTIVE'', at_started_ms = now, at_finished_ms = None,
        at_result = None, at_error = None\<rparr> (st_attempts s)\<rparr>)"

definition attempt_finish ::
  "u64 \<Rightarrow> string \<Rightarrow> string \<Rightarrow> string option \<Rightarrow> string option \<Rightarrow> unit tx" where
  "attempt_finish now i state result error s =
     Inr ((), s\<lparr>st_attempts := row_update at_id i (\<lambda>a. a\<lparr>at_state := state, at_result := result,
        at_error := error, at_finished_ms := Some now\<rparr>) (st_attempts s)\<rparr>)"

definition attempt_get :: "string \<Rightarrow> attempt_record option query" where
  "attempt_get i s = Inr (row_get at_id i (st_attempts s))"

definition attempts_in_state :: "string \<Rightarrow> attempt_record list query" where
  "attempts_in_state state s =
     Inr (sort_key at_started_ms (filter (\<lambda>a. at_state a = state) (st_attempts s)))"

subsection \<open>Nodes\<close>

definition node_row :: "string \<Rightarrow> store \<Rightarrow> node_record option" where
  "node_row i s = row_get n_id i (st_nodes s)"

definition upd_node :: "string \<Rightarrow> (node_record \<Rightarrow> node_record) \<Rightarrow> store \<Rightarrow> store" where
  "upd_node i f s = s\<lparr>st_nodes := row_update n_id i f (st_nodes s)\<rparr>"

definition node_register :: "u64 \<Rightarrow> string \<Rightarrow> string \<Rightarrow> string \<Rightarrow> node_resources \<Rightarrow> unit tx" where
  "node_register now i addr boot_id resources s =
     (case node_row i s of
        None \<Rightarrow> Inr ((), s\<lparr>st_nodes := st_nodes s @
          [\<lparr>n_id = i, n_addr = addr, n_boot_id = boot_id, n_status = ''ACTIVE'',
            n_registered_ms = now, n_last_heartbeat_ms = now, n_resources = resources\<rparr>]\<rparr>)
      | Some n \<Rightarrow>
          if n_boot_id n \<noteq> boot_id
          then if n_status n = ''STALE'' \<or> n_status n = ''RETIRED''
               then Inr ((), upd_node i (\<lambda>r. r\<lparr>n_boot_id := boot_id, n_addr := addr,
                      n_status := ''ACTIVE'', n_registered_ms := now, n_last_heartbeat_ms := now,
                      n_resources := resources\<rparr>) s)
               else Inl (FencingFailure ''node {id} is already registered with a different boot id'')
          else Inr ((), upd_node i (\<lambda>r. r\<lparr>n_addr := addr, n_boot_id := boot_id,
                 n_status := ''ACTIVE'', n_last_heartbeat_ms := now, n_resources := resources\<rparr>) s))"

definition node_heartbeat :: "u64 \<Rightarrow> string \<Rightarrow> node_resources \<Rightarrow> unit tx" where
  "node_heartbeat now i resources s =
     (if node_row i s = None then Inl (Internal ''heartbeat for unknown node {id}'')
      else Inr ((), upd_node i (\<lambda>r. r\<lparr>n_last_heartbeat_ms := now, n_status := ''ACTIVE'',
             n_resources := resources\<rparr>) s))"

definition node_set_status :: "string \<Rightarrow> string \<Rightarrow> unit tx" where
  "node_set_status i status s = Inr ((), upd_node i (\<lambda>r. r\<lparr>n_status := status\<rparr>) s)"

definition node_list :: "node_record list query" where
  "node_list s = Inr (sort_key n_id (st_nodes s))"

definition node_validate_identity :: "string \<Rightarrow> string \<Rightarrow> unit query" where
  "node_validate_identity i boot_id s =
     (case node_row i s of
        Some n \<Rightarrow>
          if n_boot_id n = boot_id \<and> n_status n = ''ACTIVE'' then Inr ()
          else Inl (FencingFailure ''node {id} boot identity is stale or status is {status}'')
      | None \<Rightarrow> Inl (FencingFailure ''node {id} is not registered''))"

text \<open>The bound is compared after the cast to a signed value the source has.\<close>

definition nodes_sweep_stale :: "u64 \<Rightarrow> string list tx" where
  "nodes_sweep_stale stale_before_ms s =
     (let is_stale = (\<lambda>n. n_status n = ''ACTIVE'' \<and> sint (n_last_heartbeat_ms n) < sint stale_before_ms);
          stale = map n_id (filter is_stale (st_nodes s))
      in Inr (stale, s\<lparr>st_nodes := map (\<lambda>n. if n_id n \<in> set stale \<and> n_status n = ''ACTIVE''
           then n\<lparr>n_status := ''STALE''\<rparr> else n) (st_nodes s)\<rparr>))"

definition node_delete :: "string \<Rightarrow> unit tx" where
  "node_delete i s = Inr ((), s\<lparr>st_nodes := filter (\<lambda>n. n_id n \<noteq> i) (st_nodes s)\<rparr>)"

subsection \<open>Reservations\<close>

definition active_scope :: "reservation \<Rightarrow> (string \<times> ident) option" where
  "active_scope r =
     (if rs_state r \<noteq> ''ACTIVE'' then None
      else if rs_kind r = ''capture'' then map_option (Pair ''capture'') (rs_workload_id r)
      else if rs_kind r = ''restore'' then map_option (Pair ''restore'') (rs_checkpoint_id r)
      else None)"

definition reservation_create ::
  "u64 \<Rightarrow> string \<Rightarrow> string \<Rightarrow> ident option \<Rightarrow> ident option \<Rightarrow> string \<Rightarrow> u64 \<Rightarrow> unit tx" where
  "reservation_create now i kind workload_id checkpoint_id node ttl_ms s =
     (let r = \<lparr>rs_id = i, rs_kind = kind, rs_workload_id = workload_id,
               rs_checkpoint_id = checkpoint_id, rs_node = node, rs_state = ''ACTIVE'',
               rs_created_ms = now, rs_expires_ms = now + ttl_ms\<rparr>
      in if \<not> sql_u64 (now + ttl_ms) then Inl sql_range
         else if i \<in> set (map rs_id (st_reservations s)) \<or>
                 (active_scope r \<noteq> None \<and> active_scope r \<in> set (map active_scope (st_reservations s)))
         then Inl (ReservationConflict ''an active {kind} reservation already exists for this scope'')
         else Inr ((), s\<lparr>st_reservations := st_reservations s @ [r]\<rparr>))"

definition reservation_release :: "string \<Rightarrow> unit tx" where
  "reservation_release i s =
     Inr ((), s\<lparr>st_reservations := row_update rs_id i (\<lambda>r. if rs_state r = ''ACTIVE''
        then r\<lparr>rs_state := ''RELEASED''\<rparr> else r) (st_reservations s)\<rparr>)"

definition reservation_active_for ::
  "string \<Rightarrow> ident option \<Rightarrow> ident option \<Rightarrow> string option query" where
  "reservation_active_for kind workload_id checkpoint_id s =
     Inr (map_option rs_id (find (\<lambda>r. rs_kind r = kind \<and> rs_state r = ''ACTIVE'' \<and>
        (workload_id = None \<or> rs_workload_id r = workload_id) \<and>
        (checkpoint_id = None \<or> rs_checkpoint_id r = checkpoint_id)) (st_reservations s)))"

definition reservations_expire :: "u64 \<Rightarrow> u64 tx" where
  "reservations_expire before_ms s =
     (let due = (\<lambda>r. rs_state r = ''ACTIVE'' \<and> sint (rs_expires_ms r) < sint before_ms)
      in Inr (of_nat (length (filter due (st_reservations s))),
           s\<lparr>st_reservations := map (\<lambda>r. if due r then r\<lparr>rs_state := ''EXPIRED''\<rparr> else r)
               (st_reservations s)\<rparr>))"

subsection \<open>Audit and journal\<close>

definition audit_append ::
  "u64 \<Rightarrow> string \<Rightarrow> string \<Rightarrow> ident option \<Rightarrow> ident option \<Rightarrow> audit_result \<Rightarrow> string \<Rightarrow> unit tx" where
  "audit_append now actor op workload_id checkpoint_id result detail s =
     Inr ((), s\<lparr>st_audit := st_audit s @
       [\<lparr>ar_seq = int (length (st_audit s)) + 1, ar_ts_ms = now, ar_actor = actor, ar_op = op,
         ar_workload_id = workload_id, ar_checkpoint_id = checkpoint_id, ar_result = result,
         ar_detail = detail\<rparr>]\<rparr>)"

definition audit_query :: "u64 option \<Rightarrow> nat \<Rightarrow> audit_record list query" where
  "audit_query since_ms limit s =
     Inr (take (max limit 1) (rev (filter (\<lambda>r. case since_ms of None \<Rightarrow> True
        | Some t \<Rightarrow> sint (ar_ts_ms r) \<ge> sint t) (st_audit s))))"

definition journal_append :: "u64 \<Rightarrow> string \<Rightarrow> string \<Rightarrow> string \<Rightarrow> string \<Rightarrow> unit tx" where
  "journal_append now kind key state detail s = Inr ((), add_journal kind key state detail now s)"

definition journal_mem :: "string \<Rightarrow> string \<Rightarrow> string \<Rightarrow> store \<Rightarrow> bool" where
  "journal_mem kind key state s \<longleftrightarrow> (kind, key, state) \<in> set (map journal_key (st_journal s))"

definition journal_has :: "string \<Rightarrow> string \<Rightarrow> string \<Rightarrow> bool query" where
  "journal_has kind key state s = Inr (journal_mem kind key state s)"

definition journal_states :: "string \<Rightarrow> string \<Rightarrow> (string \<times> string \<times> u64) list query" where
  "journal_states kind key s =
     Inr (map (\<lambda>r. (j_state r, j_detail r, j_ts_ms r))
       (filter (\<lambda>r. j_kind r = kind \<and> j_key r = key) (st_journal s)))"

subsection \<open>Statistics\<close>

record stats =
  stat_workloads :: u64
  stat_checkpoints :: u64
  stat_available :: u64
  stat_failed :: u64
  stat_retired :: u64
  stat_active_nodes :: u64
  stat_stale_nodes :: u64
  stat_active_attempts :: u64
  stat_audit_records :: u64
  stat_total_logical_bytes :: u64
  stat_total_physical_bytes :: u64

definition count_rows :: "('r \<Rightarrow> bool) \<Rightarrow> 'r list \<Rightarrow> u64" where
  "count_rows P rs = of_nat (length (filter P rs))"

definition sum_rows :: "('r \<Rightarrow> u64) \<Rightarrow> 'r list \<Rightarrow> int" where
  "sum_rows f rs = sum_list (map (\<lambda>r. uint (f r)) rs)"

text \<open>\<open>SUM\<close> over integers fails with an overflow error beyond the signed 64-bit range.\<close>

definition store_stats :: "stats query" where
  "store_stats s =
     (let logical = sum_rows ck_total_logical_bytes (st_checkpoints s);
          physical = sum_rows ck_total_physical_bytes (st_checkpoints s)
      in if logical \<ge> 2 ^ 63 \<or> physical \<ge> 2 ^ 63 then Inl (Sqlite ''integer overflow'')
         else Inr \<lparr>
           stat_workloads = count_rows (\<lambda>_. True) (st_workloads s),
           stat_checkpoints = count_rows (\<lambda>_. True) (st_checkpoints s),
           stat_available = count_rows visible (st_checkpoints s),
           stat_failed = count_rows (\<lambda>c. ck_lifecycle c = Failed) (st_checkpoints s),
           stat_retired = count_rows (\<lambda>c. ck_lifecycle c = Retired) (st_checkpoints s),
           stat_active_nodes = count_rows (\<lambda>n. n_status n = ''ACTIVE'') (st_nodes s),
           stat_stale_nodes = count_rows (\<lambda>n. n_status n = ''STALE'') (st_nodes s),
           stat_active_attempts = count_rows (\<lambda>a. at_state a = ''ACTIVE'') (st_attempts s),
           stat_audit_records = count_rows (\<lambda>_. True) (st_audit s),
           stat_total_logical_bytes = of_int logical,
           stat_total_physical_bytes = of_int physical\<rparr>)"

end
