(* ===== verification/StoreInv.thy ===== *)
theory StoreInv
  imports StoreTables
begin

section \<open>The schema invariant and the growth of the store\<close>

text \<open>
  \<open>store_ok\<close> is what the schema promises: primary keys, the unique generation of a
  checkpoint within its workload, the partial unique indexes on active reservations, the
  unique journal entries, and counters within the signed range. \<open>store_le\<close> is how the
  store may evolve under a running coordinator: the audit log, the lineage and the journal only
  grow, workloads and checkpoints never disappear, and the coordinator epoch, the workload
  generation and the execution epoch never decrease.
\<close>

named_theorems keeps "transactions that keep the schema invariant"
named_theorems grows "transactions under which the store only grows"

definition scopes :: "reservation list \<Rightarrow> (string \<times> ident) option list" where
  "scopes rs = filter (\<lambda>x. x \<noteq> None) (map active_scope rs)"

text \<open>Every component row belongs to a checkpoint.\<close>

definition components_owned :: "component_row list \<Rightarrow> ident list \<Rightarrow> bool" where
  "components_owned rs ids \<longleftrightarrow> (\<forall>r \<in> set rs. cm_checkpoint_id r \<in> set ids)"

definition store_ok :: "store \<Rightarrow> bool" where
  "store_ok s \<longleftrightarrow>
     distinct (map w_workload_id (st_workloads s)) \<and>
     distinct (map ck_checkpoint_id (st_checkpoints s)) \<and>
     distinct (map generation_key (st_checkpoints s)) \<and>
     distinct (map component_key (st_components s)) \<and>
     components_owned (st_components s) (map ck_checkpoint_id (st_checkpoints s)) \<and>
     distinct (map at_id (st_attempts s)) \<and>
     distinct (map n_id (st_nodes s)) \<and>
     distinct (map rs_id (st_reservations s)) \<and>
     distinct (scopes (st_reservations s)) \<and>
     distinct (map journal_key (st_journal s)) \<and>
     (\<forall>w \<in> set (st_workloads s). workload_sql_ok w) \<and>
     (\<forall>c \<in> set (st_checkpoints s).
        sql_u64 (ck_workload_generation c) \<and> sql_u64 (ck_checkpoint_generation c) \<and>
        checkpoint_to_row c = c)"

definition workload_le :: "workload \<Rightarrow> workload \<Rightarrow> bool" where
  "workload_le w w' \<longleftrightarrow> w_workload_id w' = w_workload_id w \<and> w_owner w' = w_owner w \<and>
     w_created_ms w' = w_created_ms w \<and> w_single_active w' = w_single_active w \<and>
     w_workload_generation w \<le> w_workload_generation w' \<and>
     w_execution_epoch w \<le> w_execution_epoch w'"

definition rows_le :: "('r \<Rightarrow> 'r \<Rightarrow> bool) \<Rightarrow> 'r list \<Rightarrow> 'r list \<Rightarrow> bool" where
  "rows_le P rs rs' \<longleftrightarrow> (\<forall>r \<in> set rs. \<exists>r' \<in> set rs'. P r r')"

definition same_checkpoint :: "checkpoint_object \<Rightarrow> checkpoint_object \<Rightarrow> bool" where
  "same_checkpoint c c' \<longleftrightarrow> ck_checkpoint_id c' = ck_checkpoint_id c \<and> ck_workload_id c' = ck_workload_id c"

definition epoch_le :: "u64 option \<Rightarrow> u64 option \<Rightarrow> bool" where
  "epoch_le e e' \<longleftrightarrow> (\<forall>v. e = Some v \<longrightarrow> (\<exists>v'. e' = Some v' \<and> v \<le> v'))"

definition store_le :: "store \<Rightarrow> store \<Rightarrow> bool" where
  "store_le s s' \<longleftrightarrow>
     prefix (st_audit s) (st_audit s') \<and> prefix (st_lineage s) (st_lineage s') \<and>
     prefix (st_journal s) (st_journal s') \<and>
     epoch_le (st_coordinator_epoch s) (st_coordinator_epoch s') \<and>
     rows_le workload_le (st_workloads s) (st_workloads s') \<and>
     rows_le same_checkpoint (st_checkpoints s) (st_checkpoints s')"

definition tx_keeps :: "(store \<Rightarrow> bool) \<Rightarrow> (store \<Rightarrow> store \<Rightarrow> bool) \<Rightarrow> 'a tx \<Rightarrow> bool" where
  "tx_keeps I R m \<longleftrightarrow> (\<forall>s x s'. I s \<longrightarrow> m s = Inr (x, s') \<longrightarrow> I s' \<and> R s s')"

abbreviation tx_ok :: "'a tx \<Rightarrow> bool" where
  "tx_ok \<equiv> tx_keeps store_ok (\<lambda>_ _. True)"

abbreviation tx_grows :: "'a tx \<Rightarrow> bool" where
  "tx_grows \<equiv> tx_keeps store_ok store_le"

lemma tx_keepsI: "(\<And>s x s'. I s \<Longrightarrow> m s = Inr (x, s') \<Longrightarrow> I s' \<and> R s s') \<Longrightarrow> tx_keeps I R m"
  by (auto simp: tx_keeps_def)

lemma tx_growsI:
  "tx_ok m \<Longrightarrow> (\<And>s x s'. store_ok s \<Longrightarrow> m s = Inr (x, s') \<Longrightarrow> store_le s s') \<Longrightarrow> tx_grows m"
  by (auto simp: tx_keeps_def)

subsection \<open>Order laws\<close>

lemma workload_le_refl [simp]: "workload_le w w"
  by (simp add: workload_le_def)

lemma workload_le_trans: "workload_le u v \<Longrightarrow> workload_le v w \<Longrightarrow> workload_le u w"
  by (auto simp: workload_le_def)

lemma rows_le_refl [simp]: "(\<And>r. P r r) \<Longrightarrow> rows_le P rs rs"
  by (auto simp: rows_le_def)

lemma rows_le_trans:
  assumes "rows_le P rs ts" "rows_le P ts us" "\<And>a b c. P a b \<Longrightarrow> P b c \<Longrightarrow> P a c"
  shows "rows_le P rs us"
  using assms unfolding rows_le_def by meson

lemma rows_le_append [simp]: "(\<And>r. P r r) \<Longrightarrow> rows_le P rs (rs @ ts)"
  by (auto simp: rows_le_def)

lemma rows_le_update:
  assumes "\<And>x. x \<in> set rs \<Longrightarrow> key x = k \<Longrightarrow> P x (f x)" and "\<And>x. P x x"
  shows "rows_le P rs (row_update key k f rs)"
  unfolding rows_le_def using assms by (rule row_update_related)

lemma same_checkpoint_refl [simp]: "same_checkpoint c c"
  by (simp add: same_checkpoint_def)

lemma same_checkpoint_trans: "same_checkpoint a b \<Longrightarrow> same_checkpoint b c \<Longrightarrow> same_checkpoint a c"
  by (simp add: same_checkpoint_def)

lemma epoch_le_refl [simp]: "epoch_le e e"
  by (simp add: epoch_le_def)

lemma epoch_le_trans: "epoch_le a b \<Longrightarrow> epoch_le b c \<Longrightarrow> epoch_le a c"
  by (fastforce simp: epoch_le_def)

lemma store_le_refl [simp]: "store_le s s"
  by (simp add: store_le_def)

lemma store_le_trans: "store_le s t \<Longrightarrow> store_le t u \<Longrightarrow> store_le s u"
  unfolding store_le_def
  by (meson prefix_order.trans epoch_le_trans rows_le_trans workload_le_trans same_checkpoint_trans)

subsection \<open>Effect of the row updates\<close>

lemma upd_workload_sel [simp]:
  "st_coordinator_epoch (upd_workload i f s) = st_coordinator_epoch s"
  "st_policies (upd_workload i f s) = st_policies s"
  "st_workloads (upd_workload i f s) = row_update w_workload_id i f (st_workloads s)"
  "st_checkpoints (upd_workload i f s) = st_checkpoints s"
  "st_components (upd_workload i f s) = st_components s"
  "st_lineage (upd_workload i f s) = st_lineage s"
  "st_attempts (upd_workload i f s) = st_attempts s"
  "st_nodes (upd_workload i f s) = st_nodes s"
  "st_reservations (upd_workload i f s) = st_reservations s"
  "st_audit (upd_workload i f s) = st_audit s"
  "st_journal (upd_workload i f s) = st_journal s"
  by (simp_all add: upd_workload_def)

lemma upd_checkpoint_sel [simp]:
  "st_coordinator_epoch (upd_checkpoint i g s) = st_coordinator_epoch s"
  "st_policies (upd_checkpoint i g s) = st_policies s"
  "st_workloads (upd_checkpoint i g s) = st_workloads s"
  "st_checkpoints (upd_checkpoint i g s) = row_update ck_checkpoint_id i g (st_checkpoints s)"
  "st_components (upd_checkpoint i g s) = st_components s"
  "st_lineage (upd_checkpoint i g s) = st_lineage s"
  "st_attempts (upd_checkpoint i g s) = st_attempts s"
  "st_nodes (upd_checkpoint i g s) = st_nodes s"
  "st_reservations (upd_checkpoint i g s) = st_reservations s"
  "st_audit (upd_checkpoint i g s) = st_audit s"
  "st_journal (upd_checkpoint i g s) = st_journal s"
  by (simp_all add: upd_checkpoint_def)

lemma upd_node_sel [simp]:
  "st_coordinator_epoch (upd_node i h s) = st_coordinator_epoch s"
  "st_workloads (upd_node i h s) = st_workloads s"
  "st_checkpoints (upd_node i h s) = st_checkpoints s"
  "st_components (upd_node i h s) = st_components s"
  "st_lineage (upd_node i h s) = st_lineage s"
  "st_attempts (upd_node i h s) = st_attempts s"
  "st_nodes (upd_node i h s) = row_update n_id i h (st_nodes s)"
  "st_reservations (upd_node i h s) = st_reservations s"
  "st_audit (upd_node i h s) = st_audit s"
  "st_journal (upd_node i h s) = st_journal s"
  by (simp_all add: upd_node_def)

lemma add_journal_sel [simp]:
  "st_coordinator_epoch (add_journal k a b d t s) = st_coordinator_epoch s"
  "st_policies (add_journal k a b d t s) = st_policies s"
  "st_workloads (add_journal k a b d t s) = st_workloads s"
  "st_checkpoints (add_journal k a b d t s) = st_checkpoints s"
  "st_components (add_journal k a b d t s) = st_components s"
  "st_lineage (add_journal k a b d t s) = st_lineage s"
  "st_attempts (add_journal k a b d t s) = st_attempts s"
  "st_nodes (add_journal k a b d t s) = st_nodes s"
  "st_reservations (add_journal k a b d t s) = st_reservations s"
  "st_audit (add_journal k a b d t s) = st_audit s"
  by (simp_all add: add_journal_def)

lemma add_lineage_sel [simp]:
  "st_coordinator_epoch (add_lineage r a b c d t e s) = st_coordinator_epoch s"
  "st_policies (add_lineage r a b c d t e s) = st_policies s"
  "st_workloads (add_lineage r a b c d t e s) = st_workloads s"
  "st_checkpoints (add_lineage r a b c d t e s) = st_checkpoints s"
  "st_components (add_lineage r a b c d t e s) = st_components s"
  "st_attempts (add_lineage r a b c d t e s) = st_attempts s"
  "st_nodes (add_lineage r a b c d t e s) = st_nodes s"
  "st_reservations (add_lineage r a b c d t e s) = st_reservations s"
  "st_audit (add_lineage r a b c d t e s) = st_audit s"
  "st_journal (add_lineage r a b c d t e s) = st_journal s"
  by (simp_all add: add_lineage_def)

lemma row_insert_ignore_prefix: "prefix rs (row_insert_ignore key r rs)"
  by (simp add: row_insert_ignore_def)

text \<open>What one row update keeps of the invariant and of the growth.\<close>

lemma store_ok_upd_workload:
  assumes "store_ok s"
    and "\<And>w. w_workload_id (f w) = w_workload_id w"
    and "\<And>w. w \<in> set (st_workloads s) \<Longrightarrow> w_workload_id w = i \<Longrightarrow> workload_sql_ok w \<Longrightarrow>
           workload_sql_ok (f w)"
  shows "store_ok (upd_workload i f s)"
proof -
  have "workload_sql_ok w'" if "w' \<in> set (row_update w_workload_id i f (st_workloads s))" for w'
    using row_update_in [OF that] assms by (auto simp: store_ok_def)
  with assms(1,2) show ?thesis by (simp add: store_ok_def)
qed

lemma store_ok_upd_checkpoint:
  assumes "store_ok s"
    and "\<And>c. ck_checkpoint_id (f c) = ck_checkpoint_id c"
    and "\<And>c. generation_key (f c) = generation_key c"
    and "\<And>c. ck_workload_generation (f c) = ck_workload_generation c"
    and "\<And>c. checkpoint_to_row c = c \<Longrightarrow> checkpoint_to_row (f c) = f c"
  shows "store_ok (upd_checkpoint i f s)"
proof -
  have gen: "ck_checkpoint_generation (f c) = ck_checkpoint_generation c" for c
    using assms(3) [of c] by (simp add: generation_key_def)
  have "sql_u64 (ck_workload_generation c') \<and> sql_u64 (ck_checkpoint_generation c') \<and>
      checkpoint_to_row c' = c'"
    if "c' \<in> set (row_update ck_checkpoint_id i f (st_checkpoints s))" for c'
    using row_update_in [OF that] assms gen unfolding store_ok_def by metis
  moreover have "map generation_key (row_update ck_checkpoint_id i f (st_checkpoints s))
      = map generation_key (st_checkpoints s)"
    by (simp add: row_update_def assms(3))
  moreover have "map ck_checkpoint_id (row_update ck_checkpoint_id i f (st_checkpoints s))
      = map ck_checkpoint_id (st_checkpoints s)"
    by (simp add: row_update_def assms(2))
  ultimately show ?thesis using assms(1,2) by (simp add: store_ok_def)
qed

lemma store_ok_add_journal: "store_ok s \<Longrightarrow> store_ok (add_journal k a b d t s)"
  by (simp add: store_ok_def add_journal_def row_insert_ignore_distinct)

lemma store_ok_add_lineage [simp]: "store_ok (add_lineage r a b c d t e s) \<longleftrightarrow> store_ok s"
  by (simp add: store_ok_def)

lemma store_le_upd_workload:
  "(\<And>w. w \<in> set (st_workloads s) \<Longrightarrow> w_workload_id w = i \<Longrightarrow> workload_le w (f w)) \<Longrightarrow>
     store_le s (upd_workload i f s)"
  by (simp add: store_le_def rows_le_update)

lemma store_le_upd_checkpoint:
  "(\<And>c. same_checkpoint c (f c)) \<Longrightarrow> store_le s (upd_checkpoint i f s)"
  by (simp add: store_le_def rows_le_update)

lemma store_le_add_journal: "store_le s (add_journal k a b d t s)"
  by (simp add: store_le_def add_journal_def row_insert_ignore_prefix)

lemma store_le_add_lineage: "store_le s (add_lineage r a b c d t e s)"
  by (simp add: store_le_def add_lineage_def)

lemma workload_row_in: "workload_row i s = Some w \<Longrightarrow> w \<in> set (st_workloads s) \<and> w_workload_id w = i"
  unfolding workload_row_def by (rule row_get_Some)

lemma checkpoint_row_in:
  "checkpoint_row i s = Some c \<Longrightarrow> c \<in> set (st_checkpoints s) \<and> ck_checkpoint_id c = i"
  unfolding checkpoint_row_def by (rule row_get_Some)

lemma workload_row_unique:
  "store_ok s \<Longrightarrow> workload_row i s = Some w \<Longrightarrow> w' \<in> set (st_workloads s) \<Longrightarrow> w_workload_id w' = i \<Longrightarrow> w' = w"
  unfolding workload_row_def store_ok_def by (elim conjE) (rule row_get_unique)

lemma checkpoint_row_unique:
  "store_ok s \<Longrightarrow> checkpoint_row i s = Some c \<Longrightarrow> c' \<in> set (st_checkpoints s) \<Longrightarrow>
     ck_checkpoint_id c' = i \<Longrightarrow> c' = c"
  unfolding checkpoint_row_def store_ok_def by (elim conjE) (rule row_get_unique)

lemma workload_sql_row: "store_ok s \<Longrightarrow> workload_row i s = Some w \<Longrightarrow> workload_sql_ok w"
  using workload_row_in [of i s w] unfolding store_ok_def by blast

lemma checkpoint_sql_row:
  "store_ok s \<Longrightarrow> checkpoint_row i s = Some c \<Longrightarrow>
     sql_u64 (ck_workload_generation c) \<and> sql_u64 (ck_checkpoint_generation c) \<and> checkpoint_to_row c = c"
  using checkpoint_row_in [of i s c] unfolding store_ok_def by blast

end
