(* ===== verification/StoreKeeps.thy ===== *)
theory StoreKeeps
  imports StoreInv
begin

section \<open>Every transaction keeps the invariant\<close>

text \<open>One lemma per transaction of the store: it keeps \<open>store_ok\<close>, and the store grows
  under it. The two transactions no coordinator operation uses and that may lower a counter
  (\<open>workload_update\<close>, \<open>workload_advance\<close>) keep the invariant only.\<close>

subsection \<open>Epoch, policies, workloads\<close>

lemma claim_coordinator_epoch_grows [grows]: "tx_grows (claim_coordinator_epoch r)"
proof (rule tx_keepsI)
  fix s x s' assume "store_ok s" and "claim_coordinator_epoch r s = Inr (x, s')"
  moreover from this have "epoch_le (st_coordinator_epoch s) (st_coordinator_epoch s')"
    by (auto simp: claim_coordinator_epoch_def epoch_le_def Let_def sat_add_ge
        split: option.splits if_splits)
  ultimately show "store_ok s' \<and> store_le s s'"
    by (auto simp: claim_coordinator_epoch_def store_ok_def store_le_def Let_def)
qed

lemma policy_insert_grows [grows]: "tx_grows (policy_insert p a)"
  by (rule tx_keepsI) (auto simp: policy_insert_def store_ok_def store_le_def Let_def)

lemma insert_workload_row_Inr:
  "insert_workload_row w s = Inr (x, s') \<longleftrightarrow> workload_sql_ok w \<and>
     w_workload_id w \<notin> w_workload_id ` set (st_workloads s) \<and>
     s' = s\<lparr>st_workloads := st_workloads s @ [w]\<rparr>"
  by (auto simp: insert_workload_row_def row_insert_Some split: option.splits if_splits)
    (auto simp: row_insert_def split: if_splits)

lemma store_ok_insert_workload:
  "store_ok s \<Longrightarrow> workload_sql_ok w \<Longrightarrow> w_workload_id w \<notin> w_workload_id ` set (st_workloads s) \<Longrightarrow>
     store_ok (s\<lparr>st_workloads := st_workloads s @ [w]\<rparr>)"
  by (simp add: store_ok_def)

lemma workload_insert_grows [grows]: "tx_grows (workload_insert w)"
  by (rule tx_keepsI)
    (auto simp: workload_insert_def insert_workload_row_Inr store_ok_insert_workload store_le_def)

lemma workload_insert_fork_grows [grows]: "tx_grows (workload_insert_fork now w p c d)"
proof (rule tx_keepsI)
  fix s x s' assume ok: "store_ok s" and r: "workload_insert_fork now w p c d s = Inr (x, s')"
  obtain u t where u: "insert_workload_row w s = Inr (u, t)"
    and s': "s' = add_lineage ForkedFrom (Some (w_workload_id w)) None (Some p) (Some c) now d t"
    using r by (auto simp: workload_insert_fork_def)
  have "store_ok t \<and> store_le s t"
    using workload_insert_grows [of w] ok u by (simp add: tx_keeps_def workload_insert_def)
  then show "store_ok s' \<and> store_le s s'"
    using s' store_le_add_lineage store_le_trans by simp blast
qed

lemma workload_update_ok [keeps]: "tx_ok (workload_update w)"
proof (rule tx_keepsI)
  fix s x s' assume ok: "store_ok s" and r: "workload_update w s = Inr (x, s')"
  then show "store_ok s' \<and> True"
    by (auto simp: workload_update_def workload_sql_ok_def split: if_splits
        intro!: store_ok_upd_workload [OF ok])
qed

lemma workload_bump_fence_grows [grows]: "tx_grows (workload_bump_fence i e)"
proof (rule tx_keepsI)
  fix s x s' assume ok: "store_ok s" and r: "workload_bump_fence i e s = Inr (x, s')"
  then obtain w where w: "workload_row i s = Some w" and e: "sql_u64 (w_execution_epoch w + 1)"
    and s': "s' = upd_workload i (\<lambda>r. r\<lparr>w_execution_epoch := w_execution_epoch w + 1,
                w_fence_token := None, w_active_node := None\<rparr>) s"
    by (auto simp: workload_bump_fence_def Let_def split: if_splits)
  have sql: "workload_sql_ok w" using ok w by (rule workload_sql_row)
  show "store_ok s' \<and> store_le s s'"
  proof
    show "store_ok s'" unfolding s'
      by (rule store_ok_upd_workload [OF ok])
        (use e sql workload_row_unique [OF ok w] in \<open>auto simp: workload_sql_ok_def\<close>)
    show "store_le s s'" unfolding s'
      by (rule store_le_upd_workload)
        (use sql workload_row_unique [OF ok w] in
          \<open>auto simp: workload_le_def workload_sql_ok_def sql_u64_Suc less_imp_le\<close>)
  qed
qed

lemma workload_claim_grows [grows]: "tx_grows (workload_claim i n t e)"
proof (rule tx_keepsI)
  fix s x s' assume ok: "store_ok s" and r: "workload_claim i n t e s = Inr (x, s')"
  then obtain w where w: "workload_row i s = Some w"
    and s': "s' = upd_workload i (\<lambda>r. r\<lparr>w_active_node := Some n, w_fence_token := Some t,
              w_fence_epoch := w_execution_epoch w\<rparr>) s"
    by (auto simp: workload_claim_def split: if_splits)
  have sql: "workload_sql_ok w" using ok w by (rule workload_sql_row)
  show "store_ok s' \<and> store_le s s'"
  proof
    show "store_ok s'" unfolding s'
      by (rule store_ok_upd_workload [OF ok])
        (use sql workload_row_unique [OF ok w] in \<open>auto simp: workload_sql_ok_def\<close>)
    show "store_le s s'" unfolding s'
      by (rule store_le_upd_workload) (simp add: workload_le_def)
  qed
qed

lemma workload_release_grows [grows]: "tx_grows (workload_release i n)"
proof (rule tx_keepsI)
  fix s x s' assume ok: "store_ok s" and r: "workload_release i n s = Inr (x, s')"
  then have s': "s' = upd_workload i (\<lambda>r. if w_active_node r = Some n
       then r\<lparr>w_fence_token := None, w_active_node := None\<rparr> else r) s"
    by (simp add: workload_release_def)
  have "workload_sql_ok w" if "w \<in> set (st_workloads s)" for w
    using ok that by (simp add: store_ok_def)
  then show "store_ok s' \<and> store_le s s'" unfolding s'
    by (intro conjI store_ok_upd_workload [OF ok] store_le_upd_workload)
      (auto simp: workload_sql_ok_def workload_le_def)
qed

lemma workload_advance_ok [keeps]: "tx_ok (workload_advance i g cg b)"
proof (rule tx_keepsI)
  fix s x s' assume ok: "store_ok s" and r: "workload_advance i g cg b s = Inr (x, s')"
  then obtain w ng ne where w: "workload_row i s = Some w"
    and q: "sql_u64 ng" "sql_u64 cg" "sql_u64 ne"
    and s': "s' = upd_workload i (\<lambda>r. r\<lparr>w_workload_generation := ng,
                 w_checkpoint_generation := cg, w_execution_epoch := ne\<rparr>) s"
    by (auto simp: workload_advance_def Let_def split: if_splits)
  have sql: "workload_sql_ok w" using ok w by (rule workload_sql_row)
  have "store_ok s'" unfolding s'
    by (rule store_ok_upd_workload [OF ok])
      (use q sql workload_row_unique [OF ok w] in \<open>auto simp: workload_sql_ok_def\<close>)
  then show "store_ok s' \<and> True" by simp
qed

subsection \<open>Checkpoints\<close>

text \<open>Any update of the mutable columns of one row.\<close>

definition ck_frame :: "(checkpoint_object \<Rightarrow> checkpoint_object) \<Rightarrow> bool" where
  "ck_frame f \<longleftrightarrow> (\<forall>c. ck_checkpoint_id (f c) = ck_checkpoint_id c \<and>
     generation_key (f c) = generation_key c \<and> ck_workload_generation (f c) = ck_workload_generation c \<and>
     (checkpoint_to_row c = c \<longrightarrow> checkpoint_to_row (f c) = f c))"

lemma checkpoint_to_row_iff:
  "checkpoint_to_row c = c \<longleftrightarrow> ck_components c = [] \<and> ck_lineage_parents c = [] \<and> ck_lineage_children c = []"
  by (cases c) (auto simp: checkpoint_to_row_def)

lemma upd_checkpoint_keeps:
  assumes "store_ok s" and f: "ck_frame f"
  shows "store_ok (upd_checkpoint i f s) \<and> store_le s (upd_checkpoint i f s)"
proof
  show "store_ok (upd_checkpoint i f s)"
    using f by (intro store_ok_upd_checkpoint [OF assms(1)]) (auto simp: ck_frame_def)
  have "ck_workload_id (f c) = ck_workload_id c" for c
    using f unfolding ck_frame_def generation_key_def by (metis prod.inject)
  then show "store_le s (upd_checkpoint i f s)"
    using f by (intro store_le_upd_checkpoint) (auto simp: same_checkpoint_def ck_frame_def)
qed

lemma ck_frame_updates [simp]:
  "ck_frame (\<lambda>c. c\<lparr>ck_lifecycle := l, ck_integrity_state := v\<rparr>)"
  "ck_frame (\<lambda>c. c\<lparr>ck_integrity_state := v\<rparr>)"
  "ck_frame (\<lambda>c. c\<lparr>ck_superseded_by := x\<rparr>)"
  "ck_frame (\<lambda>c. c\<lparr>ck_supersedes := y\<rparr>)"
  "ck_frame (\<lambda>c. c\<lparr>ck_manifest_digest := d, ck_manifest_json := j\<rparr>)"
  "ck_frame (\<lambda>c. c\<lparr>ck_restore_count := ck_restore_count c + 1, ck_last_restore_result := r\<rparr>)"
  "ck_frame (\<lambda>c. c\<lparr>ck_protection := p, ck_retirement_eligibility := e\<rparr>)"
  "ck_frame (\<lambda>c. c\<lparr>ck_lifecycle := l, ck_integrity_state := v, ck_supersedes := y, ck_superseded_by := x\<rparr>)"
  "ck_frame (\<lambda>c. c\<lparr>ck_lifecycle := l, ck_integrity_state := v,
     ck_restore_count := ck_restore_count c + 1, ck_last_restore_result := r\<rparr>)"
  "ck_frame (\<lambda>c. c\<lparr>ck_lifecycle := l, ck_retirement_eligibility := e, ck_durable_locations := ls,
     ck_replica_count := n\<rparr>)"
  "ck_frame (\<lambda>c. c\<lparr>ck_durable_locations := ls, ck_replica_count := n\<rparr>)"
  by (simp_all add: ck_frame_def generation_key_def checkpoint_to_row_iff)

lemma upd_checkpoint_txI:
  assumes "\<And>s x s'. m s = Inr (x, s') \<Longrightarrow> \<exists>f. ck_frame f \<and> s' = upd_checkpoint i f s"
  shows "tx_grows m"
  using assms upd_checkpoint_keeps by (intro tx_keepsI) blast

lemma checkpoint_set_lifecycle_grows [grows]: "tx_grows (checkpoint_set_lifecycle i l v)"
  by (rule upd_checkpoint_txI [of _ i])
    (auto simp: checkpoint_set_lifecycle_def split: if_splits intro!: exI [of _ "\<lambda>c. c\<lparr>ck_lifecycle := l, ck_integrity_state := v\<rparr>"])

lemma checkpoint_set_superseded_grows [grows]: "tx_grows (checkpoint_set_superseded i x)"
  by (rule upd_checkpoint_txI [of _ i])
    (auto simp: checkpoint_set_superseded_def intro!: exI [of _ "\<lambda>c. c\<lparr>ck_superseded_by := x\<rparr>"])

lemma checkpoint_set_supersedes_grows [grows]: "tx_grows (checkpoint_set_supersedes i x)"
  by (rule upd_checkpoint_txI [of _ i])
    (auto simp: checkpoint_set_supersedes_def intro!: exI [of _ "\<lambda>c. c\<lparr>ck_supersedes := x\<rparr>"])

lemma checkpoint_set_digest_grows [grows]: "tx_grows (checkpoint_set_digest i d j)"
  by (rule upd_checkpoint_txI [of _ i]) (auto simp: checkpoint_set_digest_def
      intro!: exI [of _ "\<lambda>c. c\<lparr>ck_manifest_digest := Some d, ck_manifest_json := Some j\<rparr>"])

lemma checkpoint_record_restore_grows [grows]: "tx_grows (checkpoint_record_restore i r)"
  by (rule upd_checkpoint_txI [of _ i]) (auto simp: checkpoint_record_restore_def
      intro!: exI [of _ "\<lambda>c. c\<lparr>ck_restore_count := ck_restore_count c + 1, ck_last_restore_result := Some r\<rparr>"])

lemma checkpoint_set_protection_grows [grows]: "tx_grows (checkpoint_set_protection i p)"
  by (rule upd_checkpoint_txI [of _ i]) (auto simp: checkpoint_set_protection_def
      intro!: exI [of _ "\<lambda>c. c\<lparr>ck_protection := p, ck_retirement_eligibility := REProtected\<rparr>"])

lemma checkpoint_set_integrity_grows [grows]: "tx_grows (checkpoint_set_integrity i v)"
  by (rule upd_checkpoint_txI [of _ i])
    (auto simp: checkpoint_set_integrity_def intro!: exI [of _ "\<lambda>c. c\<lparr>ck_integrity_state := v\<rparr>"])

lemma checkpoint_retire_Inr:
  "checkpoint_retire i s = Inr (x, s') \<longleftrightarrow> (\<exists>c. checkpoint_row i s = Some c \<and>
     ck_protection c \<noteq> PPinned \<and> ck_lifecycle c = Available \<and>
     s' = upd_checkpoint i (\<lambda>r. r\<lparr>ck_lifecycle := Retired, ck_retirement_eligibility := NotEligible,
            ck_durable_locations := [], ck_replica_count := 0\<rparr>) s)"
proof -
  have "can_transition l Retired \<longleftrightarrow> l = Available" for l by (cases l) auto
  then show ?thesis by (auto simp: checkpoint_retire_def split: if_splits)
qed

lemma checkpoint_retire_grows [grows]: "tx_grows (checkpoint_retire i)"
  by (rule upd_checkpoint_txI [of _ i]) (auto simp: checkpoint_retire_Inr
      intro!: exI [of _ "\<lambda>r. r\<lparr>ck_lifecycle := Retired, ck_retirement_eligibility := NotEligible,
            ck_durable_locations := [], ck_replica_count := 0\<rparr>"])

lemma set_locations_frame: "\<exists>f. ck_frame f \<and> set_locations i ls s = upd_checkpoint i f s"
  unfolding set_locations_def by (rule exI, rule conjI, rule ck_frame_updates, rule refl)

lemma checkpoint_add_location_grows [grows]: "tx_grows (checkpoint_add_location i l)"
  by (rule upd_checkpoint_txI [of _ i])
    (auto simp: checkpoint_add_location_def Let_def set_locations_frame)

lemma checkpoint_remove_location_grows [grows]: "tx_grows (checkpoint_remove_location i n)"
  by (rule upd_checkpoint_txI [of _ i])
    (auto simp: checkpoint_remove_location_def set_locations_frame)

lemma upd_checkpoint_None: "checkpoint_row i s = None \<Longrightarrow> upd_checkpoint i f s = s"
  by (simp add: checkpoint_row_def upd_checkpoint_def row_update_id)

lemma ck_frame_id: "ck_frame (\<lambda>c. c)"
  by (simp add: ck_frame_def)

lemma checkpoint_rebind_location_grows [grows]: "tx_grows (checkpoint_rebind_location h i n d)"
proof (rule upd_checkpoint_txI [of _ i])
  fix s x s' assume r: "checkpoint_rebind_location h i n d s = Inr (x, s')"
  show "\<exists>f. ck_frame f \<and> s' = upd_checkpoint i f s"
  proof (cases "checkpoint_row i s")
    case None
    with r have "s' = upd_checkpoint i (\<lambda>c. c) s"
      by (simp add: checkpoint_rebind_location_def upd_checkpoint_None)
    with ck_frame_id show ?thesis by blast
  next
    case (Some c)
    with r show ?thesis
      using set_locations_frame by (auto simp: checkpoint_rebind_location_def Let_def)
  qed
qed

subsection \<open>Insertion and update of a checkpoint\<close>

lemma insert_components_rows:
  "insert_components i es rows = Inr rows' \<Longrightarrow>
     rows' = rows @ map (\<lambda>e. \<lparr>cm_checkpoint_id = i, cm_entry = e\<rparr>) es"
  by (induction es arbitrary: rows) (fastforce simp: row_insert_Some split: if_splits option.splits)+

lemma insert_components_distinct:
  "insert_components i es rows = Inr rows' \<Longrightarrow> distinct (map component_key rows) \<Longrightarrow>
     distinct (map component_key rows')"
proof (induction es arbitrary: rows)
  case (Cons e es)
  then obtain mid where m: "row_insert component_key \<lparr>cm_checkpoint_id = i, cm_entry = e\<rparr> rows = Some mid"
    and r: "insert_components i es mid = Inr rows'"
    by (auto split: if_splits option.splits)
  from m Cons.prems(2) have "distinct (map component_key mid)" by (rule row_insert_distinct)
  with r show ?case by (rule Cons.IH)
qed simp

lemma insert_components_owned:
  "insert_components i es rows = Inr rows' \<Longrightarrow> components_owned rows ids \<Longrightarrow>
     components_owned rows' (ids @ [i]) \<and> (i \<in> set ids \<longrightarrow> components_owned rows' ids)"
  using insert_components_rows by (fastforce simp: components_owned_def)

lemma components_owned_filter: "components_owned rs ids \<Longrightarrow> components_owned (filter P rs) ids"
  by (simp add: components_owned_def)

lemma components_owned_Nil [simp]: "components_owned [] ids"
  by (simp add: components_owned_def)

lemma checkpoint_insert_Inr:
  "checkpoint_insert c s = Inr (x, s') \<Longrightarrow>
     checkpoint_sql_ok c \<and> ck_checkpoint_id c \<notin> ck_checkpoint_id ` set (st_checkpoints s) \<and>
     generation_key c \<notin> generation_key ` set (st_checkpoints s) \<and>
     (\<exists>rows. insert_components (ck_checkpoint_id c) (ck_components c) (st_components s) = Inr rows \<and>
        s' = s\<lparr>st_checkpoints := st_checkpoints s @ [checkpoint_to_row c], st_components := rows\<rparr>)"
  by (auto simp: checkpoint_insert_def split: if_splits)

lemma checkpoint_to_row_sel [simp]:
  "ck_checkpoint_id (checkpoint_to_row c) = ck_checkpoint_id c"
  "generation_key (checkpoint_to_row c) = generation_key c"
  "ck_workload_id (checkpoint_to_row c) = ck_workload_id c"
  "ck_workload_generation (checkpoint_to_row c) = ck_workload_generation c"
  "ck_checkpoint_generation (checkpoint_to_row c) = ck_checkpoint_generation c"
  "ck_lifecycle (checkpoint_to_row c) = ck_lifecycle c"
  "ck_durable_locations (checkpoint_to_row c) = ck_durable_locations c"
  "ck_manifest_digest (checkpoint_to_row c) = ck_manifest_digest c"
  "checkpoint_to_row (checkpoint_to_row c) = checkpoint_to_row c"
  by (simp_all add: checkpoint_to_row_def generation_key_def)

lemma checkpoint_insert_grows [grows]: "tx_grows (checkpoint_insert c)"
proof (rule tx_keepsI)
  fix s x s' assume ok: "store_ok s" and r: "checkpoint_insert c s = Inr (x, s')"
  obtain rows where c: "checkpoint_sql_ok c" "ck_checkpoint_id c \<notin> ck_checkpoint_id ` set (st_checkpoints s)"
      "generation_key c \<notin> generation_key ` set (st_checkpoints s)"
    and rows: "insert_components (ck_checkpoint_id c) (ck_components c) (st_components s) = Inr rows"
    and s': "s' = s\<lparr>st_checkpoints := st_checkpoints s @ [checkpoint_to_row c], st_components := rows\<rparr>"
    using checkpoint_insert_Inr [OF r] by blast
  show "store_ok s' \<and> store_le s s'"
    using ok c insert_components_distinct [OF rows] insert_components_owned [OF rows] unfolding s'
    by (simp add: store_ok_def store_le_def checkpoint_sql_ok_def)
qed

lemma checkpoint_update_Inr:
  assumes "checkpoint_update c s = Inr (x, s')"
  obtains old rows where "checkpoint_sql_ok c" and "checkpoint_row (ck_checkpoint_id c) s = Some old"
    and "\<forall>r \<in> set (st_checkpoints s). ck_checkpoint_id r \<noteq> ck_checkpoint_id c \<longrightarrow>
           generation_key r \<noteq> (ck_workload_id old, ck_checkpoint_generation c)"
    and "insert_components (ck_checkpoint_id c) (ck_components c)
           (filter (\<lambda>r. cm_checkpoint_id r \<noteq> ck_checkpoint_id c) (st_components s)) = Inr rows"
    and "s' = (upd_checkpoint (ck_checkpoint_id c)
           (\<lambda>_. (checkpoint_to_row c)\<lparr>ck_workload_id := ck_workload_id old\<rparr>) s)\<lparr>st_components := rows\<rparr>"
proof -
  have "generation_key ((checkpoint_to_row c)\<lparr>ck_workload_id := w\<rparr>) = (w, ck_checkpoint_generation c)" for w
    by (simp add: generation_key_def checkpoint_to_row_def)
  with assms that show thesis
    by (auto simp: checkpoint_update_def Let_def list_ex_iff split: if_splits option.splits)
qed

lemma distinct_row_update_const:
  assumes "distinct (map key rs)" "distinct (map g rs)"
    and "\<And>r. r \<in> set rs \<Longrightarrow> key r \<noteq> k \<Longrightarrow> g r \<noteq> g new"
  shows "distinct (map g (row_update key k (\<lambda>_. new) rs))"
  using assms
proof (induction rs)
  case (Cons r rs)
  have ih: "distinct (map g (row_update key k (\<lambda>_. new) rs))" using Cons by simp
  show ?case
  proof (cases "key r = k")
    case True
    then have "k \<notin> key ` set rs" using Cons.prems(1) by auto
    then have "row_update key k (\<lambda>_. new) rs = rs"
      unfolding row_update_def by (intro map_idI) auto
    moreover have "g new \<notin> g ` set rs"
    proof
      assume "g new \<in> g ` set rs"
      then obtain r' where r': "r' \<in> set rs" "g r' = g new" by auto
      with \<open>k \<notin> key ` set rs\<close> Cons.prems(3) [of r'] show False by auto
    qed
    ultimately show ?thesis using True Cons.prems(2) by (simp add: row_update_def)
  next
    case False
    have "g r \<notin> set (map g (row_update key k (\<lambda>_. new) rs))"
      using Cons.prems(2) Cons.prems(3) [of r] False by (auto simp: row_update_def split: if_splits)
    moreover have "row_update key k (\<lambda>_. new) (r # rs) = r # row_update key k (\<lambda>_. new) rs"
      using False by (simp add: row_update_def)
    ultimately show ?thesis using ih by simp
  qed
qed (simp add: row_update_def)

lemma checkpoint_update_grows [grows]: "tx_grows (checkpoint_update c)"
proof (rule tx_keepsI)
  fix s x s' assume ok: "store_ok s" and r: "checkpoint_update c s = Inr (x, s')"
  from r obtain old rows where sql: "checkpoint_sql_ok c"
    and old: "checkpoint_row (ck_checkpoint_id c) s = Some old"
    and fresh: "\<forall>r \<in> set (st_checkpoints s). ck_checkpoint_id r \<noteq> ck_checkpoint_id c \<longrightarrow>
           generation_key r \<noteq> (ck_workload_id old, ck_checkpoint_generation c)"
    and rows: "insert_components (ck_checkpoint_id c) (ck_components c)
           (filter (\<lambda>r. cm_checkpoint_id r \<noteq> ck_checkpoint_id c) (st_components s)) = Inr rows"
    and s': "s' = (upd_checkpoint (ck_checkpoint_id c)
           (\<lambda>_. (checkpoint_to_row c)\<lparr>ck_workload_id := ck_workload_id old\<rparr>) s)\<lparr>st_components := rows\<rparr>"
    by (rule checkpoint_update_Inr)
  let ?new = "(checkpoint_to_row c)\<lparr>ck_workload_id := ck_workload_id old\<rparr>"
  let ?cs = "row_update ck_checkpoint_id (ck_checkpoint_id c) (\<lambda>_. ?new) (st_checkpoints s)"
  have new: "ck_checkpoint_id ?new = ck_checkpoint_id c"
    "generation_key ?new = (ck_workload_id old, ck_checkpoint_generation c)" "checkpoint_to_row ?new = ?new"
    by (simp_all add: generation_key_def checkpoint_to_row_def)
  have ids: "map ck_checkpoint_id ?cs = map ck_checkpoint_id (st_checkpoints s)"
    using new(1) by (auto simp: row_update_def)
  have "distinct (map generation_key ?cs)"
    using ok fresh new(2) by (intro distinct_row_update_const) (auto simp: store_ok_def)
  moreover have "distinct (map component_key rows)"
    using insert_components_distinct [OF rows] ok by (simp add: store_ok_def distinct_map_filter)
  moreover have "sql_u64 (ck_workload_generation r) \<and> sql_u64 (ck_checkpoint_generation r) \<and>
      checkpoint_to_row r = r" if "r \<in> set ?cs" for r
    using row_update_in [OF that] ok sql new(3)
    by (auto simp: store_ok_def checkpoint_sql_ok_def)
  moreover have "rows_le same_checkpoint (st_checkpoints s) ?cs"
    using checkpoint_row_unique [OF ok old]
    by (intro rows_le_update) (auto simp: same_checkpoint_def)
  moreover have "components_owned rows (map ck_checkpoint_id (st_checkpoints s))"
  proof -
    have "components_owned (filter (\<lambda>r. cm_checkpoint_id r \<noteq> ck_checkpoint_id c) (st_components s))
        (map ck_checkpoint_id (st_checkpoints s))"
      using ok by (simp add: store_ok_def components_owned_filter)
    moreover have "ck_checkpoint_id c \<in> set (map ck_checkpoint_id (st_checkpoints s))"
      using checkpoint_row_in [OF old] by (metis image_eqI set_map)
    ultimately show ?thesis using insert_components_owned [OF rows] by blast
  qed
  ultimately show "store_ok s' \<and> store_le s s'"
    using ok ids unfolding s' by (simp add: store_ok_def store_le_def)
qed

subsection \<open>The two commits\<close>

definition kept :: "store \<Rightarrow> store \<Rightarrow> bool" where
  "kept s t \<longleftrightarrow> (store_ok s \<longrightarrow> store_ok t \<and> store_le s t)"

lemma kept_refl: "kept s s"
  by (simp add: kept_def)

lemma kept_trans: "kept s t \<Longrightarrow> kept t u \<Longrightarrow> kept s u"
  unfolding kept_def using store_le_trans by blast

lemma kept_upd_checkpoint: "ck_frame f \<Longrightarrow> kept s (upd_checkpoint i f s)"
  by (simp add: kept_def upd_checkpoint_keeps)

lemma kept_upd_opt: "ck_frame f \<Longrightarrow> kept s (upd_opt p f s)"
  by (simp add: upd_opt_def kept_upd_checkpoint kept_refl split: option.split)

lemma kept_add_journal: "kept s (add_journal k a b d t s)"
  by (simp add: kept_def store_ok_add_journal store_le_add_journal)

lemma kept_add_lineage: "kept s (add_lineage r a b c d t e s)"
  by (simp add: kept_def store_le_add_lineage)

lemma kept_commit_lineage: "kept s (commit_lineage now w i p s)"
  by (simp add: commit_lineage_def kept_add_lineage kept_refl split: option.split)

lemma kept_commit_links: "kept s (commit_links i p n s)"
  unfolding commit_links_def Let_def
  by (intro kept_trans [OF kept_trans [OF kept_upd_checkpoint kept_upd_opt] kept_upd_opt]) simp_all

lemma kept_commit_workload:
  assumes "sql_u64 (ck_checkpoint_generation c)"
  shows "kept s (commit_workload c w s)"
  using assms unfolding commit_workload_def kept_def
  by (auto intro!: store_ok_upd_workload store_le_upd_workload simp: workload_sql_ok_def workload_le_def)

lemma kept_if: "(b \<Longrightarrow> kept s t) \<Longrightarrow> kept s (if b then t else s)"
  by (simp add: kept_refl)

lemma kept_if_trans: "kept s u \<Longrightarrow> (b \<Longrightarrow> kept u t) \<Longrightarrow> kept s (if b then t else u)"
  using kept_trans by simp

lemma kept_restore_records: "kept s (restore_records now i a c mig rb s)"
  unfolding restore_records_def Let_def
  by (rule kept_if_trans, rule kept_if, rule kept_add_lineage)
    (rule kept_trans [OF kept_add_lineage kept_add_journal])

lemma kept_restore_checkpoint_row: "kept s (restore_checkpoint_row i s)"
  unfolding restore_checkpoint_row_def by (rule kept_upd_checkpoint) simp

lemma capture_commit_Inr:
  "capture_commit now i a s = Inr (x, s') \<longleftrightarrow> (\<exists>c w. checkpoint_row i s = Some c \<and>
     ck_lifecycle c \<in> {Persisting, Available} \<and> ck_durable_locations c \<noteq> [] \<and>
     (\<exists>d. ck_manifest_digest c = Some d \<and> d \<noteq> []) \<and> workload_row (ck_workload_id c) s = Some w \<and>
     (ck_lifecycle c = Persisting \<longrightarrow> w_workload_generation w = ck_workload_generation c) \<and>
     s' = commit_effect now i a c w s)"
proof (cases "checkpoint_row i s")
  case (Some c)
  show ?thesis
  proof (cases "workload_row (ck_workload_id c) s")
    case w: (Some w)
    have d: "(case ck_manifest_digest c of None \<Rightarrow> True | Some d \<Rightarrow> d = []) \<longleftrightarrow>
        \<not> (\<exists>d. ck_manifest_digest c = Some d \<and> d \<noteq> [])"
      by (cases "ck_manifest_digest c") auto
    show ?thesis using Some w d by (auto simp: capture_commit_def ok_or_def)
  qed (use Some in \<open>simp add: capture_commit_def ok_or_def\<close>)
qed (simp add: capture_commit_def ok_or_def)

lemma capture_commit_grows [grows]: "tx_grows (capture_commit now i a)"
proof (rule tx_keepsI)
  fix s x s' assume ok: "store_ok s" and r: "capture_commit now i a s = Inr (x, s')"
  then obtain c w where c: "checkpoint_row i s = Some c" and s': "s' = commit_effect now i a c w s"
    by (auto simp: capture_commit_Inr)
  have "sql_u64 (ck_checkpoint_generation c)" using checkpoint_sql_row [OF ok c] by simp
  then have "kept s s'" unfolding s' commit_effect_def Let_def
    by (intro kept_trans [OF kept_trans [OF kept_trans [OF kept_commit_links kept_commit_lineage]
            kept_commit_workload] kept_add_journal])
  with ok show "store_ok s' \<and> store_le s s'" by (simp add: kept_def)
qed

lemma restore_commit_Inr:
  "restore_commit now i a n t mig rb s = Inr (x, s') \<longleftrightarrow> (\<exists>c w.
     checkpoint_row i s = Some c \<and> ck_lifecycle c = Restoring \<and>
     workload_row (ck_workload_id c) s = Some w \<and> sql_u64 (sat_add (w_workload_generation w) 1) \<and>
     sql_u64 (sat_add (sat_add (w_execution_epoch w) 1) (if mig then 1 else 0)) \<and>
     s' = add_journal ''restore'' a ''generation_committed'' ''generation committed atomically'' now
            (restore_records now i a c mig rb (restore_checkpoint_row i
              (restore_workload c (sat_add (w_workload_generation w) 1)
                (sat_add (sat_add (w_execution_epoch w) 1) (if mig then 1 else 0)) n t s))))"
proof -
  have tr: "can_transition l Restored \<longleftrightarrow> l = Restoring" for l by (cases l) auto
  show ?thesis by (auto simp: restore_commit_def tr Let_def split: if_splits)
qed

lemma kept_restore_workload:
  assumes "store_ok s" "workload_row (ck_workload_id c) s = Some w" "sql_u64 (ck_checkpoint_generation c)"
    and "sql_u64 g" "sql_u64 e" "w_workload_generation w \<le> g" "w_execution_epoch w \<le> e"
  shows "kept s (restore_workload c g e n t s)"
  using assms workload_row_unique [OF assms(1,2)] unfolding restore_workload_def kept_def
  by (auto intro!: store_ok_upd_workload store_le_upd_workload simp: workload_sql_ok_def workload_le_def)

lemma restore_commit_grows [grows]: "tx_grows (restore_commit now i a n t mig rb)"
proof (rule tx_keepsI)
  fix s x s' assume ok: "store_ok s" and r: "restore_commit now i a n t mig rb s = Inr (x, s')"
  then obtain c w where c: "checkpoint_row i s = Some c" and w: "workload_row (ck_workload_id c) s = Some w"
    and sql: "sql_u64 (sat_add (w_workload_generation w) 1)"
      "sql_u64 (sat_add (sat_add (w_execution_epoch w) 1) (if mig then 1 else 0))"
    and s': "s' = add_journal ''restore'' a ''generation_committed'' ''generation committed atomically'' now
            (restore_records now i a c mig rb (restore_checkpoint_row i
              (restore_workload c (sat_add (w_workload_generation w) 1)
                (sat_add (sat_add (w_execution_epoch w) 1) (if mig then 1 else 0)) n t s)))"
    by (auto simp: restore_commit_Inr)
  have "w_execution_epoch w \<le> sat_add (sat_add (w_execution_epoch w) 1) (if mig then 1 else 0)"
    using sat_add_ge order_trans by blast
  then have "kept s (restore_workload c (sat_add (w_workload_generation w) 1)
                (sat_add (sat_add (w_execution_epoch w) 1) (if mig then 1 else 0)) n t s)"
    using checkpoint_sql_row [OF ok c] sat_add_ge by (intro kept_restore_workload [OF ok w _ sql]) auto
  then have "kept s s'" unfolding s'
    by (intro kept_trans [OF kept_trans [OF kept_trans [OF _ kept_restore_checkpoint_row]
            kept_restore_records] kept_add_journal])
  with ok show "store_ok s' \<and> store_le s s'" by (simp add: kept_def)
qed

subsection \<open>Lineage, attempts, audit and journal\<close>

lemma kept_txI: "(\<And>s x s'. m s = Inr (x, s') \<Longrightarrow> kept s s') \<Longrightarrow> tx_grows m"
  by (rule tx_keepsI) (auto simp: kept_def)

lemma lineage_append_grows [grows]: "tx_grows (lineage_append now rel w c ow oc d)"
  by (rule kept_txI) (auto simp: lineage_append_def kept_add_lineage)

lemma journal_append_grows [grows]: "tx_grows (journal_append now k a b d)"
  by (rule kept_txI) (auto simp: journal_append_def kept_add_journal)

lemma audit_append_grows [grows]: "tx_grows (audit_append now a op w c r d)"
  by (rule tx_keepsI) (auto simp: audit_append_def store_ok_def store_le_def)

lemma attempt_begin_grows [grows]: "tx_grows (attempt_begin now i k c w n)"
  by (rule tx_keepsI) (auto simp: attempt_begin_def store_ok_def store_le_def row_insert_ignore_distinct)

lemma attempt_finish_grows [grows]: "tx_grows (attempt_finish now i st r e)"
  by (rule tx_keepsI) (auto simp: attempt_finish_def store_ok_def store_le_def)

subsection \<open>Nodes and reservations\<close>

lemma kept_upd_node: "(\<And>n. n_id (f n) = n_id n) \<Longrightarrow> kept s (upd_node i f s)"
  by (simp add: kept_def store_ok_def store_le_def)

lemma node_register_grows [grows]: "tx_grows (node_register now i a b r)"
proof (rule kept_txI)
  fix s x s' assume r: "node_register now i a b r s = Inr (x, s')"
  show "kept s s'"
  proof (cases "node_row i s")
    case None
    then have "i \<notin> n_id ` set (st_nodes s)" by (simp add: node_row_def row_get_None)
    with None r show ?thesis by (auto simp: node_register_def kept_def store_ok_def store_le_def)
  next
    case (Some n)
    with r show ?thesis by (auto simp: node_register_def split: if_splits intro!: kept_upd_node)
  qed
qed

lemma node_heartbeat_grows [grows]: "tx_grows (node_heartbeat now i r)"
  by (rule kept_txI) (auto simp: node_heartbeat_def split: if_splits intro!: kept_upd_node)

lemma node_set_status_grows [grows]: "tx_grows (node_set_status i st)"
  by (rule kept_txI) (auto simp: node_set_status_def intro!: kept_upd_node)

lemma nodes_sweep_stale_grows [grows]: "tx_grows (nodes_sweep_stale t)"
proof (rule tx_keepsI)
  fix s x s' assume "store_ok s" and r: "nodes_sweep_stale t s = Inr (x, s')"
  moreover have "map n_id (st_nodes s') = map n_id (st_nodes s)"
    using r by (auto simp: nodes_sweep_stale_def Let_def)
  ultimately show "store_ok s' \<and> store_le s s'"
    by (auto simp: nodes_sweep_stale_def store_ok_def store_le_def Let_def)
qed

lemma node_delete_grows [grows]: "tx_grows (node_delete i)"
  by (rule tx_keepsI) (auto simp: node_delete_def store_ok_def store_le_def distinct_map_filter)

lemma scopes_simps [simp]:
  "scopes [] = []"
  "scopes (r # rs) = (if active_scope r = None then scopes rs else active_scope r # scopes rs)"
  "scopes (rs @ ts) = scopes rs @ scopes ts"
  by (simp_all add: scopes_def)

lemma set_scopes: "set (scopes rs) = active_scope ` set rs - {None}"
  by (auto simp: scopes_def)

lemma scopes_deactivate:
  assumes f: "\<And>r. active_scope (f r) = active_scope r \<or> active_scope (f r) = None"
    and "distinct (scopes rs)"
  shows "distinct (scopes (map f rs))"
  using assms(2)
proof (induction rs)
  case (Cons r rs)
  have sub: "set (scopes (map f rs)) \<subseteq> set (scopes rs)"
  proof
    fix x assume "x \<in> set (scopes (map f rs))"
    then obtain y where "y \<in> set rs" "active_scope (f y) = x" "x \<noteq> None" by (auto simp: set_scopes)
    with f [of y] show "x \<in> set (scopes rs)" by (auto simp: set_scopes)
  qed
  have ih: "distinct (scopes (map f rs))" using Cons by (simp split: if_splits)
  show ?case
  proof (cases "active_scope (f r) = None")
    case False
    with f [of r] Cons.prems sub ih show ?thesis by auto
  qed (simp add: ih)
qed simp

lemma reservation_create_Inr:
  "reservation_create now i k w c n ttl s = Inr (x, s') \<longleftrightarrow>
     sql_u64 (now + ttl) \<and> i \<notin> rs_id ` set (st_reservations s) \<and>
     (let r = \<lparr>rs_id = i, rs_kind = k, rs_workload_id = w, rs_checkpoint_id = c, rs_node = n,
               rs_state = ''ACTIVE'', rs_created_ms = now, rs_expires_ms = now + ttl\<rparr>
      in (active_scope r = None \<or> active_scope r \<notin> active_scope ` set (st_reservations s)) \<and>
         s' = s\<lparr>st_reservations := st_reservations s @ [r]\<rparr>)"
  by (auto simp: reservation_create_def Let_def)

lemma reservation_create_grows [grows]: "tx_grows (reservation_create now i k w c n ttl)"
  by (rule tx_keepsI) (auto simp: reservation_create_Inr Let_def store_ok_def store_le_def set_scopes)

lemma reservation_map_keeps:
  assumes "store_ok s" "\<And>r. rs_id (f r) = rs_id r"
    and "\<And>r. active_scope (f r) = active_scope r \<or> active_scope (f r) = None"
  shows "store_ok (s\<lparr>st_reservations := map f (st_reservations s)\<rparr>) \<and>
         store_le s (s\<lparr>st_reservations := map f (st_reservations s)\<rparr>)"
proof -
  have "rs_id \<circ> f = rs_id" using assms(2) by auto
  moreover have "distinct (scopes (map f (st_reservations s)))"
    using scopes_deactivate [OF assms(3)] assms(1) by (simp add: store_ok_def)
  ultimately show ?thesis using assms(1) unfolding store_ok_def store_le_def by simp
qed

lemma reservation_release_grows [grows]: "tx_grows (reservation_release i)"
proof (rule tx_keepsI)
  fix s x s' assume ok: "store_ok s" and "reservation_release i s = Inr (x, s')"
  then have s': "s' = s\<lparr>st_reservations := map (\<lambda>r. if rs_id r = i
      then if rs_state r = ''ACTIVE'' then r\<lparr>rs_state := ''RELEASED''\<rparr> else r else r) (st_reservations s)\<rparr>"
    by (simp add: reservation_release_def row_update_def)
  show "store_ok s' \<and> store_le s s'" unfolding s'
    by (rule reservation_map_keeps [OF ok]) (auto simp: active_scope_def)
qed

lemma reservations_expire_grows [grows]: "tx_grows (reservations_expire t)"
proof (rule tx_keepsI)
  fix s x s' assume ok: "store_ok s" and "reservations_expire t s = Inr (x, s')"
  then have s': "s' = s\<lparr>st_reservations := map (\<lambda>r. if rs_state r = ''ACTIVE'' \<and>
      sint (rs_expires_ms r) < sint t then r\<lparr>rs_state := ''EXPIRED''\<rparr> else r) (st_reservations s)\<rparr>"
    by (simp add: reservations_expire_def Let_def)
  show "store_ok s' \<and> store_le s s'" unfolding s'
    by (rule reservation_map_keeps [OF ok]) (auto simp: active_scope_def)
qed

lemma store_ok_empty [simp]: "store_ok empty_store"
  by (simp add: store_ok_def empty_store_def scopes_def)

end
