(* ===== verification/StoreProps.thy ===== *)
theory StoreProps
  imports StoreKeeps
begin

section \<open>What the store guarantees\<close>

text \<open>
  The transactions as the steps of a transition system, the invariants of its reachable states,
  and the functional behaviour of the transactions the protocol rests on.
\<close>

subsection \<open>Reads after writes\<close>

lemma workload_row_upd [simp]:
  assumes "\<And>w. w_workload_id (f w) = w_workload_id w"
  shows "workload_row j (upd_workload i f s) =
    (if j = i then map_option f (workload_row j s) else workload_row j s)"
  by (simp add: workload_row_def row_get_update assms)

lemma workload_row_frame [simp]:
  "workload_row j (upd_checkpoint i g s) = workload_row j s"
  "workload_row j (add_journal k a b d t s) = workload_row j s"
  "workload_row j (add_lineage r u v w' z t e s) = workload_row j s"
  "workload_row j (commit_links i p n s) = workload_row j s"
  "workload_row j (commit_lineage now w i p s) = workload_row j s"
  "workload_row j (restore_records now i at c m rb s) = workload_row j s"
  "workload_row j (restore_checkpoint_row i s) = workload_row j s"
  by (simp_all add: workload_row_def commit_links_def upd_opt_def commit_lineage_def
      restore_records_def restore_checkpoint_row_def Let_def split: option.split)

lemma checkpoint_row_upd [simp]:
  assumes "\<And>c. ck_checkpoint_id (f c) = ck_checkpoint_id c"
  shows "checkpoint_row j (upd_checkpoint i f s) =
    (if j = i then map_option f (checkpoint_row j s) else checkpoint_row j s)"
  by (simp add: checkpoint_row_def row_get_update assms)

lemma checkpoint_row_frame [simp]:
  "checkpoint_row j (upd_workload i g s) = checkpoint_row j s"
  "checkpoint_row j (add_journal k a b d t s) = checkpoint_row j s"
  "checkpoint_row j (add_lineage r u v w' z t e s) = checkpoint_row j s"
  "checkpoint_row j (commit_lineage now w i p s) = checkpoint_row j s"
  "checkpoint_row j (commit_workload ck wl s) = checkpoint_row j s"
  "checkpoint_row j (restore_records now i at c m rb s) = checkpoint_row j s"
  "checkpoint_row j (restore_workload ck g' e' n t' s) = checkpoint_row j s"
  by (simp_all add: checkpoint_row_def commit_lineage_def commit_workload_def restore_workload_def
      restore_records_def Let_def split: option.split)

lemma journal_mem_add [simp]:
  "journal_mem k a b (add_journal k' a' b' d t s) \<longleftrightarrow> (k, a, b) = (k', a', b') \<or> journal_mem k a b s"
  by (auto simp: journal_mem_def add_journal_def row_insert_ignore_def journal_key_def)

lemma journal_mem_frame [simp]:
  "journal_mem k a b (upd_checkpoint i g s) = journal_mem k a b s"
  "journal_mem k a b (upd_workload i f s) = journal_mem k a b s"
  "journal_mem k a b (add_lineage r x y z u t e s) = journal_mem k a b s"
  by (simp_all add: journal_mem_def)

lemma sorted_le_last: "sorted xs \<Longrightarrow> x \<in> set xs \<Longrightarrow> x \<le> last xs"
  by (induction xs) (auto split: if_splits)

lemma in_latest_of:
  "latest_of cs = Some i \<Longrightarrow> \<exists>c \<in> set cs. ck_checkpoint_id c = i \<and>
     (\<forall>d \<in> set cs. ck_checkpoint_generation d \<le> ck_checkpoint_generation c)"
proof -
  assume a: "latest_of cs = Some i"
  then have ne: "cs \<noteq> []" and i: "i = ck_checkpoint_id (last (sort_key ck_checkpoint_generation cs))"
    by (auto simp: latest_of_def split: if_splits)
  let ?l = "sort_key ck_checkpoint_generation cs"
  have l: "?l \<noteq> []" using ne by (metis set_empty set_sort)
  have "ck_checkpoint_generation d \<le> ck_checkpoint_generation (last ?l)" if "d \<in> set cs" for d
  proof -
    have "sorted (map ck_checkpoint_generation ?l)" by simp
    moreover have "ck_checkpoint_generation d \<in> set (map ck_checkpoint_generation ?l)" using that by simp
    ultimately have "ck_checkpoint_generation d \<le> last (map ck_checkpoint_generation ?l)"
      by (rule sorted_le_last)
    then show ?thesis using l by (simp add: last_map)
  qed
  moreover have "last ?l \<in> set cs" using l by (metis last_in_set set_sort)
  ultimately show ?thesis using i by blast
qed

lemma in_earliest_of:
  "earliest_of cs = Some i \<Longrightarrow> \<exists>c \<in> set cs. ck_checkpoint_id c = i \<and>
     (\<forall>d \<in> set cs. ck_checkpoint_generation c \<le> ck_checkpoint_generation d)"
proof -
  assume a: "earliest_of cs = Some i"
  let ?l = "sort_key ck_checkpoint_generation cs"
  from a have i: "i = ck_checkpoint_id (hd ?l)" and ne: "cs \<noteq> []"
    by (auto simp: earliest_of_def split: if_splits)
  then obtain x xs where l: "?l = x # xs" by (cases ?l) (metis set_empty set_sort, blast)
  have "sorted (map ck_checkpoint_generation ?l)" by simp
  then have "\<forall>d \<in> set ?l. ck_checkpoint_generation x \<le> ck_checkpoint_generation d" unfolding l by auto
  moreover have "x \<in> set cs" using l by (metis list.set_intros(1) set_sort)
  ultimately show ?thesis using i l by (metis list.sel(1) set_sort)
qed

lemma distinct_filter_nth:
  assumes "distinct (scopes rs)" "p < length rs" "q < length rs"
    and "active_scope (rs ! p) \<noteq> None" "active_scope (rs ! p) = active_scope (rs ! q)"
  shows "p = q"
  using assms
proof (induction rs arbitrary: p q)
  case (Cons r rs)
  have mem: "active_scope (rs ! k) \<in> set (scopes rs)" if "k < length rs" "active_scope (rs ! k) \<noteq> None" for k
    using that unfolding set_scopes by simp
  show ?case
  proof (cases p; cases q)
    fix p' q' assume "p = Suc p'" "q = Suc q'"
    then show ?thesis using Cons.prems Cons.IH [of p' q'] by (auto split: if_splits)
  qed (use Cons.prems mem in \<open>fastforce split: if_splits\<close>)+
qed simp

subsection \<open>The store as a transition system\<close>

text \<open>One rule per transaction of \<open>Store\<close> that changes the database and that the
  coordinator, the recovery or the node handlers call.\<close>

inductive store_step :: "store \<Rightarrow> store \<Rightarrow> bool" where
  "claim_coordinator_epoch r s = Inr (e, s') \<Longrightarrow> store_step s s'"
| "policy_insert p b s = Inr (u, s') \<Longrightarrow> store_step s s'"
| "workload_insert w s = Inr (u, s') \<Longrightarrow> store_step s s'"
| "workload_insert_fork now w p c d s = Inr (u, s') \<Longrightarrow> store_step s s'"
| "workload_bump_fence i e s = Inr (e', s') \<Longrightarrow> store_step s s'"
| "workload_claim i n t e s = Inr (u, s') \<Longrightarrow> store_step s s'"
| "workload_release i n s = Inr (u, s') \<Longrightarrow> store_step s s'"
| "checkpoint_insert c s = Inr (u, s') \<Longrightarrow> store_step s s'"
| "checkpoint_update c s = Inr (u, s') \<Longrightarrow> store_step s s'"
| "checkpoint_set_lifecycle i l v s = Inr (u, s') \<Longrightarrow> store_step s s'"
| "capture_commit now i a s = Inr (u, s') \<Longrightarrow> store_step s s'"
| "restore_commit now i a n t mig rb s = Inr (u, s') \<Longrightarrow> store_step s s'"
| "checkpoint_set_digest i d j s = Inr (u, s') \<Longrightarrow> store_step s s'"
| "checkpoint_set_protection i p' s = Inr (u, s') \<Longrightarrow> store_step s s'"
| "checkpoint_retire i s = Inr (u, s') \<Longrightarrow> store_step s s'"
| "checkpoint_set_integrity i v s = Inr (u, s') \<Longrightarrow> store_step s s'"
| "checkpoint_add_location i l s = Inr (u, s') \<Longrightarrow> store_step s s'"
| "checkpoint_rebind_location h i n d s = Inr (u, s') \<Longrightarrow> store_step s s'"
| "attempt_begin now a k co wo n s = Inr (u, s') \<Longrightarrow> store_step s s'"
| "attempt_finish now a st r e s = Inr (u, s') \<Longrightarrow> store_step s s'"
| "node_register now n a b r s = Inr (u, s') \<Longrightarrow> store_step s s'"
| "node_heartbeat now n r s = Inr (u, s') \<Longrightarrow> store_step s s'"
| "node_set_status n st s = Inr (u, s') \<Longrightarrow> store_step s s'"
| "nodes_sweep_stale t s = Inr (ns, s') \<Longrightarrow> store_step s s'"
| "reservation_create now a k wo co n ttl s = Inr (u, s') \<Longrightarrow> store_step s s'"
| "reservation_release a s = Inr (u, s') \<Longrightarrow> store_step s s'"
| "reservations_expire t s = Inr (m, s') \<Longrightarrow> store_step s s'"
| "audit_append now a op wo co r d s = Inr (u, s') \<Longrightarrow> store_step s s'"
| "journal_append now k a b d s = Inr (u, s') \<Longrightarrow> store_step s s'"

lemma tx_keepsD: "m s = Inr (x, s') \<Longrightarrow> I s \<Longrightarrow> tx_keeps I R m \<Longrightarrow> I s' \<and> R s s'"
  by (auto simp: tx_keeps_def)

lemma store_step_keeps: "store_step s s' \<Longrightarrow> store_ok s \<Longrightarrow> store_ok s' \<and> store_le s s'"
  by (induction rule: store_step.induct) ((erule (1) tx_keepsD, rule grows)+)

lemma store_steps_keep:
  "store_step\<^sup>*\<^sup>* s s' \<Longrightarrow> store_ok s \<Longrightarrow> store_ok s' \<and> store_le s s'"
proof (induction rule: rtranclp_induct)
  case (step t u)
  then show ?case using store_step_keeps store_le_trans by blast
qed simp

lemma store_le_workload:
  assumes "store_le s s'" "store_ok s'" "workload_row i s = Some w"
  shows "\<exists>w'. workload_row i s' = Some w' \<and> workload_le w w'"
proof -
  from assms(3) have w: "w \<in> set (st_workloads s)" "w_workload_id w = i" using workload_row_in by blast+
  with assms(1) obtain w' where w': "w' \<in> set (st_workloads s')" "workload_le w w'"
    by (auto simp: store_le_def rows_le_def)
  then have "workload_row i s' = Some w'"
    using assms(2) w row_get_in [of w_workload_id "st_workloads s'" w']
    by (simp add: workload_row_def store_ok_def workload_le_def)
  with w' show ?thesis by blast
qed

text \<open>C3: the store keeps its keys and never goes back. In every state reachable from the
  empty database, two checkpoints of a workload never have the same generation, two active
  capture reservations never name the same workload and two active restore reservations never
  the same checkpoint; and from any reachable state on, whatever transactions follow, the audit
  log, the lineage and the journal only grow, the coordinator epoch never decreases, and every
  workload stays, its generation and its execution epoch never decreasing.\<close>

theorem reachable_store_safe:
  assumes reach: "store_step\<^sup>*\<^sup>* empty_store s" and "store_step\<^sup>*\<^sup>* s s'"
  shows "(\<forall>c \<in> set (st_checkpoints s). \<forall>c' \<in> set (st_checkpoints s).
            ck_workload_id c = ck_workload_id c' \<longrightarrow>
            ck_checkpoint_generation c = ck_checkpoint_generation c' \<longrightarrow> c = c') \<and>
    (\<forall>p < length (st_reservations s). \<forall>q < length (st_reservations s).
       active_scope (st_reservations s ! p) \<noteq> None \<longrightarrow>
       active_scope (st_reservations s ! p) = active_scope (st_reservations s ! q) \<longrightarrow> p = q) \<and>
    prefix (st_audit s) (st_audit s') \<and> prefix (st_lineage s) (st_lineage s') \<and>
    prefix (st_journal s) (st_journal s') \<and>
    (\<forall>e. st_coordinator_epoch s = Some e \<longrightarrow> (\<exists>e' \<ge> e. st_coordinator_epoch s' = Some e')) \<and>
    (\<forall>i w. workload_row i s = Some w \<longrightarrow> (\<exists>w'. workload_row i s' = Some w' \<and>
       w_workload_generation w \<le> w_workload_generation w' \<and>
       w_execution_epoch w \<le> w_execution_epoch w'))"
proof -
  have ok: "store_ok s" using store_steps_keep [OF reach] by simp
  have ok': "store_ok s'" and le: "store_le s s'" using store_steps_keep [OF assms(2) ok] by auto
  have "p = q" if "p < length (st_reservations s)" "q < length (st_reservations s)"
    and "active_scope (st_reservations s ! p) \<noteq> None"
    and "active_scope (st_reservations s ! p) = active_scope (st_reservations s ! q)" for p q
    using ok that by (auto simp: store_ok_def intro: distinct_filter_nth)
  moreover have "c = c'" if "c \<in> set (st_checkpoints s)" "c' \<in> set (st_checkpoints s)"
    and "ck_workload_id c = ck_workload_id c'"
    and "ck_checkpoint_generation c = ck_checkpoint_generation c'" for c c'
    using ok that by (auto simp: store_ok_def distinct_map inj_on_def generation_key_def)
  moreover have "\<exists>e' \<ge> e. st_coordinator_epoch s' = Some e'" if "st_coordinator_epoch s = Some e" for e
    using le that by (auto simp: store_le_def epoch_le_def)
  moreover have "\<exists>w'. workload_row i s' = Some w' \<and> w_workload_generation w \<le> w_workload_generation w' \<and>
       w_execution_epoch w \<le> w_execution_epoch w'" if "workload_row i s = Some w" for i w
    using store_le_workload [OF le ok' that] by (auto simp: workload_le_def)
  ultimately show ?thesis using le unfolding store_le_def by blast
qed

definition sample_step_store :: store where
  "sample_step_store = empty_store\<lparr>st_coordinator_epoch := Some 1, st_workloads := [sample_workload]\<rparr>"

theorem reachable_store_safe_witness:
  "store_step\<^sup>*\<^sup>* empty_store sample_step_store \<and>
   workload_row (Id (replicate 16 1)) sample_step_store = Some sample_workload \<and>
   prefix (st_audit sample_step_store) (st_audit sample_step_store)"
proof -
  have "store_step empty_store (empty_store\<lparr>st_coordinator_epoch := Some 1\<rparr>)"
    by (rule store_step.intros(1) [of None _ 1])
      (simp add: claim_coordinator_epoch_def empty_store_def sat_add_def Let_def)
  moreover have "store_step (empty_store\<lparr>st_coordinator_epoch := Some 1\<rparr>) sample_step_store"
    by (rule store_step.intros(3) [of sample_workload _ "()"])
      (simp add: workload_insert_def insert_workload_row_Inr sample_step_store_def empty_store_def
        workload_sql_ok_def sample_workload_def)
  ultimately have r: "store_step\<^sup>*\<^sup>* empty_store sample_step_store" by auto
  moreover have "workload_row (Id (replicate 16 1)) sample_step_store = Some sample_workload"
    by (simp add: workload_row_def row_get_def sample_step_store_def sample_workload_def)
  ultimately show ?thesis using reachable_store_safe [OF r rtranclp.rtrancl_refl] by blast
qed

subsection \<open>The capture commit\<close>

lemma prev_visible_mem:
  assumes "prev_visible w g s = Some p" "store_ok s"
  shows "\<exists>c. checkpoint_row p s = Some c \<and> ck_workload_id c = w \<and> ck_checkpoint_generation c < g \<and> visible c \<and>
    (\<forall>d \<in> set (st_checkpoints s). ck_workload_id d = w \<longrightarrow> ck_checkpoint_generation d < g \<longrightarrow> visible d \<longrightarrow>
       ck_checkpoint_generation d \<le> ck_checkpoint_generation c)"
proof -
  obtain c where "c \<in> set (filter (\<lambda>c. ck_workload_id c = w \<and> ck_checkpoint_generation c < g \<and> visible c)
      (st_checkpoints s))" and "ck_checkpoint_id c = p"
    and "\<forall>d \<in> set (filter (\<lambda>c. ck_workload_id c = w \<and> ck_checkpoint_generation c < g \<and> visible c)
      (st_checkpoints s)). ck_checkpoint_generation d \<le> ck_checkpoint_generation c"
    using in_latest_of [OF assms(1) [unfolded prev_visible_def]] by blast
  moreover from this have "checkpoint_row p s = Some c"
    using assms(2) row_get_in [of ck_checkpoint_id "st_checkpoints s" c]
    by (simp add: checkpoint_row_def store_ok_def)
  ultimately show ?thesis by auto
qed

lemma next_visible_mem:
  assumes "next_visible w g s = Some p" "store_ok s"
  shows "\<exists>c. checkpoint_row p s = Some c \<and> ck_workload_id c = w \<and> g < ck_checkpoint_generation c \<and> visible c \<and>
    (\<forall>d \<in> set (st_checkpoints s). ck_workload_id d = w \<longrightarrow> g < ck_checkpoint_generation d \<longrightarrow> visible d \<longrightarrow>
       ck_checkpoint_generation c \<le> ck_checkpoint_generation d)"
proof -
  obtain c where "c \<in> set (filter (\<lambda>c. ck_workload_id c = w \<and> ck_checkpoint_generation c > g \<and> visible c)
      (st_checkpoints s))" and "ck_checkpoint_id c = p"
    and "\<forall>d \<in> set (filter (\<lambda>c. ck_workload_id c = w \<and> ck_checkpoint_generation c > g \<and> visible c)
      (st_checkpoints s)). ck_checkpoint_generation c \<le> ck_checkpoint_generation d"
    using in_earliest_of [OF assms(1) [unfolded next_visible_def]] by blast
  moreover from this have "checkpoint_row p s = Some c"
    using assms(2) row_get_in [of ck_checkpoint_id "st_checkpoints s" c]
    by (simp add: checkpoint_row_def store_ok_def)
  ultimately show ?thesis by auto
qed

lemma upd_opt_row [simp]:
  assumes "\<And>c. ck_checkpoint_id (f c) = ck_checkpoint_id c"
  shows "checkpoint_row j (upd_opt p f s) =
    (if p = Some j then map_option f (checkpoint_row j s) else checkpoint_row j s)"
  using assms by (cases p) (auto simp: upd_opt_def)

text \<open>What the link updates do to one row.\<close>

definition link_row :: "ident \<Rightarrow> ident option \<Rightarrow> ident option \<Rightarrow> checkpoint_object \<Rightarrow> checkpoint_object" where
  "link_row i p n c =
     (let c1 = (if ck_checkpoint_id c = i then c\<lparr>ck_lifecycle := Available, ck_integrity_state := IValid,
                  ck_supersedes := p, ck_superseded_by := n\<rparr> else c);
          c2 = (if p = Some (ck_checkpoint_id c) then c1\<lparr>ck_superseded_by := Some i\<rparr> else c1)
      in if n = Some (ck_checkpoint_id c) then c2\<lparr>ck_supersedes := Some i\<rparr> else c2)"

lemma link_row_sel [simp]:
  "ck_checkpoint_id (link_row i p n c) = ck_checkpoint_id c"
  "ck_checkpoint_generation (link_row i p n c) = ck_checkpoint_generation c"
  "ck_workload_id (link_row i p n c) = ck_workload_id c"
  by (simp_all add: link_row_def Let_def)

lemma commit_links_map:
  "st_checkpoints (commit_links i p n s) = map (link_row i p n) (st_checkpoints s)"
  by (cases p; cases n)
    (auto simp: commit_links_def upd_opt_def Let_def row_update_def link_row_def)

lemma checkpoint_row_map:
  assumes "st_checkpoints s' = map h (st_checkpoints s)" "\<And>c. ck_checkpoint_id (h c) = ck_checkpoint_id c"
  shows "checkpoint_row j s' = map_option h (checkpoint_row j s)"
  using assms by (simp add: checkpoint_row_def row_get_def find_map_key)

lemma commit_lineage_sel [simp]:
  "st_workloads (commit_lineage now w i p s) = st_workloads s"
  "st_checkpoints (commit_lineage now w i p s) = st_checkpoints s"
  "st_journal (commit_lineage now w i p s) = st_journal s"
  by (simp_all add: commit_lineage_def split: option.split)

lemma commit_effect_rows: "st_checkpoints (commit_effect now i a c w s) =
   map (link_row i (prev_visible (ck_workload_id c) (ck_checkpoint_generation c) s)
          (next_visible (ck_workload_id c) (ck_checkpoint_generation c) s)) (st_checkpoints s)"
  by (simp add: commit_effect_def commit_workload_def commit_links_map Let_def)

lemma commit_effect_workload:
  "workload_row j (commit_effect now i a c w s) =
     (if j = ck_workload_id c \<and> ck_checkpoint_generation c \<ge> w_checkpoint_generation w
      then map_option (\<lambda>r. r\<lparr>w_checkpoint_generation := ck_checkpoint_generation c,
             w_resumability_class := ck_resumability c\<rparr>) (workload_row j s)
      else workload_row j s)"
  by (simp add: commit_effect_def commit_workload_def Let_def)

lemma commit_effect_journal: "journal_mem ''capture'' a ''db_committed'' (commit_effect now i a c w s)"
  by (simp add: commit_effect_def Let_def)

lemma prev_next_not_self:
  assumes "store_ok s" "checkpoint_row i s = Some c"
  shows "prev_visible (ck_workload_id c) (ck_checkpoint_generation c) s \<noteq> Some i"
    and "next_visible (ck_workload_id c) (ck_checkpoint_generation c) s \<noteq> Some i"
  using assms prev_visible_mem [OF _ assms(1)] next_visible_mem [OF _ assms(1)] by fastforce+

lemma commit_effect_row:
  "checkpoint_row j (commit_effect now i a c w s) =
     map_option (link_row i (prev_visible (ck_workload_id c) (ck_checkpoint_generation c) s)
       (next_visible (ck_workload_id c) (ck_checkpoint_generation c) s)) (checkpoint_row j s)"
  by (rule checkpoint_row_map [OF commit_effect_rows]) simp

lemma commit_effect_self:
  assumes "store_ok s" "checkpoint_row i s = Some c"
  shows "checkpoint_row i (commit_effect now i a c w s) = Some (c\<lparr>ck_lifecycle := Available,
    ck_integrity_state := IValid,
    ck_supersedes := prev_visible (ck_workload_id c) (ck_checkpoint_generation c) s,
    ck_superseded_by := next_visible (ck_workload_id c) (ck_checkpoint_generation c) s\<rparr>)"
proof -
  have "ck_checkpoint_id c = i" using assms(2) checkpoint_row_in by blast
  with assms(2) prev_next_not_self [OF assms] show ?thesis by (simp add: commit_effect_row link_row_def)
qed

lemma commit_effect_prev:
  assumes "store_ok s" "checkpoint_row i s = Some c"
    and p: "prev_visible (ck_workload_id c) (ck_checkpoint_generation c) s = Some p"
  shows "\<exists>d. checkpoint_row p (commit_effect now i a c w s) = Some d \<and> visible d \<and>
    ck_superseded_by d = Some i \<and> ck_checkpoint_generation d < ck_checkpoint_generation c"
proof -
  from prev_visible_mem [OF p assms(1)] obtain d where d: "checkpoint_row p s = Some d" "visible d"
    "ck_checkpoint_generation d < ck_checkpoint_generation c" by blast
  then have "ck_checkpoint_id d = p" using checkpoint_row_in by blast
  then show ?thesis using d p prev_next_not_self(1) [OF assms(1,2)]
    by (auto simp: commit_effect_row link_row_def visible_def Let_def)
qed

lemma commit_effect_next:
  assumes "store_ok s" "checkpoint_row i s = Some c"
    and n: "next_visible (ck_workload_id c) (ck_checkpoint_generation c) s = Some n"
  shows "\<exists>d. checkpoint_row n (commit_effect now i a c w s) = Some d \<and> visible d \<and>
    ck_supersedes d = Some i \<and> ck_checkpoint_generation c < ck_checkpoint_generation d"
proof -
  from next_visible_mem [OF n assms(1)] obtain d where d: "checkpoint_row n s = Some d" "visible d"
    "ck_checkpoint_generation c < ck_checkpoint_generation d" by blast
  then have "ck_checkpoint_id d = n" using checkpoint_row_in by blast
  then show ?thesis using d n prev_next_not_self(2) [OF assms(1,2)]
    by (auto simp: commit_effect_row link_row_def visible_def Let_def)
qed

lemma commit_effect_other:
  assumes "j \<noteq> i" "prev_visible (ck_workload_id c) (ck_checkpoint_generation c) s \<noteq> Some j"
    and "next_visible (ck_workload_id c) (ck_checkpoint_generation c) s \<noteq> Some j"
  shows "checkpoint_row j (commit_effect now i a c w s) = checkpoint_row j s"
  using assms checkpoint_row_in [of j s] unfolding commit_effect_row
  by (cases "checkpoint_row j s") (auto simp: link_row_def)


text \<open>A store with one workload and one checkpoint of it in the state \<open>Persisting\<close>, sealed and
  promoted on a node.\<close>

definition sample_persisted :: checkpoint_object where
  "sample_persisted = sample_checkpoint\<lparr>ck_lifecycle := Persisting, ck_manifest_digest := Some ''d'',
     ck_durable_locations := [\<lparr>dl_node = ''n1'', dl_path = ''/data'', dl_verified = True\<rparr>],
     ck_replica_count := 1\<rparr>"

definition sample_store :: store where
  "sample_store = empty_store\<lparr>st_workloads := [sample_workload], st_checkpoints := [sample_persisted]\<rparr>"

lemma sample_store_rows [simp]:
  "checkpoint_row (Id (replicate 16 2)) sample_store = Some sample_persisted"
  "workload_row (Id (replicate 16 1)) sample_store = Some sample_workload"
  by (simp_all add: checkpoint_row_def workload_row_def row_get_def sample_store_def sample_persisted_def
      sample_checkpoint_def sample_workload_def)

lemma sample_store_ok: "store_ok sample_store"
  by (simp add: store_ok_def sample_store_def empty_store_def workload_sql_ok_def sample_workload_def
      sample_persisted_def sample_checkpoint_def checkpoint_to_row_iff)

lemma sample_commit:
  "\<exists>s'. capture_commit 5 (Id (replicate 16 2)) ''att'' sample_store = Inr ((), s')"
  by (simp add: capture_commit_Inr) (simp add: sample_persisted_def sample_checkpoint_def sample_workload_def)


subsection \<open>Idempotence of the capture commit\<close>

lemma sort_key_map:
  assumes "\<And>c. f (h c) = f c"
  shows "sort_key f (map h cs) = map h (sort_key f cs)"
proof -
  have "insort_key f (h x) (map h xs) = map h (insort_key f x xs)" for x xs
    by (induction xs) (auto simp: assms)
  then show ?thesis by (induction cs) auto
qed

lemma sort_key_Nil_iff: "sort_key f xs = [] \<longleftrightarrow> xs = []"
  by (metis set_empty set_sort)

lemma latest_of_map:
  "(\<And>c. ck_checkpoint_id (h c) = ck_checkpoint_id c) \<Longrightarrow>
   (\<And>c. ck_checkpoint_generation (h c) = ck_checkpoint_generation c) \<Longrightarrow> latest_of (map h cs) = latest_of cs"
  by (auto simp: latest_of_def sort_key_map last_map sort_key_Nil_iff)

lemma earliest_of_map:
  "(\<And>c. ck_checkpoint_id (h c) = ck_checkpoint_id c) \<Longrightarrow>
   (\<And>c. ck_checkpoint_generation (h c) = ck_checkpoint_generation c) \<Longrightarrow> earliest_of (map h cs) = earliest_of cs"
  by (auto simp: earliest_of_def sort_key_map hd_map sort_key_Nil_iff)

lemma row_update_same:
  "(\<And>r. r \<in> set rs \<Longrightarrow> key r = k \<Longrightarrow> f r = r) \<Longrightarrow> row_update key k f rs = rs"
  unfolding row_update_def by (rule map_idI) auto

lemma link_row_idem [simp]: "link_row i p n (link_row i p n c) = link_row i p n c"
  by (simp add: link_row_def Let_def)

lemma commit_links_eq:
  "commit_links i p n s = s\<lparr>st_checkpoints := map (link_row i p n) (st_checkpoints s)\<rparr>"
  by (cases p; cases n) (auto simp: commit_links_def upd_opt_def upd_checkpoint_def row_update_def
      link_row_def Let_def)

lemma visible_link_row: "ck_checkpoint_id c \<noteq> i \<Longrightarrow> visible (link_row i p n c) = visible c"
  by (simp add: visible_def link_row_def Let_def)

lemma prev_visible_stable:
  assumes "store_ok s" "checkpoint_row i s = Some c" "st_checkpoints s' = map (link_row i p n) (st_checkpoints s)"
  shows "prev_visible (ck_workload_id c) (ck_checkpoint_generation c) s' =
         prev_visible (ck_workload_id c) (ck_checkpoint_generation c) s"
    and "next_visible (ck_workload_id c) (ck_checkpoint_generation c) s' =
         next_visible (ck_workload_id c) (ck_checkpoint_generation c) s"
proof -
  have vis: "visible (link_row i p n d) = visible d"
    if "d \<in> set (st_checkpoints s)" "ck_checkpoint_generation d \<noteq> ck_checkpoint_generation c" for d
    using that checkpoint_row_unique [OF assms(1,2) that(1)] by (intro visible_link_row) auto
  have f: "filter (\<lambda>d. P d \<and> visible d) (map (link_row i p n) (st_checkpoints s)) =
        map (link_row i p n) (filter (\<lambda>d. P d \<and> visible d) (st_checkpoints s))"
    if "\<And>d. P (link_row i p n d) = P d" "\<And>d. P d \<Longrightarrow> ck_checkpoint_generation d \<noteq> ck_checkpoint_generation c" for P
    unfolding filter_map o_def using that vis by (intro arg_cong [where f = "map _"] filter_cong) auto
  have lt: "ck_workload_id d = ck_workload_id c \<and> ck_checkpoint_generation d < ck_checkpoint_generation c \<Longrightarrow>
      ck_checkpoint_generation d \<noteq> ck_checkpoint_generation c"
    and gt: "ck_workload_id d = ck_workload_id c \<and> ck_checkpoint_generation d > ck_checkpoint_generation c \<Longrightarrow>
      ck_checkpoint_generation d \<noteq> ck_checkpoint_generation c" for d
    by auto
  show "prev_visible (ck_workload_id c) (ck_checkpoint_generation c) s' =
         prev_visible (ck_workload_id c) (ck_checkpoint_generation c) s"
    unfolding prev_visible_def assms(3)
    using f [of "\<lambda>d. ck_workload_id d = ck_workload_id c \<and> ck_checkpoint_generation d < ck_checkpoint_generation c",
        OF _ lt] by (simp add: latest_of_map conj_assoc)
  show "next_visible (ck_workload_id c) (ck_checkpoint_generation c) s' =
         next_visible (ck_workload_id c) (ck_checkpoint_generation c) s"
    unfolding next_visible_def assms(3)
    using f [of "\<lambda>d. ck_workload_id d = ck_workload_id c \<and> ck_checkpoint_generation d > ck_checkpoint_generation c",
        OF _ gt] by (simp add: earliest_of_map conj_assoc)
qed

lemma commit_links_again:
  "st_checkpoints s' = map (link_row i p n) cs \<Longrightarrow> commit_links i p n s' = s'"
  by (simp add: commit_links_eq)

lemma commit_lineage_again:
  "(\<And>q. p = Some q \<Longrightarrow> lineage_known Supersedes i q s') \<Longrightarrow> commit_lineage now w i p s' = s'"
  by (simp add: commit_lineage_def split: option.split)

lemma commit_effect_lineage:
  "prev_visible (ck_workload_id c) (ck_checkpoint_generation c) s = Some q \<Longrightarrow>
     lineage_known Supersedes i q (commit_effect now i a c w s)"
  by (auto simp: commit_effect_def commit_workload_def commit_lineage_def lineage_known_def
      add_lineage_def lineage_row_def Let_def)

lemma add_journal_again: "journal_mem k a b s \<Longrightarrow> add_journal k a b d t s = s"
  by (simp add: journal_mem_def add_journal_def row_insert_ignore_def journal_key_def)

lemma commit_workload_again:
  assumes "store_ok s" "workload_row (ck_workload_id c) s = Some w"
    and "ck_checkpoint_generation c \<ge> w_checkpoint_generation w \<Longrightarrow>
           w_checkpoint_generation w = ck_checkpoint_generation c \<and> w_resumability_class w = ck_resumability c"
  shows "commit_workload c w s = s"
proof -
  have "row_update w_workload_id (ck_workload_id c) (\<lambda>r. r\<lparr>w_checkpoint_generation := ck_checkpoint_generation c,
      w_resumability_class := ck_resumability c\<rparr>) (st_workloads s) = st_workloads s"
    if "ck_checkpoint_generation c \<ge> w_checkpoint_generation w"
    by (rule row_update_same)
      (use workload_row_unique [OF assms(1,2)] assms(3) [OF that] in auto)
  then show ?thesis by (simp add: commit_workload_def upd_workload_def)
qed

text \<open>C25: the capture commit is idempotent. Recovery may run it again after a crash, at any
  later time and on the store the first run left: the second run succeeds and changes nothing.\<close>

theorem capture_commit_idempotent:
  assumes ok: "store_ok s" and commit: "capture_commit now i a s = Inr (u, s')"
  shows "capture_commit now' i a s' = Inr (u, s')"
proof -
  from commit obtain c w where c: "checkpoint_row i s = Some c" and w: "workload_row (ck_workload_id c) s = Some w"
    and guard: "ck_durable_locations c \<noteq> []" "\<exists>d. ck_manifest_digest c = Some d \<and> d \<noteq> []"
    and s': "s' = commit_effect now i a c w s"
    by (auto simp: capture_commit_Inr)
  let ?p = "prev_visible (ck_workload_id c) (ck_checkpoint_generation c) s"
  let ?n = "next_visible (ck_workload_id c) (ck_checkpoint_generation c) s"
  let ?c = "c\<lparr>ck_lifecycle := Available, ck_integrity_state := IValid, ck_supersedes := ?p, ck_superseded_by := ?n\<rparr>"
  have ok': "store_ok s'" using tx_keepsD [OF commit ok capture_commit_grows] by simp
  have c': "checkpoint_row i s' = Some ?c" unfolding s' by (rule commit_effect_self [OF ok c])
  have rows: "st_checkpoints s' = map (link_row i ?p ?n) (st_checkpoints s)"
    unfolding s' by (rule commit_effect_rows)
  define w' where "w' = (if ck_checkpoint_generation c \<ge> w_checkpoint_generation w
    then w\<lparr>w_checkpoint_generation := ck_checkpoint_generation c, w_resumability_class := ck_resumability c\<rparr> else w)"
  have w': "workload_row (ck_workload_id c) s' = Some w'"
    using w by (simp add: s' commit_effect_workload w'_def)
  have "commit_workload ?c w' s' = s'"
    by (rule commit_workload_again [OF ok']) (use w' in \<open>auto simp: w'_def\<close>)
  moreover have "commit_links i ?p ?n s' = s'" using rows by (rule commit_links_again)
  moreover have "commit_lineage now' (ck_workload_id c) i ?p s' = s'"
    by (rule commit_lineage_again) (simp add: s' commit_effect_lineage)
  moreover have "journal_mem ''capture'' a ''db_committed'' s'" unfolding s' by (rule commit_effect_journal)
  ultimately have "commit_effect now' i a ?c w' s' = s'"
    using prev_visible_stable [OF ok c rows] by (simp add: commit_effect_def Let_def add_journal_again)
  with c' w' guard show ?thesis by (auto simp: capture_commit_Inr)
qed

theorem capture_commit_idempotent_witness:
  "\<exists>s'. capture_commit 5 (Id (replicate 16 2)) ''att'' sample_store = Inr ((), s') \<and>
     capture_commit 9 (Id (replicate 16 2)) ''att'' s' = Inr ((), s')"
  using sample_commit capture_commit_idempotent [OF sample_store_ok] by blast

end
