(* ===== verification/StoreAuthority.thy ===== *)
theory StoreAuthority
  imports StoreProps
begin

section \<open>Authority, fencing and replicas in the store\<close>

text \<open>
  What the transactions promise about who may act: the coordinator epoch, the claim, the fence
  and the restore of a workload, the boot identity of a node, the exclusivity of reservations;
  and what they promise about the locations of a checkpoint and the round trip of its rows.
\<close>

subsection \<open>The coordinator epoch\<close>

definition stored_epoch :: "store \<Rightarrow> u64" where
  "stored_epoch s = (case st_coordinator_epoch s of None \<Rightarrow> 0 | Some e \<Rightarrow> e)"

text \<open>C26: coordinator epochs move strictly forward. A claim succeeds exactly when it asks for
  no epoch or for one above the stored one; the epoch it returns is the stored one afterwards and
  is above the previous one, unless the counter has reached its largest value; and any claim of
  that epoch or a lower one by another coordinator is refused from then on.\<close>

theorem claim_epoch_strict:
  "((\<exists>e s'. claim_coordinator_epoch req s = Inr (e, s')) \<longleftrightarrow> (\<forall>v. req = Some v \<longrightarrow> stored_epoch s < v)) \<and>
    (claim_coordinator_epoch req s = Inr (e, s') \<longrightarrow>
       stored_epoch s' = e \<and> (stored_epoch s < e \<or> stored_epoch s = u64_max) \<and>
       (\<forall>v \<le> e. \<exists>err. claim_coordinator_epoch (Some v) s' = Inl err))"
proof (intro conjI impI allI)
  show "(\<exists>e s'. claim_coordinator_epoch req s = Inr (e, s')) \<longleftrightarrow> (\<forall>v. req = Some v \<longrightarrow> stored_epoch s < v)"
    unfolding stored_epoch_def by (cases req) (auto simp: claim_coordinator_epoch_def Let_def)
next
  assume c: "claim_coordinator_epoch req s = Inr (e, s')"
  then show st: "stored_epoch s' = e"
    unfolding stored_epoch_def by (auto simp: claim_coordinator_epoch_def Let_def split: option.splits if_splits)
  have above: "a < sat_add a 1 \<or> a = u64_max" for a
  proof (cases "a = u64_max")
    case False
    have "unat a \<noteq> unat u64_max" using False unsigned_word_eqI [of a u64_max] by blast
    then have "unat a \<noteq> 2 ^ 64 - 1" by simp
    with unat_u64_less [of a] have "unat a < min (unat a + 1) (2 ^ 64 - 1)" by simp
    then show ?thesis by (simp add: word_less_nat_alt unat_sat_add)
  qed simp
  then show "stored_epoch s < e \<or> stored_epoch s = u64_max"
    using c above [of 0] unfolding stored_epoch_def
    by (auto simp: claim_coordinator_epoch_def Let_def split: option.splits if_splits)
  fix v assume "v \<le> e"
  then show "\<exists>err. claim_coordinator_epoch (Some v) s' = Inl err"
    using st unfolding stored_epoch_def by (auto simp: claim_coordinator_epoch_def Let_def)
qed

theorem claim_epoch_strict_witness:
  "claim_coordinator_epoch None empty_store = Inr (1, empty_store\<lparr>st_coordinator_epoch := Some 1\<rparr>) \<and>
   (\<exists>err. claim_coordinator_epoch (Some 1) (empty_store\<lparr>st_coordinator_epoch := Some 1\<rparr>) = Inl err)"
proof -
  have c: "claim_coordinator_epoch None empty_store = Inr (1, empty_store\<lparr>st_coordinator_epoch := Some 1\<rparr>)"
    by (simp add: claim_coordinator_epoch_def empty_store_def sat_add_def)
  with claim_epoch_strict [of None empty_store 1 "empty_store\<lparr>st_coordinator_epoch := Some 1\<rparr>"]
  show ?thesis by auto
qed

subsection \<open>Claim, fence and release of a workload\<close>

lemma workload_claim_Inr:
  "workload_claim i n t e s = Inr (u, s') \<longleftrightarrow> (\<exists>w. workload_row i s = Some w \<and>
     (w_single_active w \<longrightarrow> w_active_node w \<in> {None, Some n, Some ''MIGRATING''}) \<and>
     w_execution_epoch w = e \<and>
     s' = upd_workload i (\<lambda>r. r\<lparr>w_active_node := Some n, w_fence_token := Some t,
            w_fence_epoch := w_execution_epoch w\<rparr>) s)"
proof (cases "workload_row i s")
  case (Some w)
  then show ?thesis by (cases "w_active_node w") (auto simp: workload_claim_def)
qed (simp add: workload_claim_def ok_or_def)

lemma workload_bump_fence_Inr:
  "workload_bump_fence i e s = Inr (e', s') \<longleftrightarrow> (\<exists>w. workload_row i s = Some w \<and>
     w_execution_epoch w = e \<and> sql_u64 (e + 1) \<and> e' = e + 1 \<and>
     s' = upd_workload i (\<lambda>r. r\<lparr>w_execution_epoch := e + 1, w_fence_token := None, w_active_node := None\<rparr>) s)"
proof (cases "workload_row i s")
  case (Some w)
  then show ?thesis by (auto simp: workload_bump_fence_def Let_def)
qed (simp add: workload_bump_fence_def ok_or_def)

lemma workload_row_claim:
  "workload_claim i n t e s = Inr (u, s') \<Longrightarrow> \<exists>w. workload_row i s = Some w \<and>
     workload_row i s' = Some (w\<lparr>w_active_node := Some n, w_fence_token := Some t, w_fence_epoch := e\<rparr>)"
  by (auto simp: workload_claim_Inr)


definition unclaimed_store :: store where
  "unclaimed_store = empty_store\<lparr>st_workloads :=
     [sample_workload\<lparr>w_active_node := None, w_fence_token := None\<rparr>]\<rparr>"

lemma unclaimed_row: "workload_row (Id (replicate 16 1)) unclaimed_store =
   Some (sample_workload\<lparr>w_active_node := None, w_fence_token := None\<rparr>)"
  by (simp add: unclaimed_store_def workload_row_def row_get_def sample_workload_def)


subsection \<open>The restore commit\<close>

text \<open>C5: a committed restore moves the authority and fences everything older. It is
  possible only for a checkpoint being restored; the workload's generation rises by one and its
  execution epoch by one, or by two for a migration; the target node with the new token is from
  then on the only one that passes the fence test, and the checkpoint is marked restored. No
  other workload and no other checkpoint changes, and the commit is journalled.\<close>

theorem restore_commit_effect:
  assumes ok: "store_ok s" and commit: "restore_commit now i a n t mig rb s = Inr (u, s')"
  shows "\<exists>c w c' w'. checkpoint_row i s = Some c \<and> workload_row (ck_workload_id c) s = Some w \<and>
    checkpoint_row i s' = Some c' \<and> workload_row (ck_workload_id c) s' = Some w' \<and>
    ck_lifecycle c = Restoring \<and> ck_lifecycle c' = Restored \<and>
    ck_restore_count c' = ck_restore_count c + 1 \<and>
    unat (w_workload_generation w') = unat (w_workload_generation w) + 1 \<and>
    unat (w_execution_epoch w') = unat (w_execution_epoch w) + (if mig then 2 else 1) \<and>
    w_fence_epoch w' = w_execution_epoch w' \<and>
    w_checkpoint_generation w' = ck_checkpoint_generation c \<and>
    (\<forall>m k. validate_fence w' m k = Inr () \<longleftrightarrow> m = n \<and> k = t) \<and>
    (\<forall>j. j \<noteq> ck_workload_id c \<longrightarrow> workload_row j s' = workload_row j s) \<and>
    (\<forall>j. j \<noteq> i \<longrightarrow> checkpoint_row j s' = checkpoint_row j s) \<and>
    journal_mem ''restore'' a ''generation_committed'' s'"
proof -
  from commit obtain c w where c: "checkpoint_row i s = Some c" "ck_lifecycle c = Restoring"
    and w: "workload_row (ck_workload_id c) s = Some w"
    and s': "s' = add_journal ''restore'' a ''generation_committed'' ''generation committed atomically'' now
            (restore_records now i a c mig rb (restore_checkpoint_row i
              (restore_workload c (sat_add (w_workload_generation w) 1)
                (sat_add (sat_add (w_execution_epoch w) 1) (if mig then 1 else 0)) n t s)))"
    by (auto simp: restore_commit_Inr)
  have sql: "sql_u64 (w_workload_generation w)" "sql_u64 (w_execution_epoch w)"
    using workload_sql_row [OF ok w] by (auto simp: workload_sql_ok_def)
  have "unat (sat_add (sat_add (w_execution_epoch w) 1) (if mig then 1 else 0))
      = unat (w_execution_epoch w) + (if mig then 2 else 1)"
    using sql(2) by (simp add: unat_sat_add sql_u64_def)
  moreover have "unat (sat_add (w_workload_generation w) 1) = unat (w_workload_generation w) + 1"
    using sql(1) by (rule unat_sat_add_sql)
  ultimately show ?thesis using c w
    by (auto simp: s' restore_checkpoint_row_def restore_workload_def)
qed

definition restoring_store :: store where
  "restoring_store = empty_store\<lparr>st_workloads := [sample_workload],
     st_checkpoints := [sample_persisted\<lparr>ck_lifecycle := Restoring\<rparr>]\<rparr>"

lemma restoring_rows [simp]:
  "checkpoint_row (Id (replicate 16 2)) restoring_store = Some (sample_persisted\<lparr>ck_lifecycle := Restoring\<rparr>)"
  "workload_row (Id (replicate 16 1)) restoring_store = Some sample_workload"
  by (simp_all add: checkpoint_row_def workload_row_def row_get_def restoring_store_def
      sample_persisted_def sample_checkpoint_def sample_workload_def)

lemma restoring_store_ok: "store_ok restoring_store"
  by (simp add: store_ok_def restoring_store_def empty_store_def workload_sql_ok_def sample_workload_def
      sample_persisted_def sample_checkpoint_def checkpoint_to_row_iff)

theorem restore_commit_effect_witness:
  "\<exists>s'. restore_commit 7 (Id (replicate 16 2)) ''att'' ''n2'' ''new'' True False restoring_store = Inr ((), s') \<and>
     journal_mem ''restore'' ''att'' ''generation_committed'' s'"
proof -
  have "sql_u64 (sat_add 0 1)" "sql_u64 (sat_add (sat_add 0 1) 1)"
    by (simp_all add: sat_add_def sql_u64_def)
  then obtain s' where "restore_commit 7 (Id (replicate 16 2)) ''att'' ''n2'' ''new'' True False restoring_store
      = Inr ((), s')"
    by (auto simp: restore_commit_Inr sample_persisted_def sample_checkpoint_def sample_workload_def)
  with restore_commit_effect [OF restoring_store_ok this] show ?thesis by blast
qed

subsection \<open>Nodes\<close>

lemma node_row_upd [simp]:
  "(\<And>n. n_id (f n) = n_id n) \<Longrightarrow> node_row j (upd_node i f s) =
     (if j = i then map_option f (node_row j s) else node_row j s)"
  by (simp add: node_row_def row_get_update)

lemma node_register_row:
  "node_register now i a b r s = Inr (u, s') \<Longrightarrow>
     \<exists>m. node_row i s' = Some m \<and> n_boot_id m = b \<and> n_status m = ''ACTIVE''"
  by (auto simp: node_register_def split: option.splits if_splits)
    (auto simp: node_row_def row_get_append)

text \<open>C28: a node identity belongs to one boot at a time. While a node is active, a
  registration under another boot identifier is refused; after a successful registration exactly
  that boot identifier is accepted for requests of the node, so the previous incarnation is
  fenced off; and a node that was declared stale is accepted under no boot identifier.\<close>

theorem node_boot_fencing:
  "(node_row i s = Some m \<and> n_status m = ''ACTIVE'' \<and> n_boot_id m \<noteq> b \<longrightarrow>
      (\<exists>e. node_register now i a b r s = Inl (FencingFailure e))) \<and>
   (node_register now i a b r s = Inr (u, s') \<longrightarrow>
      (\<forall>b'. node_validate_identity i b' s' = Inr () \<longleftrightarrow> b' = b)) \<and>
   (node_set_status i ''STALE'' s = Inr (u, s'') \<longrightarrow>
      (\<forall>b'. \<exists>e. node_validate_identity i b' s'' = Inl (FencingFailure e)))"
proof (intro conjI impI allI)
  assume "node_row i s = Some m \<and> n_status m = ''ACTIVE'' \<and> n_boot_id m \<noteq> b"
  then show "\<exists>e. node_register now i a b r s = Inl (FencingFailure e)"
    by (simp add: node_register_def)
next
  fix b' assume "node_register now i a b r s = Inr (u, s')"
  then show "node_validate_identity i b' s' = Inr () \<longleftrightarrow> b' = b"
    using node_register_row [of now i a b r s u s']
    by (auto simp: node_validate_identity_def split: if_splits)
next
  fix b' assume "node_set_status i ''STALE'' s = Inr (u, s'')"
  then show "\<exists>e. node_validate_identity i b' s'' = Inl (FencingFailure e)"
    by (auto simp: node_set_status_def node_validate_identity_def split: option.split)
qed

definition sample_resources :: node_resources where
  "sample_resources = \<lparr>nr_data_dir = ''/data'', nr_runtime = sample_runtime,
     nr_hardware = default_hardware, nr_details = JNull\<rparr>"

theorem node_boot_fencing_witness:
  "\<exists>s'. node_register 0 ''n1'' ''addr'' ''boot1'' sample_resources empty_store = Inr ((), s') \<and>
     node_validate_identity ''n1'' ''boot2'' s' \<noteq> Inr ()"
proof -
  obtain s' where r: "node_register 0 ''n1'' ''addr'' ''boot1'' sample_resources empty_store = Inr ((), s')"
    by (simp add: node_register_def node_row_def row_get_def empty_store_def)
  with node_boot_fencing [of "''n1''" empty_store _ "''boot1''" 0 "''addr''" sample_resources "()" s' empty_store]
  show ?thesis by (intro exI [of _ s']) auto
qed

subsection \<open>Reservations\<close>

definition scope_covered :: "string \<Rightarrow> ident \<Rightarrow> ident \<Rightarrow> store \<Rightarrow> bool" where
  "scope_covered kind w c s \<longleftrightarrow> (\<exists>r \<in> set (st_reservations s). rs_state r = ''ACTIVE'' \<and> rs_kind r = kind \<and>
      (if kind = ''capture'' then rs_workload_id r = Some w else rs_checkpoint_id r = Some c))"

lemma active_scope_Some:
  "active_scope r = Some (k, x) \<longleftrightarrow> rs_state r = ''ACTIVE'' \<and> rs_kind r = k \<and>
     (k = ''capture'' \<and> rs_workload_id r = Some x \<or> k = ''restore'' \<and> rs_checkpoint_id r = Some x)"
  by (auto simp: active_scope_def)

lemma scope_covered_iff:
  assumes "kind \<in> {''capture'', ''restore''}"
  shows "scope_covered kind w c s \<longleftrightarrow>
    Some (kind, if kind = ''capture'' then w else c) \<in> active_scope ` set (st_reservations s)"
proof -
  have "Some y \<in> active_scope ` R \<longleftrightarrow> (\<exists>r \<in> R. active_scope r = Some y)" for y R
    by (auto simp: image_iff eq_commute)
  with assms show ?thesis by (auto simp: scope_covered_def active_scope_Some)
qed



subsection \<open>Rows and locations\<close>

definition stored_form :: "checkpoint_object \<Rightarrow> checkpoint_object" where
  "stored_form c = c\<lparr>ck_components := sort_key ce_component_id (ck_components c),
     ck_lineage_parents := opt_list (ck_parent_checkpoint c) @ opt_list (ck_supersedes c),
     ck_lineage_children := opt_list (ck_superseded_by c)\<rparr>"

lemma components_of_fresh:
  assumes "store_ok s" "i \<notin> ck_checkpoint_id ` set (st_checkpoints s)"
  shows "filter (\<lambda>r. cm_checkpoint_id r = i) (st_components s) = []"
  using assms by (auto simp: store_ok_def components_owned_def filter_empty_conv)

lemma map_entries: "map cm_entry (filter (\<lambda>r. cm_checkpoint_id r = i)
    (map (\<lambda>e. \<lparr>cm_checkpoint_id = i, cm_entry = e\<rparr>) es)) = es"
  by (induction es) auto



lemma length_filter_drop: "x \<in> set xs \<Longrightarrow> \<not> P x \<Longrightarrow> length (filter P xs) < length xs"
  using length_filter_less [of x xs P] by simp

lemma set_locations_row:
  "checkpoint_row i s = Some c \<Longrightarrow> checkpoint_row i (set_locations i ls s) =
     Some (c\<lparr>ck_durable_locations := ls, ck_replica_count := of_nat (length ls)\<rparr>)"
  by (simp add: set_locations_def)

text \<open>C30: a restarted node never counts twice. Rebinding a checkpoint to a node leaves exactly
  one location on that node, at the node's own commit directory, drops the location any other
  (earlier) node identity had at the same path, keeps every other location, keeps the replica
  count equal to the number of locations, and marks the location verified only if a verified
  location with the same path or node was there before.\<close>

theorem rebind_location_sound:
  assumes c: "checkpoint_row i s = Some c" and r: "checkpoint_rebind_location h i n d s = Inr (u, s')"
  shows "\<exists>c' v. checkpoint_row i s' = Some c' \<and>
    ck_replica_count c' = of_nat (length (ck_durable_locations c')) \<and>
    filter (\<lambda>l. dl_node l = n) (ck_durable_locations c') =
      [\<lparr>dl_node = n, dl_path = commit_dir h d i, dl_verified = v\<rparr>] \<and>
    (v \<longrightarrow> (\<exists>l \<in> set (ck_durable_locations c). dl_verified l \<and>
              (path_eq (dl_path l) (commit_dir h d i) \<or> dl_node l = n))) \<and>
    (\<forall>l. dl_node l \<noteq> n \<longrightarrow> (l \<in> set (ck_durable_locations c') \<longleftrightarrow>
       l \<in> set (ck_durable_locations c) \<and> \<not> path_eq (dl_path l) (commit_dir h d i))) \<and>
    ((\<exists>l \<in> set (ck_durable_locations c). path_eq (dl_path l) (commit_dir h d i) \<or> dl_node l = n) \<longrightarrow>
       length (ck_durable_locations c') \<le> length (ck_durable_locations c))"
proof -
  let ?commit = "commit_dir h d i"
  let ?v = "list_ex (\<lambda>l. (path_eq (dl_path l) ?commit \<or> dl_node l = n) \<and> dl_verified l) (ck_durable_locations c)"
  let ?keep = "filter (\<lambda>l. \<not> path_eq (dl_path l) ?commit \<and> dl_node l \<noteq> n) (ck_durable_locations c)"
  let ?ls = "?keep @ [\<lparr>dl_node = n, dl_path = ?commit, dl_verified = ?v\<rparr>]"
  have s': "s' = set_locations i ?ls s"
    using c r by (simp add: checkpoint_rebind_location_def Let_def)
  have len: "length ?ls \<le> length (ck_durable_locations c)"
    if "\<exists>l \<in> set (ck_durable_locations c). path_eq (dl_path l) ?commit \<or> dl_node l = n"
  proof -
    from that obtain l where "l \<in> set (ck_durable_locations c)" "path_eq (dl_path l) ?commit \<or> dl_node l = n" by blast
    then have "length ?keep < length (ck_durable_locations c)" by (intro length_filter_drop) auto
    then show ?thesis by simp
  qed
  have one: "filter (\<lambda>l. dl_node l = n) ?keep = []" by (simp add: filter_empty_conv)
  have v: "?v \<longrightarrow> (\<exists>l \<in> set (ck_durable_locations c). dl_verified l \<and> (path_eq (dl_path l) ?commit \<or> dl_node l = n))"
    by (auto simp: list_ex_iff)
  show ?thesis
    by (intro exI [of _ "c\<lparr>ck_durable_locations := ?ls, ck_replica_count := of_nat (length ?ls)\<rparr>"] exI [of _ ?v])
      (use set_locations_row [OF c, of ?ls] len one v in \<open>auto simp: s'\<close>)
qed

theorem rebind_location_sound_witness:
  "\<exists>s'. checkpoint_rebind_location hex_enc (Id (replicate 16 2)) ''n9'' ''/data'' sample_store = Inr ((), s') \<and>
     (\<exists>c'. checkpoint_row (Id (replicate 16 2)) s' = Some c' \<and>
        ck_replica_count c' = of_nat (length (ck_durable_locations c')))"
proof -
  obtain s' where r: "checkpoint_rebind_location hex_enc (Id (replicate 16 2)) ''n9'' ''/data'' sample_store = Inr ((), s')"
    by (simp add: checkpoint_rebind_location_def Let_def)
  from rebind_location_sound [OF sample_store_rows(1) r] r show ?thesis by blast
qed

end
