(* ===== verification/Failpoints.thy ===== *)
theory Failpoints
  imports Errors
begin

section \<open>Failpoints (failpoints.rs)\<close>

text \<open>The registry of armed failpoints is a map from names to counts, kept as an association
  list. The specification text of the environment is parsed over bytes; only ASCII white space
  is trimmed.\<close>

definition fp_arm :: "string \<Rightarrow> u32 \<Rightarrow> (string \<times> u32) list \<Rightarrow> (string \<times> u32) list" where
  "fp_arm name count m = (name, count) # filter (\<lambda>(k, _). k \<noteq> name) m"

definition fp_disarm :: "string \<Rightarrow> (string \<times> u32) list \<Rightarrow> (string \<times> u32) list" where
  "fp_disarm name m = filter (\<lambda>(k, _). k \<noteq> name) m"

definition fp_is_armed :: "string \<Rightarrow> (string \<times> u32) list \<Rightarrow> bool" where
  "fp_is_armed name m \<longleftrightarrow> map_of m name \<noteq> None"

definition fp_fire :: "string \<Rightarrow> (string \<times> u32) list \<Rightarrow> bool \<times> (string \<times> u32) list" where
  "fp_fire name m =
     (case map_of m name of
        None \<Rightarrow> (False, m)
      | Some count \<Rightarrow>
          if count > 0
          then (True, if count - 1 = 0 then fp_disarm name m else fp_arm name (count - 1) m)
          else (False, m))"

subsection \<open>Specification text\<close>

fun split_on :: "char \<Rightarrow> string \<Rightarrow> string \<Rightarrow> string list" where
  "split_on d acc [] = [rev acc]"
| "split_on d acc (c # cs) = (if c = d then rev acc # split_on d [] cs else split_on d (c # acc) cs)"

fun split_once :: "char \<Rightarrow> string \<Rightarrow> (string \<times> string) option" where
  "split_once d [] = None"
| "split_once d (c # cs) =
     (if c = d then Some ([], cs) else map_option (\<lambda>(a, b). (c # a, b)) (split_once d cs))"

definition is_space :: "char \<Rightarrow> bool" where
  "is_space c \<longleftrightarrow> (of_char c :: nat) \<in> {9, 10, 11, 12, 13, 32}"

definition trim :: "string \<Rightarrow> string" where
  "trim s = rev (dropWhile is_space (rev (dropWhile is_space s)))"

definition digit_value :: "char \<Rightarrow> nat option" where
  "digit_value c = (let n = of_char c :: nat in if 48 \<le> n \<and> n \<le> 57 then Some (n - 48) else None)"

fun decimal :: "nat \<Rightarrow> string \<Rightarrow> nat option" where
  "decimal acc [] = Some acc"
| "decimal acc (c # cs) = (case digit_value c of None \<Rightarrow> None | Some d \<Rightarrow> decimal (10 * acc + d) cs)"

text \<open>\<open>str::parse::<u32>\<close>: an optional plus sign, at least one digit, no overflow.\<close>

definition parse_u32 :: "string \<Rightarrow> u32 option" where
  "parse_u32 s =
     (let ds = (case s of [] \<Rightarrow> [] | c # cs \<Rightarrow> if c = CHR ''+'' then cs else s)
      in if ds = [] then None
         else case decimal 0 ds of None \<Rightarrow> None | Some n \<Rightarrow> if n < 2 ^ 32 then Some (of_nat n) else None)"

definition parse_part :: "string \<Rightarrow> string \<times> u32" where
  "parse_part part =
     (case split_once (CHR '':'') part of
        Some (name, count) \<Rightarrow>
          (trim name, max (case parse_u32 count of None \<Rightarrow> 1 | Some n \<Rightarrow> n) 1)
      | None \<Rightarrow> (trim part, 1))"

definition parse_env :: "string \<Rightarrow> (string \<times> u32) list" where
  "parse_env spec = map parse_part (filter (\<lambda>s. s \<noteq> []) (split_on (CHR '','') [] spec))"

definition arm_from_spec :: "string \<Rightarrow> (string \<times> u32) list \<Rightarrow> (string \<times> u32) list" where
  "arm_from_spec spec m = fold (\<lambda>(name, count). fp_arm name count) (parse_env spec) m"

subsection \<open>Lemmas\<close>

lemma map_of_filter_other:
  "map_of (filter (\<lambda>(k, _). k \<noteq> n) m) k = (if k = n then None else map_of m k)"
  by (induction m) auto

lemma map_of_fp_arm [simp]: "map_of (fp_arm n c m) k = (if k = n then Some c else map_of m k)"
  by (simp add: fp_arm_def map_of_filter_other)

lemma map_of_fp_disarm [simp]: "map_of (fp_disarm n m) k = (if k = n then None else map_of m k)"
  by (simp add: fp_disarm_def map_of_filter_other)

text \<open>What a run of \<open>k\<close> calls of \<open>fire\<close> on one name answers.\<close>

fun fires :: "string \<Rightarrow> nat \<Rightarrow> (string \<times> u32) list \<Rightarrow> bool list \<times> (string \<times> u32) list" where
  "fires name 0 m = ([], m)"
| "fires name (Suc k) m =
     (let (hit, m1) = fp_fire name m; (hits, m2) = fires name k m1 in (hit # hits, m2))"

definition charge :: "string \<Rightarrow> (string \<times> u32) list \<Rightarrow> nat" where
  "charge name m = (case map_of m name of None \<Rightarrow> 0 | Some c \<Rightarrow> unat c)"

lemma fp_fire_charge:
  "fp_fire name m = (hit, m1) \<Longrightarrow> hit = (charge name m > 0) \<and> charge name m1 = charge name m - 1 \<and>
     (k \<noteq> name \<longrightarrow> map_of m1 k = map_of m k)"
  by (auto simp: fp_fire_def charge_def unat_gt_0 unat_minus_one word_gt_0
      split: option.splits if_splits)

lemma fires_charge:
  "fires name k m = (hits, m1) \<Longrightarrow>
     hits = replicate (min k (charge name m)) True @ replicate (k - charge name m) False \<and>
     charge name m1 = charge name m - k \<and> (j \<noteq> name \<longrightarrow> map_of m1 j = map_of m j)"
proof (induction k arbitrary: m hits)
  case 0
  then show ?case by simp
next
  case (Suc k)
  obtain hit m2 rest where 1: "fp_fire name m = (hit, m2)" "fires name k m2 = (rest, m1)"
    and h: "hits = hit # rest" using Suc.prems by (auto simp: Let_def split: prod.splits)
  have c: "hit = (charge name m > 0)" "charge name m2 = charge name m - 1"
    "j \<noteq> name \<Longrightarrow> map_of m2 j = map_of m j" using fp_fire_charge [OF 1(1), of j] by simp_all
  have ih: "rest = replicate (min k (charge name m2)) True @ replicate (k - charge name m2) False"
    "charge name m1 = charge name m2 - k" "j \<noteq> name \<Longrightarrow> map_of m1 j = map_of m2 j"
    using Suc.IH [OF 1(2)] by simp_all
  have "hits = replicate (min (Suc k) (charge name m)) True @ replicate (Suc k - charge name m) False"
    unfolding h ih(1) c(1,2) by (cases "charge name m") simp_all
  moreover have "charge name m1 = charge name m - Suc k" unfolding ih(2) c(2) by simp
  moreover have "j \<noteq> name \<longrightarrow> map_of m1 j = map_of m j" using c(3) ih(3) by simp
  ultimately show ?case by (intro conjI)
qed

lemma parse_part_positive: "0 < snd (parse_part p)"
  by (auto simp: parse_part_def word_gt_0 max_def split: option.splits prod.splits)

subsection \<open>Properties\<close>

text \<open>An armed failpoint fires exactly as often as it was armed for: over any number of
  calls of \<open>fire\<close>, the first \<open>count\<close> fail and all later ones pass, a disarmed one
  never fails, and no call touches another failpoint. What the specification text arms always
  has a positive count, so every name in it fails at least once.\<close>

theorem failpoint_fires_exactly:
  "fst (fires name k (fp_arm name count m)) =
     replicate (min k (unat count)) True @ replicate (k - unat count) False \<and>
   fst (fires name k (fp_disarm name m)) = replicate k False \<and>
   map_of (snd (fires name k m)) = (map_of m)(name := map_of (snd (fires name k m)) name) \<and>
   list_all (\<lambda>(_, c). 0 < c) (parse_env spec)"
proof (intro conjI)
  note F = fires_charge [OF surjective_pairing]
  show "fst (fires name k (fp_arm name count m)) =
     replicate (min k (unat count)) True @ replicate (k - unat count) False"
    using F [of name k "fp_arm name count m"] by (simp add: charge_def)
  show "fst (fires name k (fp_disarm name m)) = replicate k False"
    using F [of name k "fp_disarm name m"] by (simp add: charge_def)
  show "map_of (snd (fires name k m)) = (map_of m)(name := map_of (snd (fires name k m)) name)"
  proof (rule ext)
    fix j
    have "j \<noteq> name \<longrightarrow> map_of (snd (fires name k m)) j = map_of m j" using F [of name k m j] by (elim conjE)
    then show "map_of (snd (fires name k m)) j = ((map_of m)(name := map_of (snd (fires name k m)) name)) j"
      by simp
  qed
  show "list_all (\<lambda>(_, c). 0 < c) (parse_env spec)"
    unfolding parse_env_def list.pred_map by (simp add: list_all_iff case_prod_unfold parse_part_positive)
qed

lemma parse_env_example: "parse_env ''a, b:3,,c:x'' = [(''a'', 1), (''b'', 3), (''c'', 1)]"
  by (simp add: parse_env_def parse_part_def trim_def is_space_def parse_u32_def digit_value_def)

end
