(* ===== verification/CoordSteps.thy ===== *)
theory CoordSteps
  imports StoreAuthority
begin

section \<open>What a coordinator may do to the store\<close>

text \<open>
  The abstract specification of the coordinator: the transactions it runs, each with the guard the
  coordinator establishes before it. The store alone would allow any lifecycle to be written;
  the coordinator only moves along the machine of \<open>lifecycle.rs\<close>, enters the committed
  states only through \<open>capture_commit\<close>, and touches the anchor or the content of a
  checkpoint only before it is committed. That every operation of the coordinator is a sequence
  of these steps is proved with the operations; here the invariants of the steps.
\<close>

definition life_move :: "lifecycle_state \<Rightarrow> lifecycle_state \<Rightarrow> bool" where
  "life_move s t \<longleftrightarrow> s \<noteq> Retired \<and> (can_transition s t \<or> (t = Failed \<and> s \<in> {Created, Failed}))"

definition guarded_move :: "lifecycle_state \<Rightarrow> lifecycle_state \<Rightarrow> bool" where
  "guarded_move s t \<longleftrightarrow> life_move s t \<and> (committed_state t \<longrightarrow> committed_state s)"

definition life_of :: "ident \<Rightarrow> store \<Rightarrow> lifecycle_state option" where
  "life_of i s = map_option ck_lifecycle (checkpoint_row i s)"

inductive coord_step :: "store \<Rightarrow> store \<Rightarrow> bool" where
  "claim_coordinator_epoch r s = Inr (e, s') \<Longrightarrow> coord_step s s'"
| "policy_insert p b s = Inr (u, s') \<Longrightarrow> coord_step s s'"
| "workload_insert w s = Inr (u, s') \<Longrightarrow> coord_step s s'"
| "workload_insert_fork now w p c d s = Inr (u, s') \<Longrightarrow> coord_step s s'"
| "workload_bump_fence i e s = Inr (e', s') \<Longrightarrow> coord_step s s'"
| "workload_claim i n t e s = Inr (u, s') \<Longrightarrow> coord_step s s'"
| "workload_release i n s = Inr (u, s') \<Longrightarrow> coord_step s s'"
| "checkpoint_insert c s = Inr (u, s') \<Longrightarrow> ck_lifecycle c = Created \<Longrightarrow> coord_step s s'"
| "checkpoint_update c s = Inr (u, s') \<Longrightarrow> ck_lifecycle c = Persisting \<Longrightarrow>
     life_of (ck_checkpoint_id c) s = Some Persisting \<Longrightarrow> coord_step s s'"
| "checkpoint_set_lifecycle i l v s = Inr (u, s') \<Longrightarrow> life_of i s = Some l0 \<Longrightarrow> guarded_move l0 l \<Longrightarrow>
     coord_step s s'"
| "checkpoint_set_digest i d j s = Inr (u, s') \<Longrightarrow> life_of i s = Some Validating \<Longrightarrow> coord_step s s'"
| "capture_commit now i a s = Inr (u, s') \<Longrightarrow> coord_step s s'"
| "restore_commit now i a n t mig rb s = Inr (u, s') \<Longrightarrow> coord_step s s'"
| "checkpoint_set_protection i p' s = Inr (u, s') \<Longrightarrow> coord_step s s'"
| "checkpoint_retire i s = Inr (u, s') \<Longrightarrow> coord_step s s'"
| "checkpoint_set_integrity i v s = Inr (u, s') \<Longrightarrow> coord_step s s'"
| "checkpoint_add_location i l' s = Inr (u, s') \<Longrightarrow> coord_step s s'"
| "checkpoint_rebind_location h i n d s = Inr (u, s') \<Longrightarrow> coord_step s s'"
| "attempt_begin now a k co wo n s = Inr (u, s') \<Longrightarrow> coord_step s s'"
| "attempt_finish now a st r' e'' s = Inr (u, s') \<Longrightarrow> coord_step s s'"
| "node_register now n a b rs s = Inr (u, s') \<Longrightarrow> coord_step s s'"
| "node_heartbeat now n rs s = Inr (u, s') \<Longrightarrow> coord_step s s'"
| "node_set_status n st s = Inr (u, s') \<Longrightarrow> coord_step s s'"
| "nodes_sweep_stale t' s = Inr (ns, s') \<Longrightarrow> coord_step s s'"
| "reservation_create now a k wo co n ttl s = Inr (u, s') \<Longrightarrow> coord_step s s'"
| "reservation_release a s = Inr (u, s') \<Longrightarrow> coord_step s s'"
| "reservations_expire t' s = Inr (m, s') \<Longrightarrow> coord_step s s'"
| "audit_append now a op wo co r'' d s = Inr (u, s') \<Longrightarrow> coord_step s s'"
| "journal_append now k a b d s = Inr (u, s') \<Longrightarrow> coord_step s s'"

abbreviation coord_steps :: "store \<Rightarrow> store \<Rightarrow> bool" where
  "coord_steps \<equiv> coord_step\<^sup>*\<^sup>*"

lemma coord_step_store_step: "coord_step s s' \<Longrightarrow> store_step s s'"
  by (induction rule: coord_step.induct) (erule store_step.intros)+

lemma coord_steps_grow:
  assumes "coord_steps s s'" "store_ok s"
  shows "store_ok s' \<and> store_le s s'"
  using mono_rtranclp [of coord_step store_step, THEN mp, OF _ assms(1)] coord_step_store_step
    store_steps_keep assms(2) by blast

subsection \<open>How a checkpoint row moves\<close>

text \<open>A committed checkpoint is anchored: it has a durable location and a manifest digest.\<close>

definition anchored_row :: "checkpoint_object \<Rightarrow> bool" where
  "anchored_row c \<longleftrightarrow> (committed_state (ck_lifecycle c) \<longrightarrow>
     ck_durable_locations c \<noteq> [] \<and> (\<exists>d. ck_manifest_digest c = Some d \<and> d \<noteq> []))"

lemma life_move_leaves_capture:
  "life_move s t \<Longrightarrow> \<not> pre_commit_state s \<Longrightarrow> \<not> pre_commit_state t"
  by (auto simp: life_move_def pre_commit_state_def dest: no_return_before_commit)

lemma life_moves_leave_capture: "life_move\<^sup>*\<^sup>* s t \<Longrightarrow> \<not> pre_commit_state s \<Longrightarrow> \<not> pre_commit_state t"
  by (induction rule: rtranclp_induct) (auto dest: life_move_leaves_capture)

text \<open>Once a checkpoint left the capture phase its anchor is fixed.\<close>

definition row_move :: "checkpoint_object \<Rightarrow> checkpoint_object \<Rightarrow> bool" where
  "row_move c c' \<longleftrightarrow> ck_checkpoint_id c' = ck_checkpoint_id c \<and>
     life_move\<^sup>*\<^sup>* (ck_lifecycle c) (ck_lifecycle c') \<and> (anchored_row c \<longrightarrow> anchored_row c') \<and>
     (\<not> pre_commit_state (ck_lifecycle c) \<longrightarrow> ck_manifest_digest c' = ck_manifest_digest c)"

definition rows_move :: "store \<Rightarrow> store \<Rightarrow> bool" where
  "rows_move s s' \<longleftrightarrow> (\<exists>cs news. st_checkpoints s' = cs @ news \<and>
     list_all2 row_move (st_checkpoints s) cs \<and> list_all (\<lambda>c. ck_lifecycle c = Created) news)"

lemma row_move_refl [simp]: "row_move c c"
  by (simp add: row_move_def)

lemma row_move_trans: "row_move a b \<Longrightarrow> row_move b c \<Longrightarrow> row_move a c"
  unfolding row_move_def using life_moves_leave_capture by (metis rtranclp_trans)

lemma list_all2_row_update:
  assumes "\<And>c. c \<in> set cs \<Longrightarrow> key c = k \<Longrightarrow> P c (f c)" "\<And>c. P c c"
  shows "list_all2 P cs (row_update key k f cs)"
  using assms by (induction cs) (auto simp: row_update_def)

lemma rows_move_same: "st_checkpoints s' = st_checkpoints s \<Longrightarrow> rows_move s s'"
  unfolding rows_move_def by (intro exI [of _ "st_checkpoints s"] exI [of _ "[]"]) (simp add: list.rel_refl)

lemma rows_move_upd:
  assumes "st_checkpoints s' = row_update ck_checkpoint_id i f (st_checkpoints s)"
    and "\<And>c. c \<in> set (st_checkpoints s) \<Longrightarrow> ck_checkpoint_id c = i \<Longrightarrow> row_move c (f c)"
  shows "rows_move s s'"
  unfolding rows_move_def using list_all2_row_update [where P = row_move, OF assms(2)] assms(1)
  by (intro exI [of _ "st_checkpoints s'"] exI [of _ "[]"]) simp

lemma rows_move_new:
  "st_checkpoints s' = st_checkpoints s @ [c] \<Longrightarrow> ck_lifecycle c = Created \<Longrightarrow> rows_move s s'"
  unfolding rows_move_def by (intro exI [of _ "st_checkpoints s"] exI [of _ "[c]"]) (simp add: list.rel_refl)

lemma Created_move: "ck_lifecycle c = Created \<Longrightarrow> row_move c c' \<Longrightarrow> anchored_row c'"
  by (auto simp: row_move_def anchored_row_def committed_state_def)

lemma life_of_unique:
  assumes "store_ok s" "life_of i s = Some l" "c \<in> set (st_checkpoints s)" "ck_checkpoint_id c = i"
  shows "ck_lifecycle c = l"
  using assms checkpoint_row_unique [OF assms(1) _ assms(3,4)] by (auto simp: life_of_def)

lemma row_move_keep:
  "ck_checkpoint_id c' = ck_checkpoint_id c \<Longrightarrow> ck_lifecycle c' = ck_lifecycle c \<Longrightarrow>
     (committed_state (ck_lifecycle c) \<Longrightarrow> ck_durable_locations c \<noteq> [] \<Longrightarrow> ck_durable_locations c' \<noteq> []) \<Longrightarrow>
     ck_manifest_digest c' = ck_manifest_digest c \<Longrightarrow> row_move c c'"
  by (auto simp: row_move_def anchored_row_def)

lemma life_move_one: "can_transition s t \<Longrightarrow> s \<noteq> Retired \<Longrightarrow> life_move\<^sup>*\<^sup>* s t"
  by (auto simp: life_move_def)

lemma capture_commit_moves:
  assumes ok: "store_ok s" and c: "checkpoint_row i s = Some c"
    and st: "ck_lifecycle c \<in> {Persisting, Available}" and loc: "ck_durable_locations c \<noteq> []"
    and d: "\<exists>d. ck_manifest_digest c = Some d \<and> d \<noteq> []"
  shows "rows_move s (commit_effect now i a c w s)"
proof -
  let ?cs = "st_checkpoints s"
  have cks: "st_checkpoints (commit_effect now i a c w s) = st_checkpoints (commit_links i p n s)"
    if "p = prev_visible (ck_workload_id c) (ck_checkpoint_generation c) s"
      "n = next_visible (ck_workload_id c) (ck_checkpoint_generation c) s" for p n
    using that by (auto simp: commit_effect_def Let_def commit_workload_def commit_lineage_def split: option.split)
  have link: "list_all2 row_move cs (case p of None \<Rightarrow> cs | Some j \<Rightarrow> row_update ck_checkpoint_id j f cs)"
    if "\<And>x. row_move x (f x)" for p f cs
    using that by (auto split: option.split intro: list_all2_row_update list.rel_refl)
  have first: "row_move x (x\<lparr>ck_lifecycle := Available, ck_integrity_state := IValid,
      ck_supersedes := p, ck_superseded_by := n\<rparr>)" if "x \<in> set ?cs" "ck_checkpoint_id x = i" for x p n
  proof -
    have "x = c" using checkpoint_row_unique [OF ok c that] .
    moreover have "life_move\<^sup>*\<^sup>* (ck_lifecycle c) Available"
      using st by (auto intro: life_move_one)
    ultimately show ?thesis using loc d by (simp add: row_move_def anchored_row_def)
  qed
  have upd: "st_checkpoints (upd_opt p f t) =
      (case p of None \<Rightarrow> st_checkpoints t | Some j \<Rightarrow> row_update ck_checkpoint_id j f (st_checkpoints t))" for p f t
    by (simp add: upd_opt_def split: option.split)
  have "list_all2 row_move ?cs (st_checkpoints (commit_links i p n s))" for p n
    unfolding commit_links_def Let_def upd
    by (rule list_all2_trans [OF row_move_trans _ link], assumption, assumption,
        rule list_all2_trans [OF row_move_trans _ link], assumption, assumption)
      (auto intro!: list_all2_row_update first row_move_keep)
  then show ?thesis unfolding rows_move_def cks [OF refl refl]
    by (intro exI [of _ "st_checkpoints (commit_links i _ _ s)"] exI [of _ "[]"]) simp
qed

lemma set_locations_moves:
  assumes "store_ok s" "checkpoint_row i s = Some c" "ck_durable_locations c \<noteq> [] \<Longrightarrow> ls \<noteq> []"
  shows "rows_move s (set_locations i ls s)"
proof (rule rows_move_upd [of _ i])
  show "row_move x (x\<lparr>ck_durable_locations := ls, ck_replica_count := of_nat (length ls)\<rparr>)"
    if "x \<in> set (st_checkpoints s)" "ck_checkpoint_id x = i" for x
    using checkpoint_row_unique [OF assms(1,2) that] assms(3) by (auto intro: row_move_keep)
qed (simp add: set_locations_def)

lemmas other_tables = claim_coordinator_epoch_def policy_insert_def workload_insert_def
  insert_workload_row_def workload_insert_fork_def workload_bump_fence_def workload_claim_def
  workload_release_def attempt_begin_def attempt_finish_def node_register_def node_heartbeat_def
  node_set_status_def nodes_sweep_stale_def upd_node_def reservation_create_def
  reservation_release_def reservations_expire_def audit_append_def journal_append_def Let_def

lemma coord_step_moves:
  assumes "coord_step s s'" "store_ok s"
  shows "rows_move s s'"
  using assms
proof (induction rule: coord_step.induct)
  case (12 now i a s u s')
  then show ?case by (auto simp: capture_commit_Inr intro: capture_commit_moves)
next
  case (13 now i a n t mig rb s u s')
  then obtain c w where c: "checkpoint_row i s = Some c" "ck_lifecycle c = Restoring"
    and s': "st_checkpoints s' = st_checkpoints (restore_checkpoint_row i s)"
    by (auto simp: restore_commit_Inr restore_records_def restore_workload_def Let_def
        restore_checkpoint_row_def)
  show ?case
  proof (rule rows_move_upd [of _ i])
    show "row_move x (x\<lparr>ck_lifecycle := Restored, ck_integrity_state := IValid,
       ck_restore_count := ck_restore_count x + 1, ck_last_restore_result := Some ''restored''\<rparr>)"
      if "x \<in> set (st_checkpoints s)" "ck_checkpoint_id x = i" for x
      using checkpoint_row_unique [OF 13(2) c(1) that] c(2) life_move_one [of Restoring Restored]
      by (simp add: row_move_def anchored_row_def committed_state_def)
  qed (simp add: s' restore_checkpoint_row_def)
next
  case (10 i l v s u s' l0)
  show ?case
  proof (rule rows_move_upd [of _ i])
    show "row_move x (x\<lparr>ck_lifecycle := l, ck_integrity_state := v\<rparr>)"
      if "x \<in> set (st_checkpoints s)" "ck_checkpoint_id x = i" for x
      using life_of_unique [OF 10(4,2) that] 10(3)
      by (auto simp: row_move_def anchored_row_def guarded_move_def)
  qed (use 10(1) in \<open>auto simp: checkpoint_set_lifecycle_def split: if_splits\<close>)
next
  case (9 c s u s')
  show ?case
  proof (rule checkpoint_update_Inr [OF 9(1)])
    fix old rows
    assume s': "s' = (upd_checkpoint (ck_checkpoint_id c)
      (\<lambda>_. (checkpoint_to_row c)\<lparr>ck_workload_id := ck_workload_id old\<rparr>) s)\<lparr>st_components := rows\<rparr>"
    have "row_move x ((checkpoint_to_row c)\<lparr>ck_workload_id := ck_workload_id old\<rparr>)"
      if "x \<in> set (st_checkpoints s)" "ck_checkpoint_id x = ck_checkpoint_id c" for x
      using life_of_unique [OF 9(4,3) that] 9(2) that
      by (simp add: row_move_def anchored_row_def committed_state_def pre_commit_state_def checkpoint_to_row_def)
    then show ?thesis by (intro rows_move_upd [of _ "ck_checkpoint_id c"]) (simp_all add: s')
  qed
next
  case (11 i d j s u s')
  show ?case
  proof (rule rows_move_upd [of _ i])
    show "row_move x (x\<lparr>ck_manifest_digest := Some d, ck_manifest_json := Some j\<rparr>)"
      if "x \<in> set (st_checkpoints s)" "ck_checkpoint_id x = i" for x
      using life_of_unique [OF 11(3,2) that]
      by (simp add: row_move_def anchored_row_def committed_state_def pre_commit_state_def)
  qed (use 11(1) in \<open>auto simp: checkpoint_set_digest_def\<close>)
next
  case (15 i s u s')
  then obtain c where c: "checkpoint_row i s = Some c" "can_transition (ck_lifecycle c) Retired"
    and s': "s' = upd_checkpoint i (\<lambda>r. r\<lparr>ck_lifecycle := Retired, ck_retirement_eligibility := NotEligible,
       ck_durable_locations := [], ck_replica_count := 0\<rparr>) s"
    by (auto simp: checkpoint_retire_Inr)
  show ?case
  proof (rule rows_move_upd [of _ i])
    show "row_move x (x\<lparr>ck_lifecycle := Retired, ck_retirement_eligibility := NotEligible,
       ck_durable_locations := [], ck_replica_count := 0\<rparr>)"
      if "x \<in> set (st_checkpoints s)" "ck_checkpoint_id x = i" for x
      using checkpoint_row_unique [OF 15(2) c(1) that] c(2) life_move_one [of "ck_lifecycle c" Retired]
      by (cases "ck_lifecycle c") (simp_all add: row_move_def anchored_row_def committed_state_def)
  qed (simp add: s')
next
  case (14 i p' s u s')
  then show ?case
    by (auto simp: checkpoint_set_protection_def intro!: rows_move_upd [of _ i] row_move_keep)
next
  case (16 i v s u s')
  then show ?case
    by (auto simp: checkpoint_set_integrity_def intro!: rows_move_upd [of _ i] row_move_keep)
next
  case (17 i l' s u s')
  then obtain c where c: "checkpoint_row i s = Some c"
    and s': "s' = set_locations i (if list_ex (\<lambda>l. dl_node l = dl_node l') (ck_durable_locations c)
      then ck_durable_locations c else ck_durable_locations c @ [l']) s"
    by (auto simp: checkpoint_add_location_def Let_def)
  show ?case unfolding s' by (rule set_locations_moves [OF 17(2) c]) simp
next
  case (18 h i n d s u s')
  show ?case
  proof (cases "checkpoint_row i s")
    case None
    with 18(1) show ?thesis by (auto simp: checkpoint_rebind_location_def intro: rows_move_same)
  next
    case (Some c)
    with 18(1) show ?thesis
      by (auto simp: checkpoint_rebind_location_def Let_def intro!: set_locations_moves [OF 18(2) Some])
  qed
next
  case (8 c s u s')
  then show ?case by (auto dest!: checkpoint_insert_Inr intro: rows_move_new)
qed (auto intro!: rows_move_same simp: other_tables split: if_splits option.splits)

subsection \<open>Invariants of the steps\<close>

definition anchored :: "store \<Rightarrow> bool" where
  "anchored s \<longleftrightarrow> list_all anchored_row (st_checkpoints s)"

lemma rows_move_anchored: "rows_move s s' \<Longrightarrow> anchored s \<Longrightarrow> anchored s'"
  unfolding rows_move_def anchored_def list_all_iff
  by (auto simp: list_all2_conv_all_nth in_set_conv_nth row_move_def)
    (auto simp: anchored_row_def committed_state_def)

lemma rows_move_row:
  assumes "rows_move s s'" "checkpoint_row i s = Some c"
  shows "\<exists>c'. checkpoint_row i s' = Some c' \<and> row_move c c'"
proof -
  obtain cs news where s': "st_checkpoints s' = cs @ news" and l: "list_all2 row_move (st_checkpoints s) cs"
    using assms(1) by (auto simp: rows_move_def)
  have "\<exists>c'. row_get ck_checkpoint_id i cs = Some c' \<and> row_move c c'"
    using l assms(2) unfolding checkpoint_row_def
    by (induction rule: list_all2_induct) (auto simp: row_get_def row_move_def split: if_splits)
  moreover have "row_get ck_checkpoint_id i (cs @ news) = row_get ck_checkpoint_id i cs"
    if "row_get ck_checkpoint_id i cs \<noteq> None"
    using that by (induction cs) (auto simp: row_get_def)
  ultimately show ?thesis unfolding checkpoint_row_def s' by auto
qed

lemma coord_steps_rows:
  assumes "coord_steps s s'" "store_ok s"
  shows "(anchored s \<longrightarrow> anchored s') \<and>
    (\<forall>i c. checkpoint_row i s = Some c \<longrightarrow> (\<exists>c'. checkpoint_row i s' = Some c' \<and> row_move c c'))"
  using assms
proof (induction rule: rtranclp_induct)
  case base
  show ?case by (auto intro: row_move_refl)
next
  case (step t u)
  have "store_ok t" using coord_steps_grow [OF step.hyps(1) step.prems] by simp
  from coord_step_moves [OF step.hyps(2) this] have m: "rows_move t u" .
  show ?case
  proof (intro conjI allI impI)
    show "anchored u" if "anchored s" using step that rows_move_anchored [OF m] by blast
    fix i c assume "checkpoint_row i s = Some c"
    with step obtain d where "checkpoint_row i t = Some d" "row_move c d" by blast
    then show "\<exists>c'. checkpoint_row i u = Some c' \<and> row_move c c'"
      using rows_move_row [OF m] row_move_trans by blast
  qed
qed

lemma life_moves_Failed: "life_move\<^sup>*\<^sup>* Failed t \<Longrightarrow> t = Failed"
  by (induction rule: rtranclp_induct) (auto simp: life_move_def)

lemma life_moves_Retired: "life_move\<^sup>*\<^sup>* Retired t \<Longrightarrow> t = Retired"
  by (induction rule: rtranclp_induct) (auto simp: life_move_def)

end
