(* ===== verification/Programs.thy ===== *)
theory Programs
  imports Errors
begin

section \<open>Programs over a state\<close>

text \<open>
  An imperative function is a function of its state that returns a result and the state it
  leaves, also when it fails. The combinators are the control flow of the source: the operator
  \<open>?\<close>, \<open>match\<close> on a result, \<open>let _ = ...\<close>, \<open>map_err\<close> and the \<open>for\<close> loops. The
  coordinator uses them over the system state, the node over its files and tables.
\<close>

type_synonym ('s, 'a) prog = "'s \<Rightarrow> (fabric_error + 'a) \<times> 's"

definition give :: "'a \<Rightarrow> ('s, 'a) prog" where
  "give x s = (Inr x, s)"

definition raise :: "fabric_error \<Rightarrow> ('s, 'a) prog" where
  "raise e s = (Inl e, s)"

definition lift :: "'a fabric_result \<Rightarrow> ('s, 'a) prog" where
  "lift r s = (r, s)"

definition and_then :: "('s, 'a) prog \<Rightarrow> ('a \<Rightarrow> ('s, 'b) prog) \<Rightarrow> ('s, 'b) prog" where
  "and_then m f s = (case m s of (Inl e, t) \<Rightarrow> (Inl e, t) | (Inr x, t) \<Rightarrow> f x t)"

text \<open>\<open>match\<close> on a result, and \<open>let _ = ...\<close>: the error becomes a value.\<close>

definition attempt :: "('s, 'a) prog \<Rightarrow> ('s, 'a fabric_result) prog" where
  "attempt m s = (case m s of (r, t) \<Rightarrow> (Inr r, t))"

definition ignore :: "('s, 'a) prog \<Rightarrow> ('s, unit) prog" where
  "ignore m = and_then (attempt m) (\<lambda>_. give ())"

text \<open>\<open>map_err\<close> with a closure that runs an operation and keeps the original error.\<close>

definition on_error :: "('s, 'a) prog \<Rightarrow> (fabric_error \<Rightarrow> ('s, unit) prog) \<Rightarrow> ('s, 'a) prog" where
  "on_error m h s = (case m s of (Inl e, t) \<Rightarrow> (Inl e, snd (h e t)) | (Inr x, t) \<Rightarrow> (Inr x, t))"

definition rename_error :: "(fabric_error \<Rightarrow> fabric_error) \<Rightarrow> ('s, 'a) prog \<Rightarrow> ('s, 'a) prog" where
  "rename_error f m s = (case m s of (Inl e, t) \<Rightarrow> (Inl (f e), t) | (Inr x, t) \<Rightarrow> (Inr x, t))"

fun for_each :: "('a \<Rightarrow> ('s, unit) prog) \<Rightarrow> 'a list \<Rightarrow> ('s, unit) prog" where
  "for_each f [] = give ()"
| "for_each f (x # xs) = and_then (f x) (\<lambda>_. for_each f xs)"

fun for_fold :: "('b \<Rightarrow> 'a \<Rightarrow> ('s, 'b) prog) \<Rightarrow> 'b \<Rightarrow> 'a list \<Rightarrow> ('s, 'b) prog" where
  "for_fold f acc [] = give acc"
| "for_fold f acc (x # xs) = and_then (f acc x) (\<lambda>acc'. for_fold f acc' xs)"

subsection \<open>Runs\<close>

lemma and_then_Inr:
  "and_then m f s = (Inr y, s') \<longleftrightarrow> (\<exists>x t. m s = (Inr x, t) \<and> f x t = (Inr y, s'))"
  by (auto simp: and_then_def split: prod.splits sum.splits)

lemma and_then_Inl:
  "and_then m f s = (Inl e, s') \<longleftrightarrow> m s = (Inl e, s') \<or> (\<exists>x t. m s = (Inr x, t) \<and> f x t = (Inl e, s'))"
  by (auto simp: and_then_def split: prod.splits sum.splits)

lemma give_Inr [simp]: "give x s = (r, s') \<longleftrightarrow> r = Inr x \<and> s' = s"
  by (auto simp: give_def)

lemma raise_eq [simp]: "raise e s = (r, s') \<longleftrightarrow> r = Inl e \<and> s' = s"
  by (auto simp: raise_def)

lemma lift_eq [simp]: "lift r s = (r', s') \<longleftrightarrow> r = r' \<and> s' = s"
  by (auto simp: lift_def)

lemma not_Inl [simp]: "(\<forall>e. x \<noteq> Inl e) \<longleftrightarrow> (\<exists>y. x = Inr y)"
  by (cases x) auto

lemma attempt_Inr [simp]: "attempt m s = (Inr r, s') \<longleftrightarrow> m s = (r, s')"
  by (auto simp: attempt_def split: prod.splits)

lemma attempt_not_Inl [simp]: "attempt m s \<noteq> (Inl e, s')"
  by (auto simp: attempt_def split: prod.splits)

lemma rename_error_Inr [simp]: "rename_error f m s = (Inr x, s') \<longleftrightarrow> m s = (Inr x, s')"
  by (auto simp: rename_error_def split: prod.splits sum.splits)

subsection \<open>Runtime tables\<close>

text \<open>A \<open>HashMap\<close> kept behind a lock is an association list with at most one entry per key.\<close>

definition tab_insert :: "'k \<Rightarrow> 'v \<Rightarrow> ('k \<times> 'v) list \<Rightarrow> ('k \<times> 'v) list" where
  "tab_insert k v m = (k, v) # filter (\<lambda>(j, _). j \<noteq> k) m"

definition tab_remove :: "'k \<Rightarrow> ('k \<times> 'v) list \<Rightarrow> ('k \<times> 'v) list" where
  "tab_remove k m = filter (\<lambda>(j, _). j \<noteq> k) m"

lemma map_of_tab_remove [simp]: "map_of (tab_remove k m) j = (if j = k then None else map_of m j)"
  by (induction m) (auto simp: tab_remove_def)

lemma map_of_tab_insert [simp]: "map_of (tab_insert k v m) j = (if j = k then Some v else map_of m j)"
  using map_of_tab_remove [of k m j] by (simp add: tab_insert_def tab_remove_def)

text \<open>A program on a part of the state.\<close>

definition zoom :: "('s \<Rightarrow> 't) \<Rightarrow> ('t \<Rightarrow> 's \<Rightarrow> 's) \<Rightarrow> ('t, 'a) prog \<Rightarrow> ('s, 'a) prog" where
  "zoom get put m s = (case m (get s) of (r, t) \<Rightarrow> (r, put t s))"

definition look :: "('s \<Rightarrow> 'a) \<Rightarrow> ('s, 'a) prog" where
  "look f s = (Inr (f s), s)"

definition change :: "('s \<Rightarrow> 's) \<Rightarrow> ('s, unit) prog" where
  "change f s = (Inr (), f s)"

lemma look_eq [simp]: "look f s = (r, s') \<longleftrightarrow> r = Inr (f s) \<and> s' = s"
  by (auto simp: look_def)

lemma change_eq [simp]: "change f s = (r, s') \<longleftrightarrow> r = Inr () \<and> s' = f s"
  by (auto simp: change_def)

end
