(* ===== verification/Protocol.thy ===== *)
theory Protocol
  imports Restore Capture StoreTables
begin

section \<open>Requests and results between coordinator and nodes (protocol.rs)\<close>

text \<open>The payloads the coordinator exchanges with the nodes, field by field, and the journal
  states of \<open>recovery.rs\<close> the two sides agree on.\<close>

record node_capture_request =
  ncr_attempt_id :: string
  ncr_checkpoint_id :: ident
  ncr_workload_id :: ident
  ncr_checkpoint_generation :: u64
  ncr_consistency :: consistency_class
  ncr_quiescence :: quiescence_mode
  ncr_components :: "capture_component_request list"
  ncr_compression :: compression_spec
  ncr_coordinator_epoch :: u64

record node_capture_result =
  ncs_attempt_id :: string
  ncs_ok :: bool
  ncs_error :: "string option"
  ncs_components :: "component_entry list"
  ncs_total_logical_bytes :: u64
  ncs_total_physical_bytes :: u64
  ncs_compressed_bytes :: u64
  ncs_cooperative_ack :: bool
  ncs_staging_path :: "string option"

record node_restore_request =
  nrr_attempt_id :: string
  nrr_checkpoint_id :: ident
  nrr_workload_id :: ident
  nrr_expected_manifest_digest :: string
  nrr_max_component_bytes :: "u64 option"
  nrr_coordinator_epoch :: u64

record node_restore_result =
  nrs_attempt_id :: string
  nrs_ok :: bool
  nrs_error :: "string option"
  nrs_restored_components :: "string list"

record node_probe_request =
  npr_checkpoint_id :: ident
  npr_coordinator_epoch :: u64

record node_probe_result =
  nps_checkpoint_id :: ident
  nps_has_replica :: bool

record node_promote_request =
  nmr_attempt_id :: string
  nmr_checkpoint_id :: ident
  nmr_manifest_bytes :: bytes
  nmr_digest :: string
  nmr_integrity_root :: string
  nmr_coordinator_epoch :: u64

record node_promote_result =
  nms_attempt_id :: string
  nms_ok :: bool
  nms_error :: "string option"
  nms_commit_path :: "string option"

record node_resume_request =
  nur_attempt_id :: string
  nur_checkpoint_id :: ident
  nur_workload_id :: ident
  nur_fence_token :: "string option"
  nur_execution_epoch :: "u64 option"
  nur_resume :: bool
  nur_coordinator_epoch :: u64

record node_resume_result =
  nus_attempt_id :: string
  nus_ok :: bool
  nus_error :: "string option"

record node_verify_request =
  nvr_checkpoint_id :: ident
  nvr_expected_manifest_digest :: string
  nvr_coordinator_epoch :: u64

record node_verify_result =
  nvs_checkpoint_id :: ident
  nvs_ok :: bool
  nvs_error :: "string option"
  nvs_manifest_digest :: "string option"

record restore_cleanup_target =
  rct_attempt_id :: string
  rct_checkpoint_id :: ident
  rct_workload_id :: ident

record node_cleanup_request =
  nlr_staging_attempts :: "string list"
  nlr_staging_paths :: "string list"
  nlr_restore_attempts :: "restore_cleanup_target list"
  nlr_checkpoint_ids :: "ident list"
  nlr_coordinator_epoch :: u64

record node_cleanup_result =
  nls_removed_paths :: "string list"
  nls_removed_checkpoints :: "string list"
  nls_error :: "string option"

record node_replicate_request =
  nyr_attempt_id :: string
  nyr_checkpoint_id :: ident
  nyr_expected_manifest_digest :: string
  nyr_from_addr :: string
  nyr_fetch_token :: string
  nyr_coordinator_epoch :: u64

record node_replicate_result =
  nys_attempt_id :: string
  nys_ok :: bool
  nys_error :: "string option"
  nys_path :: "string option"

record node_allow_fetch_request =
  nar_checkpoint_id :: ident
  nar_fetch_token :: string
  nar_ttl_ms :: u64
  nar_coordinator_epoch :: u64

record envelope =
  env_status :: u16
  env_error :: "string option"

definition envelope_ok :: envelope where
  "envelope_ok = \<lparr>env_status = 0, env_error = None\<rparr>"

definition envelope_err :: "string \<Rightarrow> envelope" where
  "envelope_err msg = \<lparr>env_status = 1, env_error = Some msg\<rparr>"

definition envelope_is_ok :: "envelope \<Rightarrow> bool" where
  "envelope_is_ok e \<longleftrightarrow> env_status e = 0"

record node_register_request =
  rgr_node_id :: string
  rgr_listen_addr :: string
  rgr_boot_id :: string
  rgr_data_dir :: string
  rgr_runtime :: runtime_descriptor
  rgr_hardware :: hardware_descriptor
  rgr_resources :: json
  rgr_committed_checkpoints :: "ident list"
  rgr_coordinator_epoch :: u64

record node_register_response =
  rgs_accepted :: bool
  rgs_coordinator_epoch :: u64
  rgs_error :: "string option"

record heartbeat_workload =
  hw_workload_id :: ident
  hw_fence_token :: string
  hw_execution_epoch :: u64

record node_heartbeat_request =
  hbr_node_id :: string
  hbr_boot_id :: string
  hbr_coordinator_epoch :: u64
  hbr_workloads :: "heartbeat_workload list"
  hbr_resources :: json
  hbr_committed_checkpoints :: "ident list"
  hbr_provider_versions :: "(string \<times> string) list"

record node_heartbeat_response =
  hbs_ok :: bool
  hbs_stale_workloads :: "ident list"
  hbs_error :: "string option"

subsection \<open>Journal states (recovery.rs)\<close>

abbreviation cap_RESERVED :: string where "cap_RESERVED \<equiv> ''reserved''"
abbreviation cap_SEALED :: string where "cap_SEALED \<equiv> ''sealed''"
abbreviation cap_PERSISTED :: string where "cap_PERSISTED \<equiv> ''persisted''"
abbreviation cap_DB_COMMITTED :: string where "cap_DB_COMMITTED \<equiv> ''db_committed''"
abbreviation cap_RESUME_DONE :: string where "cap_RESUME_DONE \<equiv> ''resume_done''"
abbreviation res_RESERVED :: string where "res_RESERVED \<equiv> ''reserved''"
abbreviation res_PROVISIONED :: string where "res_PROVISIONED \<equiv> ''provisioned''"
abbreviation res_COMPONENTS_RESTORED :: string where "res_COMPONENTS_RESTORED \<equiv> ''components_restored''"
abbreviation res_GENERATION_COMMITTED :: string where "res_GENERATION_COMMITTED \<equiv> ''generation_committed''"
abbreviation res_RESUMED :: string where "res_RESUMED \<equiv> ''resumed''"

end
