(* ===== verification/Sys.thy ===== *)
theory Sys
  imports Programs Protocol CoordSteps Failpoints
begin

section \<open>Programs over the store, the clock, the nodes and faults\<close>

text \<open>
  An operation of the coordinator is a function of the system state that returns a result and
  the state it leaves, also when it fails. The state holds the store, the state \<open>'w\<close> of
  everything outside the coordinator (the nodes), the armed failpoints of
  \<open>failpoints.rs\<close>, and counters that index the environment: the readings of the clock,
  the random identifiers, and the faults. A database access whose index the fault oracle selects
  fails with an I/O error and has no effect; an oracle that selects every index from some point
  on is a crash at that point, as far as the store can tell.

  Calls to a node go through the network, whose functions may do anything to \<open>'w\<close> and
  return anything, but reach the store only through the operations of the coordinator.
  Operations run one after another: the lock of the store makes single accesses atomic, and the
  interleaving of two operations is not modelled.
\<close>

subsection \<open>The environment\<close>

record 'w network =
  nw_addr_ok :: "string \<Rightarrow> bool"
  nw_capture :: "string \<Rightarrow> node_capture_request \<Rightarrow> 'w \<Rightarrow> node_capture_result fabric_result \<times> 'w"
  nw_promote :: "string \<Rightarrow> node_promote_request \<Rightarrow> 'w \<Rightarrow> node_promote_result fabric_result \<times> 'w"
  nw_resume :: "string \<Rightarrow> node_resume_request \<Rightarrow> 'w \<Rightarrow> node_resume_result fabric_result \<times> 'w"
  nw_cleanup :: "string \<Rightarrow> node_cleanup_request \<Rightarrow> 'w \<Rightarrow> node_cleanup_result fabric_result \<times> 'w"
  nw_probe :: "string \<Rightarrow> node_probe_request \<Rightarrow> 'w \<Rightarrow> node_probe_result fabric_result \<times> 'w"
  nw_restore :: "string \<Rightarrow> node_restore_request \<Rightarrow> 'w \<Rightarrow> node_restore_result fabric_result \<times> 'w"
  nw_replicate :: "string \<Rightarrow> node_replicate_request \<Rightarrow> 'w \<Rightarrow> node_replicate_result fabric_result \<times> 'w"
  nw_allow_fetch :: "string \<Rightarrow> node_allow_fetch_request \<Rightarrow> 'w \<Rightarrow> envelope fabric_result \<times> 'w"
  nw_verify :: "string \<Rightarrow> node_verify_request \<Rightarrow> 'w \<Rightarrow> node_verify_result fabric_result \<times> 'w"

record 'w env =
  ev_clock :: "nat \<Rightarrow> u64"
  ev_random :: "nat \<Rightarrow> ident"
  ev_fault :: "nat \<Rightarrow> bool"
  ev_lib :: lib
  ev_net :: "'w network"

record 'w sys =
  sy_store :: store
  sy_world :: 'w
  sy_failpoints :: "(string \<times> u32) list"
  sy_reads :: nat
  sy_draws :: nat
  sy_accesses :: nat
  sy_env :: "'w env"

type_synonym ('w, 'a) op = "('w sys, 'a) prog"

subsection \<open>Primitive operations\<close>

abbreviation io_error :: fabric_error where
  "io_error \<equiv> Sqlite ''disk I/O error''"

definition db :: "'a tx \<Rightarrow> ('w, 'a) op" where
  "db tx s = (let s1 = s\<lparr>sy_accesses := sy_accesses s + 1\<rparr> in
     if ev_fault (sy_env s) (sy_accesses s) then (Inl io_error, s1)
     else case tx (sy_store s) of
       Inl e \<Rightarrow> (Inl e, s1)
     | Inr (x, st) \<Rightarrow> (Inr x, s1\<lparr>sy_store := st\<rparr>))"

definition dbq :: "'a query \<Rightarrow> ('w, 'a) op" where
  "dbq q s = (let s1 = s\<lparr>sy_accesses := sy_accesses s + 1\<rparr> in
     if ev_fault (sy_env s) (sy_accesses s) then (Inl io_error, s1)
     else (q (sy_store s), s1))"

definition now_ms :: "('w, u64) op" where
  "now_ms s = (Inr (ev_clock (sy_env s) (sy_reads s)), s\<lparr>sy_reads := sy_reads s + 1\<rparr>)"

definition random_id :: "('w, ident) op" where
  "random_id s = (Inr (ev_random (sy_env s) (sy_draws s)), s\<lparr>sy_draws := sy_draws s + 1\<rparr>)"

definition hex_of :: "ident \<Rightarrow> ('w, string) op" where
  "hex_of i s = (Inr (to_hex (lib_hex_encode (ev_lib (sy_env s))) i), s)"

definition new_fence_token :: "('w, string) op" where
  "new_fence_token = and_then random_id hex_of"

definition with_lib :: "(lib \<Rightarrow> 'a) \<Rightarrow> ('w, 'a) op" where
  "with_lib f s = (Inr (f (ev_lib (sy_env s))), s)"

text \<open>A transaction that takes the time.\<close>

definition db_now :: "(u64 \<Rightarrow> 'a tx) \<Rightarrow> ('w, 'a) op" where
  "db_now tx = and_then now_ms (\<lambda>now. db (tx now))"

subsection \<open>Failpoints\<close>

definition fire :: "string \<Rightarrow> ('w, unit) op" where
  "fire name s = (case fp_fire name (sy_failpoints s) of (hit, m) \<Rightarrow>
     (if hit then Inl (FailPoint name) else Inr (), s\<lparr>sy_failpoints := m\<rparr>))"

subsection \<open>Calls to a node\<close>

text \<open>The address of a node is looked up in the store and parsed, the request sent and the
  answer decoded; every failure on the way is an error of the call.\<close>

definition node_addr :: "string \<Rightarrow> ('w, string) op" where
  "node_addr node =
     and_then (dbq node_list) (\<lambda>nodes.
     case find (\<lambda>n. n_id n = node) nodes of
       None \<Rightarrow> raise (Internal ''node {node} not registered'')
     | Some n \<Rightarrow> (\<lambda>s. if nw_addr_ok (ev_net (sy_env s)) (n_addr n) then (Inr (n_addr n), s)
                       else (Inl (Internal ''bad node addr {addr}: {e}''), s)))"

definition call_node ::
  "('w network \<Rightarrow> string \<Rightarrow> 'q \<Rightarrow> 'w \<Rightarrow> 'r fabric_result \<times> 'w) \<Rightarrow> string \<Rightarrow> 'q \<Rightarrow> ('w, 'r) op" where
  "call_node rpc node q =
     and_then (node_addr node) (\<lambda>_ s.
       case rpc (ev_net (sy_env s)) node q (sy_world s) of (r, w) \<Rightarrow> (r, s\<lparr>sy_world := w\<rparr>))"

subsection \<open>What an operation does to the store\<close>

text \<open>
  \<open>obeys P m Q R\<close>: from a store where \<open>P\<close> holds, \<open>m\<close> takes the store only along \<open>R\<close>,
  also when it fails, and \<open>Q\<close> holds of its result and the store when it succeeds.
  \<open>sys_keeps R m\<close> is the case without conditions.
\<close>

definition obeys ::
  "(store \<Rightarrow> bool) \<Rightarrow> ('w, 'a) op \<Rightarrow> ('a \<Rightarrow> store \<Rightarrow> bool) \<Rightarrow> (store \<Rightarrow> store \<Rightarrow> bool) \<Rightarrow> bool" where
  "obeys P m Q R \<longleftrightarrow> (\<forall>s r s'. P (sy_store s) \<longrightarrow> m s = (r, s') \<longrightarrow>
     R (sy_store s) (sy_store s') \<and> (\<forall>x. r = Inr x \<longrightarrow> Q x (sy_store s')))"

definition sys_keeps :: "(store \<Rightarrow> store \<Rightarrow> bool) \<Rightarrow> ('w, 'a) op \<Rightarrow> bool" where
  "sys_keeps R m \<longleftrightarrow> obeys (\<lambda>_. True) m (\<lambda>_ _. True) R"

definition tx_along :: "(store \<Rightarrow> store \<Rightarrow> bool) \<Rightarrow> 'a tx \<Rightarrow> bool" where
  "tx_along R tx \<longleftrightarrow> (\<forall>s x s'. tx s = Inr (x, s') \<longrightarrow> R s s')"

lemma obeysI:
  "(\<And>s r s'. P (sy_store s) \<Longrightarrow> m s = (r, s') \<Longrightarrow> R (sy_store s) (sy_store s') \<and>
     (\<forall>x. r = Inr x \<longrightarrow> Q x (sy_store s'))) \<Longrightarrow> obeys P m Q R"
  by (auto simp: obeys_def)

lemma obeysD:
  "obeys P m Q R \<Longrightarrow> P (sy_store s) \<Longrightarrow> m s = (r, s') \<Longrightarrow>
     R (sy_store s) (sy_store s') \<and> (\<forall>x. r = Inr x \<longrightarrow> Q x (sy_store s'))"
  by (auto simp: obeys_def)

lemma sys_keepsD: "sys_keeps R m \<Longrightarrow> m s = (r, s') \<Longrightarrow> R (sy_store s) (sy_store s')"
  by (auto simp: sys_keeps_def obeys_def)

lemma obeys_weaken:
  assumes "obeys P m Q R" "\<And>s. P' s \<Longrightarrow> P s" "\<And>x s. Q x s \<Longrightarrow> Q' x s"
  shows "obeys P' m Q' R"
proof (rule obeysI)
  fix s r s' assume "P' (sy_store s)" and m: "m s = (r, s')"
  then show "R (sy_store s) (sy_store s') \<and> (\<forall>x. r = Inr x \<longrightarrow> Q' x (sy_store s'))"
    using obeysD [OF assms(1) assms(2) m] assms(3) by blast
qed

lemma obeys_keeps: "sys_keeps R m \<Longrightarrow> obeys P m (\<lambda>_ _. True) R"
  unfolding sys_keeps_def by (rule obeys_weaken) auto

lemma obeys_along:
  "obeys P m Q R \<Longrightarrow> (\<And>s t. R s t \<Longrightarrow> R' s t) \<Longrightarrow> obeys P m Q R'"
  by (auto simp: obeys_def)

text \<open>Operations that never write the store.\<close>

definition read_only :: "('w, 'a) op \<Rightarrow> bool" where
  "read_only m \<longleftrightarrow> (\<forall>s r s'. m s = (r, s') \<longrightarrow> sy_store s' = sy_store s)"

lemma read_only_rules [simp]:
  "read_only (give x)" "read_only (raise e)" "read_only (lift r)" "read_only now_ms"
  "read_only random_id" "read_only (hex_of i)" "read_only (with_lib g)" "read_only (fire n)"
  "read_only (dbq q)"
  by (auto simp: read_only_def now_ms_def random_id_def hex_of_def with_lib_def fire_def dbq_def Let_def
      split: prod.splits if_splits)

lemma read_only_and_then: "read_only m \<Longrightarrow> (\<And>x. read_only (f x)) \<Longrightarrow> read_only (and_then m f)"
  unfolding read_only_def and_then_def by (auto split: prod.splits sum.splits)

lemma read_only_node_addr [simp]: "read_only (node_addr n)"
  unfolding node_addr_def
  by (rule read_only_and_then) (simp, auto simp: read_only_def split: option.splits)

lemma read_only_call [simp]: "read_only (call_node rpc n q)"
  unfolding call_node_def
  by (rule read_only_and_then) (simp, auto simp: read_only_def split: prod.splits)

lemma read_only_token [simp]: "read_only new_fence_token"
  unfolding new_fence_token_def by (intro read_only_and_then) simp_all

text \<open>
  The contract between the store and the programs over it: a relation \<open>R\<close> between stores that
  the transactions stay within, reflexive and transitive. If every transaction a program uses
  goes along \<open>R\<close>, so does the program, whatever the nodes answer, whichever accesses fail and
  wherever it stops.
\<close>

locale step_contract =
  fixes R :: "store \<Rightarrow> store \<Rightarrow> bool"
  assumes R_refl: "R s s" and R_trans: "R s t \<Longrightarrow> R t u \<Longrightarrow> R s u"
begin

lemma obeys_read: "read_only m \<Longrightarrow> (\<And>x s. P s \<Longrightarrow> Q x s) \<Longrightarrow> obeys P m Q R"
  by (rule obeysI) (auto simp: read_only_def R_refl)

lemma obeys_give: "(\<And>s. P s \<Longrightarrow> Q x s) \<Longrightarrow> obeys P (give x) Q R"
  by (rule obeysI) (auto simp: R_refl)

lemma obeys_raise: "obeys P (raise e) Q R"
  by (rule obeysI) (auto simp: R_refl)

lemma obeys_lift: "(\<And>s x. P s \<Longrightarrow> r = Inr x \<Longrightarrow> Q x s) \<Longrightarrow> obeys P (lift r) Q R"
  by (rule obeysI) (auto simp: R_refl)

lemma obeys_dbq: "(\<And>s x. P s \<Longrightarrow> q s = Inr x \<Longrightarrow> Q x s) \<Longrightarrow> obeys P (dbq q) Q R"
  by (rule obeysI) (auto simp: R_refl dbq_def Let_def split: if_splits)

lemma obeys_db:
  "(\<And>s x t. P s \<Longrightarrow> tx s = Inr (x, t) \<Longrightarrow> R s t \<and> Q x t) \<Longrightarrow> obeys P (db tx) Q R"
  by (rule obeysI) (auto simp: R_refl db_def Let_def split: if_splits sum.splits)

lemma obeys_and_then:
  assumes "obeys P m Q R" "\<And>x. obeys (Q x) (f x) Q' R"
  shows "obeys P (and_then m f) Q' R"
proof (rule obeysI)
  fix s r s' assume p: "P (sy_store s)" and "and_then m f s = (r, s')"
  then consider e where "m s = (Inl e, s')" "r = Inl e" | x t where "m s = (Inr x, t)" "f x t = (r, s')"
    by (auto simp: and_then_def split: prod.splits sum.splits)
  then show "R (sy_store s) (sy_store s') \<and> (\<forall>x. r = Inr x \<longrightarrow> Q' x (sy_store s'))"
  proof cases
    case 1
    with obeysD [OF assms(1) p] show ?thesis by blast
  next
    case 2
    then have "R (sy_store s) (sy_store t)" "Q x (sy_store t)" using obeysD [OF assms(1) p] by auto
    with obeysD [OF assms(2) _ 2(2)] R_trans show ?thesis by blast
  qed
qed

lemma obeys_db_now:
  "(\<And>now s x t. P s \<Longrightarrow> tx now s = Inr (x, t) \<Longrightarrow> R s t \<and> Q x t) \<Longrightarrow> obeys P (db_now tx) Q R"
  unfolding db_now_def by (rule obeys_and_then [where Q = "\<lambda>_. P"]) (auto intro: obeys_read obeys_db)

text \<open>A transaction whose failure is a value: then the store is unchanged.\<close>

lemma obeys_attempt_db_now:
  assumes "\<And>now s x t. P s \<Longrightarrow> tx now s = Inr (x, t) \<Longrightarrow> R s t \<and> Q (Inr x) t"
    and "\<And>s e. P s \<Longrightarrow> Q (Inl e) s"
  shows "obeys P (attempt (db_now tx)) Q R"
  by (rule obeysI)
    (auto simp: attempt_def db_now_def and_then_def now_ms_def db_def Let_def R_refl assms
      split: prod.splits if_splits sum.splits)

lemma obeys_if:
  "(b \<Longrightarrow> obeys P m Q R) \<Longrightarrow> (\<not> b \<Longrightarrow> obeys P n Q R) \<Longrightarrow> obeys P (if b then m else n) Q R"
  by simp

lemma obeys_option:
  "(v = None \<Longrightarrow> obeys P m Q R) \<Longrightarrow> (\<And>x. v = Some x \<Longrightarrow> obeys P (f x) Q R) \<Longrightarrow>
     obeys P (case v of None \<Rightarrow> m | Some x \<Rightarrow> f x) Q R"
  by (simp split: option.split)

lemma obeys_prod:
  "(\<And>a b. x = (a, b) \<Longrightarrow> obeys (P a b) (f a b) Q R) \<Longrightarrow> obeys (case x of (a, b) \<Rightarrow> P a b) (case x of (a, b) \<Rightarrow> f a b) Q R"
  by (simp split: prod.split)

lemma obeys_pre: "obeys P m Q R \<Longrightarrow> (\<And>s. P' s \<Longrightarrow> P s) \<Longrightarrow> obeys P' m Q R"
  by (rule obeys_weaken)

lemma obeys_pure_pre: "(b \<Longrightarrow> obeys P m Q R) \<Longrightarrow> obeys (\<lambda>s. b \<and> P s) m Q R"
  by (auto simp: obeys_def)

lemma obeys_on_error:
  assumes "obeys P m Q R" "\<And>e. sys_keeps R (h e)"
  shows "obeys P (on_error m h) Q R"
proof (rule obeysI)
  fix s r s' assume p: "P (sy_store s)" and o: "on_error m h s = (r, s')"
  obtain q t where m: "m s = (q, t)" by (cases "m s")
  note mt = obeysD [OF assms(1) p m]
  show "R (sy_store s) (sy_store s') \<and> (\<forall>x. r = Inr x \<longrightarrow> Q x (sy_store s'))"
  proof (cases q)
    case (Inl e)
    with o m have "h e t = (fst (h e t), s')" "r = Inl e" by (auto simp: on_error_def prod_eq_iff)
    with sys_keepsD [OF assms(2)] mt R_trans show ?thesis by blast
  next
    case (Inr x)
    with o m mt show ?thesis by (simp add: on_error_def)
  qed
qed

subsection \<open>Programs without conditions\<close>

lemma keeps_read: "read_only m \<Longrightarrow> sys_keeps R m"
  unfolding sys_keeps_def by (rule obeys_read)

lemma keeps_reads: "sys_keeps R (give x)" "sys_keeps R (raise e)" "sys_keeps R (lift r)"
  "sys_keeps R now_ms" "sys_keeps R random_id" "sys_keeps R (hex_of i)" "sys_keeps R (with_lib g)"
  "sys_keeps R (fire n)" "sys_keeps R (dbq q)" "sys_keeps R (node_addr d)"
  "sys_keeps R (call_node rpc d q')" "sys_keeps R new_fence_token"
  by (rule keeps_read; simp)+

lemma keeps_db: "tx_along R tx \<Longrightarrow> sys_keeps R (db tx)"
  unfolding sys_keeps_def tx_along_def by (rule obeys_db) simp

lemma keeps_db_now: "(\<And>now. tx_along R (tx now)) \<Longrightarrow> sys_keeps R (db_now tx)"
  unfolding sys_keeps_def tx_along_def by (rule obeys_db_now) simp

lemma keeps_and_then: "sys_keeps R m \<Longrightarrow> (\<And>x. sys_keeps R (f x)) \<Longrightarrow> sys_keeps R (and_then m f)"
  unfolding sys_keeps_def by (rule obeys_and_then)

lemma keeps_attempt: "sys_keeps R m \<Longrightarrow> sys_keeps R (attempt m)"
  by (auto simp: sys_keeps_def obeys_def attempt_def split: prod.splits)

lemma keeps_ignore: "sys_keeps R m \<Longrightarrow> sys_keeps R (ignore m)"
  unfolding ignore_def by (intro keeps_and_then keeps_attempt keeps_reads)

lemma keeps_rename: "sys_keeps R m \<Longrightarrow> sys_keeps R (rename_error g m)"
  by (auto simp: sys_keeps_def obeys_def rename_error_def split: prod.splits sum.splits)

lemma keeps_on_error: "sys_keeps R m \<Longrightarrow> (\<And>e. sys_keeps R (h e)) \<Longrightarrow> sys_keeps R (on_error m h)"
  by (subst sys_keeps_def, rule obeys_on_error) (simp_all add: sys_keeps_def)

lemma keeps_for_each: "(\<And>x. sys_keeps R (f x)) \<Longrightarrow> sys_keeps R (for_each f xs)"
  by (induction xs) (auto intro: keeps_reads keeps_and_then)

lemma keeps_for_fold: "(\<And>a x. sys_keeps R (f a x)) \<Longrightarrow> sys_keeps R (for_fold f acc xs)"
  by (induction xs arbitrary: acc) (auto intro: keeps_reads keeps_and_then)

lemma keeps_if: "(b \<Longrightarrow> sys_keeps R m) \<Longrightarrow> (\<not> b \<Longrightarrow> sys_keeps R n) \<Longrightarrow> sys_keeps R (if b then m else n)"
  by simp

lemma keeps_case_option:
  "sys_keeps R m \<Longrightarrow> (\<And>x. sys_keeps R (f x)) \<Longrightarrow> sys_keeps R (case v of None \<Rightarrow> m | Some x \<Rightarrow> f x)"
  by (simp split: option.split)

lemma keeps_case_sum:
  "(\<And>e. sys_keeps R (f e)) \<Longrightarrow> (\<And>x. sys_keeps R (g x)) \<Longrightarrow>
     sys_keeps R (case r of Inl e \<Rightarrow> f e | Inr x \<Rightarrow> g x)"
  by (simp split: sum.split)

lemma keeps_case_prod: "(\<And>a b. sys_keeps R (f a b)) \<Longrightarrow> sys_keeps R (case p of (a, b) \<Rightarrow> f a b)"
  by (simp split: prod.split)

lemma keeps_let: "(\<And>x. sys_keeps R (f x)) \<Longrightarrow> sys_keeps R (let x = v in f x)"
  by simp

lemmas keeps_rules = keeps_reads keeps_db keeps_db_now keeps_and_then keeps_attempt keeps_ignore
  keeps_rename keeps_on_error keeps_for_each keeps_for_fold keeps_if
  keeps_case_option keeps_case_sum keeps_case_prod keeps_let

end

text \<open>The contract the coordinator keeps: every program is a sequence of coordinator steps.\<close>

interpretation steps: step_contract coord_steps
  by unfold_locales auto

text \<open>The contract without a relation, for statements about results only.\<close>

interpretation post: step_contract "\<lambda>_ _. True"
  by unfold_locales auto

named_theorems along "transactions that are one step of the coordinator"

lemma tx_alongI: "(\<And>s x s'. tx s = Inr (x, s') \<Longrightarrow> coord_step s s') \<Longrightarrow> tx_along coord_steps tx"
  by (auto simp: tx_along_def)

lemma coordinator_tx [along]:
  "tx_along coord_steps (claim_coordinator_epoch r)"
  "tx_along coord_steps (policy_insert p b)"
  "tx_along coord_steps (workload_insert w)"
  "tx_along coord_steps (workload_insert_fork now w i j d)"
  "tx_along coord_steps (workload_bump_fence i e)"
  "tx_along coord_steps (workload_claim i n t e)"
  "tx_along coord_steps (workload_release i n)"
  "tx_along coord_steps (capture_commit now i a)"
  "tx_along coord_steps (restore_commit now i a n t mig rb)"
  "tx_along coord_steps (checkpoint_set_protection i ps)"
  "tx_along coord_steps (checkpoint_retire i)"
  "tx_along coord_steps (checkpoint_set_integrity i v)"
  "tx_along coord_steps (checkpoint_add_location i l)"
  "tx_along coord_steps (checkpoint_rebind_location h i n d)"
  "tx_along coord_steps (attempt_begin now a k co wo n)"
  "tx_along coord_steps (attempt_finish now a d res err)"
  "tx_along coord_steps (node_register now n a d rs)"
  "tx_along coord_steps (node_heartbeat now n rs)"
  "tx_along coord_steps (node_set_status n d)"
  "tx_along coord_steps (nodes_sweep_stale now)"
  "tx_along coord_steps (reservation_create now a k wo co n ttl)"
  "tx_along coord_steps (reservation_release a)"
  "tx_along coord_steps (reservations_expire now)"
  "tx_along coord_steps (audit_append now a k wo co ar d)"
  "tx_along coord_steps (journal_append now k a n d)"
  by (rule tx_alongI, erule coord_step.intros)+

end
