(* ===== verification/Recovery.thy ===== *)
theory Recovery
  imports Sys
begin

section \<open>Crash recovery (recovery.rs)\<close>

text \<open>
  The reconciliation of a store after a restart: expired reservations, stale nodes, and every
  attempt still marked active, decided by what the journal says of it. \<open>reconcile\<close> is the
  loop, \<open>reconcile_attempt\<close> the decision, one definition per branch of the source.
\<close>

record operation_context =
  oc_actor :: string
  oc_roles :: "string list"
  oc_stale_ms :: u64

record recovery_action =
  ra_kind :: string
  ra_key :: string
  ra_state :: string
  ra_detail :: string

record recovery_outcome =
  ro_actions :: "recovery_action list"
  ro_stale_nodes :: "string list"
  ro_expired_reservations :: u64
  ro_ok :: bool

definition action :: "string \<Rightarrow> string \<Rightarrow> string \<Rightarrow> string \<Rightarrow> recovery_action" where
  "action kind key state detail = \<lparr>ra_kind = kind, ra_key = key, ra_state = state, ra_detail = detail\<rparr>"

text \<open>The pair of writes that closes an attempt.\<close>

definition finish_attempt :: "string \<Rightarrow> string \<Rightarrow> string option \<Rightarrow> string option \<Rightarrow> ('w, unit) op" where
  "finish_attempt key state result error =
     and_then (db_now (\<lambda>now. attempt_finish now key state result error)) (\<lambda>_.
     db (reservation_release key))"

definition audit_store ::
  "string \<Rightarrow> string \<Rightarrow> ident option \<Rightarrow> ident option \<Rightarrow> audit_result \<Rightarrow> string \<Rightarrow> ('w, unit) op" where
  "audit_store actor op w c result detail =
     db_now (\<lambda>now. audit_append now actor op w c result detail)"

subsection \<open>Capture attempts\<close>

definition reject_persisted ::
  "string \<Rightarrow> ident \<Rightarrow> checkpoint_object \<Rightarrow> fabric_error \<Rightarrow> ('w, recovery_action) op" where
  "reject_persisted key ckpt_id ckpt error =
     and_then
       (if ck_lifecycle ckpt = Persisting \<or> ck_lifecycle ckpt = Available
        then and_then (lift (transition (ck_lifecycle ckpt) Failed)) (\<lambda>_.
               db (checkpoint_set_lifecycle ckpt_id Failed ICorrupt))
        else give ()) (\<lambda>_.
     and_then (finish_attempt key ''FAILED'' None
       (Some (''persisted checkpoint metadata is incomplete: '' @ error_to_string error))) (\<lambda>_.
     and_then (audit_store ''coordinator'' ''capture.recovery_rejected'' (Some (ck_workload_id ckpt))
       (Some ckpt_id) AuditFailed
       (''attempt '' @ key @ '': refusing to fabricate an available checkpoint from incomplete persisted metadata: ''
          @ error_to_string error)) (\<lambda>_.
     give (action ''capture'' key ''failed_cleanup''
       (''persisted checkpoint metadata was incomplete and was rejected: '' @ error_to_string error)))))"

definition recommit_capture :: "attempt_record \<Rightarrow> ('w, recovery_action) op" where
  "recommit_capture a =
     and_then (lift (ok_or (Internal ''capture attempt {key} has no checkpoint id'') (at_checkpoint_id a))) (\<lambda>ckpt_id.
     and_then (dbq (checkpoint_get ckpt_id)) (\<lambda>found.
     and_then (lift (ok_or (CheckpointNotFound ''{ckpt_id}'') found)) (\<lambda>ckpt.
     and_then (attempt (db_now (\<lambda>now. capture_commit now ckpt_id (at_id a)))) (\<lambda>res.
     case res of
       Inl error \<Rightarrow> reject_persisted (at_id a) ckpt_id ckpt error
     | Inr _ \<Rightarrow>
         and_then (finish_attempt (at_id a) ''COMMITTED''
           (Some ''capture metadata commit completed by recovery'') None) (\<lambda>_.
         and_then (audit_store ''coordinator'' ''capture.recovery_commit'' (Some (ck_workload_id ckpt))
           (Some ckpt_id) AuditRecovered
           (''attempt '' @ at_id a @
             '': physical commit found without metadata commit; re-committed idempotently'')) (\<lambda>_.
         give (action ''capture'' (at_id a) ''db_committed''
           ''capture physically persisted; metadata commit completed by recovery'')))))))"

definition reconcile_capture :: "attempt_record \<Rightarrow> ('w, recovery_action) op" where
  "reconcile_capture a =
     and_then (dbq (journal_has ''capture'' (at_id a) cap_PERSISTED)) (\<lambda>has_persisted.
     and_then (dbq (journal_has ''capture'' (at_id a) cap_DB_COMMITTED)) (\<lambda>has_db.
     if has_db
     then and_then (finish_attempt (at_id a) ''COMMITTED'' (Some ''capture committed before restart'') None) (\<lambda>_.
          give (action ''capture'' (at_id a) ''db_committed''
            ''capture metadata commit confirmed after restart''))
     else if has_persisted then recommit_capture a
     else and_then (finish_attempt (at_id a) ''FAILED'' None
            (Some ''attempt interrupted before durable commit'')) (\<lambda>_.
          and_then (audit_store ''coordinator'' ''capture.aborted_by_recovery'' (at_workload_id a)
            (at_checkpoint_id a) AuditFailed
            (''attempt '' @ at_id a @ '' aborted: no durable commit evidence'')) (\<lambda>_.
          give (action ''capture'' (at_id a) ''failed''
            ''capture attempt aborted by recovery (no durable commit evidence)'')))))"

subsection \<open>Restore attempts\<close>

definition confirm_restore :: "attempt_record \<Rightarrow> bool \<Rightarrow> ('w, recovery_action) op" where
  "confirm_restore a has_resumed =
     (if \<not> has_resumed
      then and_then (finish_attempt (at_id a) ''COMMITTED''
             (Some ''generation committed; resume unverified after restart'') None) (\<lambda>_.
           and_then (audit_store ''coordinator'' ''restore.resume_unverified'' (at_workload_id a)
             (at_checkpoint_id a) AuditRecovered
             (''restore attempt '' @ at_id a @
               '': generation committed before restart; resume state unverified'')) (\<lambda>_.
           give (action ''restore'' (at_id a) ''resume_unverified''
             ''restore committed; resume unverified after restart'')))
      else and_then (finish_attempt (at_id a) ''COMMITTED'' (Some ''restore committed before restart'') None) (\<lambda>_.
           give (action ''restore'' (at_id a) ''committed'' ''restore confirmed committed after restart'')))"

text \<open>The checkpoint of an interrupted restore goes back to \<open>Available\<close>.\<close>

definition reopen_checkpoint :: "ident \<Rightarrow> ('w, unit) op" where
  "reopen_checkpoint checkpoint_id =
     and_then (dbq (checkpoint_get checkpoint_id)) (\<lambda>found.
     case found of
       None \<Rightarrow> give ()
     | Some checkpoint \<Rightarrow>
         if ck_lifecycle checkpoint = RestorePending \<or> ck_lifecycle checkpoint = Restoring
         then and_then (lift (transition (ck_lifecycle checkpoint) Available)) (\<lambda>_.
                db (checkpoint_set_lifecycle checkpoint_id Available IValid))
         else give ())"

definition undo_restore :: "attempt_record \<Rightarrow> ('w, recovery_action) op" where
  "undo_restore a =
     and_then (case at_checkpoint_id a of None \<Rightarrow> give () | Some i \<Rightarrow> reopen_checkpoint i) (\<lambda>_.
     and_then (finish_attempt (at_id a) ''FAILED'' None
       (Some ''restore interrupted before generation commit'')) (\<lambda>_.
     and_then (audit_store ''coordinator'' ''restore.cleaned_by_recovery'' (at_workload_id a)
       (at_checkpoint_id a) AuditFailed
       (''restore attempt '' @ at_id a @
         '': components restored but generation commit missing; target cleanup required'')) (\<lambda>_.
     give (action ''restore'' (at_id a) ''failed_cleanup''
       ''restore interrupted before generation commit; target cleanup required''))))"

definition reconcile_restore :: "attempt_record \<Rightarrow> ('w, recovery_action) op" where
  "reconcile_restore a =
     and_then (dbq (journal_has ''restore'' (at_id a) res_COMPONENTS_RESTORED)) (\<lambda>has_restored.
     and_then (dbq (journal_has ''restore'' (at_id a) res_GENERATION_COMMITTED)) (\<lambda>has_committed.
     and_then (dbq (journal_has ''restore'' (at_id a) res_RESUMED)) (\<lambda>has_resumed.
     if has_committed then confirm_restore a has_resumed
     else if has_restored then undo_restore a
     else and_then (finish_attempt (at_id a) ''FAILED'' None
            (Some ''restore interrupted before provisioning'')) (\<lambda>_.
          give (action ''restore'' (at_id a) ''failed''
            ''restore attempt aborted by recovery (no durable progress)'')))))"

subsection \<open>The pass over the store\<close>

definition reconcile_attempt :: "attempt_record \<Rightarrow> ('w, recovery_action) op" where
  "reconcile_attempt a =
     (if at_kind a = ''capture'' then reconcile_capture a
      else if at_kind a = ''restore'' \<or> at_kind a = ''rollback'' then reconcile_restore a
      else and_then (finish_attempt (at_id a) ''FAILED'' None (Some ''unknown attempt kind'')) (\<lambda>_.
           give (action (at_kind a) (at_id a) ''failed'' ''attempt of unknown kind aborted by recovery'')))"

definition declare_stale :: "string \<Rightarrow> ('w, unit) op" where
  "declare_stale n =
     and_then (db (node_set_status n ''STALE'')) (\<lambda>_.
     audit_store ''coordinator'' ''node.stale'' None None AuditFailed
       (''node '' @ n @ '' declared stale by recovery''))"

definition reconcile :: "operation_context \<Rightarrow> ('w, recovery_outcome) op" where
  "reconcile ctx =
     and_then (db_now reservations_expire) (\<lambda>expired.
     and_then now_ms (\<lambda>now.
     and_then (db (nodes_sweep_stale (sat_sub now (oc_stale_ms ctx)))) (\<lambda>stale.
     and_then (for_each declare_stale stale) (\<lambda>_.
     and_then (dbq (attempts_in_state ''ACTIVE'')) (\<lambda>attempts.
     and_then (for_fold (\<lambda>acc a. and_then (reconcile_attempt a) (\<lambda>act. give (acc @ [act]))) [] attempts)
       (\<lambda>actions.
     give \<lparr>ro_actions = actions, ro_stale_nodes = stale, ro_expired_reservations = expired,
           ro_ok = True\<rparr>))))))"

subsection \<open>Recovery only takes coordinator steps\<close>

lemma checkpoint_get_life: "checkpoint_get i s = Inr found \<Longrightarrow> life_of i s = map_option ck_lifecycle found"
  by (cases "checkpoint_row i s")
    (auto simp: checkpoint_get_def life_of_def load_checkpoint_def row_to_checkpoint_def)

lemma checkpoint_set_lifecycle_step:
  assumes "checkpoint_set_lifecycle i l v s = Inr (x, t)" "life_of i s = Some l0" "guarded_move l0 l"
  shows "coord_steps s t \<and> life_of i t = Some l"
proof
  show "coord_steps s t" using coord_step.intros(10) [OF assms] by blast
  show "life_of i t = Some l"
    using assms(1) by (auto simp: checkpoint_set_lifecycle_def life_of_def split: if_splits)
qed

lemma set_lifecycle_obeys:
  assumes "\<And>s l0. P s \<Longrightarrow> life_of i s = Some l0 \<Longrightarrow> guarded_move l0 l"
  shows "obeys P (db (checkpoint_set_lifecycle i l v)) (\<lambda>_ s. life_of i s = Some l) coord_steps"
proof (rule steps.obeys_db)
  fix s x t assume p: "P s" and r: "checkpoint_set_lifecycle i l v s = Inr (x, t)"
  then obtain l0 where "life_of i s = Some l0"
    by (auto simp: checkpoint_set_lifecycle_def life_of_def split: if_splits)
  with p r show "coord_steps s t \<and> life_of i t = Some l"
    using checkpoint_set_lifecycle_step assms by blast
qed

lemma get_life_obeys:
  "obeys P (dbq (checkpoint_get i)) (\<lambda>found s. P s \<and> life_of i s = map_option ck_lifecycle found) coord_steps"
  by (rule steps.obeys_dbq) (auto dest: checkpoint_get_life)

text \<open>A transition that was tested and then written.\<close>

lemma checked_transition_obeys:
  assumes "guarded_move l0 l \<or> \<not> can_transition l0 l"
  shows "obeys (\<lambda>s. life_of i s = Some l0)
    (and_then (lift (transition l0 l)) (\<lambda>_. db (checkpoint_set_lifecycle i l v)))
    (\<lambda>_ s. life_of i s = Some l) coord_steps"
  by (rule steps.obeys_and_then [OF steps.obeys_lift [where Q = "\<lambda>_ s. life_of i s = Some l0 \<and> can_transition l0 l"]
        set_lifecycle_obeys]) (use assms in auto)

named_theorems op_steps "operations that only take coordinator steps"

lemma finish_attempt_steps [op_steps]: "sys_keeps coord_steps (finish_attempt k st r e)"
  unfolding finish_attempt_def by (intro steps.keeps_rules along)

lemma audit_store_steps [op_steps]: "sys_keeps coord_steps (audit_store a op w c r d)"
  unfolding audit_store_def by (intro steps.keeps_rules along)

lemma reopen_checkpoint_steps [op_steps]: "sys_keeps coord_steps (reopen_checkpoint i)"
proof -
  have g: "guarded_move l Available" if "l = RestorePending \<or> l = Restoring" for l
    using that by (auto simp: guarded_move_def life_move_def committed_state_def)
  show ?thesis
    unfolding sys_keeps_def reopen_checkpoint_def
  proof (rule steps.obeys_and_then [OF get_life_obeys], rule steps.obeys_option)
    fix found :: "checkpoint_object option" and c assume f: "found = Some c"
    show "obeys (\<lambda>s. True \<and> life_of i s = map_option ck_lifecycle found)
      (if ck_lifecycle c = RestorePending \<or> ck_lifecycle c = Restoring
       then and_then (lift (transition (ck_lifecycle c) Available))
              (\<lambda>_. db (checkpoint_set_lifecycle i Available IValid))
       else give ()) (\<lambda>_ _. True) coord_steps"
      by (rule steps.obeys_if)
        (auto intro: steps.obeys_give obeys_weaken [OF checked_transition_obeys] simp: g f)
  qed (rule steps.obeys_give, simp)
qed

lemma reject_persisted_obeys:
  "obeys (\<lambda>s. life_of i s = Some (ck_lifecycle ck)) (reject_persisted k i ck e) (\<lambda>_ _. True) coord_steps"
proof -
  have g: "guarded_move l Failed" if "l = Persisting \<or> l = Available" for l
    using that by (auto simp: guarded_move_def life_move_def committed_state_def)
  show ?thesis unfolding reject_persisted_def
  proof (rule steps.obeys_and_then [where Q = "\<lambda>_ _. True"])
    show "obeys (\<lambda>s. life_of i s = Some (ck_lifecycle ck))
      (if ck_lifecycle ck = Persisting \<or> ck_lifecycle ck = Available
       then and_then (lift (transition (ck_lifecycle ck) Failed))
              (\<lambda>_. db (checkpoint_set_lifecycle i Failed ICorrupt))
       else give ()) (\<lambda>_ _. True) coord_steps"
      by (rule steps.obeys_if) (auto intro: steps.obeys_give obeys_weaken [OF checked_transition_obeys] simp: g)
  qed (fold sys_keeps_def, intro steps.keeps_rules op_steps)
qed

lemma recommit_capture_steps [op_steps]: "sys_keeps coord_steps (recommit_capture a)"
  unfolding sys_keeps_def recommit_capture_def
proof (rule steps.obeys_and_then [OF steps.obeys_lift [where Q = "\<lambda>_ _. True"]], simp,
    rule steps.obeys_and_then [OF get_life_obeys])
  fix i and found :: "checkpoint_object option"
  have r: "obeys (\<lambda>s. True \<and> life_of i s = map_option ck_lifecycle found)
      (lift (ok_or (CheckpointNotFound ''{ckpt_id}'') found))
      (\<lambda>c s. life_of i s = Some (ck_lifecycle c)) coord_steps"
    by (rule steps.obeys_lift) (auto split: option.splits)
  have c: "obeys (\<lambda>s. life_of i s = Some l) (attempt (db_now (\<lambda>now. capture_commit now i (at_id a))))
      (\<lambda>r s. case r of Inl _ \<Rightarrow> life_of i s = Some l | Inr _ \<Rightarrow> True) coord_steps" for l
    by (rule steps.obeys_attempt_db_now) (auto intro: coord_step.intros)
  show "obeys (\<lambda>s. True \<and> life_of i s = map_option ck_lifecycle found)
    (and_then (lift (ok_or (CheckpointNotFound ''{ckpt_id}'') found)) (\<lambda>ckpt.
     and_then (attempt (db_now (\<lambda>now. capture_commit now i (at_id a)))) (\<lambda>res.
     case res of
       Inl error \<Rightarrow> reject_persisted (at_id a) i ckpt error
     | Inr _ \<Rightarrow>
         and_then (finish_attempt (at_id a) ''COMMITTED''
           (Some ''capture metadata commit completed by recovery'') None) (\<lambda>_.
         and_then (audit_store ''coordinator'' ''capture.recovery_commit'' (Some (ck_workload_id ckpt))
           (Some i) AuditRecovered
           (''attempt '' @ at_id a @
             '': physical commit found without metadata commit; re-committed idempotently'')) (\<lambda>_.
         give (action ''capture'' (at_id a) ''db_committed''
           ''capture physically persisted; metadata commit completed by recovery''))))))
    (\<lambda>_ _. True) coord_steps"
    by (rule steps.obeys_and_then [OF r steps.obeys_and_then [OF c]])
      (auto split: sum.split intro!: reject_persisted_obeys obeys_keeps steps.keeps_rules op_steps)
qed

lemma reconcile_attempt_steps [op_steps]: "sys_keeps coord_steps (reconcile_attempt a)"
  unfolding reconcile_attempt_def reconcile_capture_def reconcile_restore_def confirm_restore_def
    undo_restore_def
  by (intro steps.keeps_rules along op_steps)

lemma reconcile_steps [op_steps]: "sys_keeps coord_steps (reconcile ctx)"
  unfolding reconcile_def declare_stale_def by (intro steps.keeps_rules along op_steps)

end
