(* ===== verification/Coordinator.thy ===== *)
theory Coordinator
  imports Recovery
begin

section \<open>The coordinator: workloads and capture (coordinator.rs)\<close>

text \<open>
  The operations of \<open>Coordinator\<close> in the order of the source, each a program over the
  system state. The first argument stands for the fields of \<open>self\<close> the operations read: the
  epoch the coordinator claimed, its policy, and the staleness bound of its configuration.
\<close>

definition RESERVATION_TTL_MS :: u64 where
  "RESERVATION_TTL_MS = 600000"

record coordinator =
  cc_epoch :: u64
  cc_policy :: policy_set
  cc_stale_ms :: u64

record operation_outcome =
  oo_attempt_id :: string
  oo_checkpoint_id :: "ident option"
  oo_workload_id :: "ident option"
  oo_node :: "string option"
  oo_state :: string
  oo_result :: "string option"
  oo_error :: "string option"
  oo_resumability :: "resumability_class option"
  oo_workload_generation :: "u64 option"
  oo_execution_epoch :: "u64 option"

subsection \<open>Common parts\<close>

definition node_is_active :: "string \<Rightarrow> ('w, bool) op" where
  "node_is_active node =
     and_then (dbq node_list) (\<lambda>nodes.
     give (list_ex (\<lambda>n. n_id n = node \<and> n_status n = ''ACTIVE'') nodes))"

definition node_runtime :: "string \<Rightarrow> ('w, runtime_descriptor) op" where
  "node_runtime node =
     and_then (dbq node_list) (\<lambda>nodes.
     lift (ok_or (Internal ''node {node} not registered'')
       (map_option (\<lambda>n. nr_runtime (n_resources n)) (find (\<lambda>n. n_id n = node) nodes))))"

text \<open>A failed audit write is logged and ignored.\<close>

definition audit ::
  "operation_context \<Rightarrow> string \<Rightarrow> ident option \<Rightarrow> ident option \<Rightarrow> audit_result \<Rightarrow> string \<Rightarrow> ('w, unit) op" where
  "audit ctx op w c result detail = ignore (audit_store (oc_actor ctx) op w c result detail)"

definition require_workload :: "ident \<Rightarrow> ('w, workload) op" where
  "require_workload i =
     and_then (dbq (workload_get i)) (\<lambda>found. lift (ok_or (WorkloadNotFound ''{id}'') found))"

definition require_checkpoint :: "ident \<Rightarrow> ('w, checkpoint_object) op" where
  "require_checkpoint i =
     and_then (dbq (checkpoint_get i)) (\<lambda>found. lift (ok_or (CheckpointNotFound ''{id}'') found))"

definition set_lifecycle :: "checkpoint_object \<Rightarrow> lifecycle_state \<Rightarrow> ('w, unit) op" where
  "set_lifecycle ckpt target =
     and_then (dbq (checkpoint_get (ck_checkpoint_id ckpt))) (\<lambda>cur.
     and_then (lift (transition (case cur of None \<Rightarrow> ck_lifecycle ckpt | Some c \<Rightarrow> ck_lifecycle c) target)) (\<lambda>_.
     db (checkpoint_set_lifecycle (ck_checkpoint_id ckpt) target IPending)))"

definition journal :: "string \<Rightarrow> string \<Rightarrow> string \<Rightarrow> string \<Rightarrow> ('w, unit) op" where
  "journal kind key state detail = db_now (\<lambda>now. journal_append now kind key state detail)"

subsection \<open>Workload operations\<close>

definition new_workload ::
  "coordinator \<Rightarrow> workload_spec \<Rightarrow> ident \<Rightarrow> u64 \<Rightarrow> string option \<Rightarrow> string option \<Rightarrow> ident option \<Rightarrow> u64
     \<Rightarrow> workload" where
  "new_workload self spec workload_id now claim_node token parent fork_generation = \<lparr>
     w_workload_id = workload_id, w_workload_generation = 0, w_owner = ws_owner spec,
     w_class = ws_class spec, w_created_ms = now, w_execution_epoch = 0,
     w_active_node = claim_node, w_backend_class = ws_backend_class spec,
     w_checkpoint_generation = 0, w_parent_workload = parent, w_fork_generation = fork_generation,
     w_policy_version = p_version (cc_policy self), w_metadata = ws_metadata spec,
     w_state_schema_version = ws_state_schema_version spec, w_runtime = ws_runtime spec,
     w_resumability_class = RestartFromCheckpoint, w_protection = ws_protection spec,
     w_single_active = ws_single_active spec, w_fence_token = token, w_fence_epoch = 0\<rparr>"

definition spec_id :: "workload_spec \<Rightarrow> ('w, ident) op" where
  "spec_id spec = (case ws_workload_id spec of None \<Rightarrow> random_id | Some i \<Rightarrow> give i)"

definition create_workload ::
  "coordinator \<Rightarrow> workload_spec \<Rightarrow> string option \<Rightarrow> operation_context \<Rightarrow> ('w, workload) op" where
  "create_workload self spec claim_node ctx =
     and_then (case claim_node of None \<Rightarrow> give ()
        | Some node \<Rightarrow> and_then (node_is_active node) (\<lambda>active.
            if active then give ()
            else raise (FencingFailure ''cannot claim new workload for inactive node {node}''))) (\<lambda>_.
     and_then (spec_id spec) (\<lambda>workload_id.
     and_then (dbq (workload_get workload_id)) (\<lambda>found.
     if found \<noteq> None then raise (InvalidArgument ''workload {workload_id} already exists'')
     else and_then now_ms (\<lambda>now.
     and_then (case claim_node of None \<Rightarrow> give None
        | Some _ \<Rightarrow> and_then new_fence_token (\<lambda>t. give (Some t))) (\<lambda>token.
     let w = new_workload self spec workload_id now claim_node token None 0 in
     and_then (db (workload_insert w)) (\<lambda>_.
     and_then (audit ctx ''workload.create'' (Some workload_id) None AuditOk ''class={} backend={}'') (\<lambda>_.
     give w)))))))"

definition fence_workload :: "coordinator \<Rightarrow> ident \<Rightarrow> operation_context \<Rightarrow> ('w, workload) op" where
  "fence_workload self i ctx =
     and_then (lift (authorize (oc_roles ctx) (ap_fence (p_authority (cc_policy self))))) (\<lambda>_.
     and_then (require_workload i) (\<lambda>w.
     and_then (rename_error (\<lambda>_. FencingFailure ''workload fence race'')
        (db (workload_bump_fence i (w_execution_epoch w)))) (\<lambda>_.
     and_then (db (workload_release i (case w_active_node w of None \<Rightarrow> [] | Some n \<Rightarrow> n))) (\<lambda>_.
     and_then (audit ctx ''workload.fence'' (Some i) None AuditOk ''epoch bumped to {}'') (\<lambda>_.
     and_then (dbq (workload_get i)) (\<lambda>found.
     lift (ok_or (Internal ''called `Option::unwrap()` on a `None` value'') found)))))))"

definition attach_workload :: "ident \<Rightarrow> string \<Rightarrow> string \<Rightarrow> u64 \<Rightarrow> ('w, string) op" where
  "attach_workload workload_id node node_boot_id fence_epoch =
     and_then (dbq (node_validate_identity node node_boot_id)) (\<lambda>_.
     and_then new_fence_token (\<lambda>token.
     and_then (rename_error (\<lambda>e. case e of FencingFailure s \<Rightarrow> FencingFailure (''attach rejected: '' @ s) | other \<Rightarrow> other)
        (db (workload_claim workload_id node token fence_epoch))) (\<lambda>_.
     give token)))"

definition detach_workload :: "ident \<Rightarrow> string \<Rightarrow> ('w, unit) op" where
  "detach_workload workload_id node = db (workload_release workload_id node)"

subsection \<open>Replication\<close>

definition fetch_grant :: "coordinator \<Rightarrow> string \<Rightarrow> ident \<Rightarrow> ('w, string \<times> string) op" where
  "fetch_grant self source checkpoint_id =
     and_then random_id (\<lambda>tid.
     and_then (hex_of tid) (\<lambda>token.
     and_then (call_node nw_allow_fetch source \<lparr>nar_checkpoint_id = checkpoint_id,
        nar_fetch_token = token, nar_ttl_ms = 300000, nar_coordinator_epoch = cc_epoch self\<rparr>) (\<lambda>_.
     and_then (node_addr source) (\<lambda>from_addr.
     give (token, from_addr)))))"

definition manifest_anchor :: "checkpoint_object \<Rightarrow> ('w, string) op" where
  "manifest_anchor ck =
     lift (ok_or (IntegrityFailure ''checkpoint has no coordinator manifest anchor'') (ck_manifest_digest ck))"

text \<open>The body of the loop over the candidate targets; the loop ends early when the checkpoint
  has enough replicas. The first location exists whenever the loop runs; an empty list is the
  panic of the indexing.\<close>

definition replicate_one ::
  "coordinator \<Rightarrow> ident \<Rightarrow> checkpoint_object \<Rightarrow> string \<Rightarrow> ('w, checkpoint_object) op" where
  "replicate_one self checkpoint_id ck target =
     (case ck_durable_locations ck of
        [] \<Rightarrow> raise (Internal ''index out of bounds'')
      | l # _ \<Rightarrow>
     and_then (fetch_grant self (dl_node l) checkpoint_id) (\<lambda>(token, from_addr).
     and_then random_id (\<lambda>rid.
     and_then (hex_of checkpoint_id) (\<lambda>chex.
     and_then (hex_of rid) (\<lambda>rhex.
     and_then (manifest_anchor ck) (\<lambda>digest.
     and_then (call_node nw_replicate target \<lparr>nyr_attempt_id = ''replicate-'' @ chex @ ''-'' @ rhex,
        nyr_checkpoint_id = checkpoint_id, nyr_expected_manifest_digest = digest,
        nyr_from_addr = from_addr, nyr_fetch_token = token,
        nyr_coordinator_epoch = cc_epoch self\<rparr>) (\<lambda>res.
     and_then (if nys_ok res
        then db (checkpoint_add_location checkpoint_id \<lparr>dl_node = target,
               dl_path = (case nys_path res of None \<Rightarrow> [] | Some p \<Rightarrow> p), dl_verified = True\<rparr>)
        else give ()) (\<lambda>_.
     and_then (dbq (checkpoint_get checkpoint_id)) (\<lambda>found.
     lift (ok_or (Internal ''called `Option::unwrap()` on a `None` value'') found))))))))))"

fun replicate_loop ::
  "coordinator \<Rightarrow> ident \<Rightarrow> checkpoint_object \<Rightarrow> string list \<Rightarrow> ('w, checkpoint_object) op" where
  "replicate_loop self checkpoint_id ck [] = give ck"
| "replicate_loop self checkpoint_id ck (target # targets) =
     (if ck_replica_count ck \<ge> p_min_valid_replicas (cc_policy self) then give ck
      else and_then (replicate_one self checkpoint_id ck target) (\<lambda>ck'.
           replicate_loop self checkpoint_id ck' targets))"

definition replicate_to_policy :: "coordinator \<Rightarrow> ident \<Rightarrow> operation_context \<Rightarrow> ('w, u32) op" where
  "replicate_to_policy self checkpoint_id ctx =
     (if p_min_valid_replicas (cc_policy self) \<le> 1 then give 1
      else and_then (require_checkpoint checkpoint_id) (\<lambda>ck.
     and_then (dbq node_list) (\<lambda>nodes.
     let have = map dl_node (ck_durable_locations ck);
         targets = map n_id (filter (\<lambda>n. n_status n = ''ACTIVE'' \<and> n_id n \<notin> set have) nodes) in
     and_then (replicate_loop self checkpoint_id ck targets) (\<lambda>ck'.
     and_then (audit ctx ''checkpoint.replicate'' (Some (ck_workload_id ck')) (Some checkpoint_id) AuditOk
        ''replica count now {}'') (\<lambda>_.
     give (ck_replica_count ck'))))))"

subsection \<open>Capture\<close>

definition pick_capture_node :: "workload \<Rightarrow> ('w, string) op" where
  "pick_capture_node workload =
     and_then (case w_active_node workload of None \<Rightarrow> give None
        | Some node \<Rightarrow> and_then (node_is_active node) (\<lambda>active. give (if active then Some node else None)))
       (\<lambda>preferred.
     case preferred of
       Some node \<Rightarrow> give node
     | None \<Rightarrow> and_then (dbq node_list) (\<lambda>nodes.
         case filter (\<lambda>n. n_status n = ''ACTIVE'') nodes of
           [] \<Rightarrow> raise (Internal ''no active nodes available for capture'')
         | n # _ \<Rightarrow> give (n_id n)))"

definition capture_protection :: "coordinator \<Rightarrow> workload \<Rightarrow> u64 \<Rightarrow> protection_state" where
  "capture_protection self workload checkpoint_generation =
     (let latest_gen = sat_add (w_checkpoint_generation workload) 1
      in if checkpoint_generation \<ge> sat_sub latest_gen (u32_to_u64 (p_protected_generations (cc_policy self)))
         then PProtected else PNone)"

text \<open>The checkpoint after the node answered: what it captured, and the classes derived from it.\<close>

definition captured_checkpoint ::
  "coordinator \<Rightarrow> workload \<Rightarrow> capture_options \<Rightarrow> consistency_class \<Rightarrow> node_capture_result
     \<Rightarrow> checkpoint_object \<Rightarrow> checkpoint_object" where
  "captured_checkpoint self workload options achieved res ckpt = ckpt\<lparr>
     ck_components := ncs_components res,
     ck_consistency := achieved,
     ck_resumability := derive_resumability achieved (co_frontier options) (co_side_effects options),
     ck_total_logical_bytes := ncs_total_logical_bytes res,
     ck_total_physical_bytes := ncs_total_physical_bytes res,
     ck_compressed_bytes := ncs_compressed_bytes res,
     ck_protection := capture_protection self workload (ck_checkpoint_generation ckpt)\<rparr>"

text \<open>The checkpoint once its node promoted it: the final content stored before the commit.\<close>

definition promoted_checkpoint ::
  "string \<Rightarrow> node_promote_result \<Rightarrow> checkpoint_object \<Rightarrow> checkpoint_object" where
  "promoted_checkpoint node res ckpt = ckpt\<lparr>
     ck_durable_locations := [\<lparr>dl_node = node,
        dl_path = (case nms_commit_path res of None \<Rightarrow> [] | Some p \<Rightarrow> p), dl_verified = True\<rparr>],
     ck_replica_count := 1,
     ck_integrity_state := IPending,
     ck_lifecycle := Persisting,
     ck_retirement_eligibility := (if ck_protection ckpt = PNone then Eligible else REProtected)\<rparr>"

text \<open>First phase: the row, the capture on the node, the derived classes.\<close>

definition capture_on_node ::
  "coordinator \<Rightarrow> workload \<Rightarrow> string \<Rightarrow> string \<Rightarrow> consistency_class \<Rightarrow> capture_options
     \<Rightarrow> checkpoint_object \<Rightarrow> ('w, checkpoint_object) op" where
  "capture_on_node self workload node attempt_id requested_consistency options ckpt =
     and_then (db (checkpoint_insert ckpt)) (\<lambda>_.
     and_then (set_lifecycle ckpt Capturing) (\<lambda>_.
     and_then (call_node nw_capture node \<lparr>ncr_attempt_id = attempt_id,
        ncr_checkpoint_id = ck_checkpoint_id ckpt, ncr_workload_id = w_workload_id workload,
        ncr_checkpoint_generation = ck_checkpoint_generation ckpt,
        ncr_consistency = requested_consistency, ncr_quiescence = co_quiescence options,
        ncr_components = co_components options, ncr_compression = compression_spec_of (cc_policy self),
        ncr_coordinator_epoch = cc_epoch self\<rparr>) (\<lambda>res.
     if \<not> ncs_ok res
     then raise (CaptureProviderFailure (case ncs_error res of None \<Rightarrow> ''node capture failed'' | Some e \<Rightarrow> e))
     else and_then (lift (validate_component_completeness (co_components options) (ncs_components res))) (\<lambda>_.
     let achieved = derive_consistency (Some requested_consistency) (co_quiescence options)
                      (co_frontier options) (ncs_cooperative_ack res) in
     and_then (lift (enforce_consistency (cc_policy self) achieved)) (\<lambda>_.
     let ckpt1 = captured_checkpoint self workload options achieved res ckpt in
     and_then (set_lifecycle ckpt1 Captured) (\<lambda>_.
     and_then (set_lifecycle ckpt1 Validating) (\<lambda>_.
     give ckpt1)))))))"

text \<open>Second phase: the manifest is sealed and its digest stored.\<close>

definition seal_checkpoint ::
  "string \<Rightarrow> checkpoint_object \<Rightarrow> ('w, checkpoint_object \<times> sealed_manifest) op" where
  "seal_checkpoint attempt_id ckpt =
     and_then (fire ''capture.before_seal'') (\<lambda>_.
     and_then now_ms (\<lambda>now.
     and_then (with_lib (\<lambda>L. seal L ((manifest_scaffold ckpt)\<lparr>m_seal_ms := now\<rparr>))) (\<lambda>sealed.
     let ckpt1 = ckpt\<lparr>ck_seal_ms := now, ck_manifest_digest := Some (sm_digest sealed),
                   ck_manifest_json := Some (bytes_string (sm_canonical_bytes sealed))\<rparr> in
     and_then (db (checkpoint_set_digest (ck_checkpoint_id ckpt) (sm_digest sealed)
        (bytes_string (sm_canonical_bytes sealed)))) (\<lambda>_.
     and_then (set_lifecycle ckpt1 Sealed) (\<lambda>_.
     and_then (journal ''capture'' attempt_id cap_SEALED ''manifest sealed'') (\<lambda>_.
     and_then (db (checkpoint_set_integrity (ck_checkpoint_id ckpt) IValid)) (\<lambda>_.
     give (ckpt1, sealed))))))))"

text \<open>Third phase: promotion on the node, the recoverable image, the metadata commit.\<close>

definition persist_checkpoint ::
  "coordinator \<Rightarrow> string \<Rightarrow> string \<Rightarrow> checkpoint_object \<Rightarrow> sealed_manifest \<Rightarrow> ('w, unit) op" where
  "persist_checkpoint self node attempt_id ckpt sealed =
     and_then (set_lifecycle ckpt Persisting) (\<lambda>_.
     and_then (call_node nw_promote node \<lparr>nmr_attempt_id = attempt_id,
        nmr_checkpoint_id = ck_checkpoint_id ckpt, nmr_manifest_bytes = sm_canonical_bytes sealed,
        nmr_digest = sm_digest sealed, nmr_integrity_root = sm_integrity_root sealed,
        nmr_coordinator_epoch = cc_epoch self\<rparr>) (\<lambda>res.
     if \<not> nms_ok res
     then raise (PersistenceError (case nms_error res of None \<Rightarrow> ''promote failed'' | Some e \<Rightarrow> e))
     else and_then (db (checkpoint_update (promoted_checkpoint node res ckpt))) (\<lambda>_.
     and_then (journal ''capture'' attempt_id cap_PERSISTED ''checkpoint promoted on node'') (\<lambda>_.
     and_then (fire ''capture.before_db_commit'') (\<lambda>_.
     db_now (\<lambda>now. capture_commit now (ck_checkpoint_id ckpt) attempt_id))))))"

definition resume_request ::
  "coordinator \<Rightarrow> string \<Rightarrow> ident \<Rightarrow> ident \<Rightarrow> string option \<Rightarrow> u64 option \<Rightarrow> bool \<Rightarrow> node_resume_request" where
  "resume_request self attempt_id checkpoint_id workload_id token epoch resume =
     \<lparr>nur_attempt_id = attempt_id, nur_checkpoint_id = checkpoint_id, nur_workload_id = workload_id,
      nur_fence_token = token, nur_execution_epoch = epoch, nur_resume = resume,
      nur_coordinator_epoch = cc_epoch self\<rparr>"

text \<open>Fourth phase: the source resumes, replicas are made, the attempt is closed.\<close>

definition finish_capture ::
  "coordinator \<Rightarrow> workload \<Rightarrow> string \<Rightarrow> string \<Rightarrow> ident \<Rightarrow> operation_context \<Rightarrow> ('w, unit) op" where
  "finish_capture self workload node attempt_id checkpoint_id ctx =
     and_then (call_node nw_resume node
        (resume_request self attempt_id checkpoint_id (w_workload_id workload) None None True)) (\<lambda>res.
     if \<not> nus_ok res
     then let detail = ''checkpoint committed but source resume failed: '' @
                         (case nus_error res of None \<Rightarrow> [] | Some e \<Rightarrow> e) in
       and_then (db_now (\<lambda>now. attempt_finish now attempt_id ''RESUME_FAILED''
          (Some ''checkpoint committed'') (Some detail))) (\<lambda>_.
       and_then (audit ctx ''capture.resume_failed'' (Some (w_workload_id workload))
          (Some checkpoint_id) AuditFailed detail) (\<lambda>_.
       raise (CaptureProviderFailure detail)))
     else and_then (journal ''capture'' attempt_id cap_RESUME_DONE ''source resumed'') (\<lambda>_.
     and_then (replicate_to_policy self checkpoint_id ctx) (\<lambda>_.
     and_then (finish_attempt attempt_id ''COMMITTED'' (Some ''capture committed'') None) (\<lambda>_.
     and_then (audit ctx ''capture.commit'' (Some (w_workload_id workload)) (Some checkpoint_id) AuditOk
        ''generation {checkpoint_generation} on node {node}: {achieved:?} {resumability:?} replicas={replicas}'') (\<lambda>_.
     fire ''capture.after_commit'')))))"

definition execute_capture ::
  "coordinator \<Rightarrow> workload \<Rightarrow> string \<Rightarrow> string \<Rightarrow> ident \<Rightarrow> u64 \<Rightarrow> consistency_class \<Rightarrow> capture_options
     \<Rightarrow> operation_context \<Rightarrow> ('w, operation_outcome) op" where
  "execute_capture self workload node attempt_id checkpoint_id checkpoint_generation
     requested_consistency options ctx =
     and_then now_ms (\<lambda>now.
     let ckpt = checkpoint_scaffold workload checkpoint_id checkpoint_generation attempt_id
                  (cc_epoch self) node options (cc_policy self) now in
     and_then (capture_on_node self workload node attempt_id requested_consistency options ckpt) (\<lambda>ckpt1.
     and_then (seal_checkpoint attempt_id ckpt1) (\<lambda>(ckpt2, sealed).
     and_then (persist_checkpoint self node attempt_id ckpt2 sealed) (\<lambda>_.
     and_then (finish_capture self workload node attempt_id checkpoint_id ctx) (\<lambda>_.
     give \<lparr>oo_attempt_id = attempt_id, oo_checkpoint_id = Some checkpoint_id,
       oo_workload_id = Some (w_workload_id workload), oo_node = Some node,
       oo_state = ''AVAILABLE'', oo_result = Some ''capture committed'', oo_error = None,
       oo_resumability = Some (ck_resumability ckpt1),
       oo_workload_generation = Some (w_workload_generation workload),
       oo_execution_epoch = Some (w_execution_epoch workload)\<rparr>)))))"

definition cleanup_request ::
  "coordinator \<Rightarrow> string list \<Rightarrow> restore_cleanup_target list \<Rightarrow> ident list \<Rightarrow> node_cleanup_request" where
  "cleanup_request self staging_attempts restore_attempts checkpoint_ids =
     \<lparr>nlr_staging_attempts = staging_attempts, nlr_staging_paths = [],
      nlr_restore_attempts = restore_attempts, nlr_checkpoint_ids = checkpoint_ids,
      nlr_coordinator_epoch = cc_epoch self\<rparr>"

definition abort_capture_attempt ::
  "coordinator \<Rightarrow> string \<Rightarrow> ident \<Rightarrow> ident \<Rightarrow> string \<Rightarrow> operation_context \<Rightarrow> ('w, unit) op" where
  "abort_capture_attempt self attempt_id checkpoint_id workload_id detail ctx =
     and_then (dbq (journal_has ''capture'' attempt_id cap_DB_COMMITTED)) (\<lambda>committed.
     and_then (dbq (attempt_get attempt_id)) (\<lambda>found.
     and_then (case found of None \<Rightarrow> give ()
        | Some a \<Rightarrow>
            and_then (ignore (call_node nw_resume (at_node a)
              (resume_request self attempt_id checkpoint_id workload_id None None True))) (\<lambda>_.
            ignore (call_node nw_cleanup (at_node a)
              (cleanup_request self [attempt_id] [] (if committed then [] else [checkpoint_id]))))) (\<lambda>_.
     and_then (dbq (checkpoint_get checkpoint_id)) (\<lambda>found_ck.
     and_then (case found_ck of None \<Rightarrow> give ()
        | Some ck \<Rightarrow>
            if \<not> committed \<and> ck_lifecycle ck \<noteq> Available \<and> ck_lifecycle ck \<noteq> Restored \<and>
               ck_lifecycle ck \<noteq> Retired
            then db (checkpoint_set_lifecycle checkpoint_id Failed IPending)
            else give ()) (\<lambda>_.
     and_then (db_now (\<lambda>now. attempt_finish now attempt_id (if committed then ''COMMITTED'' else ''FAILED'')
        (if committed then Some ''capture committed before later failure'' else None)
        (if committed then None else Some detail))) (\<lambda>_.
     and_then (db (reservation_release attempt_id)) (\<lambda>_.
     audit ctx ''capture.aborted'' (Some workload_id) (Some checkpoint_id) AuditFailed detail)))))))"

definition last_seal :: "checkpoint_object list \<Rightarrow> u64 option" where
  "last_seal cks =
     (let seals = map ck_seal_ms (filter (\<lambda>c. ck_lifecycle c = Available) cks)
      in if seals = [] then None else Some (fold max seals 0))"

definition reserve_capture ::
  "string \<Rightarrow> ident \<Rightarrow> ident \<Rightarrow> string \<Rightarrow> ('w, unit) op" where
  "reserve_capture attempt_id checkpoint_id workload_id node =
     and_then (db_now (\<lambda>now. reservation_create now attempt_id ''capture'' (Some workload_id) None node
        RESERVATION_TTL_MS)) (\<lambda>_.
     and_then (db_now (\<lambda>now. attempt_begin now attempt_id ''capture'' (Some checkpoint_id)
        (Some workload_id) node)) (\<lambda>_.
     journal ''capture'' attempt_id cap_RESERVED ''reservation committed''))"

definition request_capture ::
  "coordinator \<Rightarrow> ident \<Rightarrow> capture_options \<Rightarrow> operation_context \<Rightarrow> ('w, operation_outcome) op" where
  "request_capture self workload_id options ctx =
     and_then (lift (authorize (oc_roles ctx) (ap_capture (p_authority (cc_policy self))))) (\<lambda>_.
     and_then (fire ''capture.before_validation'') (\<lambda>_.
     and_then (require_workload workload_id) (\<lambda>workload.
     and_then (dbq (checkpoint_list (Some workload_id))) (\<lambda>cks.
     and_then now_ms (\<lambda>now.
     and_then (lift (validate_capture_request workload options (cc_policy self) (last_seal cks) now)) (\<lambda>_.
     and_then (lift (workload_captureable workload (w_active_node workload))) (\<lambda>_.
     and_then (pick_capture_node workload) (\<lambda>node.
     and_then (hex_of workload_id) (\<lambda>whex.
     and_then random_id (\<lambda>rid.
     and_then (hex_of rid) (\<lambda>rhex.
     let attempt_id = ''capture-'' @ whex @ ''-'' @ rhex in
     and_then (dbq (checkpoint_max_generation workload_id)) (\<lambda>max_gen.
     let checkpoint_generation = sat_add max_gen 1 in
     and_then random_id (\<lambda>checkpoint_id.
     and_then (reserve_capture attempt_id checkpoint_id workload_id node) (\<lambda>_.
     on_error
       (execute_capture self workload node attempt_id checkpoint_id checkpoint_generation
          (case co_consistency options of None \<Rightarrow> CrashConsistent | Some c \<Rightarrow> c) options ctx)
       (\<lambda>e. abort_capture_attempt self attempt_id checkpoint_id workload_id
              (''capture failed: '' @ error_to_string e) ctx)))))))))))))))"

subsection \<open>These operations only take coordinator steps\<close>

lemmas common_defs = node_is_active_def node_runtime_def audit_def require_workload_def
  require_checkpoint_def journal_def manifest_anchor_def

lemma common_steps [op_steps]:
  "sys_keeps coord_steps (node_is_active n)"
  "sys_keeps coord_steps (node_runtime n)"
  "sys_keeps coord_steps (audit ctx k w c r d)"
  "sys_keeps coord_steps (require_workload i)"
  "sys_keeps coord_steps (require_checkpoint i)"
  "sys_keeps coord_steps (journal k a b d)"
  "sys_keeps coord_steps (manifest_anchor ck)"
  unfolding common_defs by (intro steps.keeps_rules along op_steps)+

text \<open>\<open>set_lifecycle\<close> moves a row along the lifecycle, or fails.\<close>

lemma set_lifecycle_life:
  assumes "\<And>s l0. P s \<Longrightarrow> life_of (ck_checkpoint_id ck) s = Some l0 \<Longrightarrow> can_transition l0 t \<Longrightarrow> guarded_move l0 t"
  shows "obeys P (set_lifecycle ck t) (\<lambda>_ s. life_of (ck_checkpoint_id ck) s = Some t) coord_steps"
  unfolding set_lifecycle_def
proof (rule steps.obeys_and_then [OF get_life_obeys [where P = P]])
  fix found :: "checkpoint_object option"
  let ?cur = "case found of None \<Rightarrow> ck_lifecycle ck | Some c \<Rightarrow> ck_lifecycle c"
  show "obeys (\<lambda>s. P s \<and> life_of (ck_checkpoint_id ck) s = map_option ck_lifecycle found)
    (and_then (lift (transition ?cur t))
      (\<lambda>_. db (checkpoint_set_lifecycle (ck_checkpoint_id ck) t IPending)))
    (\<lambda>_ s. life_of (ck_checkpoint_id ck) s = Some t) coord_steps"
    by (rule steps.obeys_and_then [OF steps.obeys_lift [where Q = "\<lambda>_ s. P s \<and> can_transition ?cur t \<and>
            life_of (ck_checkpoint_id ck) s = map_option ck_lifecycle found"] set_lifecycle_obeys])
      (use assms in \<open>auto split: option.splits\<close>)
qed

text \<open>The moves of a capture, and into \<open>Restoring\<close>, need no condition.\<close>

lemma set_lifecycle_free:
  assumes "t \<in> {Capturing, Captured, Validating, Sealed, Persisting, Restoring}"
  shows "obeys P (set_lifecycle ck t) (\<lambda>_ s. life_of (ck_checkpoint_id ck) s = Some t) coord_steps"
proof (rule set_lifecycle_life)
  fix l0 assume "can_transition l0 t"
  with assms show "guarded_move l0 t"
    by (cases l0) (auto simp: guarded_move_def life_move_def committed_state_def)
qed

lemma set_lifecycle_steps [op_steps]:
  "t \<in> {Capturing, Captured, Validating, Sealed, Persisting, Restoring} \<Longrightarrow>
     sys_keeps coord_steps (set_lifecycle ck t)"
  unfolding sys_keeps_def by (rule obeys_weaken [OF set_lifecycle_free]) auto

lemma workload_ops_steps [op_steps]:
  "sys_keeps coord_steps (create_workload self spec nd ctx)"
  "sys_keeps coord_steps (fence_workload self i ctx)"
  "sys_keeps coord_steps (attach_workload i m b e)"
  "sys_keeps coord_steps (detach_workload i m)"
  unfolding create_workload_def fence_workload_def attach_workload_def detach_workload_def spec_id_def
  by (intro steps.keeps_rules along op_steps)+

lemma replicate_one_steps [op_steps]: "sys_keeps coord_steps (replicate_one self i ck nd)"
  unfolding replicate_one_def fetch_grant_def
  by (cases "ck_durable_locations ck") (simp_all, (intro steps.keeps_rules along op_steps)+)

lemma replicate_loop_steps [op_steps]: "sys_keeps coord_steps (replicate_loop self i ck ns)"
  by (induction ns arbitrary: ck)
    (auto intro!: steps.keeps_reads steps.keeps_and_then replicate_one_steps)

lemma replicate_steps [op_steps]: "sys_keeps coord_steps (replicate_to_policy self i ctx)"
  unfolding replicate_to_policy_def by (intro steps.keeps_rules op_steps)

lemma pick_capture_node_steps [op_steps]: "sys_keeps coord_steps (pick_capture_node w)"
  unfolding pick_capture_node_def
  by (intro steps.keeps_rules op_steps) (simp split: list.split add: steps.keeps_reads)

subsection \<open>The capture phases\<close>

lemma checkpoint_insert_obeys:
  "ck_lifecycle ck = Created \<Longrightarrow> obeys P (db (checkpoint_insert ck)) (\<lambda>_ _. True) coord_steps"
  by (rule steps.obeys_db) (auto intro: coord_step.intros)

lemma capture_on_node_obeys:
  assumes "ck_lifecycle ck = Created"
  shows "obeys P (capture_on_node self w n a c opts ck)
    (\<lambda>ck1 s. ck_checkpoint_id ck1 = ck_checkpoint_id ck \<and> life_of (ck_checkpoint_id ck) s = Some Validating)
    coord_steps"
  unfolding capture_on_node_def Let_def
proof (rule steps.obeys_and_then [OF checkpoint_insert_obeys [OF assms]],
    rule steps.obeys_and_then [OF obeys_keeps], intro op_steps, simp,
    rule steps.obeys_and_then [OF obeys_keeps], intro steps.keeps_rules,
    rule steps.obeys_if [OF steps.obeys_raise],
    rule steps.obeys_and_then [OF obeys_keeps], intro steps.keeps_rules,
    rule steps.obeys_and_then [OF obeys_keeps], intro steps.keeps_rules,
    rule steps.obeys_and_then [OF obeys_keeps], intro op_steps, simp)
  fix res u v w' x
  let ?ck1 = "captured_checkpoint self w opts
    (derive_consistency (Some c) (co_quiescence opts) (co_frontier opts) (ncs_cooperative_ack res)) res ck"
  have "ck_checkpoint_id ?ck1 = ck_checkpoint_id ck" by (simp add: captured_checkpoint_def)
  then show "obeys (\<lambda>_. True) (and_then (set_lifecycle ?ck1 Validating) (\<lambda>_. give ?ck1))
    (\<lambda>ck1 s. ck_checkpoint_id ck1 = ck_checkpoint_id ck \<and> life_of (ck_checkpoint_id ck) s = Some Validating)
    coord_steps"
    by (intro steps.obeys_and_then [OF set_lifecycle_free] steps.obeys_give) auto
qed

lemma seal_checkpoint_obeys:
  "obeys (\<lambda>s. life_of (ck_checkpoint_id ck) s = Some Validating) (seal_checkpoint a ck) (\<lambda>_ _. True) coord_steps"
  unfolding seal_checkpoint_def Let_def
proof (rule steps.obeys_and_then [OF steps.obeys_read [where Q = "\<lambda>_ s. life_of (ck_checkpoint_id ck) s = Some Validating"]],
    simp, assumption,
    rule steps.obeys_and_then [OF steps.obeys_read [where Q = "\<lambda>_ s. life_of (ck_checkpoint_id ck) s = Some Validating"]],
    simp, assumption,
    rule steps.obeys_and_then [OF steps.obeys_read [where Q = "\<lambda>_ s. life_of (ck_checkpoint_id ck) s = Some Validating"]],
    simp, assumption, rule steps.obeys_and_then [where Q = "\<lambda>_ _. True"])
  fix sealed
  show "obeys (\<lambda>s. life_of (ck_checkpoint_id ck) s = Some Validating)
    (db (checkpoint_set_digest (ck_checkpoint_id ck) (sm_digest sealed)
       (bytes_string (sm_canonical_bytes sealed)))) (\<lambda>_ _. True) coord_steps"
    by (rule steps.obeys_db) (auto intro: coord_step.intros)
qed (fold sys_keeps_def, intro steps.keeps_rules along op_steps, simp)

lemma persist_checkpoint_steps [op_steps]: "sys_keeps coord_steps (persist_checkpoint self n a ck sealed)"
  unfolding sys_keeps_def persist_checkpoint_def
proof (rule steps.obeys_and_then [OF set_lifecycle_free], simp,
    rule steps.obeys_and_then [OF steps.obeys_read [where Q = "\<lambda>_ s. life_of (ck_checkpoint_id ck) s = Some Persisting"]],
    simp, assumption, rule steps.obeys_if [OF steps.obeys_raise],
    rule steps.obeys_and_then [where Q = "\<lambda>_ _. True"])
  fix res
  show "obeys (\<lambda>s. life_of (ck_checkpoint_id ck) s = Some Persisting)
    (db (checkpoint_update (promoted_checkpoint n res ck))) (\<lambda>_ _. True) coord_steps"
  proof (rule steps.obeys_db)
    fix s x t assume "life_of (ck_checkpoint_id ck) s = Some Persisting"
      and u: "checkpoint_update (promoted_checkpoint n res ck) s = Inr (x, t)"
    then have "coord_step s t" by (intro coord_step.intros(9) [OF u]) (simp_all add: promoted_checkpoint_def)
    then show "coord_steps s t \<and> True" by blast
  qed
qed (fold sys_keeps_def, intro steps.keeps_rules along op_steps)

lemma capture_end_steps [op_steps]:
  "sys_keeps coord_steps (finish_capture self w n a i ctx)"
  "sys_keeps coord_steps (reserve_capture a i j n)"
  unfolding finish_capture_def reserve_capture_def by (intro steps.keeps_rules along op_steps)+

lemma scaffold_created:
  "ck_lifecycle (checkpoint_scaffold w i g a e n opts p now) = Created"
  "ck_checkpoint_id (checkpoint_scaffold w i g a e n opts p now) = i"
  by (simp_all add: checkpoint_scaffold_def)

lemma execute_capture_steps [op_steps]:
  "sys_keeps coord_steps (execute_capture self w n a i g c opts ctx)"
  unfolding sys_keeps_def execute_capture_def Let_def
proof (rule steps.obeys_and_then [OF obeys_keeps], intro steps.keeps_rules,
    rule steps.obeys_and_then [OF capture_on_node_obeys], simp add: scaffold_created)
  fix now and ck1 :: checkpoint_object
  show "obeys (\<lambda>s. ck_checkpoint_id ck1 =
         ck_checkpoint_id (checkpoint_scaffold w i g a (cc_epoch self) n opts (cc_policy self) now) \<and>
       life_of (ck_checkpoint_id (checkpoint_scaffold w i g a (cc_epoch self) n opts (cc_policy self) now)) s =
         Some Validating)
    (and_then (seal_checkpoint a ck1) (\<lambda>(ckpt2, sealed).
     and_then (persist_checkpoint self n a ckpt2 sealed) (\<lambda>_.
     and_then (finish_capture self w n a i ctx) (\<lambda>_.
     give \<lparr>oo_attempt_id = a, oo_checkpoint_id = Some i, oo_workload_id = Some (w_workload_id w),
       oo_node = Some n, oo_state = ''AVAILABLE'', oo_result = Some ''capture committed'',
       oo_error = None, oo_resumability = Some (ck_resumability ck1),
       oo_workload_generation = Some (w_workload_generation w),
       oo_execution_epoch = Some (w_execution_epoch w)\<rparr>)))) (\<lambda>_ _. True) coord_steps"
    by (rule steps.obeys_and_then [OF obeys_weaken [OF seal_checkpoint_obeys]])
      (auto intro!: obeys_keeps steps.keeps_rules op_steps)
qed

text \<open>An aborted capture fails its checkpoint unless it was committed.\<close>

lemma fail_uncommitted_steps:
  "sys_keeps coord_steps
     (and_then (dbq (checkpoint_get i)) (\<lambda>found_ck.
      and_then (case found_ck of None \<Rightarrow> give ()
        | Some ck \<Rightarrow>
            if \<not> committed \<and> ck_lifecycle ck \<noteq> Available \<and> ck_lifecycle ck \<noteq> Restored \<and>
               ck_lifecycle ck \<noteq> Retired
            then db (checkpoint_set_lifecycle i Failed IPending)
            else give ()) k))" if "\<And>x. sys_keeps coord_steps (k x)"
proof -
  have g: "guarded_move l Failed" if "l \<noteq> Available" "l \<noteq> Restored" "l \<noteq> Retired" for l
    using that by (cases l) (auto simp: guarded_move_def life_move_def committed_state_def)
  have "obeys (\<lambda>s. True \<and> life_of i s = map_option ck_lifecycle found_ck)
     (case found_ck of None \<Rightarrow> give ()
        | Some ck \<Rightarrow>
            if \<not> committed \<and> ck_lifecycle ck \<noteq> Available \<and> ck_lifecycle ck \<noteq> Restored \<and>
               ck_lifecycle ck \<noteq> Retired
            then db (checkpoint_set_lifecycle i Failed IPending)
            else give ()) (\<lambda>_ _. True) coord_steps" for found_ck
  proof (rule steps.obeys_option)
    fix ck assume f: "found_ck = Some ck"
    show "obeys (\<lambda>s. True \<and> life_of i s = map_option ck_lifecycle found_ck)
      (if \<not> committed \<and> ck_lifecycle ck \<noteq> Available \<and> ck_lifecycle ck \<noteq> Restored \<and>
          ck_lifecycle ck \<noteq> Retired
       then db (checkpoint_set_lifecycle i Failed IPending) else give ()) (\<lambda>_ _. True) coord_steps"
      by (rule steps.obeys_if, rule obeys_weaken [OF set_lifecycle_obeys
            [where P = "\<lambda>s. life_of i s = Some (ck_lifecycle ck)"]])
        (auto simp: f intro: g steps.obeys_give)
  qed (rule steps.obeys_give, simp)
  then show ?thesis unfolding sys_keeps_def
    by (intro steps.obeys_and_then [OF get_life_obeys] steps.obeys_and_then)
      (use that in \<open>auto simp: sys_keeps_def\<close>)
qed

lemma abort_capture_steps [op_steps]: "sys_keeps coord_steps (abort_capture_attempt self a i j d ctx)"
  unfolding abort_capture_attempt_def
  by (intro fail_uncommitted_steps steps.keeps_rules along op_steps)

lemma request_capture_steps [op_steps]: "sys_keeps coord_steps (request_capture self i opts ctx)"
  unfolding request_capture_def by (intro steps.keeps_rules op_steps)

end
