(* ===== verification/CoordinatorRestore.thy ===== *)
theory CoordinatorRestore
  imports Coordinator
begin

section \<open>The coordinator: restore, rollback, fork and migration (coordinator.rs)\<close>

text \<open>
  \<open>request_restore\<close> checks and reserves, \<open>execute_restore\<close> runs the restore in two
  phases around the generation commit, \<open>abort_restore_attempt\<close> undoes a failed one.
  Rollback and migration are restores with different options. \<open>migrate\<close> calls itself on the
  checkpoint it captured; the model bounds the depth by a fuel.
\<close>

subsection \<open>Replicas for a restore\<close>

fun find_active_location :: "durable_location list \<Rightarrow> ('w, durable_location option) op" where
  "find_active_location [] = give None"
| "find_active_location (l # ls) =
     and_then (attempt (node_is_active (dl_node l))) (\<lambda>r.
     if r = Inr True then give (Some l) else find_active_location ls)"

definition require_active_location ::
  "string \<Rightarrow> checkpoint_object \<Rightarrow> ('w, string) op" where
  "require_active_location msg ckpt =
     and_then (find_active_location (ck_durable_locations ckpt)) (\<lambda>found.
     lift (ok_or (Internal msg) (map_option dl_node found)))"

definition ensure_replica ::
  "coordinator \<Rightarrow> string \<Rightarrow> checkpoint_object \<Rightarrow> string \<Rightarrow> ('w, unit) op" where
  "ensure_replica self target_node ckpt attempt_id =
     and_then (require_active_location ''no active node holds a replica for restore'' ckpt) (\<lambda>source.
     and_then (fetch_grant self source (ck_checkpoint_id ckpt)) (\<lambda>(token, from_addr).
     and_then (manifest_anchor ckpt) (\<lambda>digest.
     and_then (call_node nw_replicate target_node \<lparr>nyr_attempt_id = attempt_id,
        nyr_checkpoint_id = ck_checkpoint_id ckpt, nyr_expected_manifest_digest = digest,
        nyr_from_addr = from_addr, nyr_fetch_token = token,
        nyr_coordinator_epoch = cc_epoch self\<rparr>) (\<lambda>res.
     if \<not> nys_ok res
     then raise (RestoreFailure (''replica staging on target failed: '' @
            (case nys_error res of None \<Rightarrow> [] | Some e \<Rightarrow> e)))
     else db (checkpoint_add_location (ck_checkpoint_id ckpt) \<lparr>dl_node = target_node,
            dl_path = (case nys_path res of None \<Rightarrow> [] | Some p \<Rightarrow> p), dl_verified = True\<rparr>)))))"

subsection \<open>Executing a restore\<close>

text \<open>Before the commit: the target gets a replica and restores the components.\<close>

definition stage_restore ::
  "coordinator \<Rightarrow> checkpoint_object \<Rightarrow> string \<Rightarrow> string \<Rightarrow> ('w, unit) op" where
  "stage_restore self ckpt target_node attempt_id =
     and_then (set_lifecycle ckpt RestorePending) (\<lambda>_.
     and_then (journal ''restore'' attempt_id res_PROVISIONED ''target provisioned'') (\<lambda>_.
     and_then (call_node nw_probe target_node \<lparr>npr_checkpoint_id = ck_checkpoint_id ckpt,
        npr_coordinator_epoch = cc_epoch self\<rparr>) (\<lambda>probe.
     and_then (if nps_has_replica probe then give () else ensure_replica self target_node ckpt attempt_id) (\<lambda>_.
     and_then (set_lifecycle ckpt Restoring) (\<lambda>_.
     and_then (manifest_anchor ckpt) (\<lambda>digest.
     and_then (call_node nw_restore target_node \<lparr>nrr_attempt_id = attempt_id,
        nrr_checkpoint_id = ck_checkpoint_id ckpt, nrr_workload_id = ck_workload_id ckpt,
        nrr_expected_manifest_digest = digest,
        nrr_max_component_bytes = p_max_component_bytes (cc_policy self),
        nrr_coordinator_epoch = cc_epoch self\<rparr>) (\<lambda>res.
     if \<not> nrs_ok res
     then raise (RestoreFailure (case nrs_error res of None \<Rightarrow> ''node restore failed'' | Some e \<Rightarrow> e))
     else journal ''restore'' attempt_id res_COMPONENTS_RESTORED ''components restored'')))))))"

text \<open>The commit: generation, epoch and authority move in one transaction.\<close>

definition commit_restore ::
  "checkpoint_object \<Rightarrow> string \<Rightarrow> string \<Rightarrow> restore_options \<Rightarrow> ('w, string \<times> workload) op" where
  "commit_restore ckpt target_node attempt_id options =
     and_then (fire ''restore.before_generation_commit'') (\<lambda>_.
     and_then (case ro_target_fence_token options of None \<Rightarrow> new_fence_token | Some t \<Rightarrow> give t) (\<lambda>token.
     and_then (db_now (\<lambda>now. restore_commit now (ck_checkpoint_id ckpt) attempt_id target_node token
        (ro_migration options) (ro_rollback options))) (\<lambda>_.
     and_then (dbq (workload_get (ck_workload_id ckpt))) (\<lambda>found.
     and_then (lift (ok_or (Internal ''called `Option::unwrap()` on a `None` value'') found)) (\<lambda>w.
     and_then (fire ''restore.after_generation_commit'') (\<lambda>_.
     give (token, w)))))))"

text \<open>After the commit: a resume that fails is recorded and does not undo the restore.\<close>

definition resume_restored ::
  "coordinator \<Rightarrow> checkpoint_object \<Rightarrow> string \<Rightarrow> string \<Rightarrow> restore_options \<Rightarrow> string \<Rightarrow> workload
     \<Rightarrow> ('w, bool \<times> string option) op" where
  "resume_restored self ckpt target_node attempt_id options token w =
     and_then (attempt (call_node nw_resume target_node
       (resume_request self attempt_id (ck_checkpoint_id ckpt) (ck_workload_id ckpt) (Some token)
          (Some (w_execution_epoch w)) (ro_resume options)))) (\<lambda>answer.
     let resumed = (case answer of Inl _ \<Rightarrow> False | Inr r \<Rightarrow> ro_resume options \<and> nus_ok r);
         resume_error = (case answer of Inl e \<Rightarrow> Some (error_to_string e)
                         | Inr r \<Rightarrow> if nus_ok r then None else nus_error r) in
     and_then (journal ''restore'' attempt_id res_RESUMED (if resumed then ''resumed'' else ''not_resumed'')) (\<lambda>_.
     give (resumed, resume_error)))"

definition restore_outcome ::
  "checkpoint_object \<Rightarrow> string \<Rightarrow> string \<Rightarrow> compat_verdict \<Rightarrow> bool \<Rightarrow> string option \<Rightarrow> workload
     \<Rightarrow> operation_outcome" where
  "restore_outcome ckpt target_node attempt_id compat_verdict resumed resume_error w =
     \<lparr>oo_attempt_id = attempt_id, oo_checkpoint_id = Some (ck_checkpoint_id ckpt),
      oo_workload_id = Some (ck_workload_id ckpt), oo_node = Some target_node,
      oo_state = (if resumed then ''RESTORED'' else ''RESTORED_NO_RESUME''),
      oo_result = Some (if resumed then ''restored'' else ''restored without resume''),
      oo_error = resume_error,
      oo_resumability = Some (restored_resumability (ck_resumability ckpt) compat_verdict resumed),
      oo_workload_generation = Some (w_workload_generation w),
      oo_execution_epoch = Some (w_execution_epoch w)\<rparr>"

definition execute_restore ::
  "coordinator \<Rightarrow> checkpoint_object \<Rightarrow> string \<Rightarrow> string \<Rightarrow> restore_options \<Rightarrow> compat_verdict
     \<Rightarrow> operation_context \<Rightarrow> ('w, operation_outcome) op" where
  "execute_restore self ckpt target_node attempt_id options compat_verdict ctx =
     and_then (stage_restore self ckpt target_node attempt_id) (\<lambda>_.
     and_then (commit_restore ckpt target_node attempt_id options) (\<lambda>(token, w).
     and_then (resume_restored self ckpt target_node attempt_id options token w) (\<lambda>(resumed, resume_error).
     and_then (db_now (\<lambda>now. attempt_finish now attempt_id
        (if resumed then ''COMMITTED'' else ''COMMITTED_NO_RESUME'')
        (Some (if resumed then ''restore committed and resumed'' else ''restore committed without resume''))
        resume_error)) (\<lambda>_.
     and_then (db (reservation_release attempt_id)) (\<lambda>_.
     and_then (audit ctx ''restore.commit'' (Some (ck_workload_id ckpt)) (Some (ck_checkpoint_id ckpt)) AuditOk
        ''restored to {target_node}: generation {} epoch {} class {restored_class:?} resumed={resumed}'') (\<lambda>_.
     and_then (fire ''restore.after_commit'') (\<lambda>_.
     give (restore_outcome ckpt target_node attempt_id compat_verdict resumed resume_error w))))))))"

definition abort_restore_attempt ::
  "coordinator \<Rightarrow> string \<Rightarrow> checkpoint_object \<Rightarrow> string \<Rightarrow> operation_context \<Rightarrow> ('w, unit) op" where
  "abort_restore_attempt self attempt_id ckpt detail ctx =
     and_then (dbq (journal_has ''restore'' attempt_id res_GENERATION_COMMITTED)) (\<lambda>committed.
     if committed
     then and_then (db_now (\<lambda>now. attempt_finish now attempt_id ''COMMITTED_NO_RESUME''
            (Some ''restore committed before post-commit failure'') (Some detail))) (\<lambda>_.
          and_then (db (reservation_release attempt_id)) (\<lambda>_.
          audit ctx ''restore.post_commit_failure'' (Some (ck_workload_id ckpt))
            (Some (ck_checkpoint_id ckpt)) AuditRecovered detail))
     else and_then (dbq (attempt_get attempt_id)) (\<lambda>found.
          and_then (case found of None \<Rightarrow> give ()
             | Some a \<Rightarrow> ignore (call_node nw_cleanup (at_node a)
                 (cleanup_request self [attempt_id]
                   [\<lparr>rct_attempt_id = attempt_id, rct_checkpoint_id = ck_checkpoint_id ckpt,
                     rct_workload_id = ck_workload_id ckpt\<rparr>] []))) (\<lambda>_.
          and_then (reopen_checkpoint (ck_checkpoint_id ckpt)) (\<lambda>_.
          and_then (finish_attempt attempt_id ''FAILED'' None (Some detail)) (\<lambda>_.
          audit ctx ''restore.aborted'' (Some (ck_workload_id ckpt)) (Some (ck_checkpoint_id ckpt))
            AuditFailed detail)))))"

subsection \<open>Requesting a restore\<close>

definition authorize_restore :: "coordinator \<Rightarrow> restore_options \<Rightarrow> operation_context \<Rightarrow> unit fabric_result" where
  "authorize_restore self options ctx =
     (let ap = p_authority (cc_policy self) in
      bind_r (authorize (oc_roles ctx) (ap_restore ap)) (\<lambda>_.
      if ro_rollback options \<and> ro_migration options
      then Inl (InvalidArgument ''restore cannot be both rollback and migration'')
      else bind_r (if ro_rollback options then authorize (oc_roles ctx) (ap_rollback ap) else Inr ()) (\<lambda>_.
           if ro_migration options then authorize (oc_roles ctx) (ap_migrate ap) else Inr ())))"

fun join_reasons :: "string list \<Rightarrow> string" where
  "join_reasons [] = []"
| "join_reasons [r] = r"
| "join_reasons (r # rs) = r @ ''; '' @ join_reasons rs"

text \<open>The checks between authorisation and reservation, and the compatibility verdict.\<close>

definition check_restore ::
  "coordinator \<Rightarrow> ident \<Rightarrow> string \<Rightarrow> restore_options \<Rightarrow> operation_context
     \<Rightarrow> ('w, checkpoint_object \<times> compat_verdict) op" where
  "check_restore self checkpoint_id target_node options ctx =
     and_then (node_is_active target_node) (\<lambda>active.
     if \<not> active then raise (RestoreFailure ''restore target node {target_node} is not active'')
     else and_then (require_checkpoint checkpoint_id) (\<lambda>ckpt.
     and_then (lift (validate_restore_request ckpt (cc_policy self) target_node)) (\<lambda>_.
     and_then (lift (restore_eligible ckpt (cc_policy self))) (\<lambda>_.
     and_then (with_lib (\<lambda>L. validate_context_refs (lib_hex_encode L) ckpt (ro_resolved_context_refs options))) (\<lambda>refs.
     and_then (lift refs) (\<lambda>_.
     and_then (require_workload (ck_workload_id ckpt)) (\<lambda>workload.
     and_then (lift (validate_target_claim workload target_node (ro_migration options))) (\<lambda>_.
     and_then (node_runtime target_node) (\<lambda>target_desc.
     let compat = evaluate ckpt target_desc (cc_policy self) in
     if cres_verdict compat = Incompatible
     then and_then (audit ctx ''restore.rejected'' (Some (ck_workload_id ckpt)) (Some checkpoint_id)
            AuditRejected (''incompatible target: '' @ join_reasons (cres_reasons compat))) (\<lambda>_.
          raise (CompatibilityFailure (join_reasons (cres_reasons compat))))
     else and_then (lift (enforce_degraded (cc_policy self) (cres_verdict compat))) (\<lambda>_.
          give (ckpt, cres_verdict compat)))))))))))"

definition reserve_restore ::
  "string \<Rightarrow> bool \<Rightarrow> ident \<Rightarrow> ident \<Rightarrow> string \<Rightarrow> ('w, unit) op" where
  "reserve_restore attempt_id rollback checkpoint_id workload_id target_node =
     and_then (db_now (\<lambda>now. reservation_create now attempt_id ''restore'' None (Some checkpoint_id)
        target_node RESERVATION_TTL_MS)) (\<lambda>_.
     and_then (db_now (\<lambda>now. attempt_begin now attempt_id (if rollback then ''rollback'' else ''restore'')
        (Some checkpoint_id) (Some workload_id) target_node)) (\<lambda>_.
     journal ''restore'' attempt_id res_RESERVED ''restore reserved''))"

definition request_restore ::
  "coordinator \<Rightarrow> ident \<Rightarrow> string \<Rightarrow> restore_options \<Rightarrow> operation_context \<Rightarrow> ('w, operation_outcome) op" where
  "request_restore self checkpoint_id target_node options ctx =
     and_then (lift (authorize_restore self options ctx)) (\<lambda>_.
     and_then (check_restore self checkpoint_id target_node options ctx) (\<lambda>(ckpt, verdict).
     and_then (hex_of checkpoint_id) (\<lambda>chex.
     and_then random_id (\<lambda>rid.
     and_then (hex_of rid) (\<lambda>rhex.
     let attempt_id = ''restore-'' @ chex @ ''-'' @ rhex in
     and_then (reserve_restore attempt_id (ro_rollback options) checkpoint_id (ck_workload_id ckpt)
        target_node) (\<lambda>_.
     on_error (execute_restore self ckpt target_node attempt_id options verdict ctx)
       (\<lambda>e. abort_restore_attempt self attempt_id ckpt (''restore failed: '' @ error_to_string e) ctx)))))))"

definition request_rollback ::
  "coordinator \<Rightarrow> ident \<Rightarrow> string \<Rightarrow> operation_context \<Rightarrow> ('w, operation_outcome) op" where
  "request_rollback self checkpoint_id target_node ctx =
     and_then (lift (authorize (oc_roles ctx) (ap_rollback (p_authority (cc_policy self))))) (\<lambda>_.
     request_restore self checkpoint_id target_node
       (default_restore_options\<lparr>ro_rollback := True, ro_resume := True\<rparr>) ctx)"

subsection \<open>Fork and migration\<close>

definition fork :: "coordinator \<Rightarrow> ident \<Rightarrow> workload_spec \<Rightarrow> operation_context \<Rightarrow> ('w, workload) op" where
  "fork self checkpoint_id spec ctx =
     and_then (lift (authorize (oc_roles ctx) (ap_fork (p_authority (cc_policy self))))) (\<lambda>_.
     and_then (require_checkpoint checkpoint_id) (\<lambda>ckpt.
     and_then (require_workload (ck_workload_id ckpt)) (\<lambda>parent.
     and_then (spec_id spec) (\<lambda>child_id.
     and_then now_ms (\<lambda>now.
     let child = new_workload self spec child_id now None None (Some (w_workload_id parent))
                   (sat_add (w_fork_generation parent) 1) in
     and_then (db_now (\<lambda>now. workload_insert_fork now child (w_workload_id parent) checkpoint_id
        ''fork from checkpoint {checkpoint_id} (gen {})'')) (\<lambda>_.
     and_then (audit ctx ''workload.fork'' (Some child_id) (Some checkpoint_id) AuditOk
        ''forked from workload {}'') (\<lambda>_.
     and_then (dbq (workload_get child_id)) (\<lambda>found.
     lift (ok_or (Internal ''called `Option::unwrap()` on a `None` value'') found)))))))))"

text \<open>\<open>migrate\<close> with fuel 0 stands for a recursion that is still going.\<close>

fun migrate ::
  "nat \<Rightarrow> coordinator \<Rightarrow> ident \<Rightarrow> string \<Rightarrow> operation_context \<Rightarrow> ('w, operation_outcome option) op" where
  "migrate 0 self checkpoint_id target_node ctx = give None"
| "migrate (Suc n) self checkpoint_id target_node ctx =
     and_then (lift (authorize (oc_roles ctx) (ap_migrate (p_authority (cc_policy self))))) (\<lambda>_.
     and_then (require_checkpoint checkpoint_id) (\<lambda>ckpt.
     and_then (require_workload (ck_workload_id ckpt)) (\<lambda>workload.
     let source_node = ck_source_node ckpt in
     and_then (lift (validate_migration_request (w_workload_id workload) checkpoint_id source_node target_node)) (\<lambda>_.
     if \<not> is_restorable (ck_lifecycle ckpt)
     then and_then (node_is_active source_node) (\<lambda>active.
          if \<not> active
          then raise (MigrationFailure ''source node {source_node} is not active; cannot capture fresh state'')
          else and_then (request_capture self (w_workload_id workload)
                 (default_capture_options\<lparr>co_quiescence := QNone\<rparr>) ctx) (\<lambda>outcome.
               and_then (lift (ok_or (Internal ''capture produced no checkpoint'') (oo_checkpoint_id outcome))) (\<lambda>new_id.
               migrate n self new_id target_node ctx)))
     else and_then (request_restore self checkpoint_id target_node
            (default_restore_options\<lparr>ro_migration := True, ro_resume := True\<rparr>) ctx) (\<lambda>outcome.
          give (Some outcome))))))"

subsection \<open>These operations only take coordinator steps\<close>

lemma find_active_location_steps [op_steps]: "sys_keeps coord_steps (find_active_location ls)"
  by (induction ls)
    (auto intro!: steps.keeps_reads steps.keeps_and_then steps.keeps_attempt common_steps)

lemma ensure_replica_steps [op_steps]:
  "sys_keeps coord_steps (require_active_location msg ck)"
  "sys_keeps coord_steps (fetch_grant self src i)"
  "sys_keeps coord_steps (ensure_replica self nd ck a)"
  unfolding ensure_replica_def require_active_location_def fetch_grant_def
  by (intro steps.keeps_rules along op_steps)+

text \<open>What the checks of a request establish and the reservation leaves alone.\<close>

definition restorable_in :: "ident \<Rightarrow> store \<Rightarrow> bool" where
  "restorable_in i s \<longleftrightarrow> (\<exists>l. life_of i s = Some l \<and> is_restorable l)"

lemma restore_pending_obeys:
  "obeys (restorable_in (ck_checkpoint_id ck)) (set_lifecycle ck RestorePending) (\<lambda>_ _. True) coord_steps"
proof (rule obeys_weaken [OF set_lifecycle_life [where P = "restorable_in (ck_checkpoint_id ck)"]])
  fix s l0
  assume "restorable_in (ck_checkpoint_id ck) s" "life_of (ck_checkpoint_id ck) s = Some l0"
  then show "guarded_move l0 RestorePending" if "can_transition l0 RestorePending"
    using that by (auto simp: restorable_in_def is_restorable_def guarded_move_def life_move_def committed_state_def)
qed auto

lemma stage_restore_obeys:
  "obeys (restorable_in (ck_checkpoint_id ck)) (stage_restore self ck nd a) (\<lambda>_ _. True) coord_steps"
  unfolding stage_restore_def
  by (rule steps.obeys_and_then [OF restore_pending_obeys], fold sys_keeps_def)
    (intro steps.keeps_rules along op_steps, simp)

lemma restore_phases_steps [op_steps]:
  "sys_keeps coord_steps (commit_restore ck nd a opts)"
  "sys_keeps coord_steps (resume_restored self ck nd a opts t w)"
  "sys_keeps coord_steps (abort_restore_attempt self a ck d ctx)"
  unfolding commit_restore_def resume_restored_def abort_restore_attempt_def
  by (intro steps.keeps_rules along op_steps)+

lemma execute_restore_obeys:
  "obeys (restorable_in (ck_checkpoint_id ck)) (execute_restore self ck nd a opts v ctx) (\<lambda>_ _. True) coord_steps"
  unfolding execute_restore_def
  by (rule steps.obeys_and_then [OF stage_restore_obeys], fold sys_keeps_def)
    (intro steps.keeps_rules along op_steps)

lemma reservation_frame:
  "reservation_create now a k w c nd ttl s = Inr (u, t) \<Longrightarrow> st_checkpoints t = st_checkpoints s"
  "attempt_begin now a k c w nd s = Inr (u, t) \<Longrightarrow> st_checkpoints t = st_checkpoints s"
  "journal_append now k a d dt s = Inr (u, t) \<Longrightarrow> st_checkpoints t = st_checkpoints s"
  by (auto simp: reservation_create_def attempt_begin_def journal_append_def Let_def split: if_splits)

lemma restorable_in_frame:
  "restorable_in i s \<Longrightarrow> st_checkpoints t = st_checkpoints s \<Longrightarrow> restorable_in i t"
  by (simp add: restorable_in_def life_of_def checkpoint_row_def)

lemma obeys_along_frame:
  assumes "\<And>now. tx_along coord_steps (tx now)"
    and "\<And>now s u t. tx now s = Inr (u, t) \<Longrightarrow> st_checkpoints t = st_checkpoints s"
  shows "obeys (restorable_in i) (db_now tx) (\<lambda>_. restorable_in i) coord_steps"
  using assms by (intro steps.obeys_db_now) (metis restorable_in_frame tx_along_def)

lemma reserve_restore_obeys:
  "obeys (restorable_in i) (reserve_restore a b j w nd) (\<lambda>_. restorable_in i) coord_steps"
  unfolding reserve_restore_def journal_def
  by (rule steps.obeys_and_then [OF obeys_along_frame], rule along, erule reservation_frame,
      rule steps.obeys_and_then [OF obeys_along_frame], rule along, erule reservation_frame,
      rule obeys_along_frame, rule along, erule reservation_frame)

lemma read_only_common [simp]:
  "read_only (node_is_active nd)" "read_only (node_runtime nd)" "read_only (require_workload i)"
  unfolding common_defs by (intro read_only_and_then; simp)+

lemma require_checkpoint_obeys:
  "obeys P (require_checkpoint i)
     (\<lambda>ck s. ck_checkpoint_id ck = i \<and> life_of i s = Some (ck_lifecycle ck)) coord_steps"
  unfolding require_checkpoint_def
proof (rule steps.obeys_and_then [OF steps.obeys_dbq [where Q = "\<lambda>found s. \<forall>ck. found = Some ck \<longrightarrow>
    ck_checkpoint_id ck = i \<and> life_of i s = Some (ck_lifecycle ck)"]])
  fix s found assume "checkpoint_get i s = Inr found"
  then show "\<forall>ck. found = Some ck \<longrightarrow> ck_checkpoint_id ck = i \<and> life_of i s = Some (ck_lifecycle ck)"
    using checkpoint_get_life [of i s found] checkpoint_row_in [of i s]
    by (auto simp: checkpoint_get_def load_checkpoint_def row_to_checkpoint_def)
qed (rule steps.obeys_lift, auto split: option.splits)

lemma restorable_read:
  fixes ck :: checkpoint_object
  shows "read_only m \<Longrightarrow> obeys (\<lambda>s. ck_checkpoint_id ck = i \<and> restorable_in i s) m
     (\<lambda>_ s. ck_checkpoint_id ck = i \<and> restorable_in i s) coord_steps"
  by (rule steps.obeys_read)

lemma check_restore_obeys:
  "obeys P (check_restore self i nd opts ctx)
     (\<lambda>(ck, v) s. ck_checkpoint_id ck = i \<and> restorable_in i s) coord_steps"
proof -
  have 1: "obeys (\<lambda>s. ck_checkpoint_id ck = i \<and> life_of i s = Some (ck_lifecycle ck))
      (lift (validate_restore_request ck (cc_policy self) nd))
      (\<lambda>_ s. ck_checkpoint_id ck = i \<and> restorable_in i s) coord_steps" for ck :: checkpoint_object
    by (rule steps.obeys_lift) (auto simp: restorable_in_def is_restorable_def)
  let ?K = "\<lambda>ck s. ck_checkpoint_id ck = i \<and> restorable_in i s"
  have read: "obeys (?K ck) m (\<lambda>_. ?K ck) coord_steps" if "read_only m" for ck :: checkpoint_object and m :: "('w, 'b) op"
    using that by (rule steps.obeys_read)
  show ?thesis
    unfolding check_restore_def Let_def
    by (rule steps.obeys_and_then [OF steps.obeys_read [where Q = "\<lambda>_ _. True"]], simp, simp,
        rule steps.obeys_if [OF steps.obeys_raise],
        rule steps.obeys_and_then [OF require_checkpoint_obeys],
        rule steps.obeys_and_then [OF 1])
      (intro steps.obeys_and_then [OF restorable_read] steps.obeys_if
        steps.obeys_and_then [OF obeys_keeps steps.obeys_raise] steps.obeys_give op_steps, simp_all)
qed

lemma request_restore_steps [op_steps]:
  "sys_keeps coord_steps (request_restore self i nd opts ctx)"
  "sys_keeps coord_steps (request_rollback self i nd ctx)"
proof -
  have run: "obeys (\<lambda>s. ck_checkpoint_id ck = i \<and> restorable_in i s)
     (and_then (reserve_restore a b i w nd) (\<lambda>_.
      on_error (execute_restore self ck nd a opts v ctx) h)) (\<lambda>_ _. True) coord_steps"
    if "\<And>e. sys_keeps coord_steps (h e)" for ck :: checkpoint_object and a b w v opts and h :: "fabric_error \<Rightarrow> ('w, unit) op"
    by (rule obeys_weaken [OF steps.obeys_pure_pre [where b = "ck_checkpoint_id ck = i" and P = "restorable_in i"]])
      (auto intro!: steps.obeys_and_then [OF reserve_restore_obeys] steps.obeys_on_error
        obeys_weaken [OF execute_restore_obeys] that)
  show *: "sys_keeps coord_steps (request_restore self i nd opts ctx)" for opts
    unfolding sys_keeps_def request_restore_def Let_def
    by (rule steps.obeys_and_then [OF steps.obeys_lift [where Q = "\<lambda>_ _. True"]], simp,
        rule steps.obeys_and_then [OF check_restore_obeys], rule steps.obeys_prod)
      (intro steps.obeys_and_then [OF restorable_read] run op_steps; simp)
  show "sys_keeps coord_steps (request_rollback self i nd ctx)"
    unfolding request_rollback_def by (intro steps.keeps_rules *)
qed

lemma fork_steps [op_steps]: "sys_keeps coord_steps (fork self i spec ctx)"
  unfolding fork_def spec_id_def by (intro steps.keeps_rules along op_steps)

lemma migrate_steps [op_steps]: "sys_keeps coord_steps (migrate n self i tgt ctx)"
proof (induction n arbitrary: i)
  case 0
  show ?case by (simp add: steps.keeps_reads)
next
  case (Suc n)
  show ?case unfolding migrate.simps by (intro steps.keeps_rules op_steps Suc.IH)
qed

end
