(* ===== verification/CoordinatorAdmin.thy ===== *)
theory CoordinatorAdmin
  imports CoordinatorRestore
begin

section \<open>The coordinator: maintenance, recovery and nodes (coordinator.rs)\<close>

text \<open>
  Verification, protection and retirement of checkpoints, the list of retirement candidates, the
  recovery pass with its calls to the nodes, the handlers of node registration and heartbeat, the
  sweep of stale nodes, and the start of a coordinator.
\<close>

subsection \<open>Checkpoint maintenance\<close>

definition verify_checkpoint ::
  "coordinator \<Rightarrow> ident \<Rightarrow> operation_context \<Rightarrow> ('w, node_verify_result) op" where
  "verify_checkpoint self checkpoint_id ctx =
     and_then (lift (authorize (oc_roles ctx) (ap_verify (p_authority (cc_policy self))))) (\<lambda>_.
     and_then (require_checkpoint checkpoint_id) (\<lambda>ckpt.
     if ck_lifecycle ckpt = Failed
     then raise (CorruptedCheckpoint ''failed checkpoint cannot be verified as valid'')
     else and_then (require_active_location ''no active node holds a replica for verification'' ckpt) (\<lambda>node.
     and_then (manifest_anchor ckpt) (\<lambda>expected.
     and_then (call_node nw_verify node \<lparr>nvr_checkpoint_id = checkpoint_id,
        nvr_expected_manifest_digest = expected, nvr_coordinator_epoch = cc_epoch self\<rparr>) (\<lambda>answer.
     let res = (if nvs_ok answer \<and> nvs_manifest_digest answer \<noteq> Some expected
                then answer\<lparr>nvs_ok := False,
                       nvs_error := Some ''node verification did not match coordinator manifest anchor''\<rparr>
                else answer) in
     and_then (db (checkpoint_set_integrity checkpoint_id (if nvs_ok res then IValid else ICorrupt))) (\<lambda>_.
     and_then (audit ctx ''checkpoint.verify'' (Some (ck_workload_id ckpt)) (Some checkpoint_id)
        (if nvs_ok res then AuditOk else AuditFailed)
        (''verification on node '' @ node @ '': '' @ (case nvs_error res of None \<Rightarrow> ''ok'' | Some e \<Rightarrow> e))) (\<lambda>_.
     give res)))))))"

definition protect_checkpoint :: "ident \<Rightarrow> bool \<Rightarrow> operation_context \<Rightarrow> ('w, unit) op" where
  "protect_checkpoint checkpoint_id pinned ctx =
     and_then (require_checkpoint checkpoint_id) (\<lambda>ckpt.
     and_then (db (checkpoint_set_protection checkpoint_id (if pinned then PPinned else PProtected))) (\<lambda>_.
     audit ctx (if pinned then ''checkpoint.pin'' else ''checkpoint.protect'') (Some (ck_workload_id ckpt))
       (Some checkpoint_id) AuditOk ''protection set to {p:?}''))"

definition unprotect_checkpoint :: "ident \<Rightarrow> operation_context \<Rightarrow> ('w, unit) op" where
  "unprotect_checkpoint checkpoint_id ctx =
     and_then (require_checkpoint checkpoint_id) (\<lambda>ckpt.
     and_then (db (checkpoint_set_protection checkpoint_id PNone)) (\<lambda>_.
     audit ctx ''checkpoint.unprotect'' (Some (ck_workload_id ckpt)) (Some checkpoint_id) AuditOk
       ''protection cleared''))"

definition retire_replica :: "coordinator \<Rightarrow> ident \<Rightarrow> durable_location \<Rightarrow> ('w, unit) op" where
  "retire_replica self checkpoint_id loc =
     and_then (call_node nw_cleanup (dl_node loc) (cleanup_request self [] [] [checkpoint_id])) (\<lambda>result.
     case nls_error result of
       None \<Rightarrow> give ()
     | Some error \<Rightarrow> raise (CleanupFailure (''retire cleanup on '' @ dl_node loc @ '' failed: '' @ error)))"

definition retire_checkpoint :: "coordinator \<Rightarrow> ident \<Rightarrow> operation_context \<Rightarrow> ('w, unit) op" where
  "retire_checkpoint self checkpoint_id ctx =
     and_then (lift (authorize (oc_roles ctx) (ap_retire (p_authority (cc_policy self))))) (\<lambda>_.
     and_then (require_checkpoint checkpoint_id) (\<lambda>ckpt.
     and_then (dbq (reservation_active_for ''restore'' None (Some checkpoint_id))) (\<lambda>active.
     if active \<noteq> None
     then raise (PolicyViolation ''checkpoint has an active restore reservation; retire refused'')
     else if ck_protection ckpt \<noteq> PNone
     then raise (PolicyViolation ''checkpoint is {:?}; unprotect before retiring'')
     else and_then (for_each (retire_replica self checkpoint_id) (ck_durable_locations ckpt)) (\<lambda>_.
          and_then (db (checkpoint_retire checkpoint_id)) (\<lambda>_.
          audit ctx ''checkpoint.retire'' (Some (ck_workload_id ckpt)) (Some checkpoint_id) AuditOk
            ''checkpoint retired'')))))"

definition compatibility ::
  "coordinator \<Rightarrow> ident \<Rightarrow> runtime_descriptor \<Rightarrow> operation_context \<Rightarrow> ('w, compatibility_result) op" where
  "compatibility self checkpoint_id tgt ctx =
     and_then (require_checkpoint checkpoint_id) (\<lambda>ckpt.
     and_then (audit ctx ''checkpoint.compatibility'' (Some (ck_workload_id ckpt)) (Some checkpoint_id)
        AuditOk (''evaluated against '' @ rd_runtime_version tgt)) (\<lambda>_.
     give (evaluate ckpt tgt (cc_policy self))))"

subsection \<open>Retirement candidates\<close>

record reclaim_view =
  rv_checkpoint_id :: ident
  rv_workload_id :: ident
  rv_checkpoint_generation :: u64
  rv_lifecycle :: string
  rv_value :: u64
  rv_protection :: protection_state
  rv_reconstructibility :: string
  rv_lineage_parents :: "ident list"
  rv_superseded_by :: "ident option"
  rv_min_generations :: u32
  rv_retirement_eligibility :: retirement_eligibility
  rv_total_physical_bytes :: u64
  rv_replicas :: u32

text \<open>The eligibility of the \<open>i\<close>-th of \<open>n_total\<close> checkpoints of a workload, in
  order of generation; \<open>min_kept\<close> counts from the newest.\<close>

definition candidate_eligibility ::
  "policy_set \<Rightarrow> workload \<Rightarrow> u32 \<Rightarrow> u32 \<Rightarrow> checkpoint_object \<Rightarrow> retirement_eligibility" where
  "candidate_eligibility policy w n_total i c =
     (let protected_gen = (ck_lifecycle c \<noteq> Retired \<and>
            ck_checkpoint_generation c >
              sat_sub (w_checkpoint_generation w) (u32_to_u64 (p_protected_generations policy)));
          min_kept = (n_total - i \<le> p_min_generations_retained policy)
      in if protected_gen then REProtected
         else if ck_protection c = PPinned then REPinned
         else if min_kept then MinimumGenerations
         else if ck_lifecycle c \<noteq> Available then NotEligible
         else Eligible)"

definition candidate_view ::
  "policy_set \<Rightarrow> workload \<Rightarrow> u32 \<Rightarrow> u32 \<Rightarrow> checkpoint_object \<Rightarrow> reclaim_view" where
  "candidate_view policy w n_total i c = \<lparr>
     rv_checkpoint_id = ck_checkpoint_id c,
     rv_workload_id = ck_workload_id c,
     rv_checkpoint_generation = ck_checkpoint_generation c,
     rv_lifecycle = lifecycle_as_str (ck_lifecycle c),
     rv_value = ck_restore_count c + u32_to_u64 (ck_replica_count c),
     rv_protection = ck_protection c,
     rv_reconstructibility =
       (if is_restorable (ck_lifecycle c) then ''restorable'' else ''not_restorable''),
     rv_lineage_parents = ck_lineage_parents c,
     rv_superseded_by = ck_superseded_by c,
     rv_min_generations = p_min_generations_retained policy,
     rv_retirement_eligibility = candidate_eligibility policy w n_total i c,
     rv_total_physical_bytes = ck_total_physical_bytes c,
     rv_replicas = ck_replica_count c\<rparr>"

definition workload_candidates ::
  "policy_set \<Rightarrow> workload \<Rightarrow> checkpoint_object list \<Rightarrow> reclaim_view list" where
  "workload_candidates policy w cks =
     (let sorted = sort_key ck_checkpoint_generation cks
      in map (\<lambda>(i, c). candidate_view policy w (of_nat (length sorted)) (of_nat i) c)
           (enumerate 0 sorted))"

definition retirement_candidates :: "coordinator \<Rightarrow> ('w, reclaim_view list) op" where
  "retirement_candidates self =
     and_then (dbq workload_list) (\<lambda>ws.
     for_fold (\<lambda>out w.
       and_then (dbq (checkpoint_list (Some (w_workload_id w)))) (\<lambda>cks.
       give (out @ workload_candidates (cc_policy self) w cks))) [] ws)"

subsection \<open>The recovery pass\<close>

definition expect_ok :: "bool \<Rightarrow> string \<Rightarrow> ('w, unit) op" where
  "expect_ok b msg = (if b then give () else raise (CleanupFailure msg))"

definition finish_cleanup :: "node_cleanup_result \<Rightarrow> ('w, unit) op" where
  "finish_cleanup result =
     (case nls_error result of None \<Rightarrow> give () | Some error \<Rightarrow> raise (CleanupFailure error))"

definition recover_capture_node ::
  "coordinator \<Rightarrow> recovery_action \<Rightarrow> attempt_record \<Rightarrow> ('w, unit) op" where
  "recover_capture_node self act a =
     and_then (case (at_checkpoint_id a, at_workload_id a) of
         (Some c, Some w) \<Rightarrow>
           and_then (call_node nw_resume (at_node a)
             (resume_request self (ra_key act) c w None None True)) (\<lambda>result.
           expect_ok (nus_ok result) (''capture recovery resume on '' @ at_node a @ '' failed: '' @
             (case nus_error result of None \<Rightarrow> [] | Some e \<Rightarrow> e)))
       | _ \<Rightarrow> give ()) (\<lambda>_.
     and_then (call_node nw_cleanup (at_node a) (cleanup_request self [ra_key act] []
       (if ra_state act = ''failed_cleanup'' then opt_list (at_checkpoint_id a) else []))) (\<lambda>result.
     finish_cleanup result))"

definition recover_restore_cleanup ::
  "coordinator \<Rightarrow> recovery_action \<Rightarrow> attempt_record \<Rightarrow> ('w, unit) op" where
  "recover_restore_cleanup self act a =
     (case (at_checkpoint_id a, at_workload_id a) of
        (Some c, Some w) \<Rightarrow>
          and_then (call_node nw_cleanup (at_node a) (cleanup_request self [ra_key act]
            [\<lparr>rct_attempt_id = ra_key act, rct_checkpoint_id = c, rct_workload_id = w\<rparr>] [])) (\<lambda>result.
          finish_cleanup result)
      | _ \<Rightarrow> give ())"

definition recover_restore_resume ::
  "coordinator \<Rightarrow> recovery_action \<Rightarrow> attempt_record \<Rightarrow> ('w, unit) op" where
  "recover_restore_resume self act a =
     (case (at_checkpoint_id a, at_workload_id a) of
        (Some c, Some i) \<Rightarrow>
          and_then (require_workload i) (\<lambda>w.
          and_then (call_node nw_resume (at_node a)
            (resume_request self (ra_key act) c i (w_fence_token w) (Some (w_execution_epoch w)) False)) (\<lambda>result.
          expect_ok (nus_ok result) (''restore recovery finalization on '' @ at_node a @ '' failed: '' @
            (case nus_error result of None \<Rightarrow> [] | Some e \<Rightarrow> e))))
      | _ \<Rightarrow> give ())"

definition recover_node :: "coordinator \<Rightarrow> recovery_action \<Rightarrow> ('w, unit) op" where
  "recover_node self act =
     and_then (dbq (attempt_get (ra_key act))) (\<lambda>found.
     case found of
       None \<Rightarrow> give ()
     | Some a \<Rightarrow>
         and_then (node_is_active (at_node a)) (\<lambda>active.
         if \<not> active then give ()
         else if ra_kind act = ''capture'' then recover_capture_node self act a
         else if ra_kind act = ''restore'' \<and> ra_state act = ''failed_cleanup''
         then recover_restore_cleanup self act a
         else if ra_kind act = ''restore'' \<and> ra_state act = ''resume_unverified''
         then recover_restore_resume self act a
         else give ()))"

definition run_recovery :: "coordinator \<Rightarrow> operation_context \<Rightarrow> ('w, recovery_outcome) op" where
  "run_recovery self ctx =
     and_then (reconcile ctx) (\<lambda>out.
     and_then (for_each (recover_node self) (ro_actions out)) (\<lambda>_.
     and_then (audit ctx ''coordinator.recovery'' None None
        (if ro_ok out then AuditRecovered else AuditFailed) ''reconciled {} actions; {} stale nodes'') (\<lambda>_.
     give out)))"

subsection \<open>Nodes\<close>

text \<open>A map from handlers to versions is kept sorted by key; a new entry wins.\<close>

definition merge_versions ::
  "(string \<times> string) list \<Rightarrow> (string \<times> string) list \<Rightarrow> (string \<times> string) list" where
  "merge_versions versions existing =
     sort_key fst (versions @ filter (\<lambda>(k, _). k \<notin> set (map fst versions)) existing)"

definition merge_node_provider_versions ::
  "string \<Rightarrow> (string \<times> string) list \<Rightarrow> ('w, unit) op" where
  "merge_node_provider_versions node versions =
     and_then (dbq node_list) (\<lambda>nodes.
     case find (\<lambda>n. n_id n = node) nodes of
       None \<Rightarrow> raise (Internal ''node {node} not registered'')
     | Some n \<Rightarrow>
         let resources = n_resources n; rt = nr_runtime resources in
         db_now (\<lambda>now. node_heartbeat now node (resources\<lparr>nr_runtime := rt\<lparr>rd_provider_versions :=
           merge_versions versions (rd_provider_versions rt)\<rparr>\<rparr>)))"

fun rebind_all :: "string \<Rightarrow> string \<Rightarrow> ident list \<Rightarrow> ('w, unit) op" where
  "rebind_all node data_dir [] = give ()"
| "rebind_all node data_dir (c # cs) =
     and_then (with_lib lib_hex_encode) (\<lambda>h.
     and_then (db (checkpoint_rebind_location h c node data_dir)) (\<lambda>_.
     rebind_all node data_dir cs))"

definition register_node ::
  "coordinator \<Rightarrow> node_register_request \<Rightarrow> ('w, node_register_response) op" where
  "register_node self req =
     (if rgr_coordinator_epoch req \<noteq> cc_epoch self
      then give \<lparr>rgs_accepted = False, rgs_coordinator_epoch = cc_epoch self, rgs_error =
             Some ''stale coordinator epoch: node holds {}, coordinator is {}''\<rparr>
      else let resources = \<lparr>nr_data_dir = rgr_data_dir req, nr_runtime = rgr_runtime req,
                 nr_hardware = rgr_hardware req, nr_details = rgr_resources req\<rparr> in
        and_then (attempt (and_then
          (db_now (\<lambda>now. node_register now (rgr_node_id req) (rgr_listen_addr req) (rgr_boot_id req) resources))
          (\<lambda>_. rebind_all (rgr_node_id req) (rgr_data_dir req) (rgr_committed_checkpoints req)))) (\<lambda>r.
        give \<lparr>rgs_accepted = is_ok r, rgs_coordinator_epoch = cc_epoch self, rgs_error =
          (case r of Inl e \<Rightarrow> Some (error_to_string e) | Inr _ \<Rightarrow> None)\<rparr>))"

definition heartbeat_refused :: "string \<Rightarrow> node_heartbeat_response" where
  "heartbeat_refused msg = \<lparr>hbs_ok = False, hbs_stale_workloads = [], hbs_error = Some msg\<rparr>"

text \<open>The hosted workloads whose authority the node no longer holds; a failed read skips one.\<close>

definition holds_authority :: "string \<Rightarrow> heartbeat_workload \<Rightarrow> workload \<Rightarrow> bool" where
  "holds_authority node hb w \<longleftrightarrow>
     hw_execution_epoch hb = w_execution_epoch w \<and> is_ok (validate_fence w node (hw_fence_token hb))"

fun stale_workloads :: "string \<Rightarrow> heartbeat_workload list \<Rightarrow> ('w, ident list) op" where
  "stale_workloads node [] = give []"
| "stale_workloads node (hb # hbs) =
     and_then (attempt (dbq (workload_get (hw_workload_id hb)))) (\<lambda>r.
     and_then (stale_workloads node hbs) (\<lambda>rest.
     give (case r of
         Inr (Some w) \<Rightarrow> if holds_authority node hb w then rest else hw_workload_id hb # rest
       | _ \<Rightarrow> rest)))"

text \<open>The branch of an unknown node cannot pass the identity check before it; the source would
  store a fresh descriptor and have the store refuse it as a heartbeat for an unknown node.\<close>

definition node_heartbeat_op ::
  "coordinator \<Rightarrow> node_heartbeat_request \<Rightarrow> ('w, node_heartbeat_response) op" where
  "node_heartbeat_op self req =
     (if hbr_coordinator_epoch req \<noteq> cc_epoch self then give (heartbeat_refused ''stale coordinator epoch'')
      else and_then (attempt (dbq (node_validate_identity (hbr_node_id req) (hbr_boot_id req)))) (\<lambda>known.
      case known of
        Inl e \<Rightarrow> give (heartbeat_refused (error_to_string e))
      | Inr _ \<Rightarrow>
      and_then (dbq node_list) (\<lambda>nodes.
      case find (\<lambda>n. n_id n = hbr_node_id req) nodes of
        None \<Rightarrow> give (heartbeat_refused (error_to_string (Internal ''heartbeat for unknown node {id}'')))
      | Some n \<Rightarrow>
      let existing = n_resources n;
          resources = existing\<lparr>nr_details := hbr_resources req, nr_runtime :=
            (nr_runtime existing)\<lparr>rd_provider_versions := hbr_provider_versions req\<rparr>\<rparr> in
      and_then (attempt (db_now (\<lambda>now. node_heartbeat now (hbr_node_id req) resources))) (\<lambda>beat.
      case beat of
        Inl e \<Rightarrow> give (heartbeat_refused (error_to_string e))
      | Inr _ \<Rightarrow>
      and_then (rebind_all (hbr_node_id req) (nr_data_dir resources) (hbr_committed_checkpoints req)) (\<lambda>_.
      and_then (stale_workloads (hbr_node_id req) (hbr_workloads req)) (\<lambda>stale.
      give \<lparr>hbs_ok = True, hbs_stale_workloads = stale, hbs_error = None\<rparr>))))))"

definition fence_stale_workload :: "string \<Rightarrow> workload \<Rightarrow> ('w, unit) op" where
  "fence_stale_workload n w =
     (if w_active_node w = Some n
      then and_then (ignore (db (workload_bump_fence (w_workload_id w) (w_execution_epoch w)))) (\<lambda>_.
           audit_store ''coordinator'' ''workload.fence_by_stale_node'' (Some (w_workload_id w)) None
             AuditRecovered (''node '' @ n @ '' went stale; workload claim revoked''))
      else give ())"

definition sweep_node :: "string \<Rightarrow> ('w, unit) op" where
  "sweep_node n =
     and_then (db (node_set_status n ''STALE'')) (\<lambda>_.
     and_then (audit_store ''coordinator'' ''node.stale'' None None AuditFailed
       (''node '' @ n @ '' declared stale (epoch {epoch})'')) (\<lambda>_.
     and_then (dbq workload_list) (\<lambda>ws.
     for_each (fence_stale_workload n) ws)))"

definition sweep_stale :: "u64 \<Rightarrow> ('w, unit) op" where
  "sweep_stale stale_ms =
     and_then now_ms (\<lambda>now.
     and_then (db (nodes_sweep_stale (sat_sub now stale_ms))) (\<lambda>stale.
     for_each sweep_node stale))"

text \<open>One tick of the monitor thread: both failures are only logged.\<close>

definition monitor_tick :: "coordinator \<Rightarrow> ('w, unit) op" where
  "monitor_tick self =
     and_then (ignore (sweep_stale (cc_stale_ms self))) (\<lambda>_. ignore (db_now reservations_expire))"

subsection \<open>Start\<close>

definition arm_spec :: "string option \<Rightarrow> ('w, unit) op" where
  "arm_spec spec s = (Inr (), case spec of None \<Rightarrow> s
     | Some t \<Rightarrow> s\<lparr>sy_failpoints := arm_from_spec t (sy_failpoints s)\<rparr>)"

definition initial_policy :: "policy_set option \<Rightarrow> ('w, policy_set) op" where
  "initial_policy configured =
     (case configured of
        Some p \<Rightarrow> and_then (db (policy_insert p True)) (\<lambda>_. give p)
      | None \<Rightarrow> and_then (dbq policy_versions) (\<lambda>versions.
          if versions = [] then and_then (db (policy_insert default_policy True)) (\<lambda>_. give default_policy)
          else and_then (dbq policy_load_all) (\<lambda>loaded.
               let sorted = sort_key p_version loaded in
               give (if sorted = [] then default_policy else last sorted))))"

definition open_coordinator ::
  "u64 option \<Rightarrow> policy_set option \<Rightarrow> string option \<Rightarrow> u64 \<Rightarrow> ('w, coordinator) op" where
  "open_coordinator requested configured failpoints stale_ms =
     and_then (arm_spec failpoints) (\<lambda>_.
     and_then (db (claim_coordinator_epoch requested)) (\<lambda>epoch.
     and_then (initial_policy configured) (\<lambda>policy.
     give \<lparr>cc_epoch = epoch, cc_policy = policy, cc_stale_ms = stale_ms\<rparr>)))"

subsection \<open>These operations only take coordinator steps\<close>

lemma maintenance_steps [op_steps]:
  "sys_keeps coord_steps (verify_checkpoint self i ctx)"
  "sys_keeps coord_steps (protect_checkpoint i b ctx)"
  "sys_keeps coord_steps (unprotect_checkpoint i ctx)"
  "sys_keeps coord_steps (retire_checkpoint self i ctx)"
  "sys_keeps coord_steps (compatibility self i rd ctx)"
  "sys_keeps coord_steps (retirement_candidates self)"
  unfolding verify_checkpoint_def protect_checkpoint_def unprotect_checkpoint_def
    retire_checkpoint_def retire_replica_def compatibility_def retirement_candidates_def
  by (intro steps.keeps_rules along op_steps)+

lemma recover_node_steps [op_steps]: "sys_keeps coord_steps (recover_node self act)"
  unfolding recover_node_def recover_capture_node_def recover_restore_cleanup_def
    recover_restore_resume_def finish_cleanup_def expect_ok_def
  by (intro steps.keeps_rules op_steps)

lemma run_recovery_steps [op_steps]: "sys_keeps coord_steps (run_recovery self ctx)"
  unfolding run_recovery_def by (intro steps.keeps_rules op_steps)

lemma rebind_all_steps [op_steps]: "sys_keeps coord_steps (rebind_all n d cs)"
  by (induction cs)
    (auto intro!: steps.keeps_reads steps.keeps_and_then steps.keeps_db along)

lemma stale_workloads_steps [op_steps]: "sys_keeps coord_steps (stale_workloads n hbs)"
  by (induction hbs)
    (auto intro!: steps.keeps_reads steps.keeps_and_then steps.keeps_attempt)

lemma node_ops_steps [op_steps]:
  "sys_keeps coord_steps (merge_node_provider_versions n vs)"
  "sys_keeps coord_steps (register_node self rg)"
  "sys_keeps coord_steps (node_heartbeat_op self hb)"
  "sys_keeps coord_steps (monitor_tick self)"
  unfolding merge_node_provider_versions_def register_node_def node_heartbeat_op_def
    monitor_tick_def sweep_stale_def sweep_node_def fence_stale_workload_def
  by (intro steps.keeps_rules along op_steps)+

lemma read_only_arm_spec: "read_only (arm_spec f)"
  by (auto simp: read_only_def arm_spec_def split: option.splits)

lemma open_coordinator_steps [op_steps]: "sys_keeps coord_steps (open_coordinator r p f m)"
  unfolding open_coordinator_def initial_policy_def
  by (intro steps.keeps_rules along steps.keeps_read [OF read_only_arm_spec])

end
