(* ===== verification/Dispatch.thy ===== *)
theory Dispatch
  imports CoordinatorAdmin
begin

section \<open>The requests a coordinator serves (coordinator.rs, protocol.rs)\<close>

text \<open>
  \<open>dispatch\<close> maps each decoded request to its operation and its result to a response, with
  the error text in an envelope where the source sends one. Decoding and encoding the payloads
  is \<open>serde_json\<close> and not modelled: a request is its decoded payload, an answer the value
  that is encoded.
\<close>

record workload_attach_request =
  wa_workload_id :: ident
  wa_node :: string
  wa_node_boot_id :: string
  wa_providers :: "provider_spec list"
  wa_fence_epoch :: u64

record workload_attach_response =
  was_accepted :: bool
  was_fence_token :: "string option"
  was_error :: "string option"

datatype request =
    RqPing
  | RqHello
  | RqShutdown
  | RqWorkloadCreate workload_spec authority "string option"
  | RqWorkloadInspect ident
  | RqWorkloadList
  | RqWorkloadFence ident authority
  | RqWorkloadLineage ident
  | RqWorkloadAttach workload_attach_request
  | RqWorkloadDetach ident string
  | RqCapture ident capture_options authority
  | RqCaptureStatus string
  | RqCheckpointInspect ident
  | RqCheckpointList "ident option"
  | RqCheckpointVerify ident authority
  | RqCheckpointProtect ident authority
  | RqCheckpointUnprotect ident authority
  | RqCheckpointRetire ident authority
  | RqCheckpointLineage ident
  | RqRestore ident string restore_options authority
  | RqRollback ident string authority
  | RqFork ident workload_spec authority
  | RqMigrate ident string authority
  | RqCompatibility ident runtime_descriptor authority
  | RqAudit "u64 option" nat authority
  | RqRecovery bool authority
  | RqStats
  | RqNodeList
  | RqNodeRegister node_register_request
  | RqNodeHeartbeat node_heartbeat_request
  | RqOther

datatype response =
    RsPong
  | RsEnvelope envelope
  | RsWorkload workload
  | RsWorkloads "workload list"
  | RsLineage "lineage_record list"
  | RsAttach workload_attach_response
  | RsOutcome operation_outcome
  | RsAttempt attempt_record
  | RsCheckpoint checkpoint_object
  | RsCheckpoints "checkpoint_object list"
  | RsVerify node_verify_result
  | RsCompatibility compatibility_result
  | RsAudit "audit_record list"
  | RsRecovery recovery_outcome
  | RsStats stats
  | RsNodes "node_record list"
  | RsRegister node_register_response
  | RsHeartbeat node_heartbeat_response
  | RsUnfinished

definition for_authority :: "authority \<Rightarrow> u64 \<Rightarrow> operation_context" where
  "for_authority a stale_ms = \<lparr>oc_actor = au_actor a, oc_roles = au_roles a, oc_stale_ms = stale_ms\<rparr>"

definition respond :: "('a \<Rightarrow> response) \<Rightarrow> ('w, 'a) op \<Rightarrow> ('w, response) op" where
  "respond f m = and_then (attempt m) (\<lambda>r. give (case r of
     Inl e \<Rightarrow> RsEnvelope (envelope_err (error_to_string e)) | Inr x \<Rightarrow> f x))"

abbreviation respond_ok :: "('w, unit) op \<Rightarrow> ('w, response) op" where
  "respond_ok \<equiv> respond (\<lambda>_. RsEnvelope envelope_ok)"

definition respond_found :: "('a \<Rightarrow> response) \<Rightarrow> string \<Rightarrow> 'a option \<Rightarrow> response" where
  "respond_found f msg x = (case x of Some v \<Rightarrow> f v | None \<Rightarrow> RsEnvelope (envelope_err msg))"

definition capture_status :: "string \<Rightarrow> ('w, attempt_record) op" where
  "capture_status i = and_then (dbq (attempt_get i)) (\<lambda>found.
     lift (ok_or (Internal ''no such attempt: {attempt_id}'') found))"

subsection \<open>Attaching a node to a workload\<close>

fun attached_versions :: "(string \<times> string) list \<Rightarrow> provider_spec list \<Rightarrow> (string \<times> string) list" where
  "attached_versions acc [] = acc"
| "attached_versions acc (p # ps) =
     attached_versions (if ps_restore_handler p \<in> set (map fst acc) then acc
       else acc @ [(ps_restore_handler p, show_nat (unat (ps_schema_version p)))]) ps"

definition attach_op :: "workload_attach_request \<Rightarrow> ('w, response) op" where
  "attach_op req =
     and_then (attempt (attach_workload (wa_workload_id req) (wa_node req) (wa_node_boot_id req)
       (wa_fence_epoch req))) (\<lambda>r.
     case r of
       Inl e \<Rightarrow> give (RsAttach \<lparr>was_accepted = False, was_fence_token = None,
                  was_error = Some (error_to_string e)\<rparr>)
     | Inr token \<Rightarrow>
         let versions = attached_versions [] (wa_providers req) in
         and_then (if versions = [] then give ()
                   else ignore (merge_node_provider_versions (wa_node req) versions)) (\<lambda>_.
         give (RsAttach \<lparr>was_accepted = True, was_fence_token = Some token, was_error = None\<rparr>)))"

subsection \<open>Dispatch\<close>

text \<open>The recursion of \<open>migrate\<close> gets the fuel 2, which is enough for every run.\<close>

definition unfinished :: "operation_outcome option \<Rightarrow> response" where
  "unfinished x = (case x of None \<Rightarrow> RsUnfinished | Some out \<Rightarrow> RsOutcome out)"

fun dispatch :: "coordinator \<Rightarrow> request \<Rightarrow> ('w, response) op" where
  "dispatch self RqPing = give RsPong"
| "dispatch self RqHello = give (RsEnvelope envelope_ok)"
| "dispatch self RqShutdown = give (RsEnvelope envelope_ok)"
| "dispatch self (RqWorkloadCreate spec a node) =
     respond RsWorkload (create_workload self spec node (for_authority a (cc_stale_ms self)))"
| "dispatch self (RqWorkloadInspect i) =
     respond (respond_found RsWorkload ''workload not found'') (dbq (workload_get i))"
| "dispatch self RqWorkloadList = respond RsWorkloads (dbq workload_list)"
| "dispatch self (RqWorkloadFence i a) =
     respond RsWorkload (fence_workload self i (for_authority a (cc_stale_ms self)))"
| "dispatch self (RqWorkloadLineage i) = respond RsLineage (dbq (lineage_query (Some i) None))"
| "dispatch self (RqWorkloadAttach req) = attach_op req"
| "dispatch self (RqWorkloadDetach i node) =
     and_then (ignore (detach_workload i node)) (\<lambda>_. give (RsEnvelope envelope_ok))"
| "dispatch self (RqCapture i opts a) =
     respond RsOutcome (request_capture self i opts (for_authority a (cc_stale_ms self)))"
| "dispatch self (RqCaptureStatus i) = respond RsAttempt (capture_status i)"
| "dispatch self (RqCheckpointInspect i) =
     respond (respond_found RsCheckpoint ''checkpoint not found'') (dbq (checkpoint_get i))"
| "dispatch self (RqCheckpointList w) = respond RsCheckpoints (dbq (checkpoint_list w))"
| "dispatch self (RqCheckpointVerify i a) =
     respond RsVerify (verify_checkpoint self i (for_authority a (cc_stale_ms self)))"
| "dispatch self (RqCheckpointProtect i a) =
     respond_ok (protect_checkpoint i False (for_authority a (cc_stale_ms self)))"
| "dispatch self (RqCheckpointUnprotect i a) =
     respond_ok (unprotect_checkpoint i (for_authority a (cc_stale_ms self)))"
| "dispatch self (RqCheckpointRetire i a) =
     respond_ok (retire_checkpoint self i (for_authority a (cc_stale_ms self)))"
| "dispatch self (RqCheckpointLineage i) = respond RsLineage (dbq (lineage_query None (Some i)))"
| "dispatch self (RqRestore i node opts a) =
     respond RsOutcome (request_restore self i node opts (for_authority a (cc_stale_ms self)))"
| "dispatch self (RqRollback i node a) =
     respond RsOutcome (request_rollback self i node (for_authority a (cc_stale_ms self)))"
| "dispatch self (RqFork i spec a) =
     respond RsWorkload (fork self i spec (for_authority a (cc_stale_ms self)))"
| "dispatch self (RqMigrate i node a) =
     respond unfinished (migrate 2 self i node (for_authority a (cc_stale_ms self)))"
| "dispatch self (RqCompatibility i tgt a) =
     respond RsCompatibility (compatibility self i tgt (for_authority a (cc_stale_ms self)))"
| "dispatch self (RqAudit since limit a) = respond RsAudit (dbq (audit_query since limit))"
| "dispatch self (RqRecovery dry_run a) =
     respond RsRecovery (run_recovery self (for_authority a (cc_stale_ms self)))"
| "dispatch self RqStats = respond RsStats (dbq store_stats)"
| "dispatch self RqNodeList = respond RsNodes (dbq node_list)"
| "dispatch self (RqNodeRegister req) = and_then (register_node self req) (\<lambda>r. give (RsRegister r))"
| "dispatch self (RqNodeHeartbeat req) = and_then (node_heartbeat_op self req) (\<lambda>r. give (RsHeartbeat r))"
| "dispatch self RqOther = raise (ProtocolError ''coordinator cannot serve op {op:?}'')"

subsection \<open>Every request only takes coordinator steps\<close>

lemma respond_steps [op_steps]: "sys_keeps coord_steps m \<Longrightarrow> sys_keeps coord_steps (respond f m)"
  unfolding respond_def by (intro steps.keeps_rules)

lemma attach_op_steps [op_steps]:
  "sys_keeps coord_steps (attach_op req)" "sys_keeps coord_steps (capture_status i)"
  unfolding attach_op_def capture_status_def by (intro steps.keeps_rules op_steps)+

lemma dispatch_steps [op_steps]: "sys_keeps coord_steps (dispatch self rq)"
  by (cases rq) (simp_all, (intro steps.keeps_rules op_steps)+)

end
