(* ===== verification/Demo.thy ===== *)
theory Demo
  imports Dispatch
begin

section \<open>A concrete system\<close>

text \<open>A node that succeeds at everything and keeps no state of its own, a clock that stands
  still, identifiers drawn from a counter, and a library whose functions are simple but concrete:
  the environment in which the witnesses of the system properties run.\<close>

definition demo_lib :: lib where
  "demo_lib = \<lparr>lib_to_vec = (\<lambda>m. [1, 2]), lib_from_slice = (\<lambda>bs. None), lib_sha256 = (\<lambda>bs. [7]),
     lib_hex_encode = map (\<lambda>b. char_of (unat b))\<rparr>"

definition demo_network :: "unit network" where
  "demo_network = \<lparr>nw_addr_ok = (\<lambda>a. True),
     nw_capture = (\<lambda>n q w. (Inr \<lparr>ncs_attempt_id = ncr_attempt_id q, ncs_ok = True, ncs_error = None,
        ncs_components = [], ncs_total_logical_bytes = 0, ncs_total_physical_bytes = 0,
        ncs_compressed_bytes = 0, ncs_cooperative_ack = True, ncs_staging_path = None\<rparr>, w)),
     nw_promote = (\<lambda>n q w. (Inr \<lparr>nms_attempt_id = nmr_attempt_id q, nms_ok = True, nms_error = None,
        nms_commit_path = Some ''/d''\<rparr>, w)),
     nw_resume = (\<lambda>n q w. (Inr \<lparr>nus_attempt_id = nur_attempt_id q, nus_ok = True, nus_error = None\<rparr>, w)),
     nw_cleanup = (\<lambda>n q w. (Inr \<lparr>nls_removed_paths = [], nls_removed_checkpoints = [], nls_error = None\<rparr>, w)),
     nw_probe = (\<lambda>n q w. (Inr \<lparr>nps_checkpoint_id = npr_checkpoint_id q, nps_has_replica = True\<rparr>, w)),
     nw_restore = (\<lambda>n q w. (Inr \<lparr>nrs_attempt_id = nrr_attempt_id q, nrs_ok = True, nrs_error = None,
        nrs_restored_components = []\<rparr>, w)),
     nw_replicate = (\<lambda>n q w. (Inr \<lparr>nys_attempt_id = nyr_attempt_id q, nys_ok = True, nys_error = None,
        nys_path = Some ''/r''\<rparr>, w)),
     nw_allow_fetch = (\<lambda>n q w. (Inr envelope_ok, w)),
     nw_verify = (\<lambda>n q w. (Inr \<lparr>nvs_checkpoint_id = nvr_checkpoint_id q, nvs_ok = True, nvs_error = None,
        nvs_manifest_digest = Some (nvr_expected_manifest_digest q)\<rparr>, w))\<rparr>"

definition demo_env :: "unit env" where
  "demo_env = \<lparr>ev_clock = (\<lambda>k. 5), ev_random = (\<lambda>k. Id [of_nat k]), ev_fault = (\<lambda>k. False),
     ev_lib = demo_lib, ev_net = demo_network\<rparr>"

definition demo_start :: "unit sys" where
  "demo_start = \<lparr>sy_store = empty_store, sy_world = (), sy_failpoints = [], sy_reads = 0,
     sy_draws = 0, sy_accesses = 0, sy_env = demo_env\<rparr>"

definition demo_coordinator :: coordinator where
  "demo_coordinator = \<lparr>cc_epoch = 1, cc_policy = default_policy, cc_stale_ms = 30000\<rparr>"

definition demo_authority :: authority where
  "demo_authority = \<lparr>au_actor = ''op'', au_roles = [''operator'']\<rparr>"

definition demo_register :: request where
  "demo_register = RqNodeRegister \<lparr>rgr_node_id = ''n1'', rgr_listen_addr = ''a'', rgr_boot_id = ''b'',
     rgr_data_dir = ''/n1'', rgr_runtime = sample_runtime, rgr_hardware = default_hardware,
     rgr_resources = JObject [], rgr_committed_checkpoints = [], rgr_coordinator_epoch = 1\<rparr>"

definition demo_create :: request where
  "demo_create = RqWorkloadCreate \<lparr>ws_workload_id = Some (Id [200]), ws_owner = ''owner'',
     ws_class = ''generic'', ws_backend_class = ''cpu'', ws_state_schema_version = 1,
     ws_runtime = sample_runtime, ws_metadata = JObject [], ws_protection = default_protection,
     ws_single_active = True\<rparr> demo_authority (Some ''n1'')"

definition demo_capture :: request where
  "demo_capture = RqCapture (Id [200]) default_capture_options demo_authority"

definition serves :: "request list \<Rightarrow> unit sys \<Rightarrow> unit sys" where
  "serves rqs s = fold (\<lambda>rq s. snd (dispatch demo_coordinator rq s)) rqs s"

text \<open>The definitions a concrete run unfolds, by layer.\<close>

lemmas demo_defs =
  serves_def demo_start_def demo_env_def demo_network_def demo_lib_def demo_coordinator_def
  demo_authority_def demo_register_def demo_create_def demo_capture_def empty_store_def

lemmas combinator_defs =
  give_def raise_def lift_def and_then_def attempt_def ignore_def on_error_def rename_error_def
  db_def dbq_def now_ms_def random_id_def hex_of_def new_fence_token_def with_lib_def db_now_def
  fire_def fp_fire_def node_addr_def call_node_def Let_def

lemmas operation_defs =
  register_node_def node_register_def node_row_def row_get_def create_workload_def respond_def
  node_is_active_def node_list_def spec_id_def workload_get_def workload_row_def new_workload_def
  workload_insert_def insert_workload_row_def row_insert_def workload_sql_ok_def sql_u64_def
  audit_def audit_store_def audit_append_def to_hex_def request_capture_def for_authority_def
  authorize_def default_policy_def default_authority_policy_def require_workload_def
  checkpoint_list_def last_seal_def validate_capture_request_def default_capture_options_def
  workload_captureable_def is_fenced_def pick_capture_node_def checkpoint_max_generation_def
  reserve_capture_def reservation_create_def RESERVATION_TTL_MS_def active_scope_def
  attempt_begin_def row_insert_ignore_def journal_def journal_append_def add_journal_def
  journal_key_def execute_capture_def checkpoint_scaffold_def default_frontier_def
  capture_on_node_def checkpoint_insert_def checkpoint_sql_ok_def checkpoint_to_row_def
  set_lifecycle_def checkpoint_get_def checkpoint_row_def load_checkpoint_def row_to_checkpoint_def
  checkpoint_components_def checkpoint_set_lifecycle_def upd_checkpoint_def row_update_def
  validate_component_completeness_def derive_consistency_def enforce_consistency_def
  captured_checkpoint_def capture_protection_def sat_add_def sat_sub_def seal_checkpoint_def
  seal_def checkpoint_set_digest_def checkpoint_set_integrity_def persist_checkpoint_def
  promoted_checkpoint_def checkpoint_update_def generation_key_def capture_commit_def
  commit_effect_def prev_visible_def next_visible_def latest_of_def earliest_of_def visible_def
  commit_links_def upd_opt_def commit_lineage_def commit_workload_def upd_workload_def
  finish_capture_def replicate_to_policy_def finish_attempt_def attempt_finish_def
  reservation_release_def sha256_hex_def ok_or_def ensure_def none_spec_def transition_def

lemmas demo_run = demo_defs combinator_defs operation_defs

text \<open>A capture on the concrete system: its checkpoint is available.\<close>

definition captured_demo :: "unit sys" where
  "captured_demo = serves [demo_register, demo_create, demo_capture] demo_start"

lemma captured_demo_row:
  "map_option (\<lambda>c. (ck_lifecycle c, ck_workload_id c)) (checkpoint_row (Id [2]) (sy_store captured_demo)) =
     Some (Available, Id [200])"
  by (simp add: captured_demo_def demo_run)

end
