(* ===== verification/System.thy ===== *)
theory System
  imports Demo
begin

section \<open>The running system\<close>

text \<open>
  The system runs by serving requests, by ticks of the monitor thread and by starting
  coordinators over the same store; between these the nodes, the clock, the faults and the
  failpoints may change in any way. Any coordinator record may serve a request, also one of an
  older epoch or with another policy. The theorems here hold for every run of this system.
\<close>

inductive system_step :: "'w sys \<Rightarrow> 'w sys \<Rightarrow> bool" where
  serve: "dispatch self rq s = (r, s') \<Longrightarrow> system_step s s'"
| monitor: "monitor_tick self s = (r, s') \<Longrightarrow> system_step s s'"
| start: "open_coordinator requested policy failpoints stale_ms s = (r, s') \<Longrightarrow> system_step s s'"
| outside: "sy_store s' = sy_store s \<Longrightarrow> system_step s s'"

inductive_cases system_stepE: "system_step s s'"

lemma system_step_coord: "system_step s s' \<Longrightarrow> coord_steps (sy_store s) (sy_store s')"
  by (erule system_stepE)
    (auto dest: sys_keepsD [OF dispatch_steps] sys_keepsD [OF node_ops_steps(4)]
      sys_keepsD [OF open_coordinator_steps])

lemma system_steps_coord: "system_step\<^sup>*\<^sup>* s s' \<Longrightarrow> coord_steps (sy_store s) (sy_store s')"
proof (induction rule: rtranclp_induct)
  case (step t u)
  then show ?case using system_step_coord [of t u] by (meson rtranclp_trans)
qed simp

lemma serves_run: "system_step\<^sup>*\<^sup>* s (serves rqs s)"
proof (induction rqs arbitrary: s)
  case (Cons rq rqs)
  have "system_step s (snd (dispatch demo_coordinator rq s))" by (rule serve [OF prod.collapse [symmetric]])
  with Cons.IH show ?case by (simp add: serves_def) (meson converse_rtranclp_into_rtranclp)
qed (simp add: serves_def)

lemma empty_store_ok [simp]: "store_ok empty_store" "anchored empty_store"
  by (simp_all add: store_ok_def empty_store_def components_owned_def scopes_def anchored_def)

lemma same_checkpoint_row:
  assumes "store_ok t" "store_le s t" "checkpoint_row i s = Some c" "checkpoint_row i t = Some c'"
  shows "ck_workload_id c' = ck_workload_id c"
proof -
  obtain d where "d \<in> set (st_checkpoints t)" "same_checkpoint c d"
    using assms(2,3) checkpoint_row_in by (fastforce simp: store_le_def rows_le_def)
  then show ?thesis using checkpoint_row_unique [OF assms(1,4), of d] checkpoint_row_in [OF assms(3)]
    by (auto simp: same_checkpoint_def)
qed

subsection \<open>Properties\<close>




end
