(* ===== verification/Migration.thy ===== *)
theory Migration
  imports System
begin

section \<open>The recursion of a migration ends\<close>

text \<open>
  A migration of a checkpoint that cannot be restored first captures a fresh one and then
  migrates that. The fresh checkpoint is available when the capture returns it, so the second
  call restores it: the recursion is at most two calls deep, whatever the nodes answer and
  whichever accesses fail.
\<close>

subsection \<open>A checkpoint that stays available\<close>

definition available_kept :: "ident \<Rightarrow> store \<Rightarrow> store \<Rightarrow> bool" where
  "available_kept i s t \<longleftrightarrow> (life_of i s = Some Available \<longrightarrow> life_of i t = Some Available)"

interpretation live: step_contract "available_kept i" for i
  by unfold_locales (auto simp: available_kept_def)

lemma available_kept_same: "st_checkpoints t = st_checkpoints s \<Longrightarrow> available_kept i s t"
  by (simp add: available_kept_def life_of_def checkpoint_row_def)

lemma life_of_set_locations [simp]: "life_of i (set_locations j ls s) = life_of i s"
  by (cases "i = j") (simp_all add: life_of_def set_locations_def option.map_comp comp_def)

lemma live_tx:
  "tx_along (available_kept i) (attempt_finish now a d res err)"
  "tx_along (available_kept i) (reservation_release a)"
  "tx_along (available_kept i) (audit_append now a k wo co ar d)"
  "tx_along (available_kept i) (journal_append now k a n d)"
  "tx_along (available_kept i) (checkpoint_add_location j l)"
  by (auto simp: tx_along_def other_tables checkpoint_add_location_def available_kept_def
      split: if_splits option.splits intro: available_kept_same [unfolded available_kept_def, rule_format])

lemma live_common:
  "sys_keeps (available_kept i) (require_checkpoint j)"
  "sys_keeps (available_kept i) (audit ctx k w c r d)"
  "sys_keeps (available_kept i) (journal k a b d)"
  "sys_keeps (available_kept i) (manifest_anchor ck)"
  "sys_keeps (available_kept i) (fetch_grant self src j)"
  unfolding common_defs fetch_grant_def audit_store_def by (intro live.keeps_rules live_tx)+

lemma live_replicate_one: "sys_keeps (available_kept i) (replicate_one self j ck nd)"
  unfolding replicate_one_def
  by (cases "ck_durable_locations ck") (simp_all, (intro live.keeps_rules live_tx live_common)+)

lemma live_replicate_loop: "sys_keeps (available_kept i) (replicate_loop self j ck ns)"
  by (induction ns arbitrary: ck) (auto intro!: live.keeps_rules live_replicate_one)

lemma live_finish: "sys_keeps (available_kept i) (finish_capture self w n a j ctx)"
  unfolding finish_capture_def replicate_to_policy_def finish_attempt_def
  by (intro live.keeps_rules live_tx live_common live_replicate_loop)

lemma live_obeys:
  "sys_keeps (available_kept i) m \<Longrightarrow>
     obeys (\<lambda>s. life_of i s = Some Available) m (\<lambda>_ s. life_of i s = Some Available) (\<lambda>_ _. True)"
  by (auto simp: sys_keeps_def obeys_def available_kept_def)

subsection \<open>A capture returns an available checkpoint\<close>

lemma capture_commit_life:
  assumes "capture_commit now i a s = Inr (u, t)"
  shows "life_of i t = Some Available"
proof -
  obtain c w where c: "checkpoint_row i s = Some c" and t: "t = commit_effect now i a c w s"
    using assms by (auto simp: capture_commit_Inr)
  have "ck_checkpoint_id c = i" using c checkpoint_row_in by blast
  with c show ?thesis by (simp add: t life_of_def commit_effect_row link_row_def Let_def)
qed

lemma persist_available:
  "obeys P (persist_checkpoint self n a ck sealed)
     (\<lambda>_ s. life_of (ck_checkpoint_id ck) s = Some Available) (\<lambda>_ _. True)"
  unfolding persist_checkpoint_def
  by (intro post.obeys_and_then [where Q = "\<lambda>_ _. True"] post.obeys_if post.obeys_raise post.obeys_db_now)
    (auto simp: obeys_def dest: capture_commit_life)

lemma seal_keeps_id:
  "obeys P (seal_checkpoint a ck) (\<lambda>(ck', sealed) _. ck_checkpoint_id ck' = ck_checkpoint_id ck) (\<lambda>_ _. True)"
  by (auto simp: obeys_def seal_checkpoint_def Let_def and_then_Inr)

lemma capture_keeps_id:
  "obeys P (capture_on_node self w n a c opts ck) (\<lambda>ck' _. ck_checkpoint_id ck' = ck_checkpoint_id ck) (\<lambda>_ _. True)"
  by (auto simp: obeys_def capture_on_node_def Let_def and_then_Inr captured_checkpoint_def split: if_splits)

definition captured_available :: "operation_outcome \<Rightarrow> store \<Rightarrow> bool" where
  "captured_available out s \<longleftrightarrow> (\<exists>i. oo_checkpoint_id out = Some i \<and> life_of i s = Some Available)"

lemma execute_capture_available:
  "obeys P (execute_capture self w n a i g c opts ctx) captured_available (\<lambda>_ _. True)"
proof -
  have last: "obeys (\<lambda>s. life_of i s = Some Available)
      (and_then (finish_capture self w n a i ctx) (\<lambda>_. give out)) captured_available (\<lambda>_ _. True)"
    if "oo_checkpoint_id out = Some i" for out
    by (rule post.obeys_and_then [OF live_obeys [OF live_finish]], rule post.obeys_give)
      (simp add: captured_available_def that)
  have rest: "obeys (\<lambda>_. ck_checkpoint_id ck = i)
      (and_then (persist_checkpoint self n a ck sealed)
        (\<lambda>_. and_then (finish_capture self w n a i ctx) (\<lambda>_. give out))) captured_available (\<lambda>_ _. True)"
    if "oo_checkpoint_id out = Some i" for ck sealed out
  proof (rule post.obeys_pure_pre [where P = "\<lambda>_. True", simplified])
    assume "ck_checkpoint_id ck = i"
    with last [OF that] show "obeys (\<lambda>_. True) (and_then (persist_checkpoint self n a ck sealed)
        (\<lambda>_. and_then (finish_capture self w n a i ctx) (\<lambda>_. give out))) captured_available (\<lambda>_ _. True)"
      by (intro post.obeys_and_then [OF persist_available]) simp
  qed
  show ?thesis unfolding execute_capture_def Let_def
  proof (rule post.obeys_and_then [where Q = "\<lambda>_ _. True"], simp add: obeys_def,
      rule post.obeys_and_then [where Q = "\<lambda>ck' _. ck_checkpoint_id ck' = i"],
      rule obeys_weaken [OF capture_keeps_id], simp_all add: scaffold_created)
    fix ck1 :: checkpoint_object
    show "obeys (\<lambda>_. ck_checkpoint_id ck1 = i) (and_then (seal_checkpoint a ck1) (\<lambda>(ckpt2, sealed).
        and_then (persist_checkpoint self n a ckpt2 sealed) (\<lambda>_.
        and_then (finish_capture self w n a i ctx) (\<lambda>_.
        give \<lparr>oo_attempt_id = a, oo_checkpoint_id = Some i, oo_workload_id = Some (w_workload_id w),
          oo_node = Some n, oo_state = ''AVAILABLE'', oo_result = Some ''capture committed'',
          oo_error = None, oo_resumability = Some (ck_resumability ck1),
          oo_workload_generation = Some (w_workload_generation w),
          oo_execution_epoch = Some (w_execution_epoch w)\<rparr>)))) captured_available (\<lambda>_ _. True)"
      by (rule post.obeys_pure_pre [where P = "\<lambda>_. True", simplified],
          rule post.obeys_and_then [OF seal_keeps_id], rule post.obeys_prod) (simp add: rest)
  qed
qed

lemma request_capture_available:
  "obeys P (request_capture self i opts ctx) captured_available (\<lambda>_ _. True)"
  unfolding request_capture_def Let_def
  by (intro post.obeys_and_then [where Q = "\<lambda>_ _. True"] post.obeys_on_error execute_capture_available)
    (simp_all add: obeys_def sys_keeps_def)

subsection \<open>Two calls are enough\<close>

lemma and_then_same:
  assumes "obeys P m Q (\<lambda>_ _. True)" "P (sy_store s)"
    and "\<And>x t. Q x (sy_store t) \<Longrightarrow> f x t = g x t"
  shows "and_then m f s = and_then m g s"
  using obeysD [OF assms(1,2)] assms(3) by (auto simp: and_then_def split: prod.split sum.split)

lemma and_then_any: "(\<And>x t. f x t = g x t) \<Longrightarrow> and_then m f s = and_then m g s"
  by (simp add: and_then_def split: prod.split sum.split)

lemma if_at: "(b \<Longrightarrow> m s = n s) \<Longrightarrow> (\<not> b \<Longrightarrow> m' s = n' s) \<Longrightarrow> (if b then m else m') s = (if b then n else n') s"
  by simp

text \<open>What is read of a checkpoint that is available.\<close>

lemma available_checkpoint:
  "obeys (\<lambda>s. life_of i s = Some Available) (lift r)
     (\<lambda>_ s. life_of i s = Some Available) (\<lambda>_ _. True)"
  "obeys (\<lambda>s. life_of i s = Some Available) (require_checkpoint i)
     (\<lambda>ck _. is_restorable (ck_lifecycle ck)) (\<lambda>_ _. True)"
  unfolding require_checkpoint_def
  by (auto simp: obeys_def and_then_Inr dbq_def Let_def is_restorable_def
      dest!: checkpoint_get_life split: if_splits option.splits)

lemma captured_id:
  "obeys (captured_available out) (lift (ok_or e (oo_checkpoint_id out)))
     (\<lambda>i s. life_of i s = Some Available) (\<lambda>_ _. True)"
  by (rule post.obeys_lift) (auto simp: captured_available_def)

lemma migrate_available:
  assumes "life_of i (sy_store s) = Some Available"
  shows "migrate (Suc n) self i tgt ctx s = migrate (Suc m) self i tgt ctx s"
  unfolding migrate.simps
  by (rule and_then_same [OF available_checkpoint(1)], rule assms,
      rule and_then_same [OF available_checkpoint(2)], assumption) simp

lemma migrate_two: "migrate (Suc (Suc n)) self i tgt ctx s = migrate (Suc (Suc 0)) self i tgt ctx s"
proof -
  note capture = and_then_same [OF request_capture_available [where P = "\<lambda>_. True"] TrueI]
  show ?thesis
    unfolding migrate.simps(2) [of "Suc _"] Let_def
    by (rule and_then_any, rule and_then_any, rule and_then_any, rule and_then_any, rule if_at,
        rule and_then_any, rule if_at, rule refl, rule capture, rule and_then_same [OF captured_id], assumption,
        erule migrate_available, rule refl)
qed

lemma skip:
  "(\<And>x. obeys (\<lambda>_. True) (f x) Q (\<lambda>_ _. True)) \<Longrightarrow> obeys P (and_then m f) Q (\<lambda>_ _. True)"
  by (rule post.obeys_and_then [where Q = "\<lambda>_ _. True"]) (simp add: obeys_def)

lemma migrate_answers:
  "obeys (\<lambda>s. life_of i s = Some Available) (migrate (Suc n) self i tgt ctx) (\<lambda>out _. out \<noteq> None) (\<lambda>_ _. True)"
  "obeys (\<lambda>_. True) (migrate (Suc (Suc n)) self i tgt ctx) (\<lambda>out _. out \<noteq> None) (\<lambda>_ _. True)"
proof -
  have restored: "obeys P (and_then m (\<lambda>x. give (Some x))) (\<lambda>out _. out \<noteq> None) (\<lambda>_ _. True)"
    for P and m :: "('w, operation_outcome) op"
    by (rule skip) (simp add: post.obeys_give)
  show fresh: "obeys (\<lambda>s. life_of i s = Some Available) (migrate (Suc n) self i tgt ctx) (\<lambda>out _. out \<noteq> None) (\<lambda>_ _. True)"
    for n i
    unfolding migrate.simps Let_def
    by (rule post.obeys_and_then [OF available_checkpoint(1)], rule post.obeys_and_then [OF available_checkpoint(2)],
        rule post.obeys_pure_pre [where P = "\<lambda>_. True", simplified])
      (rule skip, rule skip, simp only: not_True_eq_False if_False restored)
  show "obeys (\<lambda>_. True) (migrate (Suc (Suc n)) self i tgt ctx) (\<lambda>out _. out \<noteq> None) (\<lambda>_ _. True)"
    unfolding migrate.simps(2) [of "Suc _"] Let_def
    by (rule skip, rule skip, rule skip, rule skip, rule post.obeys_if, rule skip, rule post.obeys_if,
        rule post.obeys_raise, rule post.obeys_and_then [OF request_capture_available],
        rule post.obeys_and_then [OF captured_id], rule fresh, rule restored)
qed

lemma fst_respond:
  "fst (respond f m s) = Inr (case fst (m s) of
     Inl e \<Rightarrow> RsEnvelope (envelope_err (error_to_string e)) | Inr x \<Rightarrow> f x)"
  by (simp add: respond_def and_then_def attempt_def give_def split: prod.split)

lemma respond_finished: "(\<And>x. f x \<noteq> RsUnfinished) \<Longrightarrow> fst (respond f m s) \<noteq> Inr RsUnfinished"
  by (simp add: fst_respond split: sum.split)

lemma finished_last: "(\<And>x. f x \<noteq> RsUnfinished) \<Longrightarrow> fst (and_then m (\<lambda>x. give (f x)) s) \<noteq> Inr RsUnfinished"
  by (simp add: and_then_def give_def split: prod.split sum.split)

lemma found_finished: "(\<And>x. f x \<noteq> RsUnfinished) \<Longrightarrow> respond_found f msg x \<noteq> RsUnfinished"
  by (simp add: respond_found_def split: option.split)

lemma attach_finished: "fst (attach_op req s) \<noteq> Inr RsUnfinished"
  by (auto simp: attach_op_def and_then_def give_def Let_def split: prod.splits sum.splits)

text \<open>C17: a migration always returns. However much fuel it is given beyond two calls, it behaves as
  with two; with two calls it never stops for lack of fuel, in any state, with any node behaviour
  and any faults; and so the coordinator answers every request there is.\<close>

theorem migrate_returns:
  "migrate (n + 2) self i tgt ctx s = migrate 2 self i tgt ctx s \<and>
   fst (migrate 2 self i tgt ctx s) \<noteq> Inr None \<and>
   fst (dispatch self rq s) \<noteq> Inr RsUnfinished"
proof (intro conjI)
  show "migrate (n + 2) self i tgt ctx s = migrate 2 self i tgt ctx s"
    using migrate_two by (simp add: numeral_2_eq_2)
  have m: "obeys (\<lambda>_. True) (migrate 2 self i tgt ctx) (\<lambda>out _. out \<noteq> None) (\<lambda>_ _. True)" for self i tgt ctx
    using migrate_answers(2) [of 0] by (simp add: numeral_2_eq_2)
  then show "fst (migrate 2 self i tgt ctx s) \<noteq> Inr None"
    using obeysD [OF m TrueI, of _ _ _ _ s] by (metis prod.collapse)
  show "fst (dispatch self rq s) \<noteq> Inr RsUnfinished"
  proof (cases rq)
    case (RqMigrate i tgt a)
    let ?m = "migrate 2 self i tgt (for_authority a (cc_stale_ms self)) s"
    have "fst ?m \<noteq> Inr None" using obeysD [OF m TrueI, of _ _ _ _ s] by (metis prod.collapse)
    then show ?thesis
      by (simp add: RqMigrate fst_respond unfinished_def split: sum.split option.split)
  qed (simp_all add: respond_finished finished_last found_finished attach_finished give_def raise_def)
qed

end
