(* ===== verification/Wire.thy ===== *)
theory Wire
  imports Ids "HOL-Library.Sublist"
begin

section \<open>Framing (protocol.rs)\<close>

text \<open>
  The operation codes and the frames of the wire protocol. A frame is a 24-byte header, with
  the checksum over the rest of the header and the payload, and the payload. The CRC-32C of the
  \<open>crc\<close> crate is the parameter \<open>crc\<close>: a streaming digest fed several pieces is the
  checksum of their concatenation, as the crate documents.
\<close>

named_theorems wire "lengths and slices of an encoded frame"

definition MAGIC :: bytes where
  "MAGIC = [67, 70, 65, 66]"

definition PROTOCOL_VERSION :: u8 where
  "PROTOCOL_VERSION = 1"

definition MAX_FRAME_PAYLOAD :: nat where
  "MAX_FRAME_PAYLOAD = 16 * 1024 * 1024"

definition HEADER_LEN :: nat where
  "HEADER_LEN = 24"

definition FLAG_RESPONSE :: u8 where
  "FLAG_RESPONSE = 1"

definition FLAG_CLOSE :: u8 where
  "FLAG_CLOSE = 2"

subsection \<open>Operation codes\<close>

datatype op_code =
    OpPing | OpPong | OpHello | OpHelloAck | OpWorkloadCreate | OpWorkloadInspect |
    OpWorkloadList | OpWorkloadFence | OpWorkloadLineage | OpWorkloadAttach |
    OpWorkloadDetach | OpCapture | OpCaptureStatus | OpCheckpointInspect | OpCheckpointList |
    OpCheckpointVerify | OpCheckpointProtect | OpCheckpointUnprotect | OpCheckpointRetire |
    OpCheckpointLineage | OpRestore | OpRollback | OpFork | OpMigrate | OpCompatibility |
    OpAudit | OpRecovery | OpStats | OpNodeList | OpNodeInfo | OpCoordinatorShutdown |
    OpNodeRegister | OpNodeRegisterAck | OpNodeHeartbeat | OpNodeHeartbeatAck |
    OpNodeCaptureResult | OpNodeRestoreResult | OpNodeVerifyResult | OpNodeCleanupResult |
    OpNodeReplicateResult | OpNodeCaptureRequest | OpNodeRestoreRequest |
    OpNodeReplicateRequest | OpNodeCleanupRequest | OpNodeVerifyRequest | OpNodeDetachRequest |
    OpNodeAllowFetch | OpNodePromoteRequest | OpNodePromoteResult | OpNodeResumeRequest |
    OpNodeResumeResult | OpFetchManifest | OpFetchComponent | OpFetchChunkResponse |
    OpNodeProbeRequest | OpNodeProbeResult

fun op_u8 :: "op_code \<Rightarrow> u8" where
  "op_u8 OpPing = 1"
| "op_u8 OpPong = 2"
| "op_u8 OpHello = 3"
| "op_u8 OpHelloAck = 4"
| "op_u8 OpWorkloadCreate = 10"
| "op_u8 OpWorkloadInspect = 11"
| "op_u8 OpWorkloadList = 12"
| "op_u8 OpWorkloadFence = 13"
| "op_u8 OpWorkloadLineage = 14"
| "op_u8 OpWorkloadAttach = 15"
| "op_u8 OpWorkloadDetach = 16"
| "op_u8 OpCapture = 20"
| "op_u8 OpCaptureStatus = 21"
| "op_u8 OpCheckpointInspect = 22"
| "op_u8 OpCheckpointList = 23"
| "op_u8 OpCheckpointVerify = 24"
| "op_u8 OpCheckpointProtect = 25"
| "op_u8 OpCheckpointUnprotect = 26"
| "op_u8 OpCheckpointRetire = 27"
| "op_u8 OpCheckpointLineage = 28"
| "op_u8 OpRestore = 30"
| "op_u8 OpRollback = 31"
| "op_u8 OpFork = 32"
| "op_u8 OpMigrate = 33"
| "op_u8 OpCompatibility = 40"
| "op_u8 OpAudit = 41"
| "op_u8 OpRecovery = 42"
| "op_u8 OpStats = 43"
| "op_u8 OpNodeList = 44"
| "op_u8 OpNodeInfo = 45"
| "op_u8 OpCoordinatorShutdown = 46"
| "op_u8 OpNodeRegister = 50"
| "op_u8 OpNodeRegisterAck = 51"
| "op_u8 OpNodeHeartbeat = 52"
| "op_u8 OpNodeHeartbeatAck = 53"
| "op_u8 OpNodeCaptureResult = 54"
| "op_u8 OpNodeRestoreResult = 55"
| "op_u8 OpNodeVerifyResult = 56"
| "op_u8 OpNodeCleanupResult = 57"
| "op_u8 OpNodeReplicateResult = 58"
| "op_u8 OpNodeCaptureRequest = 70"
| "op_u8 OpNodeRestoreRequest = 71"
| "op_u8 OpNodeReplicateRequest = 72"
| "op_u8 OpNodeCleanupRequest = 73"
| "op_u8 OpNodeVerifyRequest = 74"
| "op_u8 OpNodeDetachRequest = 75"
| "op_u8 OpNodeAllowFetch = 76"
| "op_u8 OpNodePromoteRequest = 77"
| "op_u8 OpNodePromoteResult = 78"
| "op_u8 OpNodeResumeRequest = 79"
| "op_u8 OpNodeResumeResult = 80"
| "op_u8 OpFetchManifest = 90"
| "op_u8 OpFetchComponent = 91"
| "op_u8 OpFetchChunkResponse = 92"
| "op_u8 OpNodeProbeRequest = 93"
| "op_u8 OpNodeProbeResult = 94"

text \<open>The arms of the \<open>match\<close> of \<open>Op::from_u8\<close>.\<close>

definition op_table :: "(u8 \<times> op_code) list" where
  "op_table = [
     (1, OpPing), (2, OpPong), (3, OpHello), (4, OpHelloAck), (10, OpWorkloadCreate),
     (11, OpWorkloadInspect), (12, OpWorkloadList), (13, OpWorkloadFence),
     (14, OpWorkloadLineage), (15, OpWorkloadAttach), (16, OpWorkloadDetach), (20, OpCapture),
     (21, OpCaptureStatus), (22, OpCheckpointInspect), (23, OpCheckpointList),
     (24, OpCheckpointVerify), (25, OpCheckpointProtect), (26, OpCheckpointUnprotect),
     (27, OpCheckpointRetire), (28, OpCheckpointLineage), (30, OpRestore), (31, OpRollback),
     (32, OpFork), (33, OpMigrate), (40, OpCompatibility), (41, OpAudit), (42, OpRecovery),
     (43, OpStats), (44, OpNodeList), (45, OpNodeInfo), (46, OpCoordinatorShutdown),
     (50, OpNodeRegister), (51, OpNodeRegisterAck), (52, OpNodeHeartbeat),
     (53, OpNodeHeartbeatAck), (54, OpNodeCaptureResult), (55, OpNodeRestoreResult),
     (56, OpNodeVerifyResult), (57, OpNodeCleanupResult), (58, OpNodeReplicateResult),
     (70, OpNodeCaptureRequest), (71, OpNodeRestoreRequest), (72, OpNodeReplicateRequest),
     (73, OpNodeCleanupRequest), (74, OpNodeVerifyRequest), (75, OpNodeDetachRequest),
     (76, OpNodeAllowFetch), (77, OpNodePromoteRequest), (78, OpNodePromoteResult),
     (79, OpNodeResumeRequest), (80, OpNodeResumeResult), (90, OpFetchManifest),
     (91, OpFetchComponent), (92, OpFetchChunkResponse), (93, OpNodeProbeRequest),
     (94, OpNodeProbeResult)]"

definition op_from_u8 :: "u8 \<Rightarrow> op_code option" where
  "op_from_u8 v = map_of op_table v"

subsection \<open>Big-endian integers\<close>

fun be_bytes :: "nat \<Rightarrow> nat \<Rightarrow> bytes" where
  "be_bytes 0 n = []"
| "be_bytes (Suc k) n = be_bytes k (n div 256) @ [of_nat (n mod 256)]"

definition from_be_bytes :: "bytes \<Rightarrow> nat" where
  "from_be_bytes bs = foldl (\<lambda>a b. 256 * a + unat b) 0 bs"

definition subslice :: "nat \<Rightarrow> nat \<Rightarrow> 'a list \<Rightarrow> 'a list" where
  "subslice a b xs = take (b - a) (drop a xs)"

subsection \<open>Frames\<close>

record frame =
  fm_op :: op_code
  fm_flags :: u8
  fm_request_id :: u64
  fm_payload :: bytes

definition is_response :: "frame \<Rightarrow> bool" where
  "is_response f \<longleftrightarrow> and (fm_flags f) FLAG_RESPONSE \<noteq> 0"

definition is_close :: "frame \<Rightarrow> bool" where
  "is_close f \<longleftrightarrow> and (fm_flags f) FLAG_CLOSE \<noteq> 0"

definition response_frame :: "op_code \<Rightarrow> u64 \<Rightarrow> bytes \<Rightarrow> frame" where
  "response_frame op request_id payload =
     \<lparr>fm_op = op, fm_flags = FLAG_RESPONSE, fm_request_id = request_id, fm_payload = payload\<rparr>"

definition encode :: "(bytes \<Rightarrow> u32) \<Rightarrow> frame \<Rightarrow> bytes fabric_result" where
  "encode crc f =
     (if length (fm_payload f) > MAX_FRAME_PAYLOAD
      then Inl (ProtocolError ''frame payload {} exceeds maximum {}'')
      else let out = MAGIC @ [PROTOCOL_VERSION, op_u8 (fm_op f), fm_flags f, 0]
                 @ be_bytes 8 (unat (fm_request_id f)) @ be_bytes 4 (length (fm_payload f))
           in Inr (out @ be_bytes 4 (unat (crc (out @ fm_payload f))) @ fm_payload f))"

definition decode :: "(bytes \<Rightarrow> u32) \<Rightarrow> bytes \<Rightarrow> (frame \<times> nat) option fabric_result" where
  "decode crc buf =
     (if length buf < HEADER_LEN then Inr None
      else if subslice 0 4 buf \<noteq> MAGIC then Inl (ProtocolError ''bad frame magic'')
      else if buf ! 4 \<noteq> PROTOCOL_VERSION
      then Inl (ProtocolError ''unsupported protocol version {}'')
      else bind_r (ok_or (ProtocolError ''unknown op {}'') (op_from_u8 (buf ! 5))) (\<lambda>op.
        let flags = buf ! 6;
            request_id = of_nat (from_be_bytes (subslice 8 16 buf));
            payload_len = from_be_bytes (subslice 16 20 buf);
            total = HEADER_LEN + payload_len
        in if payload_len > MAX_FRAME_PAYLOAD
           then Inl (ProtocolError ''frame payload length {payload_len} exceeds maximum {MAX_FRAME_PAYLOAD}'')
           else if length buf < total then Inr None
           else if unat (crc (subslice 0 20 buf @ subslice 24 total buf)) \<noteq> from_be_bytes (subslice 20 24 buf)
           then Inl (ProtocolError ''frame checksum mismatch'')
           else Inr (Some (\<lparr>fm_op = op, fm_flags = flags, fm_request_id = request_id,
                            fm_payload = subslice 24 total buf\<rparr>, total))))"

subsection \<open>Lemmas\<close>

lemma op_from_u8_code [simp]: "op_from_u8 (op_u8 op) = Some op"
  by (cases op) (simp_all add: op_from_u8_def op_table_def)

lemma op_u8_from: "op_from_u8 v = Some op \<Longrightarrow> op_u8 op = v"
proof -
  have "list_all (\<lambda>(v, op). op_u8 op = v) op_table" by (simp add: op_table_def)
  moreover assume "op_from_u8 v = Some op"
  then have "(v, op) \<in> set op_table" unfolding op_from_u8_def by (rule map_of_SomeD)
  ultimately show ?thesis by (auto simp: list_all_iff)
qed

lemma length_be_bytes [simp]: "length (be_bytes k n) = k"
  by (induction k arbitrary: n) auto

lemma from_be_snoc: "from_be_bytes (bs @ [b]) = 256 * from_be_bytes bs + unat b"
  by (simp add: from_be_bytes_def)

lemma from_be_bytes_less: "from_be_bytes bs < 256 ^ length bs"
proof (induction bs rule: rev_induct)
  case (snoc b bs)
  have "unat b < 256" using unsigned_less [of b] by simp
  with snoc show ?case by (simp add: from_be_snoc)
qed (simp add: from_be_bytes_def)

lemma from_be_be_bytes: "from_be_bytes (be_bytes k n) = n mod 256 ^ k"
proof (induction k arbitrary: n)
  case (Suc k)
  have "unat (of_nat (n mod 256) :: u8) = n mod 256" by (simp add: unat_of_nat)
  moreover have "256 * (n div 256 mod 256 ^ k) + n mod 256 = n mod (256 * 256 ^ k)"
    by (simp add: mod_mult2_eq)
  ultimately show ?case by (simp add: from_be_snoc Suc)
qed (simp add: from_be_bytes_def)

lemma be_bytes_from: "be_bytes (length bs) (from_be_bytes bs) = bs"
proof (induction bs rule: rev_induct)
  case (snoc b bs)
  have b: "unat b < 256" using unsigned_less [of b] by simp
  then have "(256 * from_be_bytes bs + unat b) div 256 = from_be_bytes bs" by simp
  with snoc b show ?case by (simp add: from_be_snoc)
qed simp

lemma length_slice [simp]: "b \<le> length xs \<Longrightarrow> length (subslice a b xs) = b - a"
  by (simp add: subslice_def)

lemma slice_at: "subslice (length xs) (length xs + length ys) (xs @ ys @ zs) = ys"
  by (simp add: subslice_def)

lemma slice_split: "a \<le> b \<Longrightarrow> b \<le> c \<Longrightarrow> subslice a b xs @ subslice b c xs = subslice a c xs"
proof -
  assume ab: "a \<le> b" "b \<le> c"
  then have "c - a = (b - a) + (c - b)" "drop (b - a) (drop a xs) = drop b xs" by simp_all
  then show ?thesis unfolding subslice_def by (simp only: take_add)
qed

text \<open>The part of the header before the checksum.\<close>

definition frame_head :: "frame \<Rightarrow> bytes" where
  "frame_head f = MAGIC @ [PROTOCOL_VERSION, op_u8 (fm_op f), fm_flags f, 0]
     @ be_bytes 8 (unat (fm_request_id f)) @ be_bytes 4 (length (fm_payload f))"

lemma length_frame_head [wire]: "length (frame_head f) = 20"
  by (simp add: frame_head_def MAGIC_def)

lemma encode_Inr:
  "encode crc f = Inr w \<longleftrightarrow> length (fm_payload f) \<le> MAX_FRAME_PAYLOAD \<and>
     w = frame_head f @ be_bytes 4 (unat (crc (frame_head f @ fm_payload f))) @ fm_payload f"
  by (auto simp: encode_def frame_head_def Let_def)

lemma encode_length: "encode crc f = Inr w \<Longrightarrow> length w = HEADER_LEN + length (fm_payload f)"
  by (simp add: encode_Inr length_frame_head HEADER_LEN_def)

lemma slice_left [wire]: "b \<le> length xs \<Longrightarrow> subslice a b (xs @ ys) = subslice a b xs"
  by (simp add: subslice_def)

lemma slice_all: "subslice 0 (length xs) xs = xs"
  by (simp add: subslice_def)

lemma head_slices [wire]:
  "subslice 0 4 (frame_head f) = MAGIC"
  "subslice 8 16 (frame_head f) = be_bytes 8 (unat (fm_request_id f))"
  "subslice 16 20 (frame_head f) = be_bytes 4 (length (fm_payload f))"
  "subslice 0 20 (frame_head f) = frame_head f"
  by (simp_all add: frame_head_def MAGIC_def subslice_def del: be_bytes.simps)

lemma head_bytes [wire]:
  "k < 20 \<Longrightarrow> (frame_head f @ ys) ! k = frame_head f ! k"
  "frame_head f ! 4 = PROTOCOL_VERSION" "frame_head f ! 5 = op_u8 (fm_op f)"
  "frame_head f ! 6 = fm_flags f"
  by (simp_all add: nth_append length_frame_head) (simp_all add: frame_head_def MAGIC_def)

lemma payload_slices:
  "subslice 20 24 (frame_head f @ be_bytes 4 n @ ys) = be_bytes 4 n"
  "subslice 24 (24 + length p) (frame_head f @ be_bytes 4 n @ p @ zs) = p"
  using slice_at [of "frame_head f" "be_bytes 4 n" ys] slice_at [of "frame_head f @ be_bytes 4 n" p zs]
  by (simp_all add: length_frame_head del: be_bytes.simps)

text \<open>What is encoded is decoded, whatever follows it in the buffer.\<close>

lemma decode_encode:
  assumes "encode crc f = Inr w"
  shows "decode crc (w @ rest) = Inr (Some (f, length w))"
proof -
  let ?h = "frame_head f" and ?p = "fm_payload f"
  let ?c = "be_bytes 4 (unat (crc (?h @ ?p)))"
  have w: "w = ?h @ ?c @ ?p" and small: "length ?p \<le> MAX_FRAME_PAYLOAD" using assms encode_Inr by auto
  have n: "from_be_bytes (be_bytes 4 (length ?p)) = length ?p"
    using small by (simp add: from_be_be_bytes MAX_FRAME_PAYLOAD_def)
  have i: "from_be_bytes (be_bytes 8 (unat (fm_request_id f))) = unat (fm_request_id f)"
    using unat_u64_less [of "fm_request_id f"] by (simp add: from_be_be_bytes)
  have c: "from_be_bytes ?c = unat (crc (?h @ ?p))"
    using unat_u32_less [of "crc (?h @ ?p)"] by (simp add: from_be_be_bytes)
  have len: "length w = 24 + length ?p" using encode_length [OF assms] by (simp add: HEADER_LEN_def)
  have s: "subslice 0 4 (w @ rest) = MAGIC" "(w @ rest) ! 4 = PROTOCOL_VERSION"
    "(w @ rest) ! 5 = op_u8 (fm_op f)" "(w @ rest) ! 6 = fm_flags f"
    "subslice 8 16 (w @ rest) = be_bytes 8 (unat (fm_request_id f))"
    "subslice 16 20 (w @ rest) = be_bytes 4 (length ?p)" "subslice 0 20 (w @ rest) = ?h"
    unfolding w append_assoc by (simp_all add: wire del: be_bytes.simps)
  have p: "subslice 20 24 (w @ rest) = ?c" "subslice 24 (24 + length ?p) (w @ rest) = ?p"
    unfolding w append_assoc by (rule payload_slices)+
  show ?thesis
    using small by (simp add: decode_def s p n i c len HEADER_LEN_def Let_def ok_or_def del: be_bytes.simps)
qed

text \<open>What decoding reads is what encoding writes, except for the reserved byte, which is
  checksummed but not looked at.\<close>

lemma decode_Inr_Some:
  assumes "decode crc buf = Inr (Some (f, n))"
  shows "n = HEADER_LEN + length (fm_payload f) \<and> n \<le> length buf \<and>
    length (fm_payload f) \<le> MAX_FRAME_PAYLOAD \<and>
    subslice 0 20 buf = (frame_head f)[7 := buf ! 7] \<and> fm_payload f = subslice 24 n buf \<and>
    subslice 20 24 buf = be_bytes 4 (unat (crc (subslice 0 20 buf @ fm_payload f)))"
proof -
  let ?l = "from_be_bytes (subslice 16 20 buf)"
  have len: "24 \<le> length buf" and magic: "subslice 0 4 buf = MAGIC" and v: "buf ! 4 = PROTOCOL_VERSION"
    and op: "op_from_u8 (buf ! 5) = Some (fm_op f)" and fl: "fm_flags f = buf ! 6"
    and rid: "fm_request_id f = of_nat (from_be_bytes (subslice 8 16 buf))"
    and n: "n = 24 + ?l" "n \<le> length buf" and l: "?l \<le> MAX_FRAME_PAYLOAD"
    and p: "fm_payload f = subslice 24 n buf"
    and c: "unat (crc (subslice 0 20 buf @ subslice 24 n buf)) = from_be_bytes (subslice 20 24 buf)"
    using assms by (auto simp: decode_def HEADER_LEN_def Let_def split: if_splits)
  have lp: "length (fm_payload f) = ?l" using n p by simp
  have four: "be_bytes 4 (from_be_bytes (subslice a (a + 4) buf)) = subslice a (a + 4) buf" if "a + 4 \<le> 24" for a
    using be_bytes_from [of "subslice a (a + 4) buf"] that len by (simp del: be_bytes.simps)
  have "from_be_bytes (subslice 8 16 buf) < 256 ^ 8"
    using from_be_bytes_less [of "subslice 8 16 buf"] len by simp
  then have "unat (fm_request_id f) = from_be_bytes (subslice 8 16 buf)"
    by (simp add: rid unat_of_nat)
  then have e8: "be_bytes 8 (unat (fm_request_id f)) = subslice 8 16 buf"
    using be_bytes_from [of "subslice 8 16 buf"] len by (simp del: be_bytes.simps)
  have e4: "be_bytes 4 (length (fm_payload f)) = subslice 16 20 buf"
    using four [of 16] lp by (simp del: be_bytes.simps)
  have mid: "subslice 4 8 buf = [PROTOCOL_VERSION, op_u8 (fm_op f), fm_flags f, buf ! 7]"
    using len v op_u8_from [OF op] fl
    by (auto intro!: nth_equalityI simp: subslice_def less_Suc_eq numeral_eq_Suc)
  have "subslice 0 20 buf = ((subslice 0 4 buf @ subslice 4 8 buf) @ subslice 8 16 buf) @ subslice 16 20 buf"
    by (simp only: slice_split [of 0 4 8] slice_split [of 0 8 16] slice_split [of 0 16 20])
  also have "\<dots> = (frame_head f)[7 := buf ! 7]"
    by (simp add: magic mid frame_head_def MAGIC_def e8 e4 del: be_bytes.simps)
  finally have h: "subslice 0 20 buf = (frame_head f)[7 := buf ! 7]" .
  have "subslice 20 24 buf = be_bytes 4 (unat (crc (subslice 0 20 buf @ fm_payload f)))"
    using four [of 20] c p by (simp del: be_bytes.simps)
  with n l p lp h show ?thesis by (simp add: HEADER_LEN_def)
qed

lemma decode_consumed:
  assumes "decode crc buf = Inr (Some (f, n))"
  shows "0 < n" "n \<le> length buf"
proof -
  have "n = HEADER_LEN + length (fm_payload f)" "n \<le> length buf"
    using decode_Inr_Some [OF assms] by blast+
  then show "0 < n" "n \<le> length buf" by (simp_all add: HEADER_LEN_def)
qed

text \<open>A frame that is not complete yet is not decoded, and no buffer beyond the size of a frame
  is ever waited for.\<close>

lemma decode_prefix:
  assumes "encode crc f = Inr w" "prefix q w" "q \<noteq> w"
  shows "decode crc q = Inr None"
proof (cases "length q < HEADER_LEN")
  case False
  let ?h = "frame_head f"
  obtain r where w: "w = q @ r" using assms(2) by (auto elim: prefixE)
  then have "length q < length w" using assms(3) by auto
  then have short: "length q < 24 + length (fm_payload f)"
    using encode_length [OF assms(1)] by (simp add: HEADER_LEN_def)
  have small: "length (fm_payload f) \<le> MAX_FRAME_PAYLOAD" using assms(1) encode_Inr by blast
  have h: "24 \<le> length q" using False by (simp add: HEADER_LEN_def)
  have "subslice a b q = subslice a b w" if "b \<le> 20" for a b
    using h that by (simp add: w slice_left)
  moreover have "q ! k = w ! k" if "k < 20" for k
    using h that by (simp add: w nth_append)
  moreover have "subslice 0 4 w = MAGIC" "w ! 4 = PROTOCOL_VERSION" "w ! 5 = op_u8 (fm_op f)"
    "subslice 16 20 w = be_bytes 4 (length (fm_payload f))"
    using assms(1) by (simp_all add: encode_Inr wire del: be_bytes.simps)
  moreover have "from_be_bytes (be_bytes 4 (length (fm_payload f))) = length (fm_payload f)"
    using small by (simp add: from_be_be_bytes MAX_FRAME_PAYLOAD_def)
  ultimately show ?thesis
    using h short small by (simp add: decode_def HEADER_LEN_def Let_def ok_or_def del: be_bytes.simps)
qed (simp add: decode_def)

lemma decode_None_bound: "decode crc buf = Inr None \<Longrightarrow> length buf < HEADER_LEN + MAX_FRAME_PAYLOAD"
  by (auto simp: decode_def HEADER_LEN_def Let_def split: if_splits)

subsection \<open>Properties\<close>

text \<open>C23: an encoded frame is decoded to itself, whatever bytes follow it in the buffer, exactly
  its own bytes are consumed, and they are never more than a header and the largest payload; no
  proper part of it is taken for a frame or refused: the reader waits for the rest. A frame is
  refused for encoding only when its payload is too large.\<close>

theorem frame_roundtrip:
  "case encode crc f of
     Inl e \<Rightarrow> MAX_FRAME_PAYLOAD < length (fm_payload f)
   | Inr w \<Rightarrow> decode crc (w @ rest) = Inr (Some (f, length w)) \<and>
       length w \<le> HEADER_LEN + MAX_FRAME_PAYLOAD \<and>
       (\<forall>q. prefix q w \<and> q \<noteq> w \<longrightarrow> decode crc q = Inr None)"
proof (cases "encode crc f")
  case (Inl e)
  then show ?thesis by (auto simp: encode_def Let_def split: if_splits)
next
  case (Inr w)
  then show ?thesis
    using decode_encode [OF Inr, of rest] encode_length [OF Inr] decode_prefix [OF Inr]
      iffD1 [OF encode_Inr Inr] by simp
qed

definition ping_frame :: frame where
  "ping_frame = \<lparr>fm_op = OpPing, fm_flags = 0, fm_request_id = 7, fm_payload = [1, 2]\<rparr>"

definition sum_crc :: "bytes \<Rightarrow> u32" where
  "sum_crc bs = of_nat (sum_list (map unat bs))"

theorem frame_roundtrip_witness:
  "\<exists>w. encode sum_crc ping_frame = Inr w \<and> length w = 26 \<and>
     decode sum_crc w = Inr (Some (ping_frame, 26)) \<and> decode sum_crc (take 25 w) = Inr None"
proof -
  obtain w where e: "encode sum_crc ping_frame = Inr w"
    by (simp add: encode_def ping_frame_def MAX_FRAME_PAYLOAD_def Let_def)
  have l: "length w = 26" using encode_length [OF e] by (simp add: HEADER_LEN_def ping_frame_def)
  have q: "prefix (take 25 w) w" "take 25 w \<noteq> w"
    using l by (auto simp: take_is_prefix take_all_iff)
  show ?thesis using frame_roundtrip [where crc = sum_crc and f = ping_frame and rest = "[]"] e l q by simp
qed



end
