(* ===== verification/Transport.thy ===== *)
theory Transport
  imports Wire
begin

section \<open>Framed transport (transport.rs)\<close>

text \<open>
  Connections over a byte stream, the client call, the loop that serves a connection, and the
  bound on concurrent connections. A stream is the list of what its reads will return, in any
  split the network chooses, and the bytes written so far; a stream with nothing left times
  out. The checksum and the serialisation of JSON values are parameters.
\<close>

definition MAX_BUFFER :: nat where
  "MAX_BUFFER = MAX_FRAME_PAYLOAD + HEADER_LEN + 1"

definition READ_CHUNK :: nat where
  "READ_CHUNK = 64 * 1024"

subsection \<open>Streams\<close>

datatype read_event =
    RData bytes
  | RTimedOut
  | RReset string
  | ROther string

record connection =
  co_incoming :: "read_event list"
  co_outgoing :: bytes
  co_writable :: bool
  co_read_buf :: bytes
  co_next_request_id :: u64

definition new_connection :: "read_event list \<Rightarrow> bool \<Rightarrow> connection" where
  "new_connection incoming writable = \<lparr>co_incoming = incoming, co_outgoing = [],
     co_writable = writable, co_read_buf = [], co_next_request_id = 1\<rparr>"

text \<open>One \<open>read\<close> into a buffer of \<open>READ_CHUNK\<close> bytes, with the errors as the callers map
  them. Bytes that did not fit are returned by the next read; no bytes are the end of the
  stream.\<close>

fun stream_read :: "read_event list \<Rightarrow> bytes fabric_result \<times> read_event list" where
  "stream_read [] = (Inl (Timeout ''transport idle timeout''), [])"
| "stream_read (RTimedOut # es) = (Inl (Timeout ''transport idle timeout''), es)"
| "stream_read (RReset e # es) = (Inl (TransportError (''peer closed connection: '' @ e)), es)"
| "stream_read (ROther e # es) = (Inl (TransportError (''read: '' @ e)), es)"
| "stream_read (RData d # es) =
     (Inr (take READ_CHUNK d), if length d > READ_CHUNK then RData (drop READ_CHUNK d) # es else es)"

fun event_size :: "read_event \<Rightarrow> nat" where
  "event_size (RData d) = Suc (length d)"
| "event_size _ = 1"

definition stream_size :: "read_event list \<Rightarrow> nat" where
  "stream_size es = sum_list (map event_size es)"

lemma stream_read_size:
  "stream_read es = (Inr d, es') \<Longrightarrow> length d + stream_size es' \<le> stream_size es"
  by (induction es rule: stream_read.induct)
    (auto simp: stream_size_def READ_CHUNK_def split: if_splits)

lemma stream_read_less:
  "stream_read es = (Inr d, es') \<Longrightarrow> d \<noteq> [] \<Longrightarrow> stream_size es' < stream_size es"
  using stream_read_size [of es d es'] by (cases d) auto

subsection \<open>Reading frames\<close>

function read_loop ::
  "(bytes \<Rightarrow> u32) \<Rightarrow> bytes \<Rightarrow> read_event list \<Rightarrow> frame fabric_result \<times> bytes \<times> read_event list" where
  "read_loop crc buf es =
     (case decode crc buf of
        Inl e \<Rightarrow> (Inl e, buf, es)
      | Inr (Some (f, consumed)) \<Rightarrow> (Inr f, drop consumed buf, es)
      | Inr None \<Rightarrow>
          if length buf > MAX_BUFFER
          then (Inl (ProtocolError ''receive buffer exceeded maximum frame size''), buf, es)
          else (case stream_read es of
                  (Inl e, es') \<Rightarrow> (Inl e, buf, es')
                | (Inr chunk, es') \<Rightarrow>
                    if chunk = []
                    then (Inl (TransportError ''peer closed connection (eof)''), buf, es')
                    else read_loop crc (buf @ chunk) es'))"
  by pat_completeness auto
termination
  by (relation "measure (\<lambda>(crc, buf, es). stream_size es)") (auto dest!: stream_read_less [OF sym])

declare read_loop.simps [simp del]

definition read_frame :: "(bytes \<Rightarrow> u32) \<Rightarrow> connection \<Rightarrow> frame fabric_result \<times> connection" where
  "read_frame crc c = (case read_loop crc (co_read_buf c) (co_incoming c) of
     (r, buf, es) \<Rightarrow> (r, c\<lparr>co_read_buf := buf, co_incoming := es\<rparr>))"

definition write_frame :: "(bytes \<Rightarrow> u32) \<Rightarrow> frame \<Rightarrow> connection \<Rightarrow> unit fabric_result \<times> connection" where
  "write_frame crc f c = (case encode crc f of
     Inl e \<Rightarrow> (Inl e, c)
   | Inr wire \<Rightarrow>
       if co_writable c then (Inr (), c\<lparr>co_outgoing := co_outgoing c @ wire\<rparr>)
       else (Inl (Io ''write failed''), c))"

subsection \<open>The client\<close>

definition call :: "(bytes \<Rightarrow> u32) \<Rightarrow> op_code \<Rightarrow> bytes \<Rightarrow> connection \<Rightarrow> bytes fabric_result \<times> connection" where
  "call crc op payload c =
     (let request_id = co_next_request_id c;
          c1 = c\<lparr>co_next_request_id := request_id + 1\<rparr>
      in case write_frame crc \<lparr>fm_op = op, fm_flags = 0, fm_request_id = request_id,
                               fm_payload = payload\<rparr> c1 of
           (Inl e, c2) \<Rightarrow> (Inl e, c2)
         | (Inr _, c2) \<Rightarrow>
             (case read_frame crc c2 of
                (Inl e, c3) \<Rightarrow> (Inl e, c3)
              | (Inr response, c3) \<Rightarrow>
                  if fm_request_id response \<noteq> request_id
                  then (Inl (ProtocolError ''mismatched request id: expected {request_id}, got {}''), c3)
                  else if \<not> is_response response
                  then (Inl (ProtocolError ''peer sent a request frame in response to a request''), c3)
                  else (Inr (fm_payload response), c3)))"

text \<open>A failed call is not replayed; the connection is replaced for the next one, if a new one
  can be made. \<open>connect\<close> is the outcome of that attempt.\<close>

definition rpc_call ::
  "(bytes \<Rightarrow> u32) \<Rightarrow> connection option \<Rightarrow> op_code \<Rightarrow> bytes \<Rightarrow> connection
     \<Rightarrow> bytes fabric_result \<times> connection" where
  "rpc_call crc connect op payload c =
     (case call crc op payload c of
        (Inr v, c') \<Rightarrow> (Inr v, c')
      | (Inl original, c') \<Rightarrow> (Inl original, case connect of None \<Rightarrow> c' | Some fresh \<Rightarrow> fresh))"

definition call_json ::
  "(bytes \<Rightarrow> u32) \<Rightarrow> ('q \<Rightarrow> bytes) \<Rightarrow> (bytes \<Rightarrow> 'r option) \<Rightarrow> connection option \<Rightarrow> op_code \<Rightarrow> 'q \<Rightarrow> connection
     \<Rightarrow> 'r fabric_result \<times> connection" where
  "call_json crc to_vec from_slice connect op q c =
     (case rpc_call crc connect op (to_vec q) c of
        (Inl e, c') \<Rightarrow> (Inl e, c')
      | (Inr response, c') \<Rightarrow>
          (ok_or (ProtocolError ''bad response payload: {e}'') (from_slice response), c'))"

subsection \<open>The server side of a connection\<close>

text \<open>\<open>running k\<close> is the reading of the stop flag at the start of the k-th round; the handler
  works on a state of its own; \<open>err_payload\<close> serialises the error envelope.\<close>

type_synonym 's handler = "op_code \<Rightarrow> u64 \<Rightarrow> bytes \<Rightarrow> 's \<Rightarrow> bytes fabric_result \<times> 's"

lemma read_loop_Inl: "decode crc buf = Inl e \<Longrightarrow> read_loop crc buf es = (Inl e, buf, es)"
  by (simp add: read_loop.simps [of crc buf es])

lemma read_loop_Some:
  "decode crc buf = Inr (Some (f, n)) \<Longrightarrow> read_loop crc buf es = (Inr f, drop n buf, es)"
  by (simp add: read_loop.simps [of crc buf es])

text \<open>The overflow check of the buffer is never taken: \<open>decode\<close> refuses the length first.\<close>

lemma read_loop_None:
  "decode crc buf = Inr None \<Longrightarrow> read_loop crc buf es =
     (case stream_read es of
        (Inl e, es') \<Rightarrow> (Inl e, buf, es')
      | (Inr chunk, es') \<Rightarrow>
          if chunk = [] then (Inl (TransportError ''peer closed connection (eof)''), buf, es')
          else read_loop crc (buf @ chunk) es')"
  using decode_None_bound [of crc buf] by (simp add: read_loop.simps [of crc buf es] MAX_BUFFER_def)

lemma decode_cases:
  obtains e where "decode crc buf = Inl e" | f n where "decode crc buf = Inr (Some (f, n))"
    | "decode crc buf = Inr None"
  by (cases "decode crc buf") (auto, metis option.exhaust surj_pair)

lemma read_loop_shrinks:
  "read_loop crc buf es = (Inr f, buf', es') \<Longrightarrow>
     length buf' + stream_size es' < length buf + stream_size es"
proof (induction "stream_size es" arbitrary: buf es rule: less_induct)
  case less
  show ?case
  proof (cases crc buf rule: decode_cases)
    case (1 e)
    with less.prems show ?thesis by (simp add: read_loop_Inl)
  next
    case (2 g n)
    with less.prems decode_consumed [OF 2] show ?thesis by (auto simp: read_loop_Some)
  next
    case 3
    with less.prems obtain d es2 where s: "stream_read es = (Inr d, es2)" "d \<noteq> []"
      and r: "read_loop crc (buf @ d) es2 = (Inr f, buf', es')"
      by (auto simp: read_loop_None split: prod.splits sum.splits if_splits)
    from less.hyps [OF stream_read_less [OF s] r] stream_read_size [OF s(1)] show ?thesis by simp
  qed
qed

lemma read_frame_shrinks:
  "read_frame crc c = (Inr f, c') \<Longrightarrow>
     length (co_read_buf c') + stream_size (co_incoming c') < length (co_read_buf c) + stream_size (co_incoming c)"
  by (auto simp: read_frame_def dest: read_loop_shrinks split: prod.splits)

lemma write_frame_keeps:
  "write_frame crc f c = (r, c') \<Longrightarrow> co_read_buf c' = co_read_buf c \<and> co_incoming c' = co_incoming c"
  by (auto simp: write_frame_def split: sum.splits if_splits)

function serve_connection ::
  "(bytes \<Rightarrow> u32) \<Rightarrow> (string \<Rightarrow> bytes) \<Rightarrow> 's handler \<Rightarrow> (nat \<Rightarrow> bool) \<Rightarrow> nat \<Rightarrow> connection \<Rightarrow> 's
     \<Rightarrow> unit fabric_result \<times> connection \<times> 's" where
  "serve_connection crc err_payload handler running k c s =
     (if \<not> running k then (Inr (), c, s)
      else case read_frame crc c of
        (Inl e, c1) \<Rightarrow> (Inl e, c1, s)
      | (Inr f, c1) \<Rightarrow>
          if is_close f then (Inr (), c1, s)
          else if is_response f
          then (Inl (ProtocolError ''server received unexpected response frame''), c1, s)
          else (case handler (fm_op f) (fm_request_id f) (fm_payload f) s of (r, s1) \<Rightarrow>
            let payload = (case r of Inr p \<Rightarrow> p | Inl e \<Rightarrow> err_payload (error_to_string e)) in
            case write_frame crc (response_frame (fm_op f) (fm_request_id f) payload) c1 of
              (Inl e, c2) \<Rightarrow> (Inl e, c2, s1)
            | (Inr _, c2) \<Rightarrow> serve_connection crc err_payload handler running (Suc k) c2 s1))"
  by pat_completeness auto
termination
  by (relation "measure (\<lambda>(crc, ep, h, rn, k, c, s). length (co_read_buf c) + stream_size (co_incoming c))")
    (auto dest!: read_frame_shrinks [OF sym] write_frame_keeps [OF sym])

declare serve_connection.simps [simp del]

subsection \<open>The accept loop\<close>

text \<open>
  The semaphore counts the free places; \<open>sv_active\<close> counts the workers that hold a permit.
  One round of the loop: \<open>accepted\<close> is the outcome of \<open>accept\<close>, \<open>stopped\<close> tells whether
  a shutdown came while it waited. The first result says whether the loop ends.
\<close>

record server =
  sv_available :: nat
  sv_active :: nat
  sv_running :: bool

definition with_max_connections :: "nat \<Rightarrow> nat" where
  "with_max_connections n = max n 1"

definition server_start :: "nat \<Rightarrow> server" where
  "server_start n = \<lparr>sv_available = with_max_connections n, sv_active = 0, sv_running = True\<rparr>"

definition try_acquire :: "nat \<Rightarrow> bool \<times> nat" where
  "try_acquire a = (if a > 0 then (True, a - 1) else (False, a))"

definition release :: "nat \<Rightarrow> nat" where
  "release a = a + 1"

definition accept_round :: "bool \<Rightarrow> bool \<Rightarrow> server \<Rightarrow> bool \<times> server" where
  "accept_round accepted stopped sv =
     (if \<not> sv_running sv then (True, sv)
      else case try_acquire (sv_available sv) of (got, a) \<Rightarrow>
        if \<not> got then (False, sv)
        else if \<not> accepted then (False, sv\<lparr>sv_available := release a, sv_running := \<not> stopped\<rparr>)
        else if stopped then (True, sv\<lparr>sv_available := release a, sv_running := False\<rparr>)
        else (False, sv\<lparr>sv_available := a, sv_active := sv_active sv + 1\<rparr>))"

definition worker_end :: "server \<Rightarrow> server" where
  "worker_end sv = sv\<lparr>sv_available := release (sv_available sv), sv_active := sv_active sv - 1\<rparr>"

inductive server_step :: "server \<Rightarrow> server \<Rightarrow> bool" where
  round: "server_step sv (snd (accept_round accepted stopped sv))"
| worker: "sv_active sv > 0 \<Longrightarrow> server_step sv (worker_end sv)"
| shutdown: "server_step sv (sv\<lparr>sv_running := False\<rparr>)"

inductive_cases server_stepE: "server_step sv sv'"

lemma accept_round_permits:
  "sv_active (snd (accept_round b c sv)) + sv_available (snd (accept_round b c sv)) =
     sv_active sv + sv_available sv"
  by (auto simp: accept_round_def try_acquire_def release_def split: if_splits)

lemma server_step_permits:
  "server_step sv sv' \<Longrightarrow> sv_active sv' + sv_available sv' = sv_active sv + sv_available sv"
  by (erule server_stepE) (auto simp: accept_round_permits worker_end_def release_def)

lemma server_step_stopped:
  "server_step sv sv' \<Longrightarrow> \<not> sv_running sv \<Longrightarrow> \<not> sv_running sv' \<and> sv_active sv' \<le> sv_active sv"
  by (erule server_stepE) (auto simp: accept_round_def worker_end_def)

subsection \<open>Reassembly\<close>

fun event_bytes :: "read_event \<Rightarrow> bytes" where
  "event_bytes (RData d) = d"
| "event_bytes _ = []"

definition stream_bytes :: "read_event list \<Rightarrow> bytes" where
  "stream_bytes es = concat (map event_bytes es)"

definition data_only :: "read_event list \<Rightarrow> bool" where
  "data_only es \<longleftrightarrow> list_all (\<lambda>e. event_bytes e \<noteq> []) es"

lemma stream_bytes_simps [simp]:
  "stream_bytes [] = []" "stream_bytes (e # es) = event_bytes e @ stream_bytes es"
  by (simp_all add: stream_bytes_def)

lemma stream_read_data:
  assumes "data_only es" "stream_bytes es \<noteq> []"
  obtains d es' where "stream_read es = (Inr d, es')" "d \<noteq> []" "data_only es'"
    "d @ stream_bytes es' = stream_bytes es"
proof -
  from assms(2) obtain e es0 where es: "es = e # es0" by (cases es) auto
  with assms(1) obtain b where e: "e = RData b" "b \<noteq> []" by (cases e) (auto simp: data_only_def)
  have "data_only (snd (stream_read es))" "take READ_CHUNK b \<noteq> []"
    "take READ_CHUNK b @ stream_bytes (snd (stream_read es)) = stream_bytes es"
    using assms(1) e by (auto simp: es data_only_def READ_CHUNK_def)
  then show ?thesis by (intro that [of "take READ_CHUNK b" "snd (stream_read es)"]) (simp_all add: es e)
qed

lemma read_loop_reassembles:
  assumes "encode crc f = Inr w" "data_only es" "buf @ stream_bytes es = w @ rest"
  shows "\<exists>buf' es'. read_loop crc buf es = (Inr f, buf', es') \<and> data_only es' \<and> buf' @ stream_bytes es' = rest"
  using assms(2,3)
proof (induction "stream_size es" arbitrary: buf es rule: less_induct)
  case less
  have p: "prefix buf (w @ rest)" "prefix w (w @ rest)"
    using less.prems(2) by (metis prefixI, simp)
  show ?case
  proof (cases "length w \<le> length buf")
    case True
    then obtain r where buf: "buf = w @ r" using prefix_length_prefix [OF p(2,1)] by (auto elim: prefixE)
    then have "read_loop crc buf es = (Inr f, r, es)"
      using decode_encode [OF assms(1), of r] by (simp add: read_loop_Some)
    then show ?thesis using less.prems buf by auto
  next
    case False
    then have q: "prefix buf w" "buf \<noteq> w"
      using prefix_length_prefix [OF p] by auto
    then have n: "decode crc buf = Inr None" by (rule decode_prefix [OF assms(1)])
    have "stream_bytes es \<noteq> []" using less.prems(2) False by auto
    then obtain d es' where s: "stream_read es = (Inr d, es')" "d \<noteq> []" "data_only es'"
      "d @ stream_bytes es' = stream_bytes es" using stream_read_data less.prems(1) by blast
    have "(buf @ d) @ stream_bytes es' = w @ rest" using s(4) less.prems(2) by simp
    from less.hyps [OF stream_read_less [OF s(1,2)] s(3) this] show ?thesis
      using s(1,2) by (simp add: read_loop_None n)
  qed
qed

lemma read_frame_reassembles:
  assumes "encode crc f = Inr w" "data_only (co_incoming c)"
    "co_read_buf c @ stream_bytes (co_incoming c) = w @ rest"
  obtains buf es where "read_frame crc c = (Inr f, c\<lparr>co_read_buf := buf, co_incoming := es\<rparr>)"
    "data_only es" "buf @ stream_bytes es = rest"
  using read_loop_reassembles [OF assms] by (auto simp: read_frame_def)

fun read_frames :: "(bytes \<Rightarrow> u32) \<Rightarrow> nat \<Rightarrow> connection \<Rightarrow> frame fabric_result list \<times> connection" where
  "read_frames crc 0 c = ([], c)"
| "read_frames crc (Suc n) c =
     (let (r, c1) = read_frame crc c; (rs, c2) = read_frames crc n c1 in (r # rs, c2))"

lemma read_frames_reassemble:
  assumes "list_all2 (\<lambda>f w. encode crc f = Inr w) fs ws" "data_only (co_incoming c)"
    "co_read_buf c @ stream_bytes (co_incoming c) = concat ws @ rest"
  shows "\<exists>c'. read_frames crc (length fs) c = (map Inr fs, c') \<and> data_only (co_incoming c') \<and>
    co_read_buf c' @ stream_bytes (co_incoming c') = rest"
  using assms
proof (induction arbitrary: c rule: list_all2_induct)
  case (Cons f fs w ws)
  from Cons.prems(2) have "co_read_buf c @ stream_bytes (co_incoming c) = w @ (concat ws @ rest)" by simp
  from read_frame_reassembles [OF Cons.hyps(1) Cons.prems(1) this] obtain buf es where
    r: "read_frame crc c = (Inr f, c\<lparr>co_read_buf := buf, co_incoming := es\<rparr>)"
    and d: "data_only es" "buf @ stream_bytes es = concat ws @ rest" by blast
  from Cons.IH [of "c\<lparr>co_read_buf := buf, co_incoming := es\<rparr>"] d r show ?case by auto
qed auto

subsection \<open>Serving requests\<close>

text \<open>The reference: the requests are answered one after the other, each by one frame.\<close>

definition answer_frame :: "(string \<Rightarrow> bytes) \<Rightarrow> frame \<Rightarrow> bytes fabric_result \<Rightarrow> frame" where
  "answer_frame err_payload f r = response_frame (fm_op f) (fm_request_id f)
     (case r of Inr p \<Rightarrow> p | Inl e \<Rightarrow> err_payload (error_to_string e))"

fun answers :: "(string \<Rightarrow> bytes) \<Rightarrow> 's handler \<Rightarrow> frame list \<Rightarrow> 's \<Rightarrow> frame list \<times> 's" where
  "answers err_payload handler [] s = ([], s)"
| "answers err_payload handler (f # fs) s =
     (case handler (fm_op f) (fm_request_id f) (fm_payload f) s of (r, s1) \<Rightarrow>
      case answers err_payload handler fs s1 of (as, s2) \<Rightarrow> (answer_frame err_payload f r # as, s2))"

definition is_request :: "frame \<Rightarrow> bool" where
  "is_request f \<longleftrightarrow> \<not> is_close f \<and> \<not> is_response f"

lemma serve_request:
  assumes "running k" "read_frame crc c = (Inr f, c1)" "is_request f"
    and "handler (fm_op f) (fm_request_id f) (fm_payload f) s = (r, s1)"
    and "encode crc (answer_frame err_payload f r) = Inr v" "co_writable c1"
  shows "serve_connection crc err_payload handler running k c s =
    serve_connection crc err_payload handler running (Suc k) (c1\<lparr>co_outgoing := co_outgoing c1 @ v\<rparr>) s1"
  using assms
  by (simp add: serve_connection.simps [of crc err_payload handler running k c s] is_request_def
      write_frame_def answer_frame_def)

lemma serve_idle:
  assumes "running k" "co_read_buf c = []" "co_incoming c = []"
  shows "serve_connection crc err_payload handler running k c s =
    (Inl (Timeout ''transport idle timeout''), c, s)"
proof -
  have "decode crc [] = Inr None" by (simp add: decode_def HEADER_LEN_def)
  then have "read_frame crc c = (Inl (Timeout ''transport idle timeout''), c)"
    using assms by (simp add: read_frame_def read_loop_None)
  with assms(1) show ?thesis
    by (simp add: serve_connection.simps [of crc err_payload handler running k c s])
qed

lemma serve_requests:
  assumes "list_all2 (\<lambda>f w. encode crc f = Inr w) fs ws" "list_all is_request fs"
    and "list_all2 (\<lambda>f v. encode crc f = Inr v) (fst (answers err_payload handler fs s)) vs"
    and "data_only (co_incoming c)" "co_read_buf c @ stream_bytes (co_incoming c) = concat ws"
    and "co_writable c" "\<And>k. running k"
  shows "\<exists>c'. serve_connection crc err_payload handler running k c s =
      (Inl (Timeout ''transport idle timeout''), c', snd (answers err_payload handler fs s)) \<and>
    co_outgoing c' = co_outgoing c @ concat vs"
  using assms(1-6)
proof (induction fs ws arbitrary: c s k vs rule: list_all2_induct)
  case Nil
  then have "co_incoming c = []"
    by (cases "co_incoming c") (auto simp: data_only_def)
  with Nil show ?case
    using serve_idle [where running = running and k = k and handler = handler, OF assms(7), of c] by simp
next
  case (Cons f fs w ws)
  obtain r s1 where h: "handler (fm_op f) (fm_request_id f) (fm_payload f) s = (r, s1)" by force
  from Cons.prems(2) h obtain v vs' where vs: "vs = v # vs'"
    "encode crc (answer_frame err_payload f r) = Inr v"
    "list_all2 (\<lambda>f v. encode crc f = Inr v) (fst (answers err_payload handler fs s1)) vs'"
    by (auto simp: list_all2_Cons1 split: prod.splits)
  from Cons.prems(4) have "co_read_buf c @ stream_bytes (co_incoming c) = w @ concat ws" by simp
  from read_frame_reassembles [OF Cons.hyps(1) Cons.prems(3) this] obtain buf es where
    rd: "read_frame crc c = (Inr f, c\<lparr>co_read_buf := buf, co_incoming := es\<rparr>)"
    and d: "data_only es" "buf @ stream_bytes es = concat ws" by blast
  let ?c1 = "c\<lparr>co_read_buf := buf, co_incoming := es\<rparr>"
  have step: "serve_connection crc err_payload handler running k c s =
      serve_connection crc err_payload handler running (Suc k) (?c1\<lparr>co_outgoing := co_outgoing ?c1 @ v\<rparr>) s1"
    by (rule serve_request [where running = running and handler = handler and r = r, OF assms(7) rd _ h vs(2)]) (use Cons.prems in simp_all)
  have "\<exists>c'. serve_connection crc err_payload handler running (Suc k)
        (?c1\<lparr>co_outgoing := co_outgoing ?c1 @ v\<rparr>) s1 =
      (Inl (Timeout ''transport idle timeout''), c', snd (answers err_payload handler fs s1)) \<and>
    co_outgoing c' = co_outgoing (?c1\<lparr>co_outgoing := co_outgoing ?c1 @ v\<rparr>) @ concat vs'"
    by (rule Cons.IH) (use Cons.prems d vs in simp_all)
  then show ?case using step h vs(1) by (auto split: prod.splits)
qed

subsection \<open>Properties\<close>

text \<open>C20: the reader is independent of how the network cuts the stream. However the bytes of
  encoded frames are split into reads, reading yields exactly those frames, in their order, and
  leaves nothing behind; the reference is the plain concatenation.\<close>

theorem stream_reassembly:
  assumes "list_all2 (\<lambda>f w. encode crc f = Inr w) fs ws" "data_only es" "stream_bytes es = concat ws"
  shows "\<exists>c. read_frames crc (length fs) (new_connection es True) = (map Inr fs, c) \<and>
    co_read_buf c = [] \<and> co_incoming c = []"
proof -
  have "co_read_buf (new_connection es True) @ stream_bytes (co_incoming (new_connection es True)) = concat ws @ []"
    using assms(3) by (simp add: new_connection_def)
  then obtain c where c: "read_frames crc (length fs) (new_connection es True) = (map Inr fs, c)"
    "data_only (co_incoming c)" "co_read_buf c @ stream_bytes (co_incoming c) = []"
    using read_frames_reassemble [OF assms(1), of "new_connection es True"] assms(2)
    by (auto simp: new_connection_def)
  then show ?thesis by (cases "co_incoming c") (auto simp: data_only_def)
qed

theorem stream_reassembly_witness:
  "\<exists>w c. encode sum_crc ping_frame = Inr w \<and>
     read_frames sum_crc 2 (new_connection [RData (w @ take 3 w), RData (drop 3 w)] True) =
       ([Inr ping_frame, Inr ping_frame], c) \<and> co_read_buf c = []"
proof -
  obtain w where e: "encode sum_crc ping_frame = Inr w"
    by (simp add: encode_def ping_frame_def MAX_FRAME_PAYLOAD_def Let_def)
  have "length w = 26" using encode_length [OF e] by (simp add: HEADER_LEN_def ping_frame_def)
  then have "data_only [RData (w @ take 3 w), RData (drop 3 w)]" by (auto simp: data_only_def)
  then show ?thesis
    using stream_reassembly [of sum_crc "[ping_frame, ping_frame]" "[w, w]"
        "[RData (w @ take 3 w), RData (drop 3 w)]"] e
    by (auto simp: numeral_2_eq_2)
qed

text \<open>C21: a call over the wire is the handler run once. The client's request, cut by the network
  in any way, makes the server run its handler exactly once on the operation, the request number
  and the payload sent, and write one response; cut in any way again, that response makes the
  client return exactly the handler's payload, or the error envelope of its error. The hypotheses
  are the two connections as the operating system gives them: writable, undamaged, and a stop
  flag that stays down; and that both frames can be encoded.\<close>

theorem rpc_exchange:
  fixes c :: connection and handler :: "'s handler" and op :: op_code and p :: bytes
  defines "request \<equiv> \<lparr>fm_op = op, fm_flags = 0, fm_request_id = co_next_request_id c, fm_payload = p\<rparr>"
  assumes handled: "handler op (co_next_request_id c) p s = (r, s')"
    and up: "encode crc request = Inr w" "data_only es" "stream_bytes es = w"
    and down: "co_read_buf c = []" "co_writable c" "data_only (co_incoming c)"
      "encode crc (answer_frame err_payload request r) = Inr v" "stream_bytes (co_incoming c) = v"
  shows "(\<exists>d e. serve_connection crc err_payload handler (\<lambda>_. True) 0 (new_connection es True) s = (Inl e, d, s') \<and>
      co_outgoing d = v) \<and>
    (\<exists>c'. call crc op p c = (Inr (fm_payload (answer_frame err_payload request r)), c') \<and>
      co_outgoing c' = co_outgoing c @ w \<and> co_next_request_id c' = co_next_request_id c + 1)"
proof (intro conjI)
  have req: "is_request request" by (simp add: request_def is_request_def is_close_def is_response_def)
  have ans: "answers err_payload handler [request] s = ([answer_frame err_payload request r], s')"
    using handled by (simp add: request_def)
  show "\<exists>d e. serve_connection crc err_payload handler (\<lambda>_. True) 0 (new_connection es True) s = (Inl e, d, s') \<and>
      co_outgoing d = v"
    using serve_requests [of crc "[request]" "[w]" err_payload handler s "[v]" "new_connection es True" "\<lambda>_. True" 0]
      up down(4) req ans by (fastforce simp: new_connection_def)
  let ?a = "answer_frame err_payload request r"
  let ?c2 = "c\<lparr>co_next_request_id := co_next_request_id c + 1, co_outgoing := co_outgoing c @ w\<rparr>"
  have wr: "write_frame crc request (c\<lparr>co_next_request_id := co_next_request_id c + 1\<rparr>) = (Inr (), ?c2)"
    using up(1) down(2) by (simp add: write_frame_def)
  have "data_only (co_incoming ?c2)" "co_read_buf ?c2 @ stream_bytes (co_incoming ?c2) = v @ []"
    using down(1,3,5) by simp_all
  from read_frame_reassembles [OF down(4) this] obtain buf es' where
    rd: "read_frame crc ?c2 = (Inr ?a, ?c2\<lparr>co_read_buf := buf, co_incoming := es'\<rparr>)" by blast
  have "fm_request_id ?a = co_next_request_id c" "is_response ?a"
    by (simp_all add: answer_frame_def response_frame_def request_def is_response_def FLAG_RESPONSE_def)
  then show "\<exists>c'. call crc op p c = (Inr (fm_payload ?a), c') \<and>
      co_outgoing c' = co_outgoing c @ w \<and> co_next_request_id c' = co_next_request_id c + 1"
    using wr rd by (simp add: call_def Let_def request_def [symmetric])
qed

definition demo_err :: "string \<Rightarrow> bytes" where
  "demo_err e = []"

definition echo_handler :: "nat handler" where
  "echo_handler op i p n = (Inr (rev p), Suc n)"

theorem rpc_exchange_witness:
  "\<exists>w v d e c'. serve_connection sum_crc demo_err echo_handler (\<lambda>_. True) 0
       (new_connection [RData (take 3 w), RData (drop 3 w)] True) 5 = (Inl e, d, 6) \<and> co_outgoing d = v \<and>
     call sum_crc OpPing [1, 2] (new_connection [RData v] True) = (Inr [2, 1], c') \<and> co_outgoing c' = w"
proof -
  let ?q = "\<lparr>fm_op = OpPing, fm_flags = 0, fm_request_id = 1, fm_payload = [1, 2]\<rparr>"
  let ?a = "answer_frame demo_err ?q (Inr [2, 1])"
  obtain w where w: "encode sum_crc ?q = Inr w" by (simp add: encode_def MAX_FRAME_PAYLOAD_def Let_def)
  obtain v where v: "encode sum_crc ?a = Inr v"
    by (simp add: encode_def answer_frame_def response_frame_def MAX_FRAME_PAYLOAD_def Let_def)
  have l: "length w = 26" "length v = 26"
    using encode_length [OF w] encode_length [OF v]
    by (simp_all add: HEADER_LEN_def answer_frame_def response_frame_def)
  let ?c = "new_connection [RData v] True"
  have id: "co_next_request_id ?c = 1" by (simp add: new_connection_def)
  have h: "echo_handler OpPing (co_next_request_id ?c) [1, 2] 5 = (Inr [2, 1], 6)"
    by (simp add: echo_handler_def)
  have d: "data_only [RData (take 3 w), RData (drop 3 w)]" "data_only (co_incoming ?c)"
    using l by (auto simp: data_only_def new_connection_def)
  show ?thesis
    using rpc_exchange [of echo_handler OpPing ?c "[1, 2]" 5 "Inr [2, 1]" 6 sum_crc w
        "[RData (take 3 w), RData (drop 3 w)]" demo_err v] h d w v
    by (fastforce simp: new_connection_def answer_frame_def response_frame_def)
qed

text \<open>C31: the server never runs more workers than configured, and at least one may run; once it
  is stopped, no new worker starts.\<close>

theorem server_bounded:
  assumes "server_step\<^sup>*\<^sup>* (server_start n) sv"
  shows "sv_active sv \<le> max n 1 \<and> sv_active sv + sv_available sv = max n 1 \<and>
    (\<forall>sv'. server_step\<^sup>*\<^sup>* sv sv' \<longrightarrow> \<not> sv_running sv \<longrightarrow> \<not> sv_running sv' \<and> sv_active sv' \<le> sv_active sv)"
proof -
  have p: "sv_active sv + sv_available sv = max n 1"
    using assms
    by (induction rule: rtranclp_induct)
      (auto simp: server_start_def with_max_connections_def dest: server_step_permits)
  moreover have "\<not> sv_running sv' \<and> sv_active sv' \<le> sv_active sv"
    if "server_step\<^sup>*\<^sup>* sv sv'" "\<not> sv_running sv" for sv'
    using that by (induction rule: rtranclp_induct) (auto dest: server_step_stopped)
  ultimately show ?thesis by auto
qed

theorem server_bounded_witness:
  "sv_active (snd (accept_round True False (server_start 0))) = 1 \<and>
   sv_available (snd (accept_round True False (server_start 0))) = 0"
proof -
  have "server_step\<^sup>*\<^sup>* (server_start 0) (snd (accept_round True False (server_start 0)))"
    by (intro r_into_rtranclp round)
  from server_bounded [OF this] show ?thesis
    by (simp add: accept_round_def server_start_def with_max_connections_def try_acquire_def)
qed

end
