(* ===== verification/Files.thy ===== *)
theory Files
  imports Programs StoreCheckpoints "HOL-Library.Sublist"
begin

section \<open>The file system the nodes use\<close>

text \<open>
  The calls of \<open>std::fs\<close> that \<open>storage.rs\<close>, \<open>node.rs\<close> and \<open>providers.rs\<close> make, over a
  tree of files and directories. A path is the list of its components. Every call that may fail
  on a real disk consults a fault oracle: a selected call fails, and may leave part of its work
  behind (a prefix of the bytes of a write, a directory partly created or partly removed); a
  rename is atomic. Symbolic links are not modelled.
\<close>

type_synonym path = "string list"

datatype fs_entry = FileE bytes | DirE

type_synonym file_tree = "(path \<times> fs_entry) list"

subsection \<open>Trees\<close>

definition fs_get :: "file_tree \<Rightarrow> path \<Rightarrow> fs_entry option" where
  "fs_get t p = (if p = [] \<or> p = [''/''] then Some DirE else map_of t p)"

definition fs_put :: "path \<Rightarrow> fs_entry \<Rightarrow> file_tree \<Rightarrow> file_tree" where
  "fs_put p e t = (p, e) # filter (\<lambda>(q, _). q \<noteq> p) t"

definition fs_drop :: "(path \<Rightarrow> bool) \<Rightarrow> file_tree \<Rightarrow> file_tree" where
  "fs_drop P t = filter (\<lambda>(q, _). \<not> P q) t"

definition fs_exists :: "path \<Rightarrow> file_tree \<Rightarrow> bool" where
  "fs_exists p t \<longleftrightarrow> fs_get t p \<noteq> None"

definition fs_is_dir :: "path \<Rightarrow> file_tree \<Rightarrow> bool" where
  "fs_is_dir p t \<longleftrightarrow> fs_get t p = Some DirE"

definition fs_is_file :: "path \<Rightarrow> file_tree \<Rightarrow> bool" where
  "fs_is_file p t \<longleftrightarrow> (\<exists>b. fs_get t p = Some (FileE b))"

lemma fs_is_file_code [code]:
  "fs_is_file p t = (case fs_get t p of Some (FileE b) \<Rightarrow> True | _ \<Rightarrow> False)"
  by (simp add: fs_is_file_def split: option.split fs_entry.split)

definition is_root :: "path \<Rightarrow> bool" where
  "is_root p \<longleftrightarrow> p = [] \<or> p = [''/'']"

definition parent_of :: "path \<Rightarrow> path" where
  "parent_of p = butlast p"

text \<open>The entries directly in a directory, in the order of the tree.\<close>

definition children :: "path \<Rightarrow> file_tree \<Rightarrow> path list" where
  "children d t = filter (\<lambda>p. p \<noteq> [] \<and> parent_of p = d) (remdups (map fst t))"

fun make_dirs :: "path list \<Rightarrow> file_tree \<Rightarrow> file_tree" where
  "make_dirs [] t = t"
| "make_dirs (q # qs) t = make_dirs qs (if fs_exists q t then t else fs_put q DirE t)"

definition move_tree :: "path \<Rightarrow> path \<Rightarrow> file_tree \<Rightarrow> file_tree" where
  "move_tree a b t =
     map (\<lambda>(q, e). (b @ drop (length a) q, e)) (filter (\<lambda>(q, _). prefix a q) t)
     @ fs_drop (\<lambda>q. prefix a q \<or> prefix b q) t"

subsection \<open>Calls\<close>

record disk =
  dk_tree :: file_tree
  dk_calls :: nat
  dk_fault :: "nat \<Rightarrow> nat option"

abbreviation fs_error :: fabric_error where
  "fs_error \<equiv> Io ''{e}''"

definition sys_call ::
  "(nat \<Rightarrow> file_tree \<Rightarrow> file_tree) \<Rightarrow> (file_tree \<Rightarrow> ('a \<times> file_tree) option) \<Rightarrow> (disk, 'a) prog" where
  "sys_call partial act d =
     (let d1 = d\<lparr>dk_calls := dk_calls d + 1\<rparr> in
      case act (dk_tree d) of
        None \<Rightarrow> (Inl fs_error, d1)
      | Some (x, t) \<Rightarrow>
          (case dk_fault d (dk_calls d) of
             None \<Rightarrow> (Inr x, d1\<lparr>dk_tree := t\<rparr>)
           | Some k \<Rightarrow> (Inl fs_error, d1\<lparr>dk_tree := partial k (dk_tree d)\<rparr>)))"

definition ask :: "(file_tree \<Rightarrow> 'a) \<Rightarrow> (disk, 'a) prog" where
  "ask f d = (Inr (f (dk_tree d)), d)"

definition fs_read :: "path \<Rightarrow> (disk, bytes) prog" where
  "fs_read p = sys_call (\<lambda>_ t. t)
     (\<lambda>t. case fs_get t p of Some (FileE b) \<Rightarrow> Some (b, t) | _ \<Rightarrow> None)"

text \<open>\<open>std::fs::write\<close>, also \<open>File::create\<close> followed by \<open>write_all\<close>.\<close>

definition writable :: "path \<Rightarrow> file_tree \<Rightarrow> bool" where
  "writable p t \<longleftrightarrow> \<not> is_root p \<and> fs_is_dir (parent_of p) t \<and> \<not> fs_is_dir p t"

definition fs_write :: "path \<Rightarrow> bytes \<Rightarrow> (disk, unit) prog" where
  "fs_write p b = sys_call (\<lambda>k. fs_put p (FileE (take k b)))
     (\<lambda>t. if writable p t then Some ((), fs_put p (FileE b) t) else None)"

definition file_bytes :: "path \<Rightarrow> file_tree \<Rightarrow> bytes" where
  "file_bytes p t = (case fs_get t p of Some (FileE b) \<Rightarrow> b | _ \<Rightarrow> [])"

text \<open>Writing at the end: an open file, or \<open>OpenOptions\<close> with \<open>create\<close> and \<open>append\<close>.\<close>

definition fs_append :: "path \<Rightarrow> bytes \<Rightarrow> (disk, unit) prog" where
  "fs_append p b = sys_call (\<lambda>k t. fs_put p (FileE (file_bytes p t @ take k b)) t)
     (\<lambda>t. if writable p t then Some ((), fs_put p (FileE (file_bytes p t @ b)) t) else None)"

definition fs_create_dir_all :: "path \<Rightarrow> (disk, unit) prog" where
  "fs_create_dir_all p = sys_call (\<lambda>k. make_dirs (take k (prefixes p)))
     (\<lambda>t. if list_all (\<lambda>q. \<not> fs_is_file q t) (prefixes p)
          then Some ((), make_dirs (prefixes p) t) else None)"

definition fs_remove_dir_all :: "path \<Rightarrow> (disk, unit) prog" where
  "fs_remove_dir_all p = sys_call
     (\<lambda>k t. let gone = take k (filter (\<lambda>q. prefix p q \<and> fs_is_file q t) (map fst t))
            in fs_drop (\<lambda>q. q \<in> set gone) t)
     (\<lambda>t. if \<not> is_root p \<and> fs_is_dir p t then Some ((), fs_drop (prefix p) t) else None)"

definition fs_remove_file :: "path \<Rightarrow> (disk, unit) prog" where
  "fs_remove_file p = sys_call (\<lambda>_ t. t)
     (\<lambda>t. if fs_is_file p t then Some ((), fs_drop (\<lambda>q. q = p) t) else None)"

definition fs_remove_dir :: "path \<Rightarrow> (disk, unit) prog" where
  "fs_remove_dir p = sys_call (\<lambda>_ t. t)
     (\<lambda>t. if \<not> is_root p \<and> fs_is_dir p t \<and> children p t = []
          then Some ((), fs_drop (\<lambda>q. q = p) t) else None)"

text \<open>The renames of the code move a directory to a path that does not exist.\<close>

definition fs_rename :: "path \<Rightarrow> path \<Rightarrow> (disk, unit) prog" where
  "fs_rename a b = sys_call (\<lambda>_ t. t)
     (\<lambda>t. if fs_exists a t \<and> \<not> is_root a \<and> \<not> is_root b \<and> \<not> prefix a b \<and>
             fs_is_dir (parent_of b) t \<and> \<not> fs_exists b t
          then Some ((), move_tree a b t) else None)"

definition fs_read_dir :: "path \<Rightarrow> (disk, path list) prog" where
  "fs_read_dir p = sys_call (\<lambda>_ t. t)
     (\<lambda>t. if fs_is_dir p t then Some (children p t, t) else None)"

subsection \<open>What a successful call does\<close>

named_theorems fs_get_simps "lookups after an update of the tree"

lemma map_of_filter_pred:
  "map_of (filter (\<lambda>(q, _). P q) t) p = (if P p then map_of t p else None)"
  by (induction t) auto

lemma fs_get_put [fs_get_simps]:
  "\<not> is_root p \<Longrightarrow> fs_get (fs_put p e t) q = (if q = p then Some e else fs_get t q)"
  by (auto simp: fs_get_def fs_put_def is_root_def map_of_filter_pred)

lemma fs_get_drop [fs_get_simps]:
  "fs_get (fs_drop P t) q = (if P q \<and> \<not> is_root q then None else fs_get t q)"
  by (auto simp: fs_get_def fs_drop_def is_root_def map_of_filter_pred)

lemma fs_get_root [simp]: "is_root p \<Longrightarrow> fs_get t p = Some DirE"
  by (auto simp: fs_get_def is_root_def)

lemma fs_get_make_dirs [fs_get_simps]:
  "fs_get (make_dirs qs t) q =
     (case fs_get t q of Some e \<Rightarrow> Some e | None \<Rightarrow> if q \<in> set qs then Some DirE else None)"
proof (induction qs arbitrary: t)
  case (Cons p qs)
  show ?case
  proof (cases "fs_exists p t")
    case False
    then have "\<not> is_root p" by (auto simp: fs_exists_def)
    with False Cons show ?thesis by (auto simp: fs_get_put fs_exists_def split: option.split)
  qed (auto simp: Cons fs_exists_def split: option.split)
qed (simp split: option.split)

lemma sys_call_Inr:
  "sys_call partial act d = (Inr x, d') \<longleftrightarrow>
     dk_fault d (dk_calls d) = None \<and> (\<exists>t. act (dk_tree d) = Some (x, t) \<and>
       d' = d\<lparr>dk_calls := dk_calls d + 1, dk_tree := t\<rparr>)"
  by (auto simp: sys_call_def Let_def split: option.splits)

lemma ask_eq [simp]: "ask f d = (r, d') \<longleftrightarrow> r = Inr (f (dk_tree d)) \<and> d' = d"
  by (auto simp: ask_def)

text \<open>The oracle does not change; only the tree and the counter do.\<close>

lemma sys_call_fault: "dk_fault (snd (sys_call partial act d)) = dk_fault d"
  by (auto simp: sys_call_def Let_def split: option.splits)

lemma fs_read_Inr:
  "fs_read p d = (Inr b, d') \<longleftrightarrow> dk_fault d (dk_calls d) = None \<and> fs_get (dk_tree d) p = Some (FileE b) \<and>
     d' = d\<lparr>dk_calls := dk_calls d + 1\<rparr>"
  by (auto simp: fs_read_def sys_call_Inr split: option.splits fs_entry.splits)

lemma fs_write_Inr:
  "fs_write p b d = (Inr u, d') \<longleftrightarrow> dk_fault d (dk_calls d) = None \<and> writable p (dk_tree d) \<and>
     d' = d\<lparr>dk_calls := dk_calls d + 1, dk_tree := fs_put p (FileE b) (dk_tree d)\<rparr>"
  by (auto simp: fs_write_def sys_call_Inr)

lemma fs_append_Inr:
  "fs_append p b d = (Inr u, d') \<longleftrightarrow> dk_fault d (dk_calls d) = None \<and> writable p (dk_tree d) \<and>
     d' = d\<lparr>dk_calls := dk_calls d + 1,
            dk_tree := fs_put p (FileE (file_bytes p (dk_tree d) @ b)) (dk_tree d)\<rparr>"
  by (auto simp: fs_append_def sys_call_Inr)

lemma fs_create_dir_all_Inr:
  "fs_create_dir_all p d = (Inr u, d') \<longleftrightarrow> dk_fault d (dk_calls d) = None \<and>
     (\<forall>q. prefix q p \<longrightarrow> \<not> fs_is_file q (dk_tree d)) \<and>
     d' = d\<lparr>dk_calls := dk_calls d + 1, dk_tree := make_dirs (prefixes p) (dk_tree d)\<rparr>"
  by (auto simp: fs_create_dir_all_def sys_call_Inr list_all_iff)

lemma fs_remove_dir_all_Inr:
  "fs_remove_dir_all p d = (Inr u, d') \<longleftrightarrow> dk_fault d (dk_calls d) = None \<and> \<not> is_root p \<and>
     fs_is_dir p (dk_tree d) \<and>
     d' = d\<lparr>dk_calls := dk_calls d + 1, dk_tree := fs_drop (prefix p) (dk_tree d)\<rparr>"
  by (auto simp: fs_remove_dir_all_def sys_call_Inr)

lemma fs_rename_Inr:
  "fs_rename a b d = (Inr u, d') \<longleftrightarrow> dk_fault d (dk_calls d) = None \<and> fs_exists a (dk_tree d) \<and>
     \<not> is_root a \<and> \<not> is_root b \<and> \<not> prefix a b \<and> fs_is_dir (parent_of b) (dk_tree d) \<and>
     \<not> fs_exists b (dk_tree d) \<and>
     d' = d\<lparr>dk_calls := dk_calls d + 1, dk_tree := move_tree a b (dk_tree d)\<rparr>"
  by (auto simp: fs_rename_def sys_call_Inr)

lemma map_of_move:
  "map_of (map (\<lambda>(q, e). (b @ drop (length a) q, e)) (filter (\<lambda>(q, _). prefix a q) t)) p =
     (if prefix b p then map_of t (a @ drop (length b) p) else None)"
proof (induction t)
  case (Cons x t)
  obtain q e where x: "x = (q, e)" by (cases x)
  have "p = b @ drop (length a) q \<longleftrightarrow> prefix b p \<and> q = a @ drop (length b) p" if "prefix a q"
    using that by (auto elim!: prefixE)
  with Cons x show ?case by (auto simp: prefix_def)
qed simp

text \<open>After the rename the files of \<open>a\<close> are at \<open>b\<close>, nothing is left at \<open>a\<close>, and the rest is
  untouched.\<close>

lemma fs_get_move [fs_get_simps]:
  assumes "\<not> is_root a" "\<not> is_root b" "\<not> prefix a b" "\<not> prefix b a"
  shows "fs_get (move_tree a b t) p =
    (if is_root p then Some DirE
     else if prefix b p then map_of t (a @ drop (length b) p)
     else if prefix a p then None
     else fs_get t p)"
proof -
  have "map_of (fs_drop (\<lambda>q. prefix a q \<or> prefix b q) t) p =
      (if prefix a p \<or> prefix b p then None else map_of t p)"
    by (simp add: fs_drop_def map_of_filter_pred)
  then show ?thesis
    by (auto simp: move_tree_def fs_get_def is_root_def map_of_move map_add_def split: option.split)
qed

end
