(* ===== verification/Payload.thy ===== *)
theory Payload
  imports Files Manifest Capture Failpoints Wire
begin

section \<open>Compression, integrity of stored files, local storage\<close>

text \<open>
  The codecs of \<open>compression.rs\<close>, the verification of stored files of \<open>integrity.rs\<close>, the
  local storage layout of \<open>storage.rs\<close> and the payload files of \<open>providers.rs\<close>. SHA-256 and
  hexadecimal come with the record \<open>lib\<close>; the CRC-32C and zstd crates are the fields of
  \<open>codecs\<close>.
\<close>

record codecs =
  cd_crc32c :: "bytes \<Rightarrow> u32"
  cd_zstd_encode :: "int \<Rightarrow> bytes \<Rightarrow> bytes option"
  cd_zstd_read :: "bytes \<Rightarrow> nat \<Rightarrow> bytes option"

text \<open>\<open>cd_zstd_read stored n\<close> are the first \<open>n\<close> bytes the decoder yields (all of them, if
  fewer), or its error.\<close>

subsection \<open>Codecs (compression.rs)\<close>

fun codec_as_str :: "codec \<Rightarrow> string" where
  "codec_as_str CodecNone = ''none''"
| "codec_as_str CodecZstd = ''zstd''"

definition codec_from_str :: "string \<Rightarrow> codec fabric_result" where
  "codec_from_str s =
     (if s = ''none'' then Inr CodecNone
      else if s = ''zstd'' then Inr CodecZstd
      else Inl (UnsupportedBackend (''unknown compression codec '' @ quoted s)))"

definition is_compressed :: "compression_spec \<Rightarrow> bool" where
  "is_compressed spec \<longleftrightarrow> cs_codec spec \<noteq> CodecNone"

definition compress_bytes :: "codecs \<Rightarrow> compression_spec \<Rightarrow> bytes \<Rightarrow> bytes fabric_result" where
  "compress_bytes K spec payload =
     (case cs_codec spec of
        CodecNone \<Rightarrow> Inr payload
      | CodecZstd \<Rightarrow> ok_or (Internal ''zstd encode: {e}'') (cd_zstd_encode K (cs_level spec) payload))"

definition decompress_bytes :: "codecs \<Rightarrow> compression_spec \<Rightarrow> bytes \<Rightarrow> u64 \<Rightarrow> bytes fabric_result" where
  "decompress_bytes K spec stored max_output =
     (case cs_codec spec of
        CodecNone \<Rightarrow>
          if length stored > unat max_output
          then Inl (IntegrityFailure ''stored payload exceeds bounded output size'')
          else Inr stored
      | CodecZstd \<Rightarrow>
          bind_r (ok_or (Internal ''zstd decode: {e}'')
              (cd_zstd_read K stored (unat (sat_add max_output 1)))) (\<lambda>out.
          if length out > unat max_output
          then Inl (IntegrityFailure ''decompressed payload exceeds bounded output size'')
          else Inr out))"

subsection \<open>Text files\<close>

text \<open>\<open>read_to_string\<close> refuses bytes that are not UTF-8: the ranges of the standard's table.\<close>

definition cont_byte :: "u8 \<Rightarrow> bool" where
  "cont_byte b \<longleftrightarrow> 0x80 \<le> b \<and> b \<le> 0xBF"

fun utf8_valid :: "bytes \<Rightarrow> bool" where
  "utf8_valid [] = True"
| "utf8_valid (a # bs) =
     (if a < 0x80 then utf8_valid bs
      else case bs of
        [] \<Rightarrow> False
      | b # cs \<Rightarrow>
          if 0xC2 \<le> a \<and> a \<le> 0xDF then cont_byte b \<and> utf8_valid cs
          else (case cs of
            [] \<Rightarrow> False
          | c # ds \<Rightarrow>
              if 0xE0 \<le> a \<and> a \<le> 0xEF
              then cont_byte b \<and> (a = 0xE0 \<longrightarrow> 0xA0 \<le> b) \<and> (a = 0xED \<longrightarrow> b \<le> 0x9F) \<and>
                   cont_byte c \<and> utf8_valid ds
              else (case ds of
                [] \<Rightarrow> False
              | d # es \<Rightarrow>
                  0xF0 \<le> a \<and> a \<le> 0xF4 \<and> cont_byte b \<and> (a = 0xF0 \<longrightarrow> 0x90 \<le> b) \<and>
                  (a = 0xF4 \<longrightarrow> b \<le> 0x8F) \<and> cont_byte c \<and> cont_byte d \<and> utf8_valid es)))"

definition fs_read_to_string :: "path \<Rightarrow> (disk, string) prog" where
  "fs_read_to_string p =
     and_then (fs_read p) (\<lambda>b. if utf8_valid b then give (bytes_string b)
       else raise (Io ''stream did not contain valid UTF-8''))"

definition newline :: string where
  "newline = [CHR 0x0A]"

text \<open>The formats \<open>{:08x}\<close> of a checksum and \<open>{}\\n\<close> of a line.\<close>

definition hex8 :: "u32 \<Rightarrow> string" where
  "hex8 v = hex_enc (be_bytes 4 (unat v))"

definition line :: "string \<Rightarrow> bytes" where
  "line s = string_bytes (s @ newline)"

subsection \<open>Stored files (integrity.rs)\<close>

definition with_suffix :: "path \<Rightarrow> string \<Rightarrow> path" where
  "with_suffix p s = butlast p @ [last p @ s]"

abbreviation sidecar_sha_path :: "path \<Rightarrow> path" where
  "sidecar_sha_path p \<equiv> with_suffix p ''.sha256''"

abbreviation sidecar_crc_path :: "path \<Rightarrow> path" where
  "sidecar_crc_path p \<equiv> with_suffix p ''.crc32c''"

text \<open>The streamed digests read the whole file.\<close>

definition sha256_file :: "lib \<Rightarrow> path \<Rightarrow> (disk, string) prog" where
  "sha256_file L p = and_then (fs_read p) (\<lambda>b. give (sha256_hex L b))"

definition crc32c_file :: "codecs \<Rightarrow> path \<Rightarrow> (disk, u32) prog" where
  "crc32c_file K p = and_then (fs_read p) (\<lambda>b. give (cd_crc32c K b))"

definition fs_sync :: "path \<Rightarrow> (disk, unit) prog" where
  "fs_sync p = sys_call (\<lambda>_ t. t) (\<lambda>t. if fs_exists p t then Some ((), t) else None)"

definition write_hashed_payload :: "lib \<Rightarrow> codecs \<Rightarrow> path \<Rightarrow> bytes \<Rightarrow> (disk, unit) prog" where
  "write_hashed_payload L K p payload =
     and_then (fs_write p payload) (\<lambda>_.
     and_then (fs_sync p) (\<lambda>_.
     and_then (fs_write (sidecar_sha_path p) (line (sha256_hex L payload))) (\<lambda>_.
     fs_write (sidecar_crc_path p) (line (hex8 (cd_crc32c K payload))))))"

text \<open>The length of a directory is not specified; either way its verification fails.\<close>

definition verify_stored_file ::
  "lib \<Rightarrow> codecs \<Rightarrow> path \<Rightarrow> string \<Rightarrow> u64 option \<Rightarrow> (disk, unit) prog" where
  "verify_stored_file L K p expected_content_hash expected_size =
     and_then (ask (\<lambda>t. fs_get t p)) (\<lambda>meta.
     case meta of
       None \<Rightarrow> raise (IntegrityFailure ''missing {}: {e}'')
     | Some DirE \<Rightarrow> raise fs_error
     | Some (FileE b) \<Rightarrow>
         if (case expected_size of None \<Rightarrow> False | Some n \<Rightarrow> of_nat (length b) \<noteq> n)
         then raise (IntegrityFailure ''size mismatch for {}: expected {size}, got {}'')
         else and_then (ask (fs_exists (sidecar_crc_path p))) (\<lambda>has_crc.
         and_then (if has_crc
           then and_then (rename_error (\<lambda>e. IntegrityFailure (error_to_string e))
                  (fs_read_to_string (sidecar_crc_path p))) (\<lambda>expected.
                and_then (crc32c_file K p) (\<lambda>actual.
                if hex8 actual \<noteq> trim expected
                then raise (IntegrityFailure ''fast corruption detected for {}: crc mismatch'')
                else give ()))
           else give ()) (\<lambda>_.
         and_then (sha256_file L p) (\<lambda>actual.
         if actual \<noteq> expected_content_hash
         then raise (IntegrityFailure ''content hash mismatch for {}: expected {expected_content_hash}, got {actual}'')
         else give ()))))"

subsection \<open>Paths below a directory (storage.rs)\<close>

definition safe_join :: "path \<Rightarrow> string \<Rightarrow> path fabric_result" where
  "safe_join base rel =
     (if (rel \<noteq> [] \<and> hd rel = CHR ''/'') \<or> ''..'' \<in> set (path_components rel)
      then Inl (InvalidArgument (''path traversal attempt rejected: '' @ rel))
      else Inr (base @ filter (\<lambda>c. c \<noteq> ''.'') (path_components rel)))"

subsection \<open>Component payloads (providers.rs)\<close>

definition component_path :: "path \<Rightarrow> string \<Rightarrow> path" where
  "component_path dir component_id = dir @ [''components'', sanitize_segment component_id]"

definition integrity_path :: "path \<Rightarrow> string \<Rightarrow> path" where
  "integrity_path dir component_id = dir @ [''integrity'', sanitize_segment component_id @ ''.sha256'']"

definition write_component_payload ::
  "lib \<Rightarrow> codecs \<Rightarrow> path \<Rightarrow> string \<Rightarrow> bytes \<Rightarrow> compression_spec \<Rightarrow> (disk, storage_representation) prog" where
  "write_component_payload L K staging component_id payload compression =
     and_then (fs_create_dir_all (staging @ [''components''])) (\<lambda>_.
     and_then (fs_create_dir_all (staging @ [''integrity''])) (\<lambda>_.
     let rel = ''components/'' @ sanitize_segment component_id;
         path = component_path staging component_id in
     and_then (lift (compress_bytes K compression payload)) (\<lambda>stored.
     and_then (fs_write path stored) (\<lambda>_.
     and_then (fs_sync path) (\<lambda>_.
     let stored_hash = sha256_hex L stored in
     and_then (fs_write (sidecar_sha_path path) (line stored_hash)) (\<lambda>_.
     and_then (fs_write (sidecar_crc_path path) (line (hex8 (cd_crc32c K stored)))) (\<lambda>_.
     and_then (fs_write (integrity_path staging component_id) (line (sha256_hex L payload))) (\<lambda>_.
     give \<lparr>sr_codec = codec_as_str (cs_codec compression),
           sr_original_size = of_nat (length payload),
           sr_stored_size = of_nat (length stored),
           sr_stored_hash = stored_hash,
           sr_relative_path = rel\<rparr>))))))))"

definition read_component_payload ::
  "lib \<Rightarrow> codecs \<Rightarrow> path \<Rightarrow> storage_representation \<Rightarrow> string \<Rightarrow> u64 \<Rightarrow> (disk, bytes) prog" where
  "read_component_payload L K commit repr content_hash max_bytes =
     and_then (lift (safe_join commit (sr_relative_path repr))) (\<lambda>path.
     and_then (fs_read path) (\<lambda>stored.
     if length stored > unat max_bytes
     then raise (IntegrityFailure ''component payload exceeds policy size bound'')
     else and_then (lift (codec_from_str (sr_codec repr))) (\<lambda>codec.
     and_then (lift (decompress_bytes K \<lparr>cs_codec = codec, cs_level = 0, cs_format_version = ''1''\<rparr>
         stored max_bytes)) (\<lambda>out.
     if of_nat (length out) \<noteq> sr_original_size repr
     then raise (IntegrityFailure
            ''component decoded size {} does not match recorded original size {}'')
     else if sha256_hex L out \<noteq> content_hash
     then raise (IntegrityFailure ''component {} content hash mismatch after decode'')
     else give out))))"

subsection \<open>Local storage (storage.rs)\<close>

text \<open>\<open>root\<close> is the data directory, \<open>hex\<close> the rendering of an identity.\<close>

definition staging_root :: "path \<Rightarrow> path" where
  "staging_root root = root @ [''staging'']"

definition checkpoints_dir :: "path \<Rightarrow> path" where
  "checkpoints_dir root = root @ [''checkpoints'']"

definition staging_dir :: "path \<Rightarrow> string \<Rightarrow> path" where
  "staging_dir root attempt_id = staging_root root @ [sanitize_segment attempt_id]"

definition commit_path :: "lib \<Rightarrow> path \<Rightarrow> ident \<Rightarrow> path" where
  "commit_path L root checkpoint_id = checkpoints_dir root @ [to_hex (lib_hex_encode L) checkpoint_id]"

definition local_storage_new :: "path \<Rightarrow> (disk, unit) prog" where
  "local_storage_new root =
     and_then (fs_create_dir_all (staging_root root)) (\<lambda>_.
     fs_create_dir_all (checkpoints_dir root))"

definition is_committed_dir :: "path \<Rightarrow> file_tree \<Rightarrow> bool" where
  "is_committed_dir p t \<longleftrightarrow> fs_is_dir p t \<and> fs_is_file (p @ [''manifest'']) t \<and>
     fs_is_file (p @ [''manifest.digest'']) t \<and> fs_is_dir (p @ [''integrity'']) t"

definition has_committed :: "lib \<Rightarrow> path \<Rightarrow> ident \<Rightarrow> file_tree \<Rightarrow> bool" where
  "has_committed L root checkpoint_id t = is_committed_dir (commit_path L root checkpoint_id) t"

text \<open>On Unix every file below the staging directory is synced, then the parent of the target;
  the second failure is ignored.\<close>

definition sync_dir_children :: "path \<Rightarrow> (disk, unit) prog" where
  "sync_dir_children dir =
     and_then (fs_read_dir dir) (\<lambda>_.
     and_then (ask (\<lambda>t. filter (\<lambda>p. prefix dir p \<and> fs_is_file p t) (remdups (map fst t)))) (\<lambda>files.
     for_each fs_sync files))"

definition sync_dir :: "path \<Rightarrow> (disk, unit) prog" where
  "sync_dir dir = ignore (fs_sync dir)"

definition promote :: "path \<Rightarrow> path \<Rightarrow> (disk, unit) prog" where
  "promote staging commit =
     and_then (ask (fs_exists commit)) (\<lambda>taken.
     if taken then raise (StorageError ''commit path already exists: {}'')
     else and_then (ask (fs_exists (parent_of commit))) (\<lambda>has_parent.
     and_then (if has_parent then give () else fs_create_dir_all (parent_of commit)) (\<lambda>_.
     and_then (sync_dir_children staging) (\<lambda>_.
     and_then (fs_rename staging commit) (\<lambda>_.
     sync_dir (parent_of commit))))))"

definition read_checkpoint_file :: "lib \<Rightarrow> path \<Rightarrow> ident \<Rightarrow> string \<Rightarrow> (disk, bytes) prog" where
  "read_checkpoint_file L root checkpoint_id rel =
     and_then (lift (safe_join (commit_path L root checkpoint_id) rel)) (\<lambda>path.
     rename_error (\<lambda>_. StorageError ''read {}: {e}'') (fs_read path))"

definition delete_committed :: "lib \<Rightarrow> path \<Rightarrow> ident \<Rightarrow> (disk, unit) prog" where
  "delete_committed L root checkpoint_id =
     and_then (ask (fs_exists (commit_path L root checkpoint_id))) (\<lambda>present.
     if present then fs_remove_dir_all (commit_path L root checkpoint_id) else give ())"

text \<open>The committed identities, sorted; \<open>hex_decode\<close> is the decoder of the hex crate.\<close>

definition committed_ids :: "(string \<Rightarrow> bytes option) \<Rightarrow> path list \<Rightarrow> file_tree \<Rightarrow> ident list" where
  "committed_ids hex_decode ps t =
     map Id (sort (List.map_filter (\<lambda>p. if is_committed_dir p t
         then (case from_hex hex_decode (last p) of Inr i \<Rightarrow> Some (as_bytes i) | Inl _ \<Rightarrow> None)
         else None) ps))"

definition enumerate_committed ::
  "(string \<Rightarrow> bytes option) \<Rightarrow> path \<Rightarrow> (disk, ident list) prog" where
  "enumerate_committed hex_decode root =
     and_then (fs_read_dir (checkpoints_dir root)) (\<lambda>ps. ask (committed_ids hex_decode ps))"

text \<open>Abandoned staging directories: not kept, and as old as \<open>old\<close> says (every one, for the
  variant without an age). The list of what was removed is in the order of the directory.\<close>

fun remove_all :: "(path \<Rightarrow> bool) \<Rightarrow> path list \<Rightarrow> (disk, path list) prog" where
  "remove_all old [] = give []"
| "remove_all old (p # ps) =
     and_then (ask (fs_is_dir p)) (\<lambda>dir.
     if \<not> dir \<or> \<not> old p then remove_all old ps
     else and_then (fs_remove_dir_all p) (\<lambda>_.
          and_then (remove_all old ps) (\<lambda>removed. give (p # removed))))"

definition recover_partial_older_than ::
  "path \<Rightarrow> path list \<Rightarrow> (path \<Rightarrow> bool) \<Rightarrow> (disk, path list) prog" where
  "recover_partial_older_than root keep old_enough =
     and_then (attempt (fs_read_dir (staging_root root))) (\<lambda>entries.
     case entries of
       Inl _ \<Rightarrow> give []
     | Inr ps \<Rightarrow> remove_all (\<lambda>p. p \<notin> set keep \<and> old_enough p) ps)"

definition recover_partial :: "path \<Rightarrow> path list \<Rightarrow> (disk, path list) prog" where
  "recover_partial root keep = recover_partial_older_than root keep (\<lambda>_. True)"

text \<open>The bytes of all files below the root.\<close>

definition free_bytes :: "path \<Rightarrow> file_tree \<Rightarrow> u64" where
  "free_bytes root t =
     foldl (\<lambda>acc p. sat_add acc (of_nat (length (file_bytes p t)))) 0
       (filter (\<lambda>p. prefix root p \<and> fs_is_file p t) (remdups (map fst t)))"

definition verify_committed_layout :: "lib \<Rightarrow> path \<Rightarrow> ident \<Rightarrow> (disk, string) prog" where
  "verify_committed_layout L root checkpoint_id =
     (let commit = commit_path L root checkpoint_id in
     and_then (ask (\<lambda>t. t)) (\<lambda>t.
     if \<not> fs_is_file (commit @ [''manifest'']) t
     then raise (CorruptedCheckpoint ''missing manifest for {checkpoint_id}'')
     else if \<not> fs_is_file (commit @ [''manifest.digest'']) t
     then raise (CorruptedCheckpoint ''missing manifest.digest for {checkpoint_id}'')
     else if \<not> fs_is_dir (commit @ [''integrity'']) t
     then raise (CorruptedCheckpoint ''missing integrity dir for {checkpoint_id}'')
     else and_then (fs_read (commit @ [''manifest''])) (\<lambda>manifest_bytes.
     and_then (lift (manifest_parse L manifest_bytes)) (\<lambda>manifest.
     let digest = sha256_hex L manifest_bytes in
     and_then (fs_read_to_string (commit @ [''manifest.digest''])) (\<lambda>recorded_digest.
     if trim recorded_digest \<noteq> digest
     then raise (IntegrityFailure ''manifest digest sidecar mismatch'')
     else and_then (fs_read_to_string (commit @ [''integrity'', ''root''])) (\<lambda>recorded_root.
     if trim recorded_root \<noteq> ii_root (m_integrity manifest)
     then raise (IntegrityFailure ''manifest integrity-root sidecar mismatch'')
     else give digest))))))"

definition verify_component_payload ::
  "lib \<Rightarrow> codecs \<Rightarrow> path \<Rightarrow> string \<Rightarrow> string \<Rightarrow> u64 \<Rightarrow> (disk, unit) prog" where
  "verify_component_payload L K commit rel_path stored_hash stored_size =
     and_then (lift (safe_join commit rel_path)) (\<lambda>path.
     and_then (ask (fs_is_file path)) (\<lambda>file.
     if \<not> file then raise (CorruptedCheckpoint ''missing component payload {}'')
     else verify_stored_file L K path stored_hash (Some stored_size)))"

end
