(* ===== verification/Providers.thy ===== *)
theory Providers
  imports Payload
begin

section \<open>Capture providers (providers.rs)\<close>

text \<open>
  The trait of a provider as a record of programs over the state \<open>'p\<close> the provider works on,
  the registry of a node, and the providers the program ships. What a provider's closures do,
  and the serialisation of payloads and journals, are parameters.
\<close>

datatype quiesce_outcome = Acked | Forced_Quiesce

record capture_ctx =
  cx_workload_id :: ident
  cx_attempt_id :: string
  cx_staging_dir :: path
  cx_compression :: compression_spec
  cx_quiescence :: quiescence_mode

record restore_ctx =
  rx_checkpoint_id :: ident
  rx_workload_id :: ident
  rx_attempt_id :: string
  rx_staging_dir :: path
  rx_commit_dir :: path

record 'p provider =
  pv_spec :: provider_spec
  pv_prepare :: "capture_ctx \<Rightarrow> ('p, unit) prog"
  pv_quiesce :: "capture_ctx \<Rightarrow> ('p, quiesce_outcome) prog"
  pv_capture :: "capture_ctx \<Rightarrow> ('p, bytes) prog"
  pv_verify :: "capture_ctx \<Rightarrow> ('p, unit) prog"
  pv_resume_source :: "capture_ctx \<Rightarrow> ('p, unit) prog"
  pv_abort_capture :: "capture_ctx \<Rightarrow> ('p, unit) prog"
  pv_restore :: "restore_ctx \<Rightarrow> bytes \<Rightarrow> ('p, unit) prog"
  pv_verify_restore :: "restore_ctx \<Rightarrow> ('p, unit) prog"
  pv_cleanup_restore :: "restore_ctx \<Rightarrow> ('p, unit) prog"
  pv_commit_restore :: "restore_ctx \<Rightarrow> ('p, unit) prog"

record captured_component =
  cc_spec :: provider_spec
  cc_payload :: bytes
  cc_content_hash :: string

definition component_entry_of :: "provider_spec \<Rightarrow> string \<Rightarrow> storage_representation \<Rightarrow> component_entry" where
  "component_entry_of spec content_hash repr = \<lparr>
     ce_component_id = ps_component_id spec, ce_component_type = ps_component_type spec,
     ce_generation = 0, ce_required = ps_required spec,
     ce_logical_size = sr_original_size repr, ce_storage_representation = repr,
     ce_content_hash = content_hash, ce_schema_version = ps_schema_version spec,
     ce_restore_handler = ps_restore_handler spec, ce_compatibility = ps_compatibility spec,
     ce_dependencies = ps_dependencies spec, ce_capture_status = ''captured'',
     ce_restore_status = ''pending''\<rparr>"

definition to_component_entry :: "captured_component \<Rightarrow> storage_representation \<Rightarrow> component_entry" where
  "to_component_entry captured repr = component_entry_of (cc_spec captured) (cc_content_hash captured) repr"

subsection \<open>Registry\<close>

type_synonym 'p registry = "((ident \<times> string) \<times> 'p provider) list"

definition registry_register :: "ident \<Rightarrow> 'p provider \<Rightarrow> 'p registry \<Rightarrow> 'p registry" where
  "registry_register w p m = tab_insert (w, ps_component_id (pv_spec p)) p m"

definition registry_get :: "'p registry \<Rightarrow> ident \<Rightarrow> string \<Rightarrow> 'p provider option" where
  "registry_get m w c = map_of m (w, c)"

definition registry_list :: "'p registry \<Rightarrow> ident \<Rightarrow> provider_spec list" where
  "registry_list m w =
     sort_key ps_component_id (map (\<lambda>(_, p). pv_spec p) (filter (\<lambda>((v, _), _). v = w) m))"

text \<open>The first provider of a handler decides its version. The map is sorted by handler.\<close>

definition provider_versions :: "'p registry \<Rightarrow> (string \<times> string) list" where
  "provider_versions m =
     sort_key fst (foldl (\<lambda>acc (_, p). if ps_restore_handler (pv_spec p) \<in> fst ` set acc then acc
        else acc @ [(ps_restore_handler (pv_spec p), show_nat (unat (ps_schema_version (pv_spec p))))]) [] m)"

definition registry_remove :: "ident \<Rightarrow> string \<Rightarrow> 'p registry \<Rightarrow> 'p registry" where
  "registry_remove w c m = tab_remove (w, c) m"

definition registry_remove_workload :: "ident \<Rightarrow> 'p registry \<Rightarrow> 'p registry" where
  "registry_remove_workload w m = filter (\<lambda>((v, _), _). v \<noteq> w) m"

subsection \<open>Providers driven by closures\<close>

definition no_ack :: "string \<Rightarrow> capture_ctx \<Rightarrow> ('p, quiesce_outcome) prog" where
  "no_ack msg ctx =
     (if cx_quiescence ctx = Cooperative then raise (QuiescenceFailure msg) else give Forced_Quiesce)"

definition run_hook :: "('p, unit) prog option \<Rightarrow> ('p, unit) prog" where
  "run_hook hook = (case hook of None \<Rightarrow> give () | Some h \<Rightarrow> h)"

definition application_provider ::
  "provider_spec \<Rightarrow> ('p, bytes) prog \<Rightarrow> (bytes \<Rightarrow> ('p, unit) prog) \<Rightarrow> ('p, unit) prog option
     \<Rightarrow> ('p, unit) prog option \<Rightarrow> ('p, unit) prog option \<Rightarrow> 'p provider" where
  "application_provider spec snapshot apply quiesce_hook resume_hook cleanup_hook = \<lparr>
     pv_spec = spec,
     pv_prepare = (\<lambda>_. give ()),
     pv_quiesce = (\<lambda>ctx. if cx_quiescence ctx = Cooperative
        then (case quiesce_hook of
                Some hook \<Rightarrow> and_then hook (\<lambda>_. give Acked)
              | None \<Rightarrow> raise (QuiescenceFailure (''provider '' @ quoted (ps_component_id spec)
                  @ '' has no cooperative quiesce hook'')))
        else give Forced_Quiesce),
     pv_capture = (\<lambda>_. snapshot),
     pv_verify = (\<lambda>_. give ()),
     pv_resume_source = (\<lambda>_. run_hook resume_hook),
     pv_abort_capture = (\<lambda>_. run_hook resume_hook),
     pv_restore = (\<lambda>_. apply),
     pv_verify_restore = (\<lambda>_. give ()),
     pv_cleanup_restore = (\<lambda>_. run_hook cleanup_hook),
     pv_commit_restore = (\<lambda>_. give ())\<rparr>"

definition custom_provider ::
  "provider_spec \<Rightarrow> ('p, bytes) prog \<Rightarrow> (bytes \<Rightarrow> ('p, unit) prog) \<Rightarrow> ('p, unit) prog \<Rightarrow> 'p provider" where
  "custom_provider spec capture_fn restore_fn cleanup_fn = \<lparr>
     pv_spec = spec,
     pv_prepare = (\<lambda>_. give ()),
     pv_quiesce = no_ack ''custom provider has no cooperative quiescence'',
     pv_capture = (\<lambda>_. capture_fn),
     pv_verify = (\<lambda>_. give ()),
     pv_resume_source = (\<lambda>_. give ()),
     pv_abort_capture = (\<lambda>_. give ()),
     pv_restore = (\<lambda>_. restore_fn),
     pv_verify_restore = (\<lambda>_. give ()),
     pv_cleanup_restore = (\<lambda>_. cleanup_fn),
     pv_commit_restore = (\<lambda>_. give ())\<rparr>"

subsection \<open>Memory regions\<close>

record memory_regions =
  mr_regions :: "(string \<times> bytes) list"
  mr_target_regions :: "(string \<times> bytes) list"

definition memory_register :: "string \<Rightarrow> bytes \<Rightarrow> memory_regions \<Rightarrow> memory_regions" where
  "memory_register name bs m = m\<lparr>mr_regions := mr_regions m @ [(name, bs)]\<rparr>"

definition memory_region_provider ::
  "((string \<times> bytes) list \<Rightarrow> bytes) \<Rightarrow> (bytes \<Rightarrow> (string \<times> bytes) list option) \<Rightarrow> provider_spec
     \<Rightarrow> memory_regions provider" where
  "memory_region_provider to_vec from_slice spec = \<lparr>
     pv_spec = spec,
     pv_prepare = (\<lambda>_. give ()),
     pv_quiesce = no_ack ''memory region provider cannot quiesce the source process'',
     pv_capture = (\<lambda>_. look (\<lambda>m. to_vec (sort_key fst (mr_regions m)))),
     pv_verify = (\<lambda>_. give ()),
     pv_resume_source = (\<lambda>_. give ()),
     pv_abort_capture = (\<lambda>_. give ()),
     pv_restore = (\<lambda>_ payload.
        and_then (lift (ok_or (RestoreFailure ''bad memory payload: {e}'') (from_slice payload)))
          (\<lambda>entries. change (\<lambda>m. m\<lparr>mr_target_regions := entries\<rparr>))),
     pv_verify_restore = (\<lambda>_. give ()),
     pv_cleanup_restore = (\<lambda>_. change (\<lambda>m. m\<lparr>mr_target_regions := []\<rparr>)),
     pv_commit_restore = (\<lambda>_. give ())\<rparr>"

subsection \<open>Process metadata\<close>

text \<open>The process the provider looks at: its number, command line, environment and clock.\<close>

record process_view =
  pw_pid :: u32
  pw_args :: "string list"
  pw_env :: "(string \<times> string) list"
  pw_now :: u64

record process_snapshot =
  pn_pid :: u32
  pn_command :: string
  pn_workload_id :: string
  pn_captured_at_ms :: u64
  pn_env_keys :: "string list"
  pn_env_allowlisted :: "(string \<times> string) list"

fun joined :: "string \<Rightarrow> string list \<Rightarrow> string" where
  "joined sep [] = []"
| "joined sep [x] = x"
| "joined sep (x # y # zs) = x @ sep @ joined sep (y # zs)"

definition process_snapshot_of ::
  "(bytes \<Rightarrow> string) \<Rightarrow> string list \<Rightarrow> ident \<Rightarrow> process_view \<Rightarrow> process_snapshot" where
  "process_snapshot_of hex env_allowlist workload_id pw = \<lparr>
     pn_pid = pw_pid pw,
     pn_command = joined '' '' (pw_args pw),
     pn_workload_id = to_hex hex workload_id,
     pn_captured_at_ms = pw_now pw,
     pn_env_keys = sort (map fst (filter (\<lambda>(k, v). k \<notin> set env_allowlist \<and>
        (prefix ''CF_'' k \<or> prefix ''CHECKPOINTFABRIC_'' k)) (pw_env pw))),
     pn_env_allowlisted = filter (\<lambda>(k, v). k \<in> set env_allowlist) (pw_env pw)\<rparr>"

definition process_metadata_provider ::
  "(process_snapshot \<Rightarrow> bytes) \<Rightarrow> (bytes \<Rightarrow> process_snapshot option) \<Rightarrow> (bytes \<Rightarrow> string) \<Rightarrow> provider_spec
     \<Rightarrow> string list \<Rightarrow> process_view provider" where
  "process_metadata_provider to_vec from_slice hex spec env_allowlist = \<lparr>
     pv_spec = spec,
     pv_prepare = (\<lambda>_. give ()),
     pv_quiesce = no_ack ''process metadata provider cannot quiesce the source process'',
     pv_capture = (\<lambda>ctx. look (\<lambda>pw. to_vec (process_snapshot_of hex env_allowlist (cx_workload_id ctx) pw))),
     pv_verify = (\<lambda>_. give ()),
     pv_resume_source = (\<lambda>_. give ()),
     pv_abort_capture = (\<lambda>_. give ()),
     pv_restore = (\<lambda>_ payload.
        and_then (lift (ok_or (RestoreFailure ''bad process snapshot: {e}'') (from_slice payload)))
          (\<lambda>_. give ())),
     pv_verify_restore = (\<lambda>_. give ()),
     pv_cleanup_restore = (\<lambda>_. give ()),
     pv_commit_restore = (\<lambda>_. give ())\<rparr>"

end
