(* ===== verification/Node.thy ===== *)
theory Node
  imports Providers Protocol Transport
begin

section \<open>The node runtime (node.rs)\<close>

text \<open>
  The requests a node serves, as programs over its state: its disk, the providers registered
  with it and the state \<open>'p\<close> they work on, and the tables behind its locks. The constants of
  a node (identity, configuration, libraries) are fields too. Texts of \<open>to_string_lossy\<close>
  render a path with its separators.
\<close>

record attached_workload =
  aw_fence_token :: string
  aw_execution_epoch :: u64

record 'p node =
  nd_node_id :: string
  nd_boot_id :: string
  nd_root :: path
  nd_lib :: lib
  nd_codecs :: codecs
  nd_hex_decode :: "string \<Rightarrow> bytes option"
  nd_clock :: "nat \<Rightarrow> u64"
  nd_reads :: nat
  nd_failpoints :: "(string \<times> u32) list"
  nd_disk :: disk
  nd_world :: 'p
  nd_providers :: "'p registry"
  nd_attached :: "(ident \<times> attached_workload) list"
  nd_epoch :: u64
  nd_connected :: bool
  nd_stop :: bool
  nd_fetch_tokens :: "((ident \<times> string) \<times> u64) list"
  nd_staging_leases :: "(path \<times> u64) list"
  nd_quiesced :: "(string \<times> ident) list"
  nd_pending :: "(string \<times> (ident \<times> ident \<times> string list)) list"

subsection \<open>Access to the parts\<close>

definition on_disk :: "(disk, 'a) prog \<Rightarrow> ('p node, 'a) prog" where
  "on_disk = zoom nd_disk (\<lambda>d s. s\<lparr>nd_disk := d\<rparr>)"

definition on_world :: "('p, 'a) prog \<Rightarrow> ('p node, 'a) prog" where
  "on_world = zoom nd_world (\<lambda>w s. s\<lparr>nd_world := w\<rparr>)"

definition node_now :: "('p node, u64) prog" where
  "node_now s = (Inr (nd_clock s (nd_reads s)), s\<lparr>nd_reads := nd_reads s + 1\<rparr>)"

definition node_fire :: "string \<Rightarrow> ('p node, unit) prog" where
  "node_fire name s = (case fp_fire name (nd_failpoints s) of (hit, m) \<Rightarrow>
     (if hit then Inl (FailPoint name) else Inr (), s\<lparr>nd_failpoints := m\<rparr>))"

fun path_tail :: "path \<Rightarrow> string" where
  "path_tail [] = []"
| "path_tail (c # cs) = ''/'' @ c @ path_tail cs"

definition path_string :: "path \<Rightarrow> string" where
  "path_string p = (case p of
     [] \<Rightarrow> []
   | c # cs \<Rightarrow> if c = ''/'' then (if cs = [] then ''/'' else path_tail cs) else c @ path_tail cs)"

definition lease_staging :: "path \<Rightarrow> ('p node, unit) prog" where
  "lease_staging p = and_then node_now (\<lambda>now.
     change (\<lambda>s. s\<lparr>nd_staging_leases := tab_insert p now (nd_staging_leases s)\<rparr>))"

definition release_staging :: "path \<Rightarrow> ('p node, unit) prog" where
  "release_staging p = change (\<lambda>s. s\<lparr>nd_staging_leases := tab_remove p (nd_staging_leases s)\<rparr>)"

definition check_epoch :: "u64 \<Rightarrow> ('p node, unit) prog" where
  "check_epoch claimed = and_then (look nd_epoch) (\<lambda>actual.
     if claimed \<noteq> actual then raise (StaleCoordinatorEpoch actual claimed) else give ())"

definition check_token :: "ident \<Rightarrow> string \<Rightarrow> ('p node, unit) prog" where
  "check_token checkpoint_id token = and_then node_now (\<lambda>now.
     and_then (change (\<lambda>s. s\<lparr>nd_fetch_tokens := filter (\<lambda>(_, e). e \<ge> now) (nd_fetch_tokens s)\<rparr>)) (\<lambda>_.
     and_then (look (\<lambda>s. map_of (nd_fetch_tokens s) (checkpoint_id, token))) (\<lambda>found.
     case found of
       Some _ \<Rightarrow> give ()
     | None \<Rightarrow> raise (FencingFailure ''unknown fetch token for {checkpoint_id}''))))"

definition my_staging :: "string \<Rightarrow> ('p node, path) prog" where
  "my_staging attempt_id = look (\<lambda>s. staging_dir (nd_root s) attempt_id)"

definition my_commit :: "ident \<Rightarrow> ('p node, path) prog" where
  "my_commit checkpoint_id = look (\<lambda>s. commit_path (nd_lib s) (nd_root s) checkpoint_id)"

subsection \<open>Attachment\<close>

text \<open>\<open>answer\<close> is what the coordinator responds to the attach request.\<close>

definition node_attach_workload ::
  "ident \<Rightarrow> u64 \<Rightarrow> 'p provider list \<Rightarrow> (bool \<times> string option \<times> string option) fabric_result
     \<Rightarrow> ('p node, attached_workload) prog" where
  "node_attach_workload workload_id fence_epoch providers answer =
     and_then (change (\<lambda>s. s\<lparr>nd_providers := fold (registry_register workload_id) providers (nd_providers s)\<rparr>)) (\<lambda>_.
     and_then (look nd_connected) (\<lambda>connected.
     if \<not> connected then raise (Internal ''not connected to coordinator'')
     else and_then (lift answer) (\<lambda>(accepted, fence_token, error).
     if \<not> accepted
     then and_then (change (\<lambda>s. s\<lparr>nd_providers := registry_remove_workload workload_id (nd_providers s)\<rparr>)) (\<lambda>_.
          raise (FencingFailure (case error of None \<Rightarrow> ''attach rejected'' | Some e \<Rightarrow> e)))
     else let a = \<lparr>aw_fence_token = (case fence_token of None \<Rightarrow> [] | Some t \<Rightarrow> t),
                   aw_execution_epoch = fence_epoch\<rparr> in
          and_then (change (\<lambda>s. s\<lparr>nd_attached := tab_insert workload_id a (nd_attached s)\<rparr>)) (\<lambda>_.
          give a))))"

definition node_detach_workload :: "ident \<Rightarrow> ('p node, unit) prog" where
  "node_detach_workload workload_id = change (\<lambda>s. s\<lparr>
     nd_attached := tab_remove workload_id (nd_attached s),
     nd_providers := registry_remove_workload workload_id (nd_providers s)\<rparr>)"

definition is_attached :: "'p node \<Rightarrow> ident \<Rightarrow> bool" where
  "is_attached s workload_id \<longleftrightarrow> map_of (nd_attached s) workload_id \<noteq> None"

subsection \<open>Capture\<close>

text \<open>A fresh staging directory with its three parts.\<close>

definition fresh_staging :: "path \<Rightarrow> (disk, unit) prog" where
  "fresh_staging staging =
     and_then (ask (fs_exists staging)) (\<lambda>old.
     and_then (if old then fs_remove_dir_all staging else give ()) (\<lambda>_.
     and_then (fs_create_dir_all (staging @ [''components''])) (\<lambda>_.
     and_then (fs_create_dir_all (staging @ [''integrity''])) (\<lambda>_.
     fs_create_dir_all (staging @ [''journal''])))))"

fun select_providers ::
  "'p registry \<Rightarrow> ident \<Rightarrow> capture_component_request list \<Rightarrow> 'p provider list fabric_result" where
  "select_providers m w [] = Inr []"
| "select_providers m w (c # cs) =
     (case registry_get m w (cr_component_id c) of
        Some p \<Rightarrow> bind_r (select_providers m w cs) (\<lambda>ps. Inr (p # ps))
      | None \<Rightarrow>
          if cr_required c
          then Inl (MissingDependency (''required component '' @ quoted (cr_component_id c)
                 @ '' has no provider attached''))
          else select_providers m w cs)"

text \<open>The providers prepared so far are what an abort goes back to: the list is kept in the
  result also when a provider fails. The second component says how the loop ended.\<close>

fun prepare_providers ::
  "capture_ctx \<Rightarrow> 'p provider list \<Rightarrow> ('p node, 'p provider list \<times> unit fabric_result) prog" where
  "prepare_providers ctx [] = give ([], Inr ())"
| "prepare_providers ctx (p # ps) =
     and_then (attempt (on_world (pv_prepare p ctx))) (\<lambda>r.
     case r of
       Inl e \<Rightarrow> give ([], Inl e)
     | Inr _ \<Rightarrow> and_then (prepare_providers ctx ps) (\<lambda>(done, r'). give (p # done, r')))"

definition quiesce_providers ::
  "quiescence_mode \<Rightarrow> capture_ctx \<Rightarrow> 'p provider list \<Rightarrow> ('p node, bool) prog" where
  "quiesce_providers mode ctx providers =
     (case mode of
        QNone \<Rightarrow> give False
      | Cooperative \<Rightarrow>
          for_fold (\<lambda>ack p. and_then (on_world (pv_quiesce p ctx)) (\<lambda>r.
              give (case r of Acked \<Rightarrow> ack | Forced_Quiesce \<Rightarrow> False)))
            (providers \<noteq> []) providers
      | Forced \<Rightarrow>
          and_then (for_each (\<lambda>p. ignore (on_world (pv_quiesce p ctx))) providers) (\<lambda>_. give False))"

record capture_sums =
  su_entries :: "component_entry list"
  su_logical :: u64
  su_stored :: u64
  su_compressed :: u64

definition capture_component ::
  "capture_ctx \<Rightarrow> capture_sums \<Rightarrow> 'p provider \<Rightarrow> ('p node, capture_sums) prog" where
  "capture_component ctx acc p =
     and_then (on_world (pv_capture p ctx)) (\<lambda>payload.
     and_then (on_world (pv_verify p ctx)) (\<lambda>_.
     and_then (look nd_lib) (\<lambda>L.
     and_then (look nd_codecs) (\<lambda>K.
     and_then (on_disk (write_component_payload L K (cx_staging_dir ctx)
         (ps_component_id (pv_spec p)) payload (cx_compression ctx))) (\<lambda>repr.
     give \<lparr>su_entries = su_entries acc @ [component_entry_of (pv_spec p) (sha256_hex L payload) repr],
           su_logical = sat_add (su_logical acc) (of_nat (length payload)),
           su_stored = sat_add (su_stored acc) (sr_stored_size repr),
           su_compressed = (if is_compressed (cx_compression ctx)
             then sat_add (su_compressed acc) (sr_stored_size repr) else su_compressed acc)\<rparr>)))))"

definition capture_ctx_of :: "node_capture_request \<Rightarrow> path \<Rightarrow> capture_ctx" where
  "capture_ctx_of req staging = \<lparr>
     cx_workload_id = ncr_workload_id req, cx_attempt_id = ncr_attempt_id req,
     cx_staging_dir = staging, cx_compression = ncr_compression req,
     cx_quiescence = ncr_quiescence req\<rparr>"

definition capture_rest ::
  "node_capture_request \<Rightarrow> capture_ctx \<Rightarrow> 'p provider list \<Rightarrow> ('p node, bool \<times> capture_sums) prog" where
  "capture_rest req ctx providers =
     and_then (quiesce_providers (ncr_quiescence req) ctx providers) (\<lambda>ack.
     and_then (for_fold (capture_component ctx)
         \<lparr>su_entries = [], su_logical = 0, su_stored = 0, su_compressed = 0\<rparr> providers) (\<lambda>sums.
     give (ack, sums)))"

definition capture_failed :: "string \<Rightarrow> fabric_error \<Rightarrow> node_capture_result" where
  "capture_failed attempt_id e = \<lparr>
     ncs_attempt_id = attempt_id, ncs_ok = False, ncs_error = Some (error_to_string e),
     ncs_components = [], ncs_total_logical_bytes = 0, ncs_total_physical_bytes = 0,
     ncs_compressed_bytes = 0, ncs_cooperative_ack = False, ncs_staging_path = None\<rparr>"

definition abort_capture ::
  "node_capture_request \<Rightarrow> path \<Rightarrow> 'p provider list \<Rightarrow> fabric_error \<Rightarrow> ('p node, node_capture_result) prog" where
  "abort_capture req staging prepared e =
     and_then (for_each (\<lambda>p. ignore (on_world (pv_abort_capture p (capture_ctx_of req staging)))) (rev prepared)) (\<lambda>_.
     and_then (ignore (on_disk (fs_remove_dir_all staging))) (\<lambda>_.
     and_then (release_staging staging) (\<lambda>_.
     give (capture_failed (ncr_attempt_id req) e))))"

definition do_capture :: "node_capture_request \<Rightarrow> ('p node, node_capture_result) prog" where
  "do_capture req =
     and_then (my_staging (ncr_attempt_id req)) (\<lambda>staging.
     and_then (lease_staging staging) (\<lambda>_.
     and_then (on_disk (fresh_staging staging)) (\<lambda>_.
     and_then (look nd_providers) (\<lambda>registry.
     let ctx = capture_ctx_of req staging in
     case select_providers registry (ncr_workload_id req) (ncr_components req) of
       Inl e \<Rightarrow> abort_capture req staging [] e
     | Inr providers \<Rightarrow>
         and_then (prepare_providers ctx providers) (\<lambda>(prepared, r).
         case r of
           Inl e \<Rightarrow> abort_capture req staging prepared e
         | Inr _ \<Rightarrow>
             and_then (attempt (capture_rest req ctx providers)) (\<lambda>r'.
             case r' of
               Inl e \<Rightarrow> abort_capture req staging prepared e
             | Inr (ack, sums) \<Rightarrow>
                 and_then (change (\<lambda>s. s\<lparr>nd_quiesced :=
                     tab_insert (ncr_attempt_id req) (ncr_workload_id req) (nd_quiesced s)\<rparr>)) (\<lambda>_.
                 give \<lparr>ncs_attempt_id = ncr_attempt_id req, ncs_ok = True, ncs_error = None,
                       ncs_components = su_entries sums,
                       ncs_total_logical_bytes = su_logical sums,
                       ncs_total_physical_bytes = su_stored sums,
                       ncs_compressed_bytes = su_compressed sums,
                       ncs_cooperative_ack = ack,
                       ncs_staging_path = Some (path_string staging)\<rparr>)))))))"

subsection \<open>Promotion\<close>

definition promote_failed :: "string \<Rightarrow> string \<Rightarrow> node_promote_result" where
  "promote_failed attempt_id msg =
     \<lparr>nms_attempt_id = attempt_id, nms_ok = False, nms_error = Some msg, nms_commit_path = None\<rparr>"

definition write_commit_files :: "path \<Rightarrow> node_promote_request \<Rightarrow> string \<Rightarrow> (disk, unit) prog" where
  "write_commit_files staging req journal_line =
     and_then (fs_write (staging @ [''manifest'']) (nmr_manifest_bytes req)) (\<lambda>_.
     and_then (fs_write (staging @ [''manifest.digest'']) (line (nmr_digest req))) (\<lambda>_.
     and_then (fs_create_dir_all (staging @ [''integrity''])) (\<lambda>_.
     and_then (fs_write (staging @ [''integrity'', ''root'']) (line (nmr_integrity_root req))) (\<lambda>_.
     fs_append (staging @ [''journal'', ''records.jsonl'']) (string_bytes journal_line)))))"

definition do_promote :: "node_promote_request \<Rightarrow> ('p node, node_promote_result) prog" where
  "do_promote req =
     and_then (look nd_lib) (\<lambda>L.
     if sha256_hex L (nmr_manifest_bytes req) \<noteq> nmr_digest req
     then raise (IntegrityFailure ''promoted manifest does not match coordinator digest'')
     else and_then (lift (manifest_parse L (nmr_manifest_bytes req))) (\<lambda>parsed.
     if m_checkpoint_id parsed \<noteq> nmr_checkpoint_id req \<or> m_capture_attempt parsed \<noteq> nmr_attempt_id req \<or>
        ii_root (m_integrity parsed) \<noteq> nmr_integrity_root req
     then raise (IntegrityFailure ''promoted manifest identity or integrity root mismatch'')
     else and_then (my_staging (nmr_attempt_id req)) (\<lambda>staging.
     and_then (on_disk (ask (fs_exists staging))) (\<lambda>present.
     if \<not> present then give (promote_failed (nmr_attempt_id req) ''staging directory is missing'')
     else and_then node_now (\<lambda>now.
     and_then (on_disk (write_commit_files staging req (show_nat (unat now) @ '' promote manifest'' @ newline))) (\<lambda>_.
     and_then (my_commit (nmr_checkpoint_id req)) (\<lambda>commit.
     and_then (attempt (on_disk (promote staging commit))) (\<lambda>r.
     case r of
       Inl e \<Rightarrow> give (promote_failed (nmr_attempt_id req) (error_to_string e))
     | Inr _ \<Rightarrow> and_then (release_staging staging) (\<lambda>_.
         give \<lparr>nms_attempt_id = nmr_attempt_id req, nms_ok = True, nms_error = None,
               nms_commit_path = Some (path_string commit)\<rparr>)))))))))"

subsection \<open>Resumption\<close>

definition resume_ctx :: "node_resume_request \<Rightarrow> capture_ctx" where
  "resume_ctx req = \<lparr>cx_workload_id = nur_workload_id req, cx_attempt_id = nur_attempt_id req,
     cx_staging_dir = [], cx_compression = none_spec, cx_quiescence = QNone\<rparr>"

definition first_error :: "fabric_error option \<Rightarrow> unit fabric_result \<Rightarrow> fabric_error option" where
  "first_error acc r = (case acc of Some e \<Rightarrow> Some e | None \<Rightarrow> (case r of Inl e \<Rightarrow> Some e | Inr _ \<Rightarrow> None))"

definition resume_provider ::
  "node_resume_request \<Rightarrow> bool \<Rightarrow> restore_ctx \<Rightarrow> fabric_error option \<Rightarrow> provider_spec
     \<Rightarrow> ('p node, fabric_error option) prog" where
  "resume_provider req transfer rctx acc spec =
     and_then (look (\<lambda>s. registry_get (nd_providers s) (nur_workload_id req) (ps_component_id spec))) (\<lambda>found.
     case found of
       None \<Rightarrow> give acc
     | Some p \<Rightarrow>
         and_then (if transfer
           then and_then (attempt (on_world (pv_commit_restore p rctx))) (\<lambda>r. give (first_error acc r))
           else give acc) (\<lambda>acc1.
         if nur_resume req
         then and_then (attempt (on_world (pv_resume_source p (resume_ctx req)))) (\<lambda>r. give (first_error acc1 r))
         else give acc1))"

definition resume_result :: "string \<Rightarrow> fabric_error option \<Rightarrow> node_resume_result" where
  "resume_result attempt_id err = \<lparr>nus_attempt_id = attempt_id, nus_ok = (err = None),
     nus_error = map_option error_to_string err\<rparr>"

definition resume_all :: "node_resume_request \<Rightarrow> bool \<Rightarrow> ('p node, node_resume_result) prog" where
  "resume_all req transfer =
     and_then (look (\<lambda>s. registry_list (nd_providers s) (nur_workload_id req))) (\<lambda>specs.
     and_then (my_staging (nur_attempt_id req)) (\<lambda>restore_staging.
     and_then (my_commit (nur_checkpoint_id req)) (\<lambda>restore_commit.
     let rctx = \<lparr>rx_checkpoint_id = nur_checkpoint_id req, rx_workload_id = nur_workload_id req,
                 rx_attempt_id = nur_attempt_id req, rx_staging_dir = restore_staging,
                 rx_commit_dir = restore_commit\<rparr> in
     and_then (for_fold (resume_provider req transfer rctx) None specs) (\<lambda>first_err.
     and_then (if transfer \<and> first_err = None
       then change (\<lambda>s. s\<lparr>nd_pending := tab_remove (nur_attempt_id req) (nd_pending s)\<rparr>)
       else give ()) (\<lambda>_.
     give (resume_result (nur_attempt_id req) first_err))))))"

definition do_resume :: "node_resume_request \<Rightarrow> ('p node, node_resume_result) prog" where
  "do_resume req =
     (if nur_fence_token req \<noteq> None \<or> nur_execution_epoch req \<noteq> None
      then and_then (lift (ok_or (FencingFailure ''authority grant is missing fence token'')
             (nur_fence_token req))) (\<lambda>token.
           and_then (lift (ok_or (FencingFailure ''authority grant is missing execution epoch'')
             (nur_execution_epoch req))) (\<lambda>execution_epoch.
           and_then (change (\<lambda>s. s\<lparr>nd_attached := tab_insert (nur_workload_id req)
             \<lparr>aw_fence_token = token, aw_execution_epoch = execution_epoch\<rparr> (nd_attached s)\<rparr>)) (\<lambda>_.
           resume_all req True)))
      else and_then (look (\<lambda>s. map_of (nd_quiesced s) (nur_attempt_id req))) (\<lambda>found.
           and_then (change (\<lambda>s. s\<lparr>nd_quiesced := tab_remove (nur_attempt_id req) (nd_quiesced s)\<rparr>)) (\<lambda>_.
           if found = None then give (resume_result (nur_attempt_id req) None)
           else resume_all req False)))"

subsection \<open>Restore\<close>

definition restore_failed :: "string \<Rightarrow> string \<Rightarrow> string list \<Rightarrow> node_restore_result" where
  "restore_failed attempt_id msg restored = \<lparr>nrs_attempt_id = attempt_id, nrs_ok = False,
     nrs_error = Some msg, nrs_restored_components = restored\<rparr>"

text \<open>\<open>unwrap_or_default\<close> of the digest file: anything unreadable is the empty text.\<close>

definition sidecar_digest :: "path \<Rightarrow> (disk, string) prog" where
  "sidecar_digest commit =
     and_then (attempt (fs_read_to_string (commit @ [''manifest.digest'']))) (\<lambda>r.
     give (case r of Inl _ \<Rightarrow> [] | Inr s \<Rightarrow> trim s))"

text \<open>The check of every component before anything is applied: \<open>None\<close> when all pass, a message
  when one does not; an unsafe path is an error of the request.\<close>

fun check_components ::
  "lib \<Rightarrow> codecs \<Rightarrow> path \<Rightarrow> component_entry list \<Rightarrow> (disk, string option) prog" where
  "check_components L K commit [] = give None"
| "check_components L K commit (c # cs) =
     (let repr = ce_storage_representation c in
     and_then (lift (safe_join commit (sr_relative_path repr))) (\<lambda>path.
     and_then (ask (fs_is_file path)) (\<lambda>file.
     if \<not> file then give (Some (''missing component payload '' @ sr_relative_path repr))
     else and_then (attempt (verify_stored_file L K path (sr_stored_hash repr) (Some (sr_stored_size repr)))) (\<lambda>r.
       case r of
         Inl e \<Rightarrow> give (Some (''component '' @ quoted (ce_component_id c) @ '' failed integrity: '' @ error_to_string e))
       | Inr _ \<Rightarrow> check_components L K commit cs))))"

definition cleanup_restored :: "'p provider list \<Rightarrow> restore_ctx \<Rightarrow> ('p node, unit) prog" where
  "cleanup_restored providers ctx =
     and_then (for_fold (\<lambda>acc p. and_then (attempt (on_world (pv_cleanup_restore p ctx))) (\<lambda>r.
         give (first_error acc r))) None (rev providers)) (\<lambda>first_err.
     case first_err of
       Some e \<Rightarrow> raise (CleanupFailure (error_to_string e))
     | None \<Rightarrow> give ())"

definition restore_bound :: "node_restore_request \<Rightarrow> u64" where
  "restore_bound req = (case nrr_max_component_bytes req of None \<Rightarrow> 2 ^ 30 | Some n \<Rightarrow> n)"

text \<open>The restore of the components in manifest order, given the identifiers restored and the
  providers used so far.\<close>

fun restore_components ::
  "node_restore_request \<Rightarrow> restore_ctx \<Rightarrow> component_entry list \<Rightarrow> string list \<Rightarrow> 'p provider list
     \<Rightarrow> ('p node, node_restore_result) prog" where
  "restore_components req ctx [] restored used =
     and_then (change (\<lambda>s. s\<lparr>nd_pending := tab_insert (nrr_attempt_id req)
         (nrr_workload_id req, nrr_checkpoint_id req, restored) (nd_pending s)\<rparr>)) (\<lambda>_.
     give \<lparr>nrs_attempt_id = nrr_attempt_id req, nrs_ok = True, nrs_error = None,
           nrs_restored_components = restored\<rparr>)"
| "restore_components req ctx (c # cs) restored used =
     (let give_up = (\<lambda>used' msg. and_then (ignore (cleanup_restored used' ctx)) (\<lambda>_.
            give (restore_failed (nrr_attempt_id req) msg restored))) in
     and_then (look (\<lambda>s. registry_get (nd_providers s) (nrr_workload_id req) (ce_component_id c))) (\<lambda>found.
     case found of
       None \<Rightarrow>
         if ce_required c
         then give_up used (''no restore handler '' @ quoted (ce_restore_handler c) @ '' for required component ''
                @ quoted (ce_component_id c))
         else restore_components req ctx cs restored used
     | Some p \<Rightarrow>
         and_then (look nd_lib) (\<lambda>L.
         and_then (look nd_codecs) (\<lambda>K.
         and_then (attempt (on_disk (read_component_payload L K (rx_commit_dir ctx)
             (ce_storage_representation c) (ce_content_hash c) (restore_bound req)))) (\<lambda>r.
         case r of
           Inl e \<Rightarrow> give_up used (''payload decode of '' @ quoted (ce_component_id c) @ '' failed: '' @ error_to_string e)
         | Inr payload \<Rightarrow>
             and_then (attempt (on_world (pv_restore p ctx payload))) (\<lambda>r1.
             case r1 of
               Inl e \<Rightarrow> give_up (used @ [p]) (''restore of '' @ quoted (ce_component_id c) @ '' failed: '' @ error_to_string e)
             | Inr _ \<Rightarrow>
                 and_then (attempt (on_world (pv_verify_restore p ctx))) (\<lambda>r2.
                 case r2 of
                   Inl e \<Rightarrow> give_up (used @ [p])
                     (''verification of '' @ quoted (ce_component_id c) @ '' failed: '' @ error_to_string e)
                 | Inr _ \<Rightarrow> restore_components req ctx cs (restored @ [ce_component_id c]) (used @ [p]))))))))"

text \<open>The verification of the local replica, before anything is applied: the manifest, or the
  message of the refusal.\<close>

definition admit_replica :: "node_restore_request \<Rightarrow> path \<Rightarrow> ('p node, string + manifest) prog" where
  "admit_replica req commit =
     and_then (look nd_lib) (\<lambda>L.
     and_then (look nd_codecs) (\<lambda>K.
     and_then (attempt (on_disk (fs_read (commit @ [''manifest''])))) (\<lambda>r.
     case r of
       Inl _ \<Rightarrow> give (Inl ''no local replica of {} on node {}'')
     | Inr manifest_bytes \<Rightarrow>
         and_then (on_disk (sidecar_digest commit)) (\<lambda>sidecar.
         if sha256_hex L manifest_bytes \<noteq> nrr_expected_manifest_digest req \<or>
            sidecar \<noteq> nrr_expected_manifest_digest req
         then give (Inl ''manifest does not match coordinator integrity anchor'')
         else and_then (lift (manifest_parse L manifest_bytes)) (\<lambda>manifest.
         if m_checkpoint_id manifest \<noteq> nrr_checkpoint_id req \<or> m_workload_id manifest \<noteq> nrr_workload_id req
         then give (Inl ''manifest identity does not match restore request'')
         else and_then (on_disk (check_components L K commit (m_components manifest))) (\<lambda>bad.
         give (case bad of Some msg \<Rightarrow> Inl msg | None \<Rightarrow> Inr manifest)))))))"

definition do_restore :: "node_restore_request \<Rightarrow> ('p node, node_restore_result) prog" where
  "do_restore req =
     and_then (node_fire ''restore.node.before_apply'') (\<lambda>_.
     and_then (my_commit (nrr_checkpoint_id req)) (\<lambda>commit.
     and_then (admit_replica req commit) (\<lambda>admitted.
     case admitted of
       Inl msg \<Rightarrow> give (restore_failed (nrr_attempt_id req) msg [])
     | Inr manifest \<Rightarrow>
         and_then (my_staging (nrr_attempt_id req)) (\<lambda>restore_staging.
         restore_components req \<lparr>rx_checkpoint_id = nrr_checkpoint_id req,
            rx_workload_id = nrr_workload_id req, rx_attempt_id = nrr_attempt_id req,
            rx_staging_dir = restore_staging, rx_commit_dir = commit\<rparr>
            (m_components manifest) [] []))))"

subsection \<open>Verification, probe, cleanup\<close>

definition verify_result :: "ident \<Rightarrow> string option \<Rightarrow> string option \<Rightarrow> node_verify_result" where
  "verify_result checkpoint_id err digest = \<lparr>nvs_checkpoint_id = checkpoint_id,
     nvs_ok = (err = None), nvs_error = err, nvs_manifest_digest = digest\<rparr>"

fun verify_components ::
  "lib \<Rightarrow> codecs \<Rightarrow> path \<Rightarrow> component_entry list \<Rightarrow> (disk, string option) prog" where
  "verify_components L K commit [] = give None"
| "verify_components L K commit (c # cs) =
     (let repr = ce_storage_representation c in
      case safe_join commit (sr_relative_path repr) of
        Inl e \<Rightarrow> give (Some (error_to_string e))
      | Inr path \<Rightarrow>
          and_then (attempt (verify_stored_file L K path (sr_stored_hash repr) (Some (sr_stored_size repr)))) (\<lambda>r.
          case r of
            Inl e \<Rightarrow> give (Some (''component '' @ quoted (ce_component_id c) @ '': '' @ error_to_string e))
          | Inr _ \<Rightarrow> verify_components L K commit cs))"

definition do_verify :: "node_verify_request \<Rightarrow> ('p node, node_verify_result) prog" where
  "do_verify req =
     and_then (look nd_lib) (\<lambda>L.
     and_then (look nd_codecs) (\<lambda>K.
     and_then (my_commit (nvr_checkpoint_id req)) (\<lambda>commit.
     and_then (attempt (on_disk (fs_read (commit @ [''manifest''])))) (\<lambda>r.
     case r of
       Inl _ \<Rightarrow> give (verify_result (nvr_checkpoint_id req) (Some ''checkpoint not present on this node'') None)
     | Inr manifest_bytes \<Rightarrow>
         and_then (lift (manifest_parse L manifest_bytes)) (\<lambda>parsed.
         let digest = sha256_hex L manifest_bytes in
         and_then (on_disk (sidecar_digest commit)) (\<lambda>stored_digest.
         if stored_digest \<noteq> digest \<or> digest \<noteq> nvr_expected_manifest_digest req
         then give (verify_result (nvr_checkpoint_id req)
                (Some ''manifest digest does not match coordinator anchor'') None)
         else and_then (on_disk (verify_components L K commit (m_components parsed))) (\<lambda>failed.
         give (verify_result (nvr_checkpoint_id req) failed (Some digest)))))))))"

definition do_probe :: "node_probe_request \<Rightarrow> ('p node, node_probe_result) prog" where
  "do_probe req = look (\<lambda>s. \<lparr>nps_checkpoint_id = npr_checkpoint_id req,
     nps_has_replica = has_committed (nd_lib s) (nd_root s) (npr_checkpoint_id req) (dk_tree (nd_disk s))\<rparr>)"

text \<open>The path of a request, as \<open>PathBuf\<close> reads it, and the test that it is a directory just
  below the staging root. Canonical paths are compared where the path exists; without symbolic
  links a path that contains no \<open>..\<close> is canonical.\<close>

definition is_under_staging :: "path \<Rightarrow> path \<Rightarrow> bool" where
  "is_under_staging root p \<longleftrightarrow>
     prefix (staging_root root) p \<and> length p = length (staging_root root) + 1 \<and> last p \<noteq> ''..''"

record cleanup_acc =
  ca_paths :: "string list"
  ca_checkpoints :: "string list"
  ca_error :: "string option"

definition removed_path :: "string \<Rightarrow> string \<Rightarrow> unit fabric_result \<Rightarrow> cleanup_acc \<Rightarrow> cleanup_acc" where
  "removed_path shown msg r acc = (case r of
     Inr _ \<Rightarrow> acc\<lparr>ca_paths := ca_paths acc @ [shown]\<rparr>
   | Inl e \<Rightarrow> acc\<lparr>ca_error := Some (msg @ error_to_string e)\<rparr>)"

definition cleanup_attempt :: "cleanup_acc \<Rightarrow> string \<Rightarrow> ('p node, cleanup_acc) prog" where
  "cleanup_attempt acc attempt_id =
     and_then (my_staging attempt_id) (\<lambda>p.
     and_then (release_staging p) (\<lambda>_.
     and_then (on_disk (ask (fs_exists p))) (\<lambda>present.
     if present
     then and_then (attempt (on_disk (fs_remove_dir_all p))) (\<lambda>r.
          give (removed_path (path_string p) (''cleanup attempt '' @ attempt_id @ '': '') r acc))
     else give acc)))"

definition cleanup_path :: "cleanup_acc \<Rightarrow> string \<Rightarrow> ('p node, cleanup_acc) prog" where
  "cleanup_path acc sp =
     (let p = path_components sp in
     and_then (look (\<lambda>s. is_under_staging (nd_root s) p)) (\<lambda>under.
     if \<not> under then give (acc\<lparr>ca_error := Some (''cleanup path outside staging: '' @ sp)\<rparr>)
     else and_then (on_disk (ask (fs_exists p))) (\<lambda>present.
     if present
     then and_then (release_staging p) (\<lambda>_.
          and_then (attempt (on_disk (fs_remove_dir_all p))) (\<lambda>r.
          give (removed_path sp (''cleanup '' @ sp @ '': '') r acc)))
     else give acc)))"

definition cleanup_component ::
  "restore_cleanup_target \<Rightarrow> restore_ctx \<Rightarrow> cleanup_acc \<Rightarrow> string \<Rightarrow> ('p node, cleanup_acc) prog" where
  "cleanup_component target ctx acc component_id =
     and_then (look (\<lambda>s. registry_get (nd_providers s) (rct_workload_id target) component_id)) (\<lambda>found.
     case found of
       None \<Rightarrow> give acc
     | Some p \<Rightarrow> and_then (attempt (on_world (pv_cleanup_restore p ctx))) (\<lambda>r.
         give (case r of
            Inr _ \<Rightarrow> acc
          | Inl e \<Rightarrow> acc\<lparr>ca_error := Some (''restore cleanup '' @ rct_attempt_id target @ '' component ''
              @ component_id @ '': '' @ error_to_string e)\<rparr>)))"

definition cleanup_restore_target ::
  "cleanup_acc \<Rightarrow> restore_cleanup_target \<Rightarrow> ('p node, cleanup_acc) prog" where
  "cleanup_restore_target acc target =
     and_then (look (\<lambda>s. case map_of (nd_pending s) (rct_attempt_id target) of
        Some (_, _, ids) \<Rightarrow> ids
      | None \<Rightarrow> map ps_component_id (registry_list (nd_providers s) (rct_workload_id target)))) (\<lambda>component_ids.
     and_then (change (\<lambda>s. s\<lparr>nd_pending := tab_remove (rct_attempt_id target) (nd_pending s)\<rparr>)) (\<lambda>_.
     and_then (my_staging (rct_attempt_id target)) (\<lambda>restore_staging.
     and_then (my_commit (rct_checkpoint_id target)) (\<lambda>restore_commit.
     for_fold (cleanup_component target \<lparr>rx_checkpoint_id = rct_checkpoint_id target,
        rx_workload_id = rct_workload_id target, rx_attempt_id = rct_attempt_id target,
        rx_staging_dir = restore_staging, rx_commit_dir = restore_commit\<rparr>) acc (rev component_ids)))))"

definition cleanup_checkpoint :: "cleanup_acc \<Rightarrow> ident \<Rightarrow> ('p node, cleanup_acc) prog" where
  "cleanup_checkpoint acc cid =
     and_then (look nd_lib) (\<lambda>L.
     and_then (look nd_root) (\<lambda>root.
     and_then (attempt (on_disk (delete_committed L root cid))) (\<lambda>r.
     give (case r of
        Inr _ \<Rightarrow> acc\<lparr>ca_checkpoints := ca_checkpoints acc @ [to_hex (lib_hex_encode L) cid]\<rparr>
      | Inl e \<Rightarrow> acc\<lparr>ca_error := Some (''cleanup '' @ to_hex (lib_hex_encode L) cid @ '': '' @ error_to_string e)\<rparr>))))"

definition do_cleanup :: "node_cleanup_request \<Rightarrow> ('p node, node_cleanup_result) prog" where
  "do_cleanup req =
     and_then (for_fold cleanup_attempt \<lparr>ca_paths = [], ca_checkpoints = [], ca_error = None\<rparr>
        (nlr_staging_attempts req)) (\<lambda>acc1.
     and_then (for_fold cleanup_path acc1 (nlr_staging_paths req)) (\<lambda>acc2.
     and_then (for_fold cleanup_restore_target acc2 (nlr_restore_attempts req)) (\<lambda>acc3.
     and_then (for_fold cleanup_checkpoint acc3 (nlr_checkpoint_ids req)) (\<lambda>acc4.
     give \<lparr>nls_removed_paths = ca_paths acc4, nls_removed_checkpoints = ca_checkpoints acc4,
           nls_error = ca_error acc4\<rparr>))))"

end
