(* ===== verification/NodeReplica.thy ===== *)
theory NodeReplica
  imports Node
begin

section \<open>Replication, service and life of a node (node.rs)\<close>

text \<open>
  The second half of \<open>node.rs\<close>: fetching a replica from a peer, serving one, the dispatch of
  requests, heartbeats and start-up. What a remote side answers is an argument: the list of its
  answers, in the order of the calls, where an answer is a response or the error of the call; a
  side with no answer left times out.
\<close>

subsection \<open>Messages (protocol.rs)\<close>

record fetch_manifest_request =
  fmq_checkpoint_id :: ident
  fmq_fetch_token :: string

record fetch_manifest_response =
  fmr_ok :: bool
  fmr_error :: "string option"
  fmr_manifest_bytes :: "bytes option"
  fmr_components :: "component_entry list"

record fetch_component_request =
  fcq_checkpoint_id :: ident
  fcq_component_id :: string
  fcq_offset :: u64
  fcq_fetch_token :: string

record fetch_chunk_response =
  fcr_ok :: bool
  fcr_error :: "string option"
  fcr_offset :: u64
  fcr_bytes :: bytes
  fcr_last :: bool

type_synonym chunk_answers = "fetch_chunk_response fabric_result list"

record peer_answers =
  pa_connect :: "unit fabric_result"
  pa_manifest :: "fetch_manifest_response fabric_result"
  pa_chunks :: chunk_answers

subsection \<open>Fetching\<close>

datatype fetch_outcome = Fetched u64 chunk_answers | Refused "string option"

text \<open>\<open>offset.saturating_add(len as u64)\<close>.\<close>

definition sat_add_len :: "u64 \<Rightarrow> 'a list \<Rightarrow> u64" where
  "sat_add_len offset xs = of_nat (min (unat offset + length xs) (2 ^ 64 - 1))"

lemma sat_add_len_code [code]:
  "sat_add_len offset xs = word_of_int (min (uint offset + int (length xs)) (2 ^ 64 - 1))"
proof -
  have "int (min (unat offset + length xs) (2 ^ 64 - 1)) = min (uint offset + int (length xs)) (2 ^ 64 - 1)"
    by (simp add: of_nat_min)
  then show ?thesis
    unfolding sat_add_len_def by (metis of_int_of_nat_eq)
qed

fun fetch_loop :: "path \<Rightarrow> component_entry \<Rightarrow> u64 \<Rightarrow> chunk_answers \<Rightarrow> (disk, fetch_outcome) prog" where
  "fetch_loop dest c offset [] = raise (Timeout ''transport idle timeout'')"
| "fetch_loop dest c offset (Inl e # as) = raise e"
| "fetch_loop dest c offset (Inr chunk # as) =
     (if \<not> fcr_ok chunk then give (Refused (fcr_error chunk))
      else if fcr_offset chunk \<noteq> offset
      then give (Refused (Some ''fetch offset mismatch: expected {offset}, got {}''))
      else if (fcr_bytes chunk = [] \<and> \<not> fcr_last chunk) \<or>
              sat_add_len offset (fcr_bytes chunk) > sr_stored_size (ce_storage_representation c)
      then give (Refused (Some (''component '' @ quoted (ce_component_id c)
             @ '' made no progress or exceeded declared size'')))
      else and_then (fs_append dest (fcr_bytes chunk)) (\<lambda>_.
           let offset' = sat_add_len offset (fcr_bytes chunk) in
           if fcr_last chunk then give (Fetched offset' as)
           else fetch_loop dest c offset' as))"

text \<open>One component: the answers left over when it is stored, or why it was refused. The first
  part runs after the loop over the chunks.\<close>

definition settle_component ::
  "lib \<Rightarrow> codecs \<Rightarrow> path \<Rightarrow> component_entry \<Rightarrow> path \<Rightarrow> fetch_outcome
     \<Rightarrow> (disk, string option + chunk_answers) prog" where
  "settle_component L K staging c dest outcome =
     (let repr = ce_storage_representation c in
      case outcome of
        Refused msg \<Rightarrow> give (Inl msg)
      | Fetched offset rest \<Rightarrow>
          if offset \<noteq> sr_stored_size repr
          then give (Inl (Some (''component '' @ quoted (ce_component_id c) @ '' ended at {offset} bytes, expected {}'')))
          else and_then (fs_sync dest) (\<lambda>_.
          and_then (fs_read dest) (\<lambda>stored.
          if sha256_hex L stored \<noteq> sr_stored_hash repr
          then give (Inl (Some (''fetched component '' @ quoted (ce_component_id c) @ '' failed hash check'')))
          else and_then (fs_write (sidecar_crc_path dest) (line (hex8 (cd_crc32c K stored)))) (\<lambda>_.
          and_then (fs_write (sidecar_sha_path dest) (line (sha256_hex L stored))) (\<lambda>_.
          and_then (fs_write (integrity_path staging (ce_component_id c)) (line (ce_content_hash c))) (\<lambda>_.
          give (Inr rest)))))))"

definition fetch_component ::
  "lib \<Rightarrow> codecs \<Rightarrow> path \<Rightarrow> component_entry \<Rightarrow> chunk_answers
     \<Rightarrow> (disk, string option + chunk_answers) prog" where
  "fetch_component L K staging c chunks =
     (let repr = ce_storage_representation c;
          safe_component = sanitize_segment (ce_component_id c);
          expected_relative = ''components/'' @ safe_component in
      if safe_component \<noteq> ce_component_id c \<or> sr_relative_path repr \<noteq> expected_relative
      then give (Inl (Some (''unsafe or inconsistent component path for '' @ quoted (ce_component_id c))))
      else and_then (lift (safe_join staging (sr_relative_path repr))) (\<lambda>dest.
      and_then (fs_write dest []) (\<lambda>_.
      and_then (fetch_loop dest c 0 chunks) (settle_component L K staging c dest))))"

fun fetch_components ::
  "lib \<Rightarrow> codecs \<Rightarrow> path \<Rightarrow> component_entry list \<Rightarrow> chunk_answers
     \<Rightarrow> (disk, string option + chunk_answers) prog" where
  "fetch_components L K staging [] chunks = give (Inr chunks)"
| "fetch_components L K staging (c # cs) chunks =
     and_then (fetch_component L K staging c chunks) (\<lambda>r.
     case r of
       Inl msg \<Rightarrow> give (Inl msg)
     | Inr rest \<Rightarrow> fetch_components L K staging cs rest)"

definition write_replica_files :: "lib \<Rightarrow> path \<Rightarrow> bytes \<Rightarrow> manifest \<Rightarrow> (disk, unit) prog" where
  "write_replica_files L staging manifest_bytes manifest =
     and_then (fs_write (staging @ [''manifest'']) manifest_bytes) (\<lambda>_.
     and_then (fs_write (staging @ [''manifest.digest'']) (line (sha256_hex L manifest_bytes))) (\<lambda>_.
     fs_write (staging @ [''integrity'', ''root'']) (line (ii_root (m_integrity manifest)))))"

definition replicate_result :: "string \<Rightarrow> string option \<Rightarrow> string option \<Rightarrow> bool \<Rightarrow> node_replicate_result" where
  "replicate_result attempt_id err p ok =
     \<lparr>nys_attempt_id = attempt_id, nys_ok = ok, nys_error = err, nys_path = p\<rparr>"

definition refuse_replica :: "string \<Rightarrow> path \<Rightarrow> string option \<Rightarrow> ('p node, node_replicate_result) prog" where
  "refuse_replica attempt_id staging msg =
     and_then (ignore (on_disk (fs_remove_dir_all staging))) (\<lambda>_.
     and_then (release_staging staging) (\<lambda>_.
     give (replicate_result attempt_id msg None False)))"

text \<open>The end of a replication, once every component is in the staging directory, and the part
  from the comparison of the component lists on.\<close>

definition finish_replica ::
  "node_replicate_request \<Rightarrow> path \<Rightarrow> string option + chunk_answers \<Rightarrow> ('p node, node_replicate_result) prog" where
  "finish_replica req staging fetched =
     (case fetched of
        Inl msg \<Rightarrow> refuse_replica (nyr_attempt_id req) staging msg
      | Inr _ \<Rightarrow>
          and_then (my_commit (nyr_checkpoint_id req)) (\<lambda>commit.
          and_then (attempt (on_disk (promote staging commit))) (\<lambda>r.
          and_then (release_staging staging) (\<lambda>_.
          give (case r of
             Inr _ \<Rightarrow> replicate_result (nyr_attempt_id req) None (Some (path_string commit)) True
           | Inl e \<Rightarrow> replicate_result (nyr_attempt_id req) (Some (error_to_string e)) None False)))))"

definition fill_replica ::
  "lib \<Rightarrow> codecs \<Rightarrow> peer_answers \<Rightarrow> node_replicate_request \<Rightarrow> path \<Rightarrow> component_entry list \<Rightarrow> manifest
     \<Rightarrow> ('p node, node_replicate_result) prog" where
  "fill_replica L K peer req staging listed manifest =
     (if listed \<noteq> m_components manifest
      then refuse_replica (nyr_attempt_id req) staging
             (Some ''source component list does not match anchored manifest'')
      else and_then (on_disk (fetch_components L K staging (m_components manifest) (pa_chunks peer)))
             (finish_replica req staging))"

text \<open>\<open>addr_ok\<close> tells whether the address of the request parses.\<close>

definition do_replicate ::
  "(string \<Rightarrow> bool) \<Rightarrow> peer_answers \<Rightarrow> node_replicate_request \<Rightarrow> ('p node, node_replicate_result) prog" where
  "do_replicate addr_ok peer req =
     (if \<not> addr_ok (nyr_from_addr req) then raise (InvalidArgument ''bad from_addr: {e}'')
      else and_then (lift (pa_connect peer)) (\<lambda>_.
     and_then (lift (pa_manifest peer)) (\<lambda>mresp.
     and_then (look nd_lib) (\<lambda>L.
     and_then (look nd_codecs) (\<lambda>K.
     let attempt_id = nyr_attempt_id req in
     if \<not> fmr_ok mresp then give (replicate_result attempt_id (fmr_error mresp) None False)
     else and_then (lift (ok_or (ProtocolError ''missing manifest bytes'') (fmr_manifest_bytes mresp))) (\<lambda>manifest_bytes.
     if sha256_hex L manifest_bytes \<noteq> nyr_expected_manifest_digest req
     then give (replicate_result attempt_id
            (Some ''source manifest does not match coordinator anchor'') None False)
     else and_then (lift (manifest_parse L manifest_bytes)) (\<lambda>manifest.
     if m_checkpoint_id manifest \<noteq> nyr_checkpoint_id req
     then raise (IntegrityFailure ''replication manifest checkpoint id mismatch'')
     else and_then (my_staging attempt_id) (\<lambda>staging.
     and_then (lease_staging staging) (\<lambda>_.
     and_then (on_disk (fresh_staging staging)) (\<lambda>_.
     and_then (on_disk (write_replica_files L staging manifest_bytes manifest)) (\<lambda>_.
     fill_replica L K peer req staging (fmr_components mresp) manifest)))))))))))"

subsection \<open>Serving a replica\<close>

definition serve_manifest :: "fetch_manifest_request \<Rightarrow> ('p node, fetch_manifest_response) prog" where
  "serve_manifest req =
     and_then (check_token (fmq_checkpoint_id req) (fmq_fetch_token req)) (\<lambda>_.
     and_then (my_commit (fmq_checkpoint_id req)) (\<lambda>commit.
     and_then (rename_error (\<lambda>_. CorruptedCheckpoint ''no replica of {}'')
        (on_disk (fs_read (commit @ [''manifest''])))) (\<lambda>manifest_bytes.
     and_then (look nd_lib) (\<lambda>L.
     and_then (lift (manifest_parse L manifest_bytes)) (\<lambda>manifest.
     give \<lparr>fmr_ok = True, fmr_error = None, fmr_manifest_bytes = Some manifest_bytes,
           fmr_components = m_components manifest\<rparr>)))))"

definition CHUNK :: nat where
  "CHUNK = 2 ^ 20"

text \<open>A read at an offset returns the bytes there, at most \<open>CHUNK\<close> of them. An offset that is
  negative as an \<open>i64\<close> is refused by the seek.\<close>

definition chunk_at :: "bytes \<Rightarrow> u64 \<Rightarrow> fetch_chunk_response" where
  "chunk_at b offset =
     (let buf = take CHUNK (drop (unat offset) b) in
      \<lparr>fcr_ok = True, fcr_error = None, fcr_offset = offset, fcr_bytes = buf,
       fcr_last = (sat_add_len offset buf \<ge> of_nat (length b))\<rparr>)"

definition serve_component :: "fetch_component_request \<Rightarrow> ('p node, fetch_chunk_response) prog" where
  "serve_component req =
     and_then (check_token (fcq_checkpoint_id req) (fcq_fetch_token req)) (\<lambda>_.
     and_then (my_commit (fcq_checkpoint_id req)) (\<lambda>commit.
     and_then (lift (safe_join commit (''components/'' @ sanitize_segment (fcq_component_id req)))) (\<lambda>path.
     and_then (on_disk (ask (fs_is_file path))) (\<lambda>file.
     if \<not> file
     then give \<lparr>fcr_ok = False, fcr_error = Some (''component '' @ quoted (fcq_component_id req) @ '' not found''),
                fcr_offset = fcq_offset req, fcr_bytes = [], fcr_last = True\<rparr>
     else and_then (on_disk (fs_read path)) (\<lambda>b.
       if fcq_offset req \<ge> 0x8000000000000000 then raise fs_error
       else give (chunk_at b (fcq_offset req)))))))"

subsection \<open>Dispatch\<close>

datatype node_request =
    NqPing
  | NqHello
  | NqCapture node_capture_request
  | NqPromote node_promote_request
  | NqResume node_resume_request
  | NqRestore node_restore_request
  | NqVerify node_verify_request
  | NqProbe node_probe_request
  | NqCleanup node_cleanup_request
  | NqReplicate node_replicate_request peer_answers
  | NqAllowFetch node_allow_fetch_request
  | NqDetach ident
  | NqFetchManifest fetch_manifest_request
  | NqFetchComponent fetch_component_request
  | NqOther op_code

datatype node_response =
    NpPong
  | NpEnvelope envelope
  | NpCapture node_capture_result
  | NpPromote node_promote_result
  | NpResume node_resume_result
  | NpRestore node_restore_result
  | NpVerify node_verify_result
  | NpProbe node_probe_result
  | NpCleanup node_cleanup_result
  | NpReplicate node_replicate_result
  | NpManifest fetch_manifest_response
  | NpChunk fetch_chunk_response

definition fenced :: "u64 \<Rightarrow> ('a \<Rightarrow> node_response) \<Rightarrow> ('p node, 'a) prog \<Rightarrow> ('p node, node_response) prog" where
  "fenced epoch wrap m = and_then (check_epoch epoch) (\<lambda>_. and_then m (\<lambda>x. give (wrap x)))"

text \<open>The expiry is a \<open>u64\<close> sum, which wraps in a release build.\<close>

definition allow_fetch :: "node_allow_fetch_request \<Rightarrow> ('p node, envelope) prog" where
  "allow_fetch req = and_then node_now (\<lambda>now.
     and_then (change (\<lambda>s. s\<lparr>nd_fetch_tokens := tab_insert (nar_checkpoint_id req, nar_fetch_token req)
        (now + nar_ttl_ms req) (nd_fetch_tokens s)\<rparr>)) (\<lambda>_.
     give envelope_ok))"

fun node_dispatch ::
  "(string \<Rightarrow> bool) \<Rightarrow> node_request \<Rightarrow> ('p node, node_response) prog" where
  "node_dispatch addr_ok NqPing = give NpPong"
| "node_dispatch addr_ok NqHello = give (NpEnvelope envelope_ok)"
| "node_dispatch addr_ok (NqCapture q) = fenced (ncr_coordinator_epoch q) NpCapture (do_capture q)"
| "node_dispatch addr_ok (NqPromote q) = fenced (nmr_coordinator_epoch q) NpPromote (do_promote q)"
| "node_dispatch addr_ok (NqResume q) = fenced (nur_coordinator_epoch q) NpResume (do_resume q)"
| "node_dispatch addr_ok (NqRestore q) = fenced (nrr_coordinator_epoch q) NpRestore (do_restore q)"
| "node_dispatch addr_ok (NqVerify q) = fenced (nvr_coordinator_epoch q) NpVerify (do_verify q)"
| "node_dispatch addr_ok (NqProbe q) = fenced (npr_coordinator_epoch q) NpProbe (do_probe q)"
| "node_dispatch addr_ok (NqCleanup q) = fenced (nlr_coordinator_epoch q) NpCleanup (do_cleanup q)"
| "node_dispatch addr_ok (NqReplicate q peer) =
     fenced (nyr_coordinator_epoch q) NpReplicate (do_replicate addr_ok peer q)"
| "node_dispatch addr_ok (NqAllowFetch q) = fenced (nar_coordinator_epoch q) NpEnvelope (allow_fetch q)"
| "node_dispatch addr_ok (NqDetach w) =
     and_then (node_detach_workload w) (\<lambda>_. give (NpEnvelope envelope_ok))"
| "node_dispatch addr_ok (NqFetchManifest q) = and_then (serve_manifest q) (\<lambda>x. give (NpManifest x))"
| "node_dispatch addr_ok (NqFetchComponent q) = and_then (serve_component q) (\<lambda>x. give (NpChunk x))"
| "node_dispatch addr_ok (NqOther op) = raise (ProtocolError ''node cannot serve op {op:?}'')"

subsection \<open>Registration and heartbeats\<close>

record node_config =
  nc_listen_addr :: string
  nc_data_dir :: string
  nc_runtime :: runtime_descriptor
  nc_hardware :: hardware_descriptor
  nc_resources :: json

definition register_request :: "node_config \<Rightarrow> ('p node, node_register_request) prog" where
  "register_request cfg =
     and_then (look nd_hex_decode) (\<lambda>dec.
     and_then (look nd_root) (\<lambda>root.
     and_then (on_disk (enumerate_committed dec root)) (\<lambda>committed.
     look (\<lambda>s. \<lparr>rgr_node_id = nd_node_id s, rgr_listen_addr = nc_listen_addr cfg,
       rgr_boot_id = nd_boot_id s, rgr_data_dir = nc_data_dir cfg, rgr_runtime = nc_runtime cfg,
       rgr_hardware = nc_hardware cfg, rgr_resources = nc_resources cfg,
       rgr_committed_checkpoints = committed, rgr_coordinator_epoch = nd_epoch s\<rparr>))))"

text \<open>The epoch of the answer is adopted also when the registration is rejected.\<close>

definition register_once ::
  "node_config \<Rightarrow> unit fabric_result \<Rightarrow> (node_register_request \<Rightarrow> node_register_response fabric_result)
     \<Rightarrow> ('p node, u64) prog" where
  "register_once cfg connect coordinator =
     and_then (lift connect) (\<lambda>_.
     and_then (register_request cfg) (\<lambda>req.
     and_then (lift (coordinator req)) (\<lambda>resp.
     and_then (change (\<lambda>s. s\<lparr>nd_epoch := rgs_coordinator_epoch resp\<rparr>)) (\<lambda>_.
     if rgs_accepted resp
     then and_then (change (\<lambda>s. s\<lparr>nd_connected := True\<rparr>)) (\<lambda>_. give (rgs_coordinator_epoch resp))
     else raise (FencingFailure (case rgs_error resp of None \<Rightarrow> ''registration rejected'' | Some e \<Rightarrow> e))))))"

text \<open>The attempts that fit before the deadline, one list element each.\<close>

fun register_with_retries ::
  "node_config \<Rightarrow> (unit fabric_result \<times> (node_register_request \<Rightarrow> node_register_response fabric_result)) list
     \<Rightarrow> fabric_error option \<Rightarrow> ('p node, unit) prog" where
  "register_with_retries cfg [] last_err =
     raise (case last_err of None \<Rightarrow> Timeout ''node registration timed out'' | Some e \<Rightarrow> e)"
| "register_with_retries cfg ((connect, coordinator) # rest) last_err =
     and_then (attempt (register_once cfg connect coordinator)) (\<lambda>r.
     case r of
       Inr epoch \<Rightarrow> change (\<lambda>s. s\<lparr>nd_epoch := epoch\<rparr>)
     | Inl e \<Rightarrow> register_with_retries cfg rest (Some e))"

definition node_start ::
  "node_config \<Rightarrow> string option
     \<Rightarrow> (unit fabric_result \<times> (node_register_request \<Rightarrow> node_register_response fabric_result)) list
     \<Rightarrow> ('p node, unit) prog" where
  "node_start cfg failpoints attempts =
     and_then (change (\<lambda>s. s\<lparr>nd_failpoints :=
        (case failpoints of None \<Rightarrow> nd_failpoints s | Some spec \<Rightarrow> arm_from_spec spec (nd_failpoints s))\<rparr>)) (\<lambda>_.
     and_then (look nd_root) (\<lambda>root.
     and_then (on_disk (local_storage_new root)) (\<lambda>_.
     and_then (on_disk (recover_partial root [])) (\<lambda>_.
     register_with_retries cfg attempts None))))"

definition heartbeat_request ::
  "json \<Rightarrow> 'p node \<Rightarrow> ident list \<Rightarrow> node_heartbeat_request" where
  "heartbeat_request resources s committed = \<lparr>
     hbr_node_id = nd_node_id s, hbr_boot_id = nd_boot_id s, hbr_coordinator_epoch = nd_epoch s,
     hbr_workloads = map (\<lambda>(w, a). \<lparr>hw_workload_id = w, hw_fence_token = aw_fence_token a,
        hw_execution_epoch = aw_execution_epoch a\<rparr>) (nd_attached s),
     hbr_resources = resources, hbr_committed_checkpoints = committed,
     hbr_provider_versions = provider_versions (nd_providers s)\<rparr>"

definition heartbeat_tick ::
  "json \<Rightarrow> (node_heartbeat_request \<Rightarrow> node_heartbeat_response fabric_result)
     \<Rightarrow> ('p node, bool) prog" where
  "heartbeat_tick resources coordinator =
     and_then (look nd_connected) (\<lambda>connected.
     if \<not> connected then give False
     else and_then (look nd_hex_decode) (\<lambda>dec.
     and_then (look nd_root) (\<lambda>root.
     and_then (attempt (on_disk (enumerate_committed dec root))) (\<lambda>r.
     and_then (look (\<lambda>s. heartbeat_request resources s (case r of Inl _ \<Rightarrow> [] | Inr is \<Rightarrow> is))) (\<lambda>req.
     case coordinator req of
       Inl _ \<Rightarrow> and_then (change (\<lambda>s. s\<lparr>nd_connected := False\<rparr>)) (\<lambda>_. give False)
     | Inr resp \<Rightarrow>
         if \<not> hbs_ok resp
         then and_then (change (\<lambda>s. s\<lparr>nd_connected := False\<rparr>)) (\<lambda>_. give False)
         else and_then (change (\<lambda>s. s\<lparr>nd_attached :=
                fold tab_remove (hbs_stale_workloads resp) (nd_attached s)\<rparr>)) (\<lambda>_. give True))))))"

text \<open>One round of the heartbeat thread: the failures in a row and the tick before it, and after
  it. \<open>old\<close> says which staging directories are past their age.\<close>

definition heartbeat_round ::
  "json \<Rightarrow> (path \<Rightarrow> bool) \<Rightarrow> (node_heartbeat_request \<Rightarrow> node_heartbeat_response fabric_result)
     \<Rightarrow> nat \<Rightarrow> nat \<Rightarrow> ('p node, nat \<times> nat) prog" where
  "heartbeat_round resources old coordinator failures tick =
     and_then (look nd_stop) (\<lambda>stop.
     if stop then give (failures, tick)
     else and_then (heartbeat_tick resources coordinator) (\<lambda>ok.
     let failures' = (if ok then 0 else failures + 1) in
     if \<not> ok \<and> failures' \<ge> 10
     then and_then (change (\<lambda>s. s\<lparr>nd_stop := True\<rparr>)) (\<lambda>_. give (failures', tick))
     else if (tick + 1) mod 10 = 0
     then and_then (look (\<lambda>s. (nd_root s, map fst (nd_staging_leases s)))) (\<lambda>(root, keep).
          and_then (ignore (on_disk (recover_partial_older_than root keep old))) (\<lambda>_.
          give (failures', tick + 1)))
     else give (failures', tick + 1)))"

definition node_shutdown :: "('p node, unit) prog" where
  "node_shutdown =
     and_then (change (\<lambda>s. s\<lparr>nd_stop := True, nd_connected := False\<rparr>)) (\<lambda>_.
     and_then (look nd_root) (\<lambda>root.
     and_then (ignore (on_disk (recover_partial root []))) (\<lambda>_.
     change (\<lambda>s. s\<lparr>nd_attached := []\<rparr>))))"

end
