(* ===== verification/StoredFiles.thy ===== *)
theory StoredFiles
  imports NodeReplica
begin

section \<open>Stored files and their verification\<close>

text \<open>What it means that a payload file verifies, as a predicate of the tree, and when the
  programs of \<open>integrity.rs\<close> and \<open>node.rs\<close> answer accordingly.\<close>

subsection \<open>Lines of hexadecimal text\<close>

definition hex_char :: "char \<Rightarrow> bool" where
  "hex_char c \<longleftrightarrow> (let n = of_char c :: nat in (48 \<le> n \<and> n < 58) \<or> (97 \<le> n \<and> n < 103))"

definition hex_text :: "string \<Rightarrow> bool" where
  "hex_text s \<longleftrightarrow> list_all hex_char s"

text \<open>What the development relies on of the hex crate: it renders lower-case digits.\<close>

definition hex_lib :: "lib \<Rightarrow> bool" where
  "hex_lib L \<longleftrightarrow> (\<forall>bs. hex_text (lib_hex_encode L bs))"

lemma bytes_string_bytes [simp]: "bytes_string (string_bytes s) = s"
  by (simp add: bytes_string_def)

lemma utf8_ascii: "list_all (\<lambda>b. b < 0x80) bs \<Longrightarrow> utf8_valid bs"
  by (induction bs) simp_all

lemma string_bytes_ascii:
  "list_all (\<lambda>c. (of_char c :: nat) < 128) s \<Longrightarrow> list_all (\<lambda>b. b < 0x80) (string_bytes s)"
  by (induction s) (auto simp: string_bytes_def word_less_nat_alt unat_of_nat)

lemma line_valid: "hex_text s \<Longrightarrow> utf8_valid (line s)"
  unfolding line_def
  by (intro utf8_ascii string_bytes_ascii)
    (auto simp: hex_text_def newline_def list_all_iff hex_char_def Let_def)

lemma hex_not_space: "hex_char c \<Longrightarrow> \<not> is_space c"
  by (auto simp: hex_char_def is_space_def Let_def)

lemma trim_hex:
  assumes "hex_text s"
  shows "trim (s @ newline) = s"
proof (cases s)
  case Nil
  have "is_space (CHR 0x0A)" by (simp add: is_space_def)
  then show ?thesis using Nil by (simp add: trim_def newline_def)
next
  case (Cons c cs)
  have sp: "is_space (CHR 0x0A)" by (simp add: is_space_def)
  have hd: "\<not> is_space c" using assms Cons hex_not_space by (simp add: hex_text_def)
  have "\<not> is_space (last s)" "s \<noteq> []"
    using assms Cons hex_not_space by (auto simp: hex_text_def list_all_iff)
  then have "dropWhile is_space (rev s) = rev s" by (cases s rule: rev_cases) auto
  then show ?thesis using hd sp by (simp add: trim_def newline_def Cons)
qed

lemma line_text [simp]: "hex_text s \<Longrightarrow> trim (bytes_string (line s)) = s"
  by (simp add: line_def trim_hex)

lemma nibble_hex: "n < 16 \<Longrightarrow> hex_char (nibble n)"
  by (auto simp: hex_char_def nibble_def Let_def)

lemma hex_enc_text: "hex_text (hex_enc bs)"
proof (induction bs)
  case (Cons b bs)
  have "unat b < 256" using unsigned_less [of b] by simp
  then have "unat b div 16 < 16" "unat b mod 16 < 16" by simp_all
  with Cons nibble_hex show ?case by (simp add: hex_text_def)
qed (simp add: hex_text_def)

lemma hex8_text [simp]: "hex_text (hex8 v)"
  by (simp add: hex8_def hex_enc_text)

lemma sha_text [simp]: "hex_lib L \<Longrightarrow> hex_text (sha256_hex L bs)"
  by (simp add: hex_lib_def sha256_hex_def)

subsection \<open>Files that verify\<close>

definition quiet :: "disk \<Rightarrow> bool" where
  "quiet d \<longleftrightarrow> (\<forall>n. dk_fault d n = None)"

definition crc_ok :: "codecs \<Rightarrow> fs_entry option \<Rightarrow> bytes \<Rightarrow> bool" where
  "crc_ok K e b = (case e of
     None \<Rightarrow> True
   | Some (FileE s) \<Rightarrow> utf8_valid s \<and> trim (bytes_string s) = hex8 (cd_crc32c K b)
   | Some DirE \<Rightarrow> False)"

definition stored_ok :: "lib \<Rightarrow> codecs \<Rightarrow> file_tree \<Rightarrow> path \<Rightarrow> string \<Rightarrow> u64 \<Rightarrow> bool" where
  "stored_ok L K t p hash len \<longleftrightarrow> (\<exists>b. fs_get t p = Some (FileE b) \<and> sha256_hex L b = hash \<and>
     of_nat (length b) = len \<and> crc_ok K (fs_get t (sidecar_crc_path p)) b)"

lemma crc_line [simp]: "crc_ok K (Some (FileE (line (hex8 (cd_crc32c K b))))) b"
  by (simp add: crc_ok_def line_valid)

text \<open>A verification reads only: it leaves the tree and the faults as they are.\<close>

definition reads_only :: "(disk, 'a) prog \<Rightarrow> bool" where
  "reads_only m \<longleftrightarrow> (\<forall>d r d'. m d = (r, d') \<longrightarrow> dk_tree d' = dk_tree d \<and> dk_fault d' = dk_fault d)"

lemma reads_onlyD: "reads_only m \<Longrightarrow> m d = (r, d') \<Longrightarrow> dk_tree d' = dk_tree d \<and> dk_fault d' = dk_fault d"
  by (simp add: reads_only_def)

lemma reads_only_basic [simp]:
  "reads_only (give x)" "reads_only (raise e)" "reads_only (lift r)" "reads_only (ask f)"
  "reads_only (fs_read p)" "reads_only (fs_sync p)" "reads_only (fs_read_dir p)"
  by (auto simp: reads_only_def fs_read_def fs_sync_def fs_read_dir_def sys_call_def Let_def ask_def
      split: option.splits fs_entry.splits if_splits)

lemma reads_only_and_then: "reads_only m \<Longrightarrow> (\<And>x. reads_only (f x)) \<Longrightarrow> reads_only (and_then m f)"
  unfolding reads_only_def and_then_def by (auto split: prod.splits sum.splits)

lemma reads_only_attempt [simp]: "reads_only m \<Longrightarrow> reads_only (attempt m)"
  by (auto simp: reads_only_def attempt_def split: prod.splits)

lemma reads_only_ignore [simp]: "reads_only m \<Longrightarrow> reads_only (ignore m)"
  unfolding ignore_def by (intro reads_only_and_then) simp_all

lemma reads_only_rename [simp]: "reads_only m \<Longrightarrow> reads_only (rename_error f m)"
  by (auto simp: reads_only_def rename_error_def split: prod.splits sum.splits)

lemma reads_only_for_each: "(\<And>x. reads_only (f x)) \<Longrightarrow> reads_only (for_each f xs)"
  by (induction xs) (auto intro: reads_only_and_then)

lemma reads_only_text [simp]: "reads_only (fs_read_to_string p)"
  unfolding fs_read_to_string_def by (intro reads_only_and_then) auto

lemma reads_only_verify [simp]: "reads_only (verify_stored_file L K p h n)"
proof -
  have hashes: "reads_only (sha256_file L p)" "reads_only (crc32c_file K p)"
    unfolding sha256_file_def crc32c_file_def by (intro reads_only_and_then; simp)+
  show ?thesis
    unfolding verify_stored_file_def
    by (intro reads_only_and_then) (auto intro!: reads_only_and_then hashes split: option.split fs_entry.split)
qed

subsection \<open>Runs without faults\<close>

text \<open>Without faults a reading call returns what the tree holds and counts itself; such runs are
  evaluated by these equations.\<close>

named_theorems quiet_runs "calls of a disk without faults"

lemma quiet_fault [simp]: "quiet d \<Longrightarrow> dk_fault d n = None"
  by (simp add: quiet_def)

lemma quiet_count [simp]: "quiet (d\<lparr>dk_calls := n\<rparr>) = quiet d"
  by (simp add: quiet_def)

lemma fs_read_quiet [quiet_runs]:
  "quiet d \<Longrightarrow> fs_get (dk_tree d) p = Some (FileE b) \<Longrightarrow>
     fs_read p d = (Inr b, d\<lparr>dk_calls := dk_calls d + 1\<rparr>)"
  by (simp add: fs_read_def sys_call_def)

lemma ask_quiet [quiet_runs]: "ask f d = (Inr (f (dk_tree d)), d)"
  by (simp add: ask_def)

lemma fs_read_to_string_quiet [quiet_runs]:
  "quiet d \<Longrightarrow> fs_get (dk_tree d) p = Some (FileE b) \<Longrightarrow> utf8_valid b \<Longrightarrow>
     fs_read_to_string p d = (Inr (bytes_string b), d\<lparr>dk_calls := dk_calls d + 1\<rparr>)"
  by (simp add: fs_read_to_string_def and_then_def fs_read_quiet give_def)

lemmas prog_eval = and_then_def give_def raise_def lift_def attempt_def rename_error_def

text \<open>A file that verifies is accepted.\<close>

lemma verify_stored_file_ok:
  assumes q: "quiet d" and ok: "stored_ok L K (dk_tree d) p h n"
  shows "\<exists>k. verify_stored_file L K p h (Some n) d = (Inr (), d\<lparr>dk_calls := k\<rparr>)"
proof -
  obtain b where b: "fs_get (dk_tree d) p = Some (FileE b)" "sha256_hex L b = h"
    "of_nat (length b) = n" "crc_ok K (fs_get (dk_tree d) (sidecar_crc_path p)) b"
    using ok by (auto simp: stored_ok_def)
  note eval = verify_stored_file_def sha256_file_def crc32c_file_def prog_eval quiet_runs fs_exists_def
  show ?thesis
  proof (cases "fs_get (dk_tree d) (sidecar_crc_path p)")
    case None
    then show ?thesis using q b by (auto simp: eval)
  next
    case (Some e)
    with b(4) obtain s where "e = FileE s" "utf8_valid s" "trim (bytes_string s) = hex8 (cd_crc32c K b)"
      by (cases e) (auto simp: crc_ok_def)
    with Some show ?thesis using q b by (auto simp: eval)
  qed
qed

text \<open>And only such a file is, whatever fails on the way.\<close>

lemma fs_read_to_string_Inr:
  "fs_read_to_string p d = (Inr s, d') \<Longrightarrow>
     (\<exists>b. fs_get (dk_tree d) p = Some (FileE b) \<and> utf8_valid b \<and> s = bytes_string b) \<and>
     dk_tree d' = dk_tree d \<and> dk_fault d' = dk_fault d"
  by (auto simp: fs_read_to_string_def and_then_Inr fs_read_Inr split: if_splits)

lemma verify_stored_file_sound:
  assumes "verify_stored_file L K p h (Some n) d = (Inr u, d')"
  shows "stored_ok L K (dk_tree d) p h n"
proof -
  obtain b where b: "fs_get (dk_tree d) p = Some (FileE b)" "of_nat (length b) = n"
    using assms
    by (auto simp: verify_stored_file_def and_then_Inr split: option.splits fs_entry.splits if_splits)
  note run = assms[unfolded verify_stored_file_def and_then_Inr ask_eq]
  show ?thesis
  proof (cases "fs_get (dk_tree d) (sidecar_crc_path p)")
    case None
    with run b show ?thesis
      by (auto simp: fs_exists_def stored_ok_def crc_ok_def sha256_file_def and_then_Inr fs_read_Inr
          split: if_splits)
  next
    case (Some e)
    with run b show ?thesis
      by (auto simp: fs_exists_def stored_ok_def crc_ok_def sha256_file_def crc32c_file_def and_then_Inr
          fs_read_Inr split: if_splits dest!: fs_read_to_string_Inr)
  qed
qed

subsection \<open>Replicas that verify\<close>

definition component_ok :: "lib \<Rightarrow> codecs \<Rightarrow> file_tree \<Rightarrow> path \<Rightarrow> component_entry \<Rightarrow> bool" where
  "component_ok L K t commit c \<longleftrightarrow>
     (\<exists>p. safe_join commit (sr_relative_path (ce_storage_representation c)) = Inr p \<and>
       stored_ok L K t p (sr_stored_hash (ce_storage_representation c))
         (sr_stored_size (ce_storage_representation c)))"

text \<open>The directory holds the manifest the digest anchors, the digest beside it, and every
  component of the manifest in the form the manifest records.\<close>

definition replica_ok :: "lib \<Rightarrow> codecs \<Rightarrow> file_tree \<Rightarrow> path \<Rightarrow> string \<Rightarrow> manifest \<Rightarrow> bool" where
  "replica_ok L K t commit digest m \<longleftrightarrow>
     (\<exists>b f. fs_get t (commit @ [''manifest'']) = Some (FileE b) \<and> sha256_hex L b = digest \<and>
        manifest_parse L b = Inr m \<and>
        fs_get t (commit @ [''manifest.digest'']) = Some (FileE f) \<and> utf8_valid f \<and>
        trim (bytes_string f) = digest) \<and>
     (\<forall>c \<in> set (m_components m). component_ok L K t commit c)"

lemma verify_components_ok:
  assumes "quiet d" "\<forall>c \<in> set cs. component_ok L K (dk_tree d) commit c"
  shows "\<exists>k. verify_components L K commit cs d = (Inr None, d\<lparr>dk_calls := k\<rparr>)"
  using assms
proof (induction cs arbitrary: d)
  case Nil
  then show ?case by (auto simp: give_def intro: exI [of _ "dk_calls d"])
next
  case (Cons c cs)
  let ?r = "ce_storage_representation c"
  from Cons.prems obtain p where p: "safe_join commit (sr_relative_path ?r) = Inr p"
    "stored_ok L K (dk_tree d) p (sr_stored_hash ?r) (sr_stored_size ?r)"
    by (auto simp: component_ok_def)
  from verify_stored_file_ok [OF Cons.prems(1) p(2)] obtain k where
    k: "verify_stored_file L K p (sr_stored_hash ?r) (Some (sr_stored_size ?r)) d = (Inr (), d\<lparr>dk_calls := k\<rparr>)"
    by blast
  from Cons.IH [of "d\<lparr>dk_calls := k\<rparr>"] Cons.prems show ?case
    using p(1) k by (auto simp: prog_eval Let_def)
qed

lemma verify_components_sound:
  "verify_components L K commit cs d = (Inr None, d') \<Longrightarrow> \<forall>c \<in> set cs. component_ok L K (dk_tree d) commit c"
proof (induction cs arbitrary: d)
  case (Cons c cs)
  let ?r = "ce_storage_representation c"
  from Cons.prems obtain p d1 where p: "safe_join commit (sr_relative_path ?r) = Inr p"
    and v: "verify_stored_file L K p (sr_stored_hash ?r) (Some (sr_stored_size ?r)) d = (Inr (), d1)"
    and r: "verify_components L K commit cs d1 = (Inr None, d')"
    by (auto simp: and_then_Inr Let_def split: sum.splits)
  have "dk_tree d1 = dk_tree d" using reads_onlyD [OF reads_only_verify v] by simp
  with Cons.IH [OF r] p verify_stored_file_sound [OF v] show ?case by (auto simp: component_ok_def)
qed simp

lemma check_components_sound:
  "check_components L K commit cs d = (Inr None, d') \<Longrightarrow>
     (\<forall>c \<in> set cs. component_ok L K (dk_tree d) commit c) \<and> dk_tree d' = dk_tree d"
proof (induction cs arbitrary: d)
  case (Cons c cs)
  let ?r = "ce_storage_representation c"
  from Cons.prems obtain p d1 where p: "safe_join commit (sr_relative_path ?r) = Inr p"
    and v: "verify_stored_file L K p (sr_stored_hash ?r) (Some (sr_stored_size ?r)) d = (Inr (), d1)"
    and r: "check_components L K commit cs d1 = (Inr None, d')"
    by (auto simp: and_then_Inr Let_def split: sum.splits if_splits)
  have "dk_tree d1 = dk_tree d" using reads_onlyD [OF reads_only_verify v] by simp
  with Cons.IH [OF r] p verify_stored_file_sound [OF v] show ?case by (auto simp: component_ok_def)
qed simp

lemma on_disk_Inr:
  "on_disk m s = (Inr x, s') \<longleftrightarrow> (\<exists>d. m (nd_disk s) = (Inr x, d) \<and> s' = s\<lparr>nd_disk := d\<rparr>)"
  by (auto simp: on_disk_def zoom_def split: prod.splits)

lemma on_disk_Inl:
  "on_disk m s = (Inl e, s') \<longleftrightarrow> (\<exists>d. m (nd_disk s) = (Inl e, d) \<and> s' = s\<lparr>nd_disk := d\<rparr>)"
  by (auto simp: on_disk_def zoom_def split: prod.splits)

lemma sidecar_digest_Inr:
  "sidecar_digest commit d = (Inr s, d') \<Longrightarrow> s \<noteq> [] \<Longrightarrow>
     \<exists>f. fs_get (dk_tree d) (commit @ [''manifest.digest'']) = Some (FileE f) \<and> utf8_valid f \<and>
       s = trim (bytes_string f)"
  by (auto simp: sidecar_digest_def and_then_Inr dest!: fs_read_to_string_Inr split: sum.splits)

lemma reads_only_sidecar [simp]: "reads_only (sidecar_digest commit)"
  unfolding sidecar_digest_def by (intro reads_only_and_then) simp_all

text \<open>A replica verifies exactly when it is one: without faults the answer is positive, and a
  positive answer is right, whatever failed.\<close>

lemma do_verify_ok:
  assumes "quiet (nd_disk s)"
    and "replica_ok (nd_lib s) (nd_codecs s) (dk_tree (nd_disk s))
      (commit_path (nd_lib s) (nd_root s) (nvr_checkpoint_id req)) (nvr_expected_manifest_digest req) m"
  shows "\<exists>k. do_verify req s = (Inr (verify_result (nvr_checkpoint_id req) None
      (Some (nvr_expected_manifest_digest req))), s\<lparr>nd_disk := (nd_disk s)\<lparr>dk_calls := k\<rparr>\<rparr>)"
proof -
  let ?commit = "commit_path (nd_lib s) (nd_root s) (nvr_checkpoint_id req)"
  let ?d = "nd_disk s"
  obtain b f where b: "fs_get (dk_tree ?d) (?commit @ [''manifest'']) = Some (FileE b)"
    "sha256_hex (nd_lib s) b = nvr_expected_manifest_digest req" "manifest_parse (nd_lib s) b = Inr m"
    and f: "fs_get (dk_tree ?d) (?commit @ [''manifest.digest'']) = Some (FileE f)" "utf8_valid f"
    "trim (bytes_string f) = nvr_expected_manifest_digest req"
    and cs: "\<forall>c \<in> set (m_components m). component_ok (nd_lib s) (nd_codecs s) (dk_tree ?d) ?commit c"
    using assms(2) by (auto simp: replica_ok_def)
  from verify_components_ok [of "?d\<lparr>dk_calls := dk_calls ?d + 2\<rparr>", OF _] cs assms(1) obtain k where
    k: "verify_components (nd_lib s) (nd_codecs s) ?commit (m_components m)
      (?d\<lparr>dk_calls := dk_calls ?d + 2\<rparr>) = (Inr None, ?d\<lparr>dk_calls := k\<rparr>)" by fastforce
  show ?thesis
    using assms(1) b f k
    by (auto simp: do_verify_def prog_eval look_def my_commit_def on_disk_def zoom_def quiet_runs
        sidecar_digest_def Let_def)
qed

lemma do_verify_sound:
  assumes "do_verify req s = (Inr r, s')" "nvs_ok r" "nvr_expected_manifest_digest req \<noteq> []"
  shows "\<exists>m. replica_ok (nd_lib s) (nd_codecs s) (dk_tree (nd_disk s))
      (commit_path (nd_lib s) (nd_root s) (nvr_checkpoint_id req)) (nvr_expected_manifest_digest req) m"
proof -
  let ?commit = "commit_path (nd_lib s) (nd_root s) (nvr_checkpoint_id req)"
  from assms obtain b d1 d2 d3 f m where
    r: "fs_read (?commit @ [''manifest'']) (nd_disk s) = (Inr b, d1)"
    and m: "manifest_parse (nd_lib s) b = Inr m"
    and f: "sidecar_digest ?commit d1 = (Inr f, d2)" "f = sha256_hex (nd_lib s) b"
      "f = nvr_expected_manifest_digest req"
    and v: "verify_components (nd_lib s) (nd_codecs s) ?commit (m_components m) d2 = (Inr None, d3)"
    by (auto simp: do_verify_def and_then_Inr my_commit_def on_disk_Inr on_disk_Inl verify_result_def Let_def
        split: sum.splits if_splits)
  have t: "dk_tree d1 = dk_tree (nd_disk s)" "dk_tree d2 = dk_tree (nd_disk s)"
    using reads_onlyD [OF reads_only_basic(5) r] reads_onlyD [OF reads_only_sidecar f(1)] by simp_all
  show ?thesis
    using r m f assms(3) t verify_components_sound [OF v] sidecar_digest_Inr [OF f(1)]
    by (fastforce simp: replica_ok_def fs_read_Inr)
qed

end
