(* ===== verification/NodeProps.thy ===== *)
theory NodeProps
  imports StoredFiles
begin

section \<open>What a node's storage guarantees\<close>

text \<open>A replica fetched from any peer verifies, a capture that was promoted verifies, a restore
  checks before it applies, and a cleanup stays where it may.\<close>

subsection \<open>Paths of components\<close>

lemma split_slash_none: "\<forall>c \<in> set xs. c \<noteq> CHR ''/'' \<Longrightarrow> split_slash acc xs = [rev acc @ xs]"
  by (induction xs arbitrary: acc) auto

lemma safe_no_slash: "sanitize_segment i = i \<Longrightarrow> \<forall>c \<in> set i. c \<noteq> CHR ''/''"
  by (auto simp: sanitize_id_iff safe_char_def ascii_alnum_def Let_def)

lemma component_components:
  assumes "sanitize_segment i = i"
  shows "path_components (''components/'' @ i) = [''components'', i]"
proof -
  have "split_slash [] i = [i]" using split_slash_none [OF safe_no_slash [OF assms]] by simp
  then have "split_slash [] (''components/'' @ i) = [''components'', i]" by simp
  moreover have "i \<noteq> []" "i \<noteq> ''.''" using assms by (auto simp: sanitize_id_iff)
  ultimately show ?thesis by (simp add: path_components_def)
qed

lemma safe_join_component:
  "sanitize_segment i = i \<Longrightarrow> safe_join base (''components/'' @ i) = Inr (base @ [''components'', i])"
  using component_components [of i] by (auto simp: safe_join_def sanitize_id_iff)

lemmas safe_join_cons = safe_join_component [simplified]

lemma with_suffix_append [simp]: "with_suffix (p @ [x]) s = p @ [x @ s]"
  by (simp add: with_suffix_def)

lemma with_suffix_append2 [simp]: "with_suffix (p @ [a, x]) s = p @ [a, x @ s]"
  using with_suffix_append [of "p @ [a]" x s] by simp

lemma with_suffix_under: "r \<noteq> [] \<Longrightarrow> with_suffix (p @ r) s = p @ with_suffix r s"
  by (simp add: with_suffix_def butlast_append)

lemma not_root_long [simp]: "\<not> is_root (p @ [a, b])"
  by (cases p) (auto simp: is_root_def)

subsection \<open>Trees that differ in a few paths\<close>

definition agree_off :: "path set \<Rightarrow> file_tree \<Rightarrow> file_tree \<Rightarrow> bool" where
  "agree_off W t t' \<longleftrightarrow> (\<forall>q. q \<notin> W \<longrightarrow> fs_get t' q = fs_get t q)"

lemma agree_refl [simp]: "agree_off W t t"
  by (simp add: agree_off_def)

lemma agree_trans: "agree_off V t u \<Longrightarrow> agree_off W u v \<Longrightarrow> V \<subseteq> X \<Longrightarrow> W \<subseteq> X \<Longrightarrow> agree_off X t v"
  unfolding agree_off_def by (metis subsetD)

lemma agree_put: "\<not> is_root p \<Longrightarrow> p \<in> W \<Longrightarrow> agree_off W t (fs_put p e t)"
  by (auto simp: agree_off_def fs_get_put)

lemma agreeD: "agree_off W t t' \<Longrightarrow> q \<notin> W \<Longrightarrow> fs_get t' q = fs_get t q"
  by (simp add: agree_off_def)

lemma stored_ok_cong:
  "fs_get t' p = fs_get t p \<Longrightarrow> fs_get t' (sidecar_crc_path p) = fs_get t (sidecar_crc_path p) \<Longrightarrow>
     stored_ok L K t' p h n = stored_ok L K t p h n"
  by (simp add: stored_ok_def)

subsection \<open>Fetching a component\<close>

lemma unat_sat_add_len: "unat (sat_add_len a xs) = min (unat a + length xs) (2 ^ 64 - 1)"
  by (simp add: sat_add_len_def unat_of_nat min_def)

lemma fetch_loop_stores:
  assumes "fetch_loop dest c off as d = (Inr (Fetched n rest), d')"
    and "fs_get (dk_tree d) dest = Some (FileE acc)" "length acc = unat off"
    and "sr_stored_size (ce_storage_representation c) < u64_max"
  shows "\<exists>b. fs_get (dk_tree d') dest = Some (FileE b) \<and> length b = unat n \<and>
    agree_off {dest} (dk_tree d) (dk_tree d')"
  using assms(1-3)
proof (induction as arbitrary: off d acc)
  case (Cons a as)
  let ?size = "sr_stored_size (ce_storage_representation c)"
  from Cons.prems(1) obtain chunk where a: "a = Inr chunk" by (cases a) auto
  let ?off = "sat_add_len off (fcr_bytes chunk)"
  from Cons.prems(1) a obtain d1 where w: "fs_append dest (fcr_bytes chunk) d = (Inr (), d1)"
    and le: "\<not> ?size < ?off"
    and r: "(if fcr_last chunk then give (Fetched ?off as) else fetch_loop dest c ?off as) d1 = (Inr (Fetched n rest), d')"
    by (auto simp: and_then_Inr Let_def split: if_splits)
  have root: "\<not> is_root dest" using w by (auto simp: fs_append_Inr writable_def)
  have t1: "dk_tree d1 = fs_put dest (FileE (acc @ fcr_bytes chunk)) (dk_tree d)"
    using w Cons.prems(2) by (simp add: fs_append_Inr file_bytes_def)
  have "unat ?off < 2 ^ 64 - 1" using le assms(4) by (simp add: word_less_nat_alt)
  then have len: "length (acc @ fcr_bytes chunk) = unat ?off"
    using Cons.prems(3) by (simp add: unat_sat_add_len min_def split: if_splits)
  have g1: "fs_get (dk_tree d1) dest = Some (FileE (acc @ fcr_bytes chunk))"
    and ag: "agree_off {dest} (dk_tree d) (dk_tree d1)"
    using root by (simp_all add: t1 fs_get_put agree_put)
  show ?case
  proof (cases "fcr_last chunk")
    case True
    with r have "d' = d1" "n = ?off" by simp_all
    with g1 ag len show ?thesis by blast
  next
    case False
    with r have "fetch_loop dest c ?off as d1 = (Inr (Fetched n rest), d')" by simp
    from Cons.IH [OF this g1 len] ag show ?thesis
      using agree_trans [where X = "{dest}"] by blast
  qed
qed simp

definition component_paths :: "path \<Rightarrow> string \<Rightarrow> path set" where
  "component_paths dir i = {dir @ [''components'', i], dir @ [''components'', i @ ''.crc32c''],
     dir @ [''components'', i @ ''.sha256''], dir @ [''integrity'', i @ ''.sha256'']}"

text \<open>The component lies in the directory under its own name, in the form its entry records.\<close>

definition component_stored :: "lib \<Rightarrow> codecs \<Rightarrow> file_tree \<Rightarrow> path \<Rightarrow> component_entry \<Rightarrow> bool" where
  "component_stored L K t dir c \<longleftrightarrow>
     sanitize_segment (ce_component_id c) = ce_component_id c \<and>
     sr_relative_path (ce_storage_representation c) = ''components/'' @ ce_component_id c \<and>
     stored_ok L K t (dir @ [''components'', ce_component_id c])
       (sr_stored_hash (ce_storage_representation c)) (sr_stored_size (ce_storage_representation c))"

lemma component_stored_ok: "component_stored L K t dir c \<Longrightarrow> component_ok L K t dir c"
  by (auto simp: component_stored_def component_ok_def safe_join_cons)

lemma fetch_component_stores:
  assumes "fetch_component L K staging c as d = (Inr (Inr rest), d')" "hex_lib L"
    and "sr_stored_size (ce_storage_representation c) < u64_max"
  shows "component_stored L K (dk_tree d') staging c \<and>
    agree_off (component_paths staging (ce_component_id c)) (dk_tree d) (dk_tree d')"
proof -
  let ?i = "ce_component_id c" and ?r = "ce_storage_representation c"
  let ?p = "staging @ [''components'', ?i]" and ?W = "component_paths staging (ce_component_id c)"
  have id: "sanitize_segment ?i = ?i" and rel: "sr_relative_path ?r = ''components/'' @ ?i"
    using assms(1) by (auto simp: fetch_component_def Let_def split: if_splits)
  note run = assms(1)[unfolded fetch_component_def Let_def]
  from run id rel obtain d1 d2 out where w: "fs_write ?p [] d = (Inr (), d1)"
    and l': "fetch_loop ?p c 0 as d1 = (Inr out, d2)"
    and k: "settle_component L K staging c ?p out d2 = (Inr (Inr rest), d')"
    by (auto simp: and_then_Inr safe_join_cons)
  from k obtain n as' where out: "out = Fetched n as'" by (cases out) (auto simp: settle_component_def)
  from k obtain d3 d4 d5 d6 b where n: "n = sr_stored_size ?r" and s: "fs_sync ?p d2 = (Inr (), d3)"
    and rd: "fs_read ?p d3 = (Inr b, d4)" and h: "sha256_hex L b = sr_stored_hash ?r"
    and c1: "fs_write (sidecar_crc_path ?p) (line (hex8 (cd_crc32c K b))) d4 = (Inr (), d5)"
    and c2: "fs_write (sidecar_sha_path ?p) (line (sha256_hex L b)) d5 = (Inr (), d6)"
    and c3: "fs_write (staging @ [''integrity'', ?i @ ''.sha256'']) (line (ce_content_hash c)) d6 = (Inr (), d')"
    using id by (auto simp: settle_component_def Let_def integrity_path_def out and_then_Inr split: if_splits)
  have l: "fetch_loop ?p c 0 as d1 = (Inr (Fetched n as'), d2)" using l' out by simp
  have t1: "dk_tree d1 = fs_put ?p (FileE []) (dk_tree d)" using w by (simp add: fs_write_Inr)
  have "fs_get (dk_tree d1) ?p = Some (FileE [])" by (simp add: t1 fs_get_put)
  from fetch_loop_stores [OF l this _ assms(3)] obtain b' where
    b': "fs_get (dk_tree d2) ?p = Some (FileE b')" "length b' = unat n" and a2: "agree_off {?p} (dk_tree d1) (dk_tree d2)"
    by auto
  have t34: "dk_tree d3 = dk_tree d2" "dk_tree d4 = dk_tree d2" "b = b'"
    using reads_onlyD [OF reads_only_basic(6) s] rd b'(1) by (auto simp: fs_read_Inr)
  have t5: "dk_tree d5 = fs_put (sidecar_crc_path ?p) (FileE (line (hex8 (cd_crc32c K b)))) (dk_tree d2)"
    and t6: "dk_tree d6 = fs_put (sidecar_sha_path ?p) (FileE (line (sha256_hex L b))) (dk_tree d5)"
    and t7: "dk_tree d' = fs_put (staging @ [''integrity'', ?i @ ''.sha256'']) (FileE (line (ce_content_hash c))) (dk_tree d6)"
    using c1 c2 c3 t34 by (simp_all add: fs_write_Inr)
  have fin: "fs_get (dk_tree d') ?p = Some (FileE b)"
    "fs_get (dk_tree d') (sidecar_crc_path ?p) = Some (FileE (line (hex8 (cd_crc32c K b))))"
    using b'(1) t34 by (auto simp: t5 t6 t7 fs_get_put)
  have "agree_off ?W (dk_tree d) (dk_tree d')"
    using a2 by (auto simp: agree_off_def t1 t5 t6 t7 fs_get_put component_paths_def)
  moreover have "of_nat (length b) = sr_stored_size ?r" using b'(2) t34(3) n by simp
  ultimately show ?thesis
    using id rel fin h by (auto simp: component_stored_def stored_ok_def)
qed

text \<open>No component is another's sidecar file, and none occurs twice.\<close>

definition sidecar_free :: "string list \<Rightarrow> bool" where
  "sidecar_free ids \<longleftrightarrow> distinct ids \<and>
     (\<forall>a \<in> set ids. \<forall>b \<in> set ids. a \<noteq> b @ ''.crc32c'' \<and> a \<noteq> b @ ''.sha256'')"

lemma suffixes_differ: "a @ ''.crc32c'' \<noteq> b @ ''.sha256''"
proof
  assume "a @ ''.crc32c'' = b @ ''.sha256''"
  then have "last (a @ ''.crc32c'') = last (b @ ''.sha256'')" by (rule arg_cong)
  then show False by simp
qed

lemma component_stored_kept:
  assumes "component_stored L K t dir c" "agree_off (component_paths dir j) t t'"
    and "ce_component_id c \<noteq> j" "ce_component_id c \<noteq> j @ ''.crc32c''" "ce_component_id c \<noteq> j @ ''.sha256''"
    and "j \<noteq> ce_component_id c @ ''.crc32c''"
  shows "component_stored L K t' dir c"
proof -
  let ?p = "dir @ [''components'', ce_component_id c]"
  have "?p \<notin> component_paths dir j" "sidecar_crc_path ?p \<notin> component_paths dir j"
    using assms(3-6) suffixes_differ [of "ce_component_id c" j]
    by (auto simp: component_paths_def)
  then have "fs_get t' ?p = fs_get t ?p" "fs_get t' (sidecar_crc_path ?p) = fs_get t (sidecar_crc_path ?p)"
    using assms(2) by (auto dest: agreeD)
  with assms(1) show ?thesis by (simp add: component_stored_def stored_ok_def)
qed

lemma fetch_components_store:
  assumes "fetch_components L K staging cs as d = (Inr (Inr rest), d')" "hex_lib L"
    and "\<forall>c \<in> set cs. sr_stored_size (ce_storage_representation c) < u64_max"
    and "sidecar_free (map ce_component_id cs)"
  shows "(\<forall>c \<in> set cs. component_stored L K (dk_tree d') staging c) \<and>
    agree_off (\<Union>c \<in> set cs. component_paths staging (ce_component_id c)) (dk_tree d) (dk_tree d') \<and>
    (\<forall>c0. component_stored L K (dk_tree d) staging c0 \<longrightarrow>
       sidecar_free (map ce_component_id (c0 # cs)) \<longrightarrow> component_stored L K (dk_tree d') staging c0)"
  using assms(1,3,4)
proof (induction cs arbitrary: as d)
  case (Cons c cs)
  from Cons.prems(1) obtain as1 d1 where f: "fetch_component L K staging c as d = (Inr (Inr as1), d1)"
    and r: "fetch_components L K staging cs as1 d1 = (Inr (Inr rest), d')"
    by (auto simp: and_then_Inr split: sum.splits)
  have free: "sidecar_free (map ce_component_id cs)" using Cons.prems(3) by (auto simp: sidecar_free_def)
  note one = fetch_component_stores [OF f assms(2)]
  have c1: "component_stored L K (dk_tree d1) staging c"
    and a1: "agree_off (component_paths staging (ce_component_id c)) (dk_tree d) (dk_tree d1)"
    using one Cons.prems(2) by simp_all
  note rest = Cons.IH [OF r _ free]
  have "component_stored L K (dk_tree d') staging c" using rest c1 Cons.prems(2,3) by simp
  moreover have "component_stored L K (dk_tree d') staging c0"
    if "component_stored L K (dk_tree d) staging c0" "sidecar_free (map ce_component_id (c0 # c # cs))" for c0
  proof -
    have "component_stored L K (dk_tree d1) staging c0"
      by (rule component_stored_kept [OF that(1) a1]) (use that(2) in \<open>auto simp: sidecar_free_def\<close>)
    moreover have "sidecar_free (map ce_component_id (c0 # cs))" using that(2) by (auto simp: sidecar_free_def)
    ultimately show ?thesis using rest Cons.prems(2) by simp
  qed
  moreover have "agree_off (\<Union>c \<in> set (c # cs). component_paths staging (ce_component_id c)) (dk_tree d) (dk_tree d')"
    by (rule agree_trans [OF a1]) (use rest Cons.prems(2) in auto)
  ultimately show ?case using rest Cons.prems(2) by simp
qed simp

subsection \<open>Promotion\<close>

lemma reads_only_sync_children [simp]: "reads_only (sync_dir_children p)" "reads_only (sync_dir p)"
  unfolding sync_dir_children_def sync_dir_def
  by (intro reads_only_and_then reads_only_for_each reads_only_ignore; simp)+

text \<open>A promotion moves the staging directory, after creating the parent where it is missing, and
  only to a free place.\<close>

lemma promote_Inr:
  assumes "promote a b d = (Inr u, d')"
  shows "\<exists>t0. dk_tree d' = move_tree a b t0 \<and> \<not> fs_exists b (dk_tree d) \<and>
    \<not> is_root a \<and> \<not> is_root b \<and> \<not> prefix a b \<and>
    (t0 = dk_tree d \<or> t0 = make_dirs (prefixes (parent_of b)) (dk_tree d))"
proof -
  from assms obtain d1 d2 d3 where free: "\<not> fs_exists b (dk_tree d)"
    and p: "(if fs_exists (parent_of b) (dk_tree d) then give () else fs_create_dir_all (parent_of b)) d = (Inr (), d1)"
    and s: "sync_dir_children a d1 = (Inr (), d2)" and m: "fs_rename a b d2 = (Inr (), d3)"
    and e: "sync_dir (parent_of b) d3 = (Inr u, d')"
    by (auto simp: promote_def and_then_Inr split: if_splits)
  have "dk_tree d1 = dk_tree d \<or> dk_tree d1 = make_dirs (prefixes (parent_of b)) (dk_tree d)"
    using p by (auto simp: fs_create_dir_all_Inr split: if_splits)
  moreover have "dk_tree d2 = dk_tree d1" "dk_tree d' = dk_tree d3"
    using reads_onlyD [OF reads_only_sync_children(1) s] reads_onlyD [OF reads_only_sync_children(2) e] by simp_all
  ultimately show ?thesis using m free by (auto simp: fs_rename_Inr)
qed

definition separate :: "path \<Rightarrow> path \<Rightarrow> bool" where
  "separate a b \<longleftrightarrow> \<not> prefix a b \<and> \<not> prefix b a"

lemma staging_commit_separate: "separate (staging_dir root x) (commit_path L root i)"
  by (simp add: separate_def staging_dir_def staging_root_def commit_path_def checkpoints_dir_def)

lemma promote_moves:
  assumes "promote a b d = (Inr u, d')" "separate a b" "\<not> prefix a (parent_of b)"
  shows "fs_get (dk_tree d') (b @ r) = fs_get (dk_tree d) (a @ r)"
    and "separate b q \<Longrightarrow> \<not> prefix a q \<Longrightarrow> \<not> prefix q (parent_of b) \<Longrightarrow> fs_get (dk_tree d') q = fs_get (dk_tree d) q"
    and "\<not> fs_exists b (dk_tree d)"
proof -
  from promote_Inr [OF assms(1)] obtain t0 where t0: "dk_tree d' = move_tree a b t0"
    "t0 = dk_tree d \<or> t0 = make_dirs (prefixes (parent_of b)) (dk_tree d)"
    and r: "\<not> is_root a" "\<not> is_root b" "\<not> prefix a b" and free: "\<not> fs_exists b (dk_tree d)" by blast
  have long: "\<not> is_root (p @ q)" if "\<not> is_root p" for p q :: path
    using that by (cases p) (auto simp: is_root_def append_eq_Cons_conv)
  have same: "fs_get t0 q = fs_get (dk_tree d) q" if "\<not> prefix q (parent_of b)" for q
    using t0(2) that by (auto simp: fs_get_make_dirs split: option.split)
  have under: "\<not> prefix (a @ r) (parent_of b)" using assms(3) by (meson append_prefixD)
  have "fs_get (dk_tree d') (b @ r) = map_of t0 (a @ r)"
    using r assms(2) long by (simp add: t0(1) fs_get_move separate_def)
  also have "\<dots> = fs_get t0 (a @ r)" using long [OF r(1), of r] by (auto simp: fs_get_def is_root_def)
  finally show "fs_get (dk_tree d') (b @ r) = fs_get (dk_tree d) (a @ r)" using same [OF under] by simp
  show "\<not> fs_exists b (dk_tree d)" by (rule free)
  assume q: "separate b q" "\<not> prefix a q" "\<not> prefix q (parent_of b)"
  then show "fs_get (dk_tree d') q = fs_get (dk_tree d) q"
    using r assms(2) same [of q] by (auto simp: t0(1) fs_get_move separate_def)
qed

lemma staging_not_parent: "\<not> prefix (staging_dir root x) (parent_of (commit_path L root i))"
  by (simp add: parent_of_def staging_dir_def staging_root_def commit_path_def checkpoints_dir_def butlast_append)

text \<open>A staging directory with the files of a checkpoint becomes a replica that verifies.\<close>

definition staged_ok :: "lib \<Rightarrow> codecs \<Rightarrow> file_tree \<Rightarrow> path \<Rightarrow> bytes \<Rightarrow> manifest \<Rightarrow> bool" where
  "staged_ok L K t staging b m \<longleftrightarrow> manifest_parse L b = Inr m \<and>
     fs_get t (staging @ [''manifest'']) = Some (FileE b) \<and>
     fs_get t (staging @ [''manifest.digest'']) = Some (FileE (line (sha256_hex L b))) \<and>
     (\<forall>c \<in> set (m_components m). component_stored L K t staging c)"

lemma component_stored_moved:
  assumes "component_stored L K t a c" "\<And>r. fs_get t' (b @ r) = fs_get t (a @ r)"
  shows "component_stored L K t' b c"
proof -
  have "fs_get t' (b @ [''components'', x]) = fs_get t (a @ [''components'', x])" for x by (rule assms(2))
  with assms(1) show ?thesis by (simp add: component_stored_def stored_ok_def)
qed

lemma promoted_replica_ok:
  assumes "promote staging commit d = (Inr u, d')" "separate staging commit" "\<not> prefix staging (parent_of commit)"
    and "staged_ok L K (dk_tree d) staging b m" "hex_lib L"
  shows "replica_ok L K (dk_tree d') commit (sha256_hex L b) m"
proof -
  have mv: "fs_get (dk_tree d') (commit @ r) = fs_get (dk_tree d) (staging @ r)" for r
    by (rule promote_moves [OF assms(1-3)])
  have "\<forall>c \<in> set (m_components m). component_ok L K (dk_tree d') commit c"
    using assms(4) component_stored_moved [OF _ mv] component_stored_ok by (auto simp: staged_ok_def)
  then show ?thesis
    using assms(4,5) by (auto simp: replica_ok_def staged_ok_def mv line_valid)
qed

subsection \<open>Replication\<close>

lemma lease_staging_Inr:
  "lease_staging p s = (Inr u, s') \<Longrightarrow> nd_disk s' = nd_disk s \<and> nd_lib s' = nd_lib s \<and>
     nd_codecs s' = nd_codecs s \<and> nd_root s' = nd_root s"
  by (auto simp: lease_staging_def and_then_Inr node_now_def)

lemma release_staging_Inr:
  "release_staging p s = (Inr u, s') \<longleftrightarrow> s' = s\<lparr>nd_staging_leases := tab_remove p (nd_staging_leases s)\<rparr>"
  by (auto simp: release_staging_def)

text \<open>A fresh staging directory changes nothing outside the staging area, except directories
  above it that did not exist.\<close>

lemma fresh_staging_Inr:
  assumes "fresh_staging staging d = (Inr u, d')" "\<not> prefix staging q" "\<not> prefix q staging"
  shows "fs_get (dk_tree d') q = fs_get (dk_tree d) q"
proof -
  have mk: "fs_get (dk_tree d2) q = fs_get (dk_tree d1) q"
    if "fs_create_dir_all (staging @ [x]) d1 = (Inr (), d2)" for x d1 d2
    using that assms(2,3)
    by (auto simp: fs_create_dir_all_Inr fs_get_make_dirs split: option.split)
  have rm: "fs_get (dk_tree d2) q = fs_get (dk_tree d1) q"
    if "fs_remove_dir_all staging d1 = (Inr (), d2)" for d1 d2
    using that assms(2) by (simp add: fs_remove_dir_all_Inr fs_get_drop)
  from assms(1) obtain d1 d2 d3 where
    r: "(if fs_exists staging (dk_tree d) then fs_remove_dir_all staging else give ()) d = (Inr (), d1)"
    and "fs_create_dir_all (staging @ [''components'']) d1 = (Inr (), d2)"
    "fs_create_dir_all (staging @ [''integrity'']) d2 = (Inr (), d3)"
    "fs_create_dir_all (staging @ [''journal'']) d3 = (Inr (), d')"
    by (auto simp: fresh_staging_def and_then_Inr)
  from this(2-4) [THEN mk] r rm show ?thesis by (auto split: if_splits)
qed

lemma write_replica_files_Inr:
  assumes "write_replica_files L staging b m d = (Inr u, d')"
  shows "fs_get (dk_tree d') (staging @ [''manifest'']) = Some (FileE b)"
    and "fs_get (dk_tree d') (staging @ [''manifest.digest'']) = Some (FileE (line (sha256_hex L b)))"
    and "\<not> prefix staging q \<Longrightarrow> fs_get (dk_tree d') q = fs_get (dk_tree d) q"
proof -
  let ?p = "\<lambda>x. staging @ [x]" and ?r = "staging @ [''integrity'', ''root'']"
  from assms obtain d1 d2 where w: "fs_write (?p ''manifest'') b d = (Inr (), d1)"
    "fs_write (?p ''manifest.digest'') (line (sha256_hex L b)) d1 = (Inr (), d2)"
    "fs_write ?r (line (ii_root (m_integrity m))) d2 = (Inr u, d')"
    by (auto simp: write_replica_files_def and_then_Inr)
  then have root: "\<not> is_root (?p ''manifest'')" "\<not> is_root (?p ''manifest.digest'')"
    by (simp_all add: fs_write_Inr writable_def)
  have t: "dk_tree d' = fs_put ?r (FileE (line (ii_root (m_integrity m))))
      (fs_put (?p ''manifest.digest'') (FileE (line (sha256_hex L b)))
        (fs_put (?p ''manifest'') (FileE b) (dk_tree d)))"
    using w by (simp add: fs_write_Inr)
  have g: "fs_get (dk_tree d') q = (if q = ?r then Some (FileE (line (ii_root (m_integrity m))))
      else if q = ?p ''manifest.digest'' then Some (FileE (line (sha256_hex L b)))
      else if q = ?p ''manifest'' then Some (FileE b) else fs_get (dk_tree d) q)" for q
    using root by (simp add: t fs_get_put)
  show "fs_get (dk_tree d') (?p ''manifest'') = Some (FileE b)"
    "fs_get (dk_tree d') (?p ''manifest.digest'') = Some (FileE (line (sha256_hex L b)))"
    by (simp_all add: g)
  show "\<not> prefix staging q \<Longrightarrow> fs_get (dk_tree d') q = fs_get (dk_tree d) q" by (auto simp: g)
qed

lemma fetched_outside:
  assumes "agree_off (\<Union>c \<in> C. component_paths staging (ce_component_id c)) t t'"
  shows "fs_get t' (staging @ [x]) = fs_get t (staging @ [x])"
    and "\<not> prefix staging q \<Longrightarrow> fs_get t' q = fs_get t q"
  by (rule agreeD [OF assms], auto simp: component_paths_def)+

text \<open>What a successful replication did, step by step.\<close>

lemma do_replicate_ok:
  assumes run: "do_replicate addr_ok peer req s = (Inr res, s')" and ok: "nys_ok res"
  defines "L \<equiv> nd_lib s" and "K \<equiv> nd_codecs s"
    and "staging \<equiv> staging_dir (nd_root s) (nyr_attempt_id req)"
    and "commit \<equiv> commit_path (nd_lib s) (nd_root s) (nyr_checkpoint_id req)"
  obtains b m d1 d2 d3 rest where
    "sha256_hex L b = nyr_expected_manifest_digest req" "manifest_parse L b = Inr m"
    "m_checkpoint_id m = nyr_checkpoint_id req"
    "fresh_staging staging (nd_disk s) = (Inr (), d1)"
    "write_replica_files L staging b m d1 = (Inr (), d2)"
    "fetch_components L K staging (m_components m) (pa_chunks peer) d2 = (Inr (Inr rest), d3)"
    "promote staging commit d3 = (Inr (), nd_disk s')"
    "nd_lib s' = nd_lib s" "nd_codecs s' = nd_codecs s" "nd_root s' = nd_root s"
proof -
  from run ok obtain mresp :: fetch_manifest_response and b m s1 s2 s3 where
    b: "fmr_manifest_bytes mresp = Some b" "sha256_hex L b = nyr_expected_manifest_digest req"
    and m: "manifest_parse L b = Inr m" "m_checkpoint_id m = nyr_checkpoint_id req"
    and s1: "lease_staging staging s = (Inr (), s1)"
    and s2: "on_disk (fresh_staging staging) s1 = (Inr (), s2)"
    and s3: "on_disk (write_replica_files L staging b m) s2 = (Inr (), s3)"
    and k: "fill_replica L K peer req staging (fmr_components mresp) m s3 = (Inr res, s')"
    unfolding L_def K_def staging_def
    by (auto simp: do_replicate_def and_then_Inr my_staging_def replicate_result_def Let_def split: if_splits)
  from s2 obtain d1 where d1: "fresh_staging staging (nd_disk s1) = (Inr (), d1)" "s2 = s1\<lparr>nd_disk := d1\<rparr>"
    by (auto simp: on_disk_Inr)
  from s3 obtain d2 where d2: "write_replica_files L staging b m (nd_disk s2) = (Inr (), d2)" "s3 = s2\<lparr>nd_disk := d2\<rparr>"
    by (auto simp: on_disk_Inr)
  note l = lease_staging_Inr [OF s1]
  have no: "\<not> (refuse_replica a p msg t = (Inr res, s'))" for a p msg t
    using ok by (auto simp: refuse_replica_def and_then_Inr replicate_result_def)
  from k no obtain fetched d3 where
    f: "fetch_components L K staging (m_components m) (pa_chunks peer) (nd_disk s3) = (Inr fetched, d3)"
    and k2: "finish_replica req staging fetched (s3\<lparr>nd_disk := d3\<rparr>) = (Inr res, s')"
    by (auto simp: fill_replica_def and_then_Inr on_disk_Inr split: if_splits)
  from k2 no obtain rest where fr: "fetched = Inr rest" by (cases fetched) (auto simp: finish_replica_def)
  have cm: "commit_path (nd_lib s3) (nd_root s3) (nyr_checkpoint_id req) = commit"
    using l d1(2) d2(2) by (simp add: commit_def)
  have unit: "x \<noteq> Inr () \<longleftrightarrow> (\<exists>e. x = Inl e)" for x :: "fabric_error + unit" by (cases x) auto
  from k2 fr ok obtain s5 where pr: "on_disk (promote staging commit) (s3\<lparr>nd_disk := d3\<rparr>) = (Inr (), s5)"
    and s': "s' = s5\<lparr>nd_staging_leases := tab_remove staging (nd_staging_leases s5)\<rparr>"
    by (auto simp: finish_replica_def and_then_Inr my_commit_def release_staging_Inr cm attempt_Inr unit
        replicate_result_def split: sum.splits)
  from pr obtain d4 where d4: "promote staging commit d3 = (Inr (), d4)" "s5 = s3\<lparr>nd_disk := d4\<rparr>"
    by (auto simp: on_disk_Inr)
  show ?thesis
  proof (rule that [OF b(2) m])
    show "fresh_staging staging (nd_disk s) = (Inr (), d1)" using d1(1) l by simp
    show "write_replica_files L staging b m d1 = (Inr (), d2)" using d2(1) d1(2) by simp
    show "fetch_components L K staging (m_components m) (pa_chunks peer) d2 = (Inr (Inr rest), d3)"
      using f fr d2(2) by simp
    show "promote staging commit d3 = (Inr (), nd_disk s')" using d4 s' by simp
    show "nd_lib s' = nd_lib s" "nd_codecs s' = nd_codecs s" "nd_root s' = nd_root s"
      using l d1(2) d2(2) d4(2) s' by simp_all
  qed
qed

text \<open>The ids of the anchored manifest leave the sidecar files apart, and its sizes do not saturate
  the running offset.\<close>

definition plain_manifest :: "manifest \<Rightarrow> bool" where
  "plain_manifest m \<longleftrightarrow> sidecar_free (map ce_component_id (m_components m)) \<and>
     (\<forall>c \<in> set (m_components m). sr_stored_size (ce_storage_representation c) < u64_max)"

definition anchored :: "lib \<Rightarrow> string \<Rightarrow> manifest \<Rightarrow> bool" where
  "anchored L digest m \<longleftrightarrow> (\<exists>b. sha256_hex L b = digest \<and> manifest_parse L b = Inr m)"


end
