(* ===== verification/Confine.thy ===== *)
theory Confine
  imports NodeProps
begin

section \<open>What every run of a program keeps\<close>

text \<open>
  A relation between the state before and after a run that is reflexive and transitive goes
  through the control flow: it holds of a program if it holds of its calls, whether they
  succeed or fail. The locale states this once; its instances are the relations the properties
  of the nodes are about.
\<close>

definition along :: "('s \<Rightarrow> 's \<Rightarrow> bool) \<Rightarrow> ('s, 'a) prog \<Rightarrow> bool" where
  "along R m \<longleftrightarrow> (\<forall>s. R s (snd (m s)))"

lemma alongI: "(\<And>s r s'. m s = (r, s') \<Longrightarrow> R s s') \<Longrightarrow> along R m"
  unfolding along_def by (metis prod.collapse)

lemma alongD: "along R m \<Longrightarrow> m s = (r, s') \<Longrightarrow> R s s'"
  unfolding along_def by (metis snd_conv)

locale run_relation =
  fixes R :: "'s \<Rightarrow> 's \<Rightarrow> bool"
  assumes R_refl: "R s s" and R_trans: "R s t \<Longrightarrow> R t u \<Longrightarrow> R s u"
begin

lemma along_still: "along R (give x)" "along R (raise e)" "along R (lift r)" "along R (look f)"
  by (simp_all add: along_def give_def raise_def lift_def look_def R_refl)

lemma along_and_then: "along R m \<Longrightarrow> (\<And>x. along R (f x)) \<Longrightarrow> along R (and_then m f)"
  unfolding along_def and_then_def
  by (auto split: prod.splits sum.splits) (metis snd_conv, metis R_trans snd_conv)

lemma along_attempt: "along R m \<Longrightarrow> along R (attempt m)"
  by (auto simp: along_def attempt_def split: prod.splits) (metis snd_conv)

lemma along_ignore: "along R m \<Longrightarrow> along R (ignore m)"
  unfolding ignore_def by (intro along_and_then along_attempt along_still)

lemma along_rename: "along R m \<Longrightarrow> along R (rename_error g m)"
  by (auto simp: along_def rename_error_def split: prod.splits sum.splits) (metis snd_conv)+

lemma along_for_each: "(\<And>x. x \<in> set xs \<Longrightarrow> along R (f x)) \<Longrightarrow> along R (for_each f xs)"
  by (induction xs) (simp_all add: along_still along_and_then)

lemma along_for_fold: "(\<And>a x. x \<in> set xs \<Longrightarrow> along R (f a x)) \<Longrightarrow> along R (for_fold f acc xs)"
  by (induction xs arbitrary: acc) (simp_all add: along_still along_and_then)

lemma along_if: "(b \<Longrightarrow> along R m) \<Longrightarrow> (\<not> b \<Longrightarrow> along R n) \<Longrightarrow> along R (if b then m else n)"
  by simp

lemma along_case_option:
  "(v = None \<Longrightarrow> along R m) \<Longrightarrow> (\<And>x. v = Some x \<Longrightarrow> along R (f x)) \<Longrightarrow>
     along R (case v of None \<Rightarrow> m | Some x \<Rightarrow> f x)"
  by (cases v) simp_all

lemma along_case_sum:
  "(\<And>e. r = Inl e \<Longrightarrow> along R (f e)) \<Longrightarrow> (\<And>x. r = Inr x \<Longrightarrow> along R (g x)) \<Longrightarrow>
     along R (case r of Inl e \<Rightarrow> f e | Inr x \<Rightarrow> g x)"
  by (cases r) simp_all

lemma along_case_prod: "(\<And>a b. along R (f a b)) \<Longrightarrow> along R (case p of (a, b) \<Rightarrow> f a b)"
  by (cases p) simp

lemma along_let: "(\<And>x. x = v \<Longrightarrow> along R (f x)) \<Longrightarrow> along R (let x = v in f x)"
  by (simp add: Let_def)

lemma along_change: "(\<And>s. R s (f s)) \<Longrightarrow> along R (change f)"
  by (simp add: along_def change_def)

lemma along_zoom: "along Q m \<Longrightarrow> (\<And>s t. Q (get s) t \<Longrightarrow> R s (put t s)) \<Longrightarrow> along R (zoom get put m)"
  unfolding along_def zoom_def by (auto split: prod.splits) (metis snd_conv)

lemmas along_rules = along_still along_and_then along_attempt along_ignore along_rename
  along_for_each along_for_fold along_if along_case_option along_case_sum along_case_prod along_let

end

subsection \<open>Calls of the file system\<close>

text \<open>A property of trees that a call keeps, whether it succeeds, is refused, or fails halfway.\<close>

definition tree_kept :: "(file_tree \<Rightarrow> bool) \<Rightarrow> disk \<Rightarrow> disk \<Rightarrow> bool" where
  "tree_kept P d d' \<longleftrightarrow> (P (dk_tree d) \<longrightarrow> P (dk_tree d'))"

lemma along_sys_call:
  assumes "\<And>t x t'. P t \<Longrightarrow> act t = Some (x, t') \<Longrightarrow> P t'"
    and "\<And>t x t' k. P t \<Longrightarrow> act t = Some (x, t') \<Longrightarrow> P (partial k t)"
  shows "along (tree_kept P) (sys_call partial act)"
  using assms unfolding along_def tree_kept_def sys_call_def
  by (auto simp: Let_def split: option.splits prod.splits)

text \<open>Calls that leave the tree alone.\<close>

lemma along_sys_look:
  assumes "\<And>t x t'. act t = Some (x, t') \<Longrightarrow> t' = t" "\<And>k t. partial k t = t"
  shows "along (tree_kept P) (sys_call partial act)"
proof (rule along_sys_call)
  show "P t'" if "P t" "act t = Some (x, t')" for t x t' using that assms(1) by metis
  show "P (partial k t)" if "P t" for k t using that assms(2) by simp
qed

lemma along_fs_reads:
  "along (tree_kept P) (ask f)" "along (tree_kept P) (fs_read p)" "along (tree_kept P) (fs_read_dir p)"
  "along (tree_kept P) (fs_sync p)"
  by (auto simp: along_def tree_kept_def ask_def fs_read_def fs_read_dir_def fs_sync_def sys_call_def Let_def
      split: option.splits fs_entry.splits)

subsection \<open>Well-formed trees\<close>

text \<open>No path occurs twice, no entry stands for the root, and the parent of every entry is a
  directory.\<close>

definition tree_ok :: "file_tree \<Rightarrow> bool" where
  "tree_ok t \<longleftrightarrow> distinct (map fst t) \<and> list_all (\<lambda>(p, _). \<not> is_root p \<and> fs_is_dir (parent_of p) t) t"

lemma tree_ok_iff:
  "tree_ok t \<longleftrightarrow> distinct (map fst t) \<and> (\<forall>p e. (p, e) \<in> set t \<longrightarrow> \<not> is_root p \<and> fs_is_dir (parent_of p) t)"
  by (auto simp: tree_ok_def list_all_iff)

lemma fs_get_in: "\<not> is_root p \<Longrightarrow> fs_get t p = Some e \<Longrightarrow> (p, e) \<in> set t"
  by (auto simp: fs_get_def is_root_def dest: map_of_SomeD)

lemma fs_get_of_in: "tree_ok t \<Longrightarrow> (p, e) \<in> set t \<Longrightarrow> fs_get t p = Some e"
  by (auto simp: tree_ok_iff fs_get_def is_root_def)

text \<open>Below a path that is no directory there is nothing.\<close>

lemma no_child: "tree_ok t \<Longrightarrow> (q, e) \<in> set t \<Longrightarrow> \<not> fs_is_dir p t \<Longrightarrow> parent_of q \<noteq> p"
  by (auto simp: tree_ok_iff)

lemma tree_ok_put:
  assumes "tree_ok t" "writable p t"
  shows "tree_ok (fs_put p (FileE b) t)"
proof -
  from assms(2) have r: "\<not> is_root p" "fs_is_dir (parent_of p) t" "\<not> fs_is_dir p t"
    by (simp_all add: writable_def)
  have np: "parent_of p \<noteq> p" using r by auto
  have "fs_is_dir (parent_of q) (fs_put p (FileE b) t)" if "(q, e) \<in> set t \<or> q = p" for q e
  proof (cases "q = p")
    case True
    then show ?thesis using r np by (simp add: fs_is_dir_def fs_get_put)
  next
    case False
    with that have q: "(q, e) \<in> set t" by blast
    with no_child [OF assms(1) q r(3)] assms(1) show ?thesis
      using r(1) by (auto simp: tree_ok_iff fs_is_dir_def fs_get_put)
  qed
  moreover have "distinct (map fst (fs_put p (FileE b) t))"
    using assms(1) by (auto simp: fs_put_def tree_ok_iff distinct_map_filter)
  ultimately show ?thesis using r assms(1)
    by (fastforce simp: tree_ok_iff fs_put_def)
qed

lemma tree_ok_dir:
  assumes "tree_ok t" "is_root q \<or> fs_is_dir (parent_of q) t"
  shows "tree_ok (if fs_exists q t then t else fs_put q DirE t)"
proof (cases "fs_exists q t")
  case False
  then have r: "\<not> is_root q" by (auto simp: fs_exists_def)
  then have d: "fs_is_dir (parent_of q) t" using assms by simp
  have "parent_of q \<noteq> q" using False d by (auto simp: fs_exists_def fs_is_dir_def)
  moreover have "\<forall>e. (q, e) \<notin> set t" using False fs_get_of_in [OF assms(1)] by (auto simp: fs_exists_def)
  ultimately show ?thesis using False r d assms(1)
    by (auto simp: tree_ok_iff fs_put_def fs_is_dir_def distinct_map_filter)
      (auto simp: fs_get_put [unfolded fs_put_def])
qed (use assms in simp)

text \<open>A list of paths in which each is the parent of the next.\<close>

fun dir_chain :: "path \<Rightarrow> path list \<Rightarrow> bool" where
  "dir_chain p [] = True"
| "dir_chain p (q # qs) = (parent_of q = p \<and> dir_chain q qs)"

lemma dir_chain_take: "dir_chain p qs \<Longrightarrow> dir_chain p (take k qs)"
  by (induction qs arbitrary: p k) (auto simp: take_Cons split: nat.split)

lemma dir_chain_snoc: "dir_chain p (qs @ [q]) \<longleftrightarrow> dir_chain p qs \<and> parent_of q = last (p # qs)"
  by (induction qs arbitrary: p) auto

lemma prefixes_chain: "dir_chain [] (prefixes p)"
proof (induction p rule: rev_induct)
  case (snoc x p)
  then show ?case by (simp add: prefixes_snoc dir_chain_snoc parent_of_def)
qed (simp add: parent_of_def)

lemma make_dirs_ok:
  "tree_ok t \<Longrightarrow> fs_is_dir p t \<Longrightarrow> dir_chain p qs \<Longrightarrow> list_all (\<lambda>q. \<not> fs_is_file q t) qs \<Longrightarrow>
     tree_ok (make_dirs qs t)"
proof (induction qs arbitrary: p t)
  case (Cons q qs)
  let ?t = "if fs_exists q t then t else fs_put q DirE t"
  have r: "\<not> is_root q" if "\<not> fs_exists q t" using that by (auto simp: fs_exists_def)
  have g: "fs_get ?t x = (if x = q \<and> \<not> fs_exists q t then Some DirE else fs_get t x)" for x
    using r by (auto simp: fs_get_put)
  have "fs_is_dir q ?t"
  proof (cases "fs_get t q")
    case (Some e)
    then show ?thesis using Cons.prems(4) by (cases e) (auto simp: fs_is_dir_def fs_is_file_def fs_exists_def)
  next
    case None
    then show ?thesis using g [of q] by (simp add: fs_is_dir_def fs_exists_def)
  qed
  moreover have "list_all (\<lambda>q. \<not> fs_is_file q ?t) qs"
    using Cons.prems(4) by (auto simp: list_all_iff fs_is_file_def g)
  moreover have "tree_ok ?t" by (rule tree_ok_dir) (use Cons.prems in auto)
  ultimately show ?case using Cons.IH [of ?t q] Cons.prems(3) by simp
qed simp

lemma tree_ok_dirs:
  assumes "tree_ok t" "list_all (\<lambda>q. \<not> fs_is_file q t) (prefixes p)"
  shows "tree_ok (make_dirs (prefixes p) t)" "tree_ok (make_dirs (take k (prefixes p)) t)"
proof -
  have "fs_is_dir [] t" by (simp add: fs_is_dir_def is_root_def)
  moreover have "list_all (\<lambda>q. \<not> fs_is_file q t) (take k (prefixes p))"
    using assms(2) by (auto simp: list_all_iff dest: in_set_takeD)
  ultimately show "tree_ok (make_dirs (prefixes p) t)" "tree_ok (make_dirs (take k (prefixes p)) t)"
    using make_dirs_ok assms prefixes_chain dir_chain_take by blast+
qed

text \<open>Removing a set of paths that is closed downwards.\<close>

lemma tree_ok_drop:
  assumes "tree_ok t" "\<And>q e. (q, e) \<in> set t \<Longrightarrow> P (parent_of q) \<Longrightarrow> \<not> is_root (parent_of q) \<Longrightarrow> P q"
  shows "tree_ok (fs_drop P t)"
proof -
  have "fs_is_dir (parent_of q) (fs_drop P t)" if "(q, e) \<in> set t" "\<not> P q" for q e
    using that assms by (auto simp: fs_is_dir_def fs_get_drop tree_ok_iff)
  then show ?thesis using assms(1) by (auto simp: tree_ok_iff fs_drop_def distinct_map_filter)
qed

lemma parent_prefix: "prefix (parent_of p) p"
  by (cases p rule: rev_cases) (simp_all add: parent_of_def)

lemma move_shape: "(q, e) \<in> set (move_tree a b t) \<longleftrightarrow>
    (\<exists>r. q = b @ r \<and> (a @ r, e) \<in> set t) \<or> ((q, e) \<in> set t \<and> \<not> prefix a q \<and> \<not> prefix b q)"
  by (force simp: move_tree_def fs_drop_def prefix_def image_iff)

lemma tree_ok_move:
  assumes "tree_ok t" "fs_exists a t" "\<not> is_root a" "\<not> is_root b" "\<not> prefix a b"
    "fs_is_dir (parent_of b) t" "\<not> fs_exists b t"
  shows "tree_ok (move_tree a b t)"
proof -
  have long: "\<not> is_root (p @ q)" if "\<not> is_root p" for p q :: path
    using that by (cases p) (auto simp: is_root_def append_eq_Cons_conv)
  have par: "parent_of (p @ r) = (if r = [] then parent_of p else p @ parent_of r)" for p r
    by (simp add: parent_of_def butlast_append)
  have up: "\<not> prefix a (parent_of q)" if "\<not> prefix a q" for q
    using that parent_prefix prefix_order.trans by blast
  have b_free: "\<not> prefix b q" if "(q, e) \<in> set t" for q e
  proof
    assume "prefix b q"
    then obtain r where q: "q = b @ r" by (auto elim: prefixE)
    have "fs_exists (b @ r) t \<Longrightarrow> fs_exists b t" for r
    proof (induction r rule: rev_induct)
      case (snoc x r)
      then obtain e where "(b @ r @ [x], e) \<in> set t"
        using fs_get_in long [OF assms(4)] by (fastforce simp: fs_exists_def)
      then have "fs_is_dir (parent_of (b @ r @ [x])) t" using assms(1) by (auto simp: tree_ok_iff)
      then have "fs_is_dir (b @ r) t" by (simp add: parent_of_def butlast_append)
      with snoc.IH show ?case by (auto simp: fs_exists_def fs_is_dir_def)
    qed simp
    with q that assms(7) fs_get_of_in [OF assms(1)] show False by (auto simp: fs_exists_def)
  qed
  have ba: "\<not> prefix b a"
    using b_free fs_get_in [OF assms(3)] assms(2) by (auto simp: fs_exists_def)
  have g: "fs_get (move_tree a b t) (b @ r) = fs_get t (a @ r)" for r
  proof -
    have "fs_get (move_tree a b t) (b @ r) = map_of t (a @ r)"
      using fs_get_move [OF assms(3,4,5) ba, of t "b @ r"] long [OF assms(4)] by simp
    then show ?thesis using long [OF assms(3), of r] by (auto simp: fs_get_def is_root_def)
  qed
  have g': "fs_get (move_tree a b t) q = fs_get t q" if "\<not> prefix a q" "\<not> prefix b q" for q
    using that fs_get_move [OF assms(3,4,5) ba, of t q] by auto
  have d: "distinct (map fst t)" using assms(1) by (simp add: tree_ok_iff)
  have "inj_on (\<lambda>q. b @ drop (length a) q) {q. prefix a q}"
    by (auto simp: inj_on_def prefix_def)
  then have "distinct (map (\<lambda>q. b @ drop (length a) q) (map fst (filter (\<lambda>(q, _). prefix a q) t)))"
    using d by (subst distinct_map) (auto simp: distinct_map_filter intro: inj_on_subset)
  then have "distinct (map fst (move_tree a b t))"
    using d by (auto simp: move_tree_def fs_drop_def distinct_map_filter comp_def case_prod_unfold)
  moreover have "\<not> is_root q \<and> fs_is_dir (parent_of q) (move_tree a b t)" if q: "(q, e) \<in> set (move_tree a b t)" for q e
  proof (cases "\<exists>r. q = b @ r \<and> (a @ r, e) \<in> set t")
    case True
    then obtain r where r: "q = b @ r" "(a @ r, e) \<in> set t" by blast
    have "fs_is_dir (parent_of q) (move_tree a b t)"
    proof (cases "r = []")
      case True
      have "\<not> prefix a (parent_of b)" "\<not> prefix b (parent_of b)"
        using assms(4,5) parent_prefix [of b] prefix_order.trans prefix_length_le [of b "parent_of b"]
        by (blast, cases b rule: rev_cases) (auto simp: parent_of_def is_root_def)
      then show ?thesis using True r assms(6) g' by (simp add: fs_is_dir_def)
    next
      case False
      then show ?thesis using r assms(1) g [of "parent_of r"] by (auto simp: tree_ok_iff par fs_is_dir_def)
    qed
    then show ?thesis using r long [OF assms(4)] by simp
  next
    case False
    then have n: "(q, e) \<in> set t" "\<not> prefix a q" "\<not> prefix b q" using q by (auto simp: move_shape)
    have "\<not> prefix b (parent_of q)"
      using n(3) parent_prefix prefix_order.trans by blast
    then show ?thesis using n assms(1) g' up by (auto simp: tree_ok_iff fs_is_dir_def)
  qed
  ultimately show ?thesis by (auto simp: tree_ok_iff)
qed

text \<open>Every call keeps the tree well formed, also when it fails halfway.\<close>

lemma along_fs_write: "along (tree_kept tree_ok) (fs_write p b)"
  unfolding fs_write_def by (rule along_sys_call) (auto split: if_splits intro: tree_ok_put)

lemma along_fs_append: "along (tree_kept tree_ok) (fs_append p b)"
  unfolding fs_append_def by (rule along_sys_call) (auto split: if_splits intro: tree_ok_put)

lemma along_fs_create_dir_all: "along (tree_kept tree_ok) (fs_create_dir_all p)"
  unfolding fs_create_dir_all_def by (rule along_sys_call) (auto split: if_splits intro: tree_ok_dirs)

lemma along_fs_remove_dir_all: "along (tree_kept tree_ok) (fs_remove_dir_all p)"
  unfolding fs_remove_dir_all_def
proof (rule along_sys_call)
  fix t t' :: file_tree and x :: unit and k
  assume t: "tree_ok t" and a: "(if \<not> is_root p \<and> fs_is_dir p t then Some ((), fs_drop (prefix p) t) else None) = Some (x, t')"
  have "prefix p q" if "prefix p (parent_of q)" for q
    using that parent_prefix [of q] prefix_order.trans by blast
  then show "tree_ok t'" using a t by (auto split: if_splits intro: tree_ok_drop)
  let ?gone = "take k (filter (\<lambda>q. prefix p q \<and> fs_is_file q t) (map fst t))"
  have "\<not> fs_is_dir q t" if "q \<in> set ?gone" for q
    using in_set_takeD [OF that] by (auto simp: fs_is_file_def fs_is_dir_def)
  then show "tree_ok (let gone = ?gone in fs_drop (\<lambda>q. q \<in> set gone) t)"
    unfolding Let_def using t by (intro tree_ok_drop) (auto simp: tree_ok_iff)
qed

lemma along_fs_remove_file: "along (tree_kept tree_ok) (fs_remove_file p)"
  unfolding fs_remove_file_def
proof (rule along_sys_call)
  fix t t' :: file_tree and x :: unit
  assume t: "tree_ok t" and a: "(if fs_is_file p t then Some ((), fs_drop (\<lambda>q. q = p) t) else None) = Some (x, t')"
  then have "\<not> fs_is_dir p t" by (auto simp: fs_is_file_def fs_is_dir_def split: if_splits)
  then show "tree_ok t'" using a t no_child [OF t] by (auto split: if_splits intro!: tree_ok_drop)
qed simp

lemma along_fs_remove_dir: "along (tree_kept tree_ok) (fs_remove_dir p)"
  unfolding fs_remove_dir_def
proof (rule along_sys_call)
  fix t t' :: file_tree and x :: unit
  assume t: "tree_ok t"
    and a: "(if \<not> is_root p \<and> fs_is_dir p t \<and> children p t = [] then Some ((), fs_drop (\<lambda>q. q = p) t) else None) = Some (x, t')"
  have "parent_of q \<noteq> p" if "(q, e) \<in> set t" "children p t = []" for q e
    using that t by (force simp: children_def filter_empty_conv tree_ok_iff is_root_def)
  then show "tree_ok t'" using a t by (auto split: if_splits intro!: tree_ok_drop)
qed simp

lemma along_fs_rename: "along (tree_kept tree_ok) (fs_rename a b)"
  unfolding fs_rename_def by (rule along_sys_call) (auto split: if_splits intro: tree_ok_move)

lemmas along_calls = along_fs_reads along_fs_write along_fs_append along_fs_create_dir_all
  along_fs_remove_dir_all along_fs_remove_file along_fs_remove_dir along_fs_rename

interpretation tree: run_relation "tree_kept P"
  by unfold_locales (auto simp: tree_kept_def)

subsection \<open>The programs of local storage\<close>

lemmas tree_rules = tree.along_rules along_calls

lemma along_reads: "reads_only m \<Longrightarrow> along (tree_kept P) m"
  by (rule alongI) (auto simp: tree_kept_def dest: reads_onlyD)

lemmas along_texts = reads_only_text [THEN along_reads] reads_only_verify [THEN along_reads]
  reads_only_sync_children [THEN along_reads] reads_only_sidecar [THEN along_reads]

lemma along_remove_all: "along (tree_kept tree_ok) (remove_all old ps)"
  by (induction ps) (auto intro!: tree_rules simp del: if_split split del: if_split)

lemma along_payload:
  "along (tree_kept tree_ok) (write_component_payload L K p i b spec)"
  "along (tree_kept tree_ok) (read_component_payload L K p repr h n)"
  unfolding write_component_payload_def read_component_payload_def by (intro tree_rules)+

lemma along_storage:
  "along (tree_kept tree_ok) (promote p q)"
  "along (tree_kept tree_ok) (delete_committed L p i)"
  "along (tree_kept tree_ok) (enumerate_committed dec p)"
  "along (tree_kept tree_ok) (recover_partial_older_than p keep old)"
  "along (tree_kept tree_ok) (recover_partial p keep)"
  "along (tree_kept tree_ok) (local_storage_new p)"
  unfolding promote_def delete_committed_def enumerate_committed_def recover_partial_def
    recover_partial_older_than_def local_storage_new_def
  by (intro tree_rules along_texts along_remove_all)+

text \<open>The disk programs of the node.\<close>

lemma along_node_disk:
  "along (tree_kept tree_ok) (fresh_staging p)"
  "along (tree_kept tree_ok) (write_commit_files p preq s)"
  "along (tree_kept tree_ok) (write_replica_files L p b m)"
  unfolding fresh_staging_def write_commit_files_def write_replica_files_def
  by (intro tree_rules along_texts)+

lemma along_checks:
  "along (tree_kept P) (check_components L K p cs)" "along (tree_kept P) (verify_components L K p cs)"
  by (induction cs) (auto simp: Let_def intro!: tree_rules along_texts split: sum.split)

lemma along_fetch_loop: "along (tree_kept tree_ok) (fetch_loop dest c offset as)"
  by (induction dest c offset as rule: fetch_loop.induct) (auto intro!: tree_rules simp: Let_def)

lemma along_settle: "along (tree_kept tree_ok) (settle_component L K p c dest outcome)"
  unfolding settle_component_def by (cases outcome) (auto simp: Let_def intro!: tree_rules)

lemma along_fetch: "along (tree_kept tree_ok) (fetch_component L K p c as)"
  unfolding fetch_component_def by (intro tree_rules along_fetch_loop along_settle)

lemma along_fetch_components: "along (tree_kept tree_ok) (fetch_components L K p cs as)"
  by (induction cs arbitrary: as) (auto intro!: tree_rules along_fetch)

end
