(* ===== verification/NodeSafety.thy ===== *)
theory NodeSafety
  imports Confine
begin

section \<open>What the requests of a node keep\<close>

text \<open>
  The well-formedness of a node: its file tree, and the tables behind its locks, which are maps.
  Every request keeps it, answered or failed, with faults of the disk anywhere; the identity of
  the node and its configuration never change.
\<close>

definition is_table :: "('k \<times> 'v) list \<Rightarrow> bool" where
  "is_table m \<longleftrightarrow> distinct (map fst m)"

lemma is_table_updates [simp]:
  "is_table m \<Longrightarrow> is_table (tab_insert k v m)" "is_table m \<Longrightarrow> is_table (tab_remove k m)"
  "is_table m \<Longrightarrow> is_table (filter P m)" "is_table []"
  by (auto simp: is_table_def tab_insert_def tab_remove_def distinct_map_filter)

lemma is_table_fold_remove [simp]: "is_table m \<Longrightarrow> is_table (fold tab_remove ks m)"
  by (induction ks arbitrary: m) auto

lemma is_table_registry [simp]:
  "is_table m \<Longrightarrow> is_table (registry_register w p m)" "is_table m \<Longrightarrow> is_table (registry_remove_workload w m)"
  "is_table m \<Longrightarrow> is_table (fold (registry_register w) ps m)"
  by (simp_all add: registry_register_def registry_remove_workload_def)
    (induction ps arbitrary: m; simp add: registry_register_def)

definition node_wf :: "'p node \<Rightarrow> bool" where
  "node_wf s \<longleftrightarrow> tree_ok (dk_tree (nd_disk s)) \<and> is_table (nd_providers s) \<and> is_table (nd_attached s) \<and>
     is_table (nd_fetch_tokens s) \<and> is_table (nd_staging_leases s) \<and> is_table (nd_quiesced s) \<and>
     is_table (nd_pending s)"

definition same_node :: "'p node \<Rightarrow> 'p node \<Rightarrow> bool" where
  "same_node s s' \<longleftrightarrow> nd_node_id s' = nd_node_id s \<and> nd_boot_id s' = nd_boot_id s \<and> nd_root s' = nd_root s \<and>
     nd_lib s' = nd_lib s \<and> nd_codecs s' = nd_codecs s"

definition node_kept :: "'p node \<Rightarrow> 'p node \<Rightarrow> bool" where
  "node_kept s s' \<longleftrightarrow> same_node s s' \<and> (node_wf s \<longrightarrow> node_wf s')"

interpretation kept: run_relation node_kept
  by unfold_locales (auto simp: node_kept_def same_node_def)

lemma kept_on_disk: "along (tree_kept tree_ok) m \<Longrightarrow> along node_kept (on_disk m)"
  unfolding on_disk_def
  by (erule kept.along_zoom) (auto simp: node_kept_def same_node_def node_wf_def tree_kept_def)

lemma kept_on_world: "along node_kept (on_world m)"
  unfolding on_world_def
  by (rule kept.along_zoom [where Q = "\<lambda>_ _. True"])
    (auto simp: node_kept_def same_node_def node_wf_def along_def)

lemma kept_change:
  "(\<And>s. same_node s (f s)) \<Longrightarrow> (\<And>s. node_wf s \<Longrightarrow> node_wf (f s)) \<Longrightarrow> along node_kept (change f)"
  by (rule kept.along_change) (auto simp: node_kept_def)

lemma kept_basic:
  "along node_kept node_now" "along node_kept (node_fire n)"
  "along node_kept (lease_staging p)" "along node_kept (release_staging p)"
  "along node_kept (check_epoch e)" "along node_kept (check_token i tk)"
  "along node_kept (my_staging a)" "along node_kept (my_commit i)"
proof -
  show now: "along node_kept node_now"
    by (auto simp: along_def node_now_def node_kept_def same_node_def node_wf_def)
  show "along node_kept (node_fire n)"
    by (auto simp: along_def node_fire_def node_kept_def same_node_def node_wf_def split: prod.splits)
  show "along node_kept (lease_staging p)" "along node_kept (release_staging p)"
    unfolding lease_staging_def release_staging_def
    by (intro kept.along_rules now kept_change; simp add: same_node_def node_wf_def)+
  show "along node_kept (check_epoch e)" "along node_kept (my_staging a)" "along node_kept (my_commit i)"
    unfolding check_epoch_def my_staging_def my_commit_def by (intro kept.along_rules)+
  show "along node_kept (check_token i tk)"
    unfolding check_token_def
    by (intro kept.along_rules now kept_change; simp add: same_node_def node_wf_def)
qed

lemmas kept_rules = kept.along_rules kept_basic kept_on_world kept_on_disk

text \<open>Programs that only look at the state, run.\<close>

lemma run_looks:
  "and_then (look f) g s = g (f s) s"
  "and_then (my_staging a) h s = h (staging_dir (nd_root s) a) s"
  "and_then (my_commit i) h s = h (commit_path (nd_lib s) (nd_root s) i) s"
  "and_then (on_disk (ask q)) k s = k (q (dk_tree (nd_disk s))) s"
  "and_then (release_staging p) j s = j () (s\<lparr>nd_staging_leases := tab_remove p (nd_staging_leases s)\<rparr>)"
  "and_then (change c) l s = l () (c s)"
  by (simp_all add: and_then_def look_def my_staging_def my_commit_def on_disk_def zoom_def ask_def
      release_staging_def change_def)

subsection \<open>Capture\<close>

lemma kept_prepare: "along node_kept (prepare_providers ctx ps)"
  by (induction ps) (auto intro!: kept_rules split: sum.split)

lemma kept_quiesce: "along node_kept (quiesce_providers mode ctx ps)"
  unfolding quiesce_providers_def by (cases mode) (auto intro!: kept_rules)

lemma kept_capture_component: "along node_kept (capture_component ctx acc p)"
  unfolding capture_component_def by (intro kept_rules along_payload)

lemma kept_capture_rest: "along node_kept (capture_rest req ctx ps)"
  unfolding capture_rest_def by (intro kept_rules kept_quiesce kept_capture_component)

lemma kept_abort: "along node_kept (abort_capture req p ps e)"
  unfolding abort_capture_def by (intro kept_rules along_calls)

lemma kept_do_capture: "along node_kept (do_capture req)"
  unfolding do_capture_def
  by (intro kept_rules kept_prepare kept_abort kept_capture_rest along_node_disk kept_change;
      simp add: same_node_def node_wf_def)

lemma kept_do_promote: "along node_kept (do_promote req)"
  unfolding do_promote_def
  by (intro kept_rules along_node_disk along_storage along_calls)

subsection \<open>Resumption and restore\<close>

lemma kept_resume_provider: "along node_kept (resume_provider req tr ctx acc spec)"
  unfolding resume_provider_def by (intro kept_rules)

lemma kept_resume_all: "along node_kept (resume_all req tr)"
  unfolding resume_all_def
  by (intro kept_rules kept_resume_provider kept_change; simp add: same_node_def node_wf_def)

lemma kept_do_resume: "along node_kept (do_resume req)"
  unfolding do_resume_def
  by (intro kept_rules kept_resume_all kept_change; simp add: same_node_def node_wf_def)

lemma kept_cleanup_restored: "along node_kept (cleanup_restored ps ctx)"
  unfolding cleanup_restored_def by (intro kept_rules)

lemma kept_restore_components: "along node_kept (restore_components req ctx cs done used)"
  by (induction cs arbitrary: "done" used)
    (auto simp: Let_def intro!: kept_rules kept_cleanup_restored along_payload kept_change
      simp add: same_node_def node_wf_def split: option.split sum.split)

lemma kept_do_restore: "along node_kept (do_restore req)"
proof -
  have "along node_kept (admit_replica req p)" for p
    unfolding admit_replica_def by (intro kept_rules along_texts along_checks along_calls)
  then show ?thesis unfolding do_restore_def by (intro kept_rules kept_restore_components)
qed

subsection \<open>Verification, cleanup, replication, service\<close>

lemma kept_reads: "along node_kept (do_verify vreq)" "along node_kept (do_probe preq)"
  "along node_kept (serve_manifest mreq)" "along node_kept (serve_component creq)"
  unfolding do_verify_def do_probe_def serve_manifest_def serve_component_def
  by (intro kept_rules along_texts along_checks along_calls)+

lemma kept_cleanup_steps:
  "along node_kept (cleanup_attempt acc a)" "along node_kept (cleanup_path acc sp)"
  "along node_kept (cleanup_component target ctx acc c)" "along node_kept (cleanup_checkpoint acc i)"
  unfolding cleanup_attempt_def cleanup_path_def cleanup_component_def cleanup_checkpoint_def
  by (intro kept_rules along_storage along_calls)+

lemma kept_cleanup_target: "along node_kept (cleanup_restore_target acc target)"
  unfolding cleanup_restore_target_def
  by (intro kept_rules kept_cleanup_steps kept_change; simp add: same_node_def node_wf_def)

lemma kept_do_cleanup: "along node_kept (do_cleanup req)"
  unfolding do_cleanup_def by (intro kept_rules kept_cleanup_steps kept_cleanup_target)

lemma kept_do_replicate: "along node_kept (do_replicate addr_ok peer req)"
proof -
  have refuse: "along node_kept (refuse_replica a p msg)" for a p msg
    unfolding refuse_replica_def by (intro kept_rules along_calls)
  have finish: "along node_kept (finish_replica req p r)" for p r
    unfolding finish_replica_def by (intro kept_rules refuse along_storage)
  show ?thesis
    unfolding do_replicate_def fill_replica_def
    by (intro kept_rules refuse finish along_node_disk along_fetch_components)
qed

lemma kept_node_dispatch: "along node_kept (node_dispatch addr_ok rq)"
proof -
  have fenced: "along node_kept (fenced e wrap m)" if "along node_kept m" for e wrap and m :: "('b node, 'c) prog"
    unfolding fenced_def by (intro kept_rules that)
  have allow: "along node_kept (allow_fetch q)" for q
    unfolding allow_fetch_def by (intro kept_rules kept_change; simp add: same_node_def node_wf_def)
  have detach: "along node_kept (node_detach_workload w)" for w
    unfolding node_detach_workload_def by (rule kept_change) (simp_all add: same_node_def node_wf_def)
  show ?thesis
    by (cases rq) (auto intro!: kept_rules kept_do_capture kept_do_promote kept_do_resume kept_do_restore
        kept_reads kept_do_cleanup kept_do_replicate allow detach fenced)
qed

subsection \<open>The life of a node\<close>

lemma kept_heartbeat: "along node_kept (heartbeat_round resources old coordinator failures tick)"
proof -
  have t: "along node_kept (heartbeat_tick resources coordinator)"
    unfolding heartbeat_tick_def
    by (intro kept_rules along_storage kept_change; simp add: same_node_def node_wf_def)
  show ?thesis
    unfolding heartbeat_round_def
    by (intro kept_rules t along_storage kept_change; simp add: same_node_def node_wf_def)
qed

lemma kept_shutdown: "along node_kept node_shutdown"
  unfolding node_shutdown_def
  by (intro kept_rules along_storage kept_change; simp add: same_node_def node_wf_def)

lemma kept_attach: "along node_kept (node_attach_workload w e ps answer)"
  unfolding node_attach_workload_def
  by (intro kept_rules kept_change; simp add: same_node_def node_wf_def)

text \<open>The steps of a running node: a request, a round of the heartbeat, an attachment made by the
  host process, the shutdown.\<close>

inductive node_step :: "'p node \<Rightarrow> 'p node \<Rightarrow> bool" where
  request: "node_step s (snd (node_dispatch addr_ok rq s))"
| heartbeat: "node_step s (snd (heartbeat_round resources old coordinator failures tick s))"
| attach: "node_step s (snd (node_attach_workload w e ps answer s))"
| shutdown: "node_step s (snd (node_shutdown s))"

inductive_cases node_stepE: "node_step s s'"

lemma node_step_kept: "node_step s s' \<Longrightarrow> node_kept s s'"
  by (erule node_stepE)
    (simp_all add: kept_node_dispatch [unfolded along_def, rule_format]
      kept_heartbeat [unfolded along_def, rule_format] kept_attach [unfolded along_def, rule_format]
      kept_shutdown [unfolded along_def, rule_format])


end
