(* ===== verification/NodeRestore.thy ===== *)
theory NodeRestore
  imports NodeSafety
begin

section \<open>Restore on a node\<close>

text \<open>A restore leaves the files and the configuration of the node alone.\<close>

definition only_applies :: "'p node \<Rightarrow> 'p node \<Rightarrow> bool" where
  "only_applies s s' \<longleftrightarrow> dk_tree (nd_disk s') = dk_tree (nd_disk s) \<and> nd_providers s' = nd_providers s \<and>
     same_node s s'"

interpretation applies: run_relation only_applies
  by unfold_locales (auto simp: only_applies_def same_node_def)

lemma applies_on_disk: "reads_only m \<Longrightarrow> along only_applies (on_disk m)"
  unfolding on_disk_def
  by (rule applies.along_zoom [where Q = "\<lambda>d d'. dk_tree d' = dk_tree d"])
    (auto simp: only_applies_def same_node_def along_def, metis reads_onlyD prod.collapse)

lemma applies_on_world: "along only_applies (on_world m)"
  unfolding on_world_def
  by (rule applies.along_zoom [where Q = "\<lambda>_ _. True"]) (auto simp: only_applies_def same_node_def along_def)

lemma applies_basic: "along only_applies (my_staging a)" "along only_applies (my_commit i)"
  "along only_applies (node_fire n)"
  "along only_applies (change (\<lambda>s. s\<lparr>nd_pending := f s\<rparr>))"
  by (auto simp: along_def my_staging_def my_commit_def node_fire_def look_def change_def only_applies_def
      same_node_def split: prod.splits)

lemma reads_only_payload: "reads_only (read_component_payload L K p repr h n)"
  unfolding read_component_payload_def by (intro reads_only_and_then; simp add: reads_only_and_then)

lemmas applies_rules = applies.along_rules applies_basic applies_on_disk applies_on_world

lemma applies_cleanup: "along only_applies (cleanup_restored ps ctx)"
  unfolding cleanup_restored_def by (intro applies_rules)

lemma applies_components: "along only_applies (restore_components req ctx cs done used)"
  by (induction cs arbitrary: "done" used)
    (auto simp: Let_def intro!: applies_rules applies_cleanup reads_only_payload split: option.split sum.split)

text \<open>The components of a manifest a node has a provider for.\<close>

definition hosted :: "'p node \<Rightarrow> ident \<Rightarrow> component_entry \<Rightarrow> bool" where
  "hosted s w c \<longleftrightarrow> registry_get (nd_providers s) w (ce_component_id c) \<noteq> None"

lemma hosted_kept: "only_applies s s' \<Longrightarrow> hosted s' w c = hosted s w c"
  by (simp add: only_applies_def hosted_def)

text \<open>One component of a restore that ends well: it has no provider and is not required, or its
  payload was read and its provider took it.\<close>

lemma restore_components_Cons:
  assumes "restore_components req ctx (c # cs) restored used s = (Inr res, s')" "nrs_ok res"
  obtains (skipped) "\<not> hosted s (nrr_workload_id req) c" "\<not> ce_required c"
      "restore_components req ctx cs restored used s = (Inr res, s')"
    | (applied) p payload x x' s1 where "registry_get (nd_providers s) (nrr_workload_id req) (ce_component_id c) = Some p"
      "fst (read_component_payload (nd_lib s) (nd_codecs s) (rx_commit_dir ctx) (ce_storage_representation c)
         (ce_content_hash c) (restore_bound req) (nd_disk s)) = Inr payload"
      "pv_restore p ctx payload x = (Inr (), x')" "only_applies s s1"
      "restore_components req ctx cs (restored @ [ce_component_id c]) (used @ [p]) s1 = (Inr res, s')"
proof -
  let ?w = "nrr_workload_id req"
  have no: "\<not> (and_then m (\<lambda>_. give (restore_failed a msg ds)) t = (Inr res, s'))" for m :: "('a node, unit) prog" and a msg ds t
    using assms(2) by (auto simp: and_then_Inr restore_failed_def)
  show thesis
  proof (cases "registry_get (nd_providers s) ?w (ce_component_id c)")
    case None
    then have "\<not> ce_required c" "restore_components req ctx cs restored used s = (Inr res, s')"
      using assms(1) no by (auto simp: Let_def run_looks split: if_splits)
    with None skipped show ?thesis by (simp add: hosted_def)
  next
    case (Some p)
    from Some assms(1) no obtain payload s2 where
      d: "on_disk (read_component_payload (nd_lib s) (nd_codecs s) (rx_commit_dir ctx)
        (ce_storage_representation c) (ce_content_hash c) (restore_bound req)) s = (Inr payload, s2)"
      and k: "and_then (attempt (on_world (pv_restore p ctx payload))) (\<lambda>r1.
         case r1 of
           Inl e \<Rightarrow> and_then (ignore (cleanup_restored (used @ [p]) ctx)) (\<lambda>_. give (restore_failed (nrr_attempt_id req)
             (''restore of '' @ quoted (ce_component_id c) @ '' failed: '' @ error_to_string e) restored))
         | Inr _ \<Rightarrow> and_then (attempt (on_world (pv_verify_restore p ctx))) (\<lambda>r2.
             case r2 of
               Inl e \<Rightarrow> and_then (ignore (cleanup_restored (used @ [p]) ctx)) (\<lambda>_. give (restore_failed (nrr_attempt_id req)
                 (''verification of '' @ quoted (ce_component_id c) @ '' failed: '' @ error_to_string e) restored))
             | Inr _ \<Rightarrow> restore_components req ctx cs (restored @ [ce_component_id c]) (used @ [p]))) s2 = (Inr res, s')"
      by (auto simp: Let_def run_looks and_then_Inr split: sum.splits)
    from k no obtain s3 s1 where w: "on_world (pv_restore p ctx payload) s2 = (Inr (), s3)"
      "on_world (pv_verify_restore p ctx) s3 = (Inr (), s1)"
      and r: "restore_components req ctx cs (restored @ [ce_component_id c]) (used @ [p]) s1 = (Inr res, s')"
      by (auto simp: and_then_Inr split: sum.splits)
    have s1: "only_applies s s1"
      using alongD [OF applies_on_disk [OF reads_only_payload] d] alongD [OF applies_on_world w(1)]
        alongD [OF applies_on_world w(2)] applies.R_trans by blast
    obtain x' where "pv_restore p ctx payload (nd_world s2) = (Inr (), x')"
      using w(1) by (auto simp: on_world_def zoom_def split: prod.splits)
    with applied [OF Some _ _ s1 r] d show ?thesis by (auto simp: on_disk_Inr)
  qed
qed

lemma restore_components_ok:
  assumes "restore_components req ctx cs restored used s = (Inr res, s')" "nrs_ok res"
  shows "nrs_restored_components res =
      restored @ map ce_component_id (filter (hosted s (nrr_workload_id req)) cs) \<and>
    (\<forall>c \<in> set cs. ce_required c \<longrightarrow> hosted s (nrr_workload_id req) c) \<and>
    map_of (nd_pending s') (nrr_attempt_id req) =
      Some (nrr_workload_id req, nrr_checkpoint_id req, nrs_restored_components res)"
  using assms(1)
proof (induction cs arbitrary: restored used s)
  case Nil
  then show ?case by (auto simp: and_then_Inr)
next
  case (Cons c cs)
  from Cons.prems assms(2) show ?case
  proof (cases rule: restore_components_Cons)
    case skipped
    with Cons.IH [OF skipped(3)] show ?thesis by simp
  next
    case (applied p payload x x' s1)
    with Cons.IH [OF applied(5)] hosted_kept [OF applied(4)] show ?thesis by (simp add: hosted_def)
  qed
qed

text \<open>What the providers were given: bytes with the content hash the manifest records.\<close>

definition applied_to :: "'p node \<Rightarrow> ident \<Rightarrow> component_entry \<Rightarrow> bytes \<Rightarrow> bool" where
  "applied_to s w c payload \<longleftrightarrow> (\<exists>p ctx x x'. registry_get (nd_providers s) w (ce_component_id c) = Some p \<and>
     pv_restore p ctx payload x = (Inr (), x') \<and> sha256_hex (nd_lib s) payload = ce_content_hash c)"

lemma restore_components_bytes:
  assumes "restore_components req ctx cs restored used s = (Inr res, s')" "nrs_ok res"
    and "c \<in> set cs" "hosted s (nrr_workload_id req) c"
  shows "\<exists>payload. applied_to s (nrr_workload_id req) c payload"
  using assms(1,3,4)
proof (induction cs arbitrary: restored used s)
  case (Cons b cs)
  from Cons.prems(1) assms(2) show ?case
  proof (cases rule: restore_components_Cons)
    case skipped
    with Cons.IH [OF skipped(3)] Cons.prems show ?thesis by auto
  next
    case (applied p payload x x' s1)
    have same: "applied_to s1 = applied_to s"
      using applied(4) by (auto simp: applied_to_def only_applies_def same_node_def fun_eq_iff)
    obtain d' where "read_component_payload (nd_lib s) (nd_codecs s) (rx_commit_dir ctx) (ce_storage_representation b)
         (ce_content_hash b) (restore_bound req) (nd_disk s) = (Inr payload, d')"
      using applied(2) by (cases "read_component_payload (nd_lib s) (nd_codecs s) (rx_commit_dir ctx)
         (ce_storage_representation b) (ce_content_hash b) (restore_bound req) (nd_disk s)") auto
    then have "sha256_hex (nd_lib s) payload = ce_content_hash b"
      by (auto simp: read_component_payload_def and_then_Inr split: if_splits)
    with applied(1,3) have "applied_to s (nrr_workload_id req) b payload" by (auto simp: applied_to_def)
    with Cons.IH [OF applied(5)] Cons.prems hosted_kept [OF applied(4)] show ?thesis by (auto simp: same)
  qed
qed simp

text \<open>Up to the first provider, a restore only reads.\<close>

definition untouched :: "'p node \<Rightarrow> 'p node \<Rightarrow> bool" where
  "untouched s s' \<longleftrightarrow> only_applies s s' \<and> nd_world s' = nd_world s"

interpretation untouched: run_relation untouched
  by unfold_locales (auto simp: untouched_def applies.R_refl intro: applies.R_trans)

lemma untouched_on_disk: "reads_only m \<Longrightarrow> along untouched (on_disk m)"
  using applies_on_disk [of m] by (auto simp: along_def untouched_def on_disk_def zoom_def split: prod.splits)

lemma reads_only_check [simp]: "reads_only (check_components L K p cs)"
  by (induction cs) (auto simp: Let_def intro!: reads_only_and_then split: sum.split)

lemma untouched_admit: "along untouched (admit_replica req p)"
  unfolding admit_replica_def by (intro untouched.along_rules untouched_on_disk reads_only_check reads_only_sidecar reads_only_basic)

lemma admit_replica_sound:
  assumes "admit_replica req p s = (Inr (Inr m), s')" "nrr_expected_manifest_digest req \<noteq> []"
  shows "replica_ok (nd_lib s) (nd_codecs s) (dk_tree (nd_disk s)) p (nrr_expected_manifest_digest req) m \<and>
    m_checkpoint_id m = nrr_checkpoint_id req \<and> m_workload_id m = nrr_workload_id req"
proof -
  from assms(1) obtain b f s1 s2 where r: "on_disk (fs_read (p @ [''manifest''])) s = (Inr b, s1)"
    and f: "on_disk (sidecar_digest p) s1 = (Inr f, s2)" "f = nrr_expected_manifest_digest req"
    and m: "sha256_hex (nd_lib s) b = f" "manifest_parse (nd_lib s) b = Inr m"
      "m_checkpoint_id m = nrr_checkpoint_id req" "m_workload_id m = nrr_workload_id req"
    and c: "on_disk (check_components (nd_lib s) (nd_codecs s) p (m_components m)) s2 = (Inr None, s')"
    by (auto simp: admit_replica_def run_looks and_then_Inr split: sum.splits if_splits option.splits)
  have t1: "dk_tree (nd_disk s1) = dk_tree (nd_disk s)"
    using alongD [OF untouched_on_disk r] by (simp add: untouched_def only_applies_def)
  moreover have "dk_tree (nd_disk s2) = dk_tree (nd_disk s1)"
    using alongD [OF untouched_on_disk f(1)] by (simp add: untouched_def only_applies_def)
  moreover obtain e where "fs_get (dk_tree (nd_disk s1)) (p @ [''manifest.digest'']) = Some (FileE e)"
    "utf8_valid e" "f = trim (bytes_string e)"
    using f sidecar_digest_Inr [of p "nd_disk s1" f] assms(2) by (auto simp: on_disk_Inr)
  moreover have "fs_get (dk_tree (nd_disk s)) (p @ [''manifest'']) = Some (FileE b)"
    using r by (auto simp: on_disk_Inr fs_read_Inr)
  moreover have "\<forall>c \<in> set (m_components m). component_ok (nd_lib s) (nd_codecs s) (dk_tree (nd_disk s2)) p c"
    using c check_components_sound by (fastforce simp: on_disk_Inr)
  ultimately show ?thesis using m f(2) by (auto simp: replica_ok_def)
qed

text \<open>The two ways a restore goes: it is refused before the first provider ran, or it verified the
  replica and applies its components.\<close>

lemma do_restore_cases:
  assumes "do_restore req s = (r, s')" "nrr_expected_manifest_digest req \<noteq> []"
  defines "commit \<equiv> commit_path (nd_lib s) (nd_root s) (nrr_checkpoint_id req)"
  obtains (refused) "untouched s s'" "\<And>res. r = Inr res \<Longrightarrow> \<not> nrs_ok res"
    | (verified) m ctx s2 where
      "replica_ok (nd_lib s) (nd_codecs s) (dk_tree (nd_disk s)) commit (nrr_expected_manifest_digest req) m"
      "m_checkpoint_id m = nrr_checkpoint_id req" "m_workload_id m = nrr_workload_id req"
      "untouched s s2" "restore_components req ctx (m_components m) [] [] s2 = (r, s')"
proof -
  obtain x s1 where fire: "node_fire ''restore.node.before_apply'' s = (x, s1)" by fastforce
  have u1: "untouched s s1" using fire
    by (auto simp: node_fire_def untouched_def only_applies_def same_node_def split: prod.splits)
  obtain y s2 where ad: "admit_replica req commit s1 = (y, s2)" by fastforce
  have u: "untouched s s2" using untouched.R_trans [OF u1 alongD [OF untouched_admit ad]] .
  have cfg: "nd_lib s1 = nd_lib s" "nd_root s1 = nd_root s" "nd_codecs s1 = nd_codecs s"
      "dk_tree (nd_disk s1) = dk_tree (nd_disk s)"
    using u1 by (simp_all add: untouched_def only_applies_def same_node_def)
  show thesis
  proof (cases "x = Inr () \<and> (\<exists>m. y = Inr (Inr m))")
    case True
    then obtain m where y: "y = Inr (Inr m)" and x: "x = Inr ()" by blast
    define ctx where "ctx = \<lparr>rx_checkpoint_id = nrr_checkpoint_id req, rx_workload_id = nrr_workload_id req,
      rx_attempt_id = nrr_attempt_id req, rx_staging_dir = staging_dir (nd_root s2) (nrr_attempt_id req), rx_commit_dir = commit\<rparr>"
    have "restore_components req ctx (m_components m) [] [] s2 = (r, s')"
      using assms(1) fire ad x y cfg
      by (simp add: do_restore_def and_then_def my_commit_def my_staging_def look_def ctx_def commit_def)
    with admit_replica_sound [OF ad [unfolded y] assms(2)] cfg show ?thesis by (intro verified [OF _ _ _ u]) simp_all
  next
    case False
    have "untouched s s' \<and> (\<forall>res. r = Inr res \<longrightarrow> \<not> nrs_ok res)"
    proof (cases x)
      case (Inl e)
      then show ?thesis using assms(1) fire u1 by (auto simp: do_restore_def and_then_def)
    next
      case (Inr a)
      then show ?thesis using assms(1) fire ad False u cfg
        by (auto simp: do_restore_def and_then_def my_commit_def look_def give_def restore_failed_def commit_def
            split: sum.splits)
    qed
    with refused show ?thesis by blast
  qed
qed

lemma hosted_untouched: "untouched s s2 \<Longrightarrow> hosted s2 = hosted s"
  by (auto simp: untouched_def hosted_def only_applies_def fun_eq_iff)

lemma applied_untouched: "untouched s s2 \<Longrightarrow> applied_to s2 = applied_to s"
  by (auto simp: untouched_def applied_to_def only_applies_def same_node_def fun_eq_iff)

lemma do_restore_applies:
  assumes "do_restore req s = (Inr res, s')" "nrs_ok res" "nrr_expected_manifest_digest req \<noteq> []"
  obtains m where
    "replica_ok (nd_lib s) (nd_codecs s) (dk_tree (nd_disk s)) (commit_path (nd_lib s) (nd_root s) (nrr_checkpoint_id req))
       (nrr_expected_manifest_digest req) m"
    "m_checkpoint_id m = nrr_checkpoint_id req" "m_workload_id m = nrr_workload_id req"
    "\<forall>c \<in> set (m_components m). (ce_required c \<longrightarrow> hosted s (nrr_workload_id req) c) \<and>
       (hosted s (nrr_workload_id req) c \<longrightarrow> (\<exists>payload. applied_to s (nrr_workload_id req) c payload))"
    "only_applies s s'"
  using assms(1,3)
proof (cases rule: do_restore_cases)
  case (verified m ctx s2)
  have "only_applies s s'"
    using alongD [OF applies_components verified(5)] verified(4) applies.R_trans unfolding untouched_def by blast
  with verified restore_components_ok [OF verified(5) assms(2)] restore_components_bytes [OF verified(5) assms(2)]
    hosted_untouched [OF verified(4)] applied_untouched [OF verified(4)] that show ?thesis by simp
qed (use assms(2) in simp)


end
