(* ===== verification/NodeLimits.thy ===== *)
theory NodeLimits
  imports NodeSafety
begin

section \<open>What the requests of a node cannot do\<close>

text \<open>
  Three limits: a cleanup removes nothing outside the staging and restore directories of its
  attempt and the checkpoint it names, a request that fails its token or epoch check changes
  nothing, and a node that lost the coordinator stops after its bounded number of heartbeats.
\<close>

subsection \<open>Cleanup\<close>

text \<open>A tree that lost entries, only where \<open>W\<close> allows it.\<close>

definition shrunk :: "(path \<Rightarrow> bool) \<Rightarrow> file_tree \<Rightarrow> file_tree \<Rightarrow> bool" where
  "shrunk W t t' \<longleftrightarrow> (\<forall>q. fs_get t' q = fs_get t q \<or> fs_get t' q = None \<and> W q)"

lemma shrunk_refl [simp]: "shrunk W t t"
  by (simp add: shrunk_def)

lemma shrunk_trans: "shrunk W t u \<Longrightarrow> shrunk W u v \<Longrightarrow> shrunk W t v"
  unfolding shrunk_def by metis

lemma shrunk_weaken: "shrunk V t u \<Longrightarrow> (\<And>q. V q \<Longrightarrow> W q) \<Longrightarrow> shrunk W t u"
  unfolding shrunk_def by metis

lemma shrunk_gone: "\<not> fs_exists p t \<Longrightarrow> shrunk W t u \<Longrightarrow> \<not> fs_exists p u"
  unfolding shrunk_def fs_exists_def by metis

lemma remove_dir_shrinks:
  assumes "fs_remove_dir_all p d = (r, d')"
  shows "shrunk (prefix p) (dk_tree d) (dk_tree d') \<and> (r = Inr () \<longrightarrow> \<not> fs_exists p (dk_tree d'))"
proof -
  have drop: "shrunk (prefix p) t (fs_drop P t)" if "\<And>q. P q \<Longrightarrow> prefix p q" for P t
    using that by (auto simp: shrunk_def fs_get_drop)
  have gone: "\<not> fs_exists p (fs_drop (prefix p) t)" if "\<not> is_root p" for t
    using that by (simp add: fs_exists_def fs_get_drop)
  show ?thesis
    using assms gone unfolding fs_remove_dir_all_def sys_call_def
    by (auto simp: Let_def drop split: if_splits option.splits dest!: in_set_takeD intro!: drop)
qed

definition cleans :: "path \<Rightarrow> lib \<Rightarrow> (path \<Rightarrow> bool) \<Rightarrow> 'p node \<Rightarrow> 'p node \<Rightarrow> bool" where
  "cleans root L W s s' \<longleftrightarrow> (nd_root s = root \<and> nd_lib s = L \<longrightarrow>
     nd_root s' = root \<and> nd_lib s' = L \<and> shrunk W (dk_tree (nd_disk s)) (dk_tree (nd_disk s')))"

interpretation cleans: run_relation "cleans root L W"
  by unfold_locales (auto simp: cleans_def intro: shrunk_trans)

text \<open>One step of a cleanup: it never fails, it only removes what \<open>W\<close> allows, and if it leaves no
  error there was none before and its goal is reached.\<close>

definition cleans_to ::
  "path \<Rightarrow> lib \<Rightarrow> (path \<Rightarrow> bool) \<Rightarrow> ('x \<Rightarrow> file_tree \<Rightarrow> bool) \<Rightarrow> (cleanup_acc \<Rightarrow> 'x \<Rightarrow> ('p node, cleanup_acc) prog)
     \<Rightarrow> 'x \<Rightarrow> bool" where
  "cleans_to root L W G f x \<longleftrightarrow> (\<forall>acc s r s'. f acc x s = (r, s') \<longrightarrow> nd_root s = root \<longrightarrow> nd_lib s = L \<longrightarrow>
     (\<exists>a. r = Inr a \<and> cleans root L W s s' \<and>
        (ca_error a = None \<longrightarrow> ca_error acc = None \<and> G x (dk_tree (nd_disk s')))))"

lemma cleans_toD:
  assumes "cleans_to root L W G f x" "f acc x s = (r, s')" "nd_root s = root" "nd_lib s = L"
  obtains a where "r = Inr a" "nd_root s' = root" "nd_lib s' = L"
    "shrunk W (dk_tree (nd_disk s)) (dk_tree (nd_disk s'))"
    "ca_error a = None \<longrightarrow> ca_error acc = None \<and> G x (dk_tree (nd_disk s'))"
proof -
  have "\<exists>a. r = Inr a \<and> cleans root L W s s' \<and>
      (ca_error a = None \<longrightarrow> ca_error acc = None \<and> G x (dk_tree (nd_disk s')))"
    by (rule assms(1) [unfolded cleans_to_def, rule_format, OF assms(2-4)])
  then obtain a where "r = Inr a \<and> cleans root L W s s' \<and>
      (ca_error a = None \<longrightarrow> ca_error acc = None \<and> G x (dk_tree (nd_disk s')))" ..
  with assms(3,4) show ?thesis by (intro that [of a]) (simp_all add: cleans_def)
qed

lemma cleans_to_fold:
  assumes "\<And>x. x \<in> set xs \<Longrightarrow> cleans_to root L W G f x"
    and "\<And>x t u. G x t \<Longrightarrow> shrunk W t u \<Longrightarrow> G x u"
    and "for_fold f acc xs s = (r, s')" "nd_root s = root" "nd_lib s = L"
  obtains a where "r = Inr a" "nd_root s' = root" "nd_lib s' = L"
    "shrunk W (dk_tree (nd_disk s)) (dk_tree (nd_disk s'))"
    "ca_error a = None \<longrightarrow> ca_error acc = None \<and> (\<forall>x \<in> set xs. G x (dk_tree (nd_disk s')))"
proof -
  have "\<exists>a. r = Inr a \<and> nd_root s' = root \<and> nd_lib s' = L \<and>
    shrunk W (dk_tree (nd_disk s)) (dk_tree (nd_disk s')) \<and>
    (ca_error a = None \<longrightarrow> ca_error acc = None \<and> (\<forall>x \<in> set xs. G x (dk_tree (nd_disk s'))))"
    using assms(1,3-)
  proof (induction xs arbitrary: acc s)
    case (Cons x xs)
    obtain r1 s1 where f: "f acc x s = (r1, s1)" by fastforce
    have cx: "cleans_to root L W G f x" using Cons.prems(1) by simp
    obtain a where
      a: "r1 = Inr a" "nd_root s1 = root" "nd_lib s1 = L" "shrunk W (dk_tree (nd_disk s)) (dk_tree (nd_disk s1))"
      "ca_error a = None \<longrightarrow> ca_error acc = None \<and> G x (dk_tree (nd_disk s1))"
      by (rule cleans_toD [OF cx f Cons.prems(3,4)])
    have rest: "for_fold f a xs s1 = (r, s')" using Cons.prems(2) f a(1) by (simp add: and_then_def)
    have "\<exists>b. r = Inr b \<and> nd_root s' = root \<and> nd_lib s' = L \<and>
      shrunk W (dk_tree (nd_disk s1)) (dk_tree (nd_disk s')) \<and>
      (ca_error b = None \<longrightarrow> ca_error a = None \<and> (\<forall>x \<in> set xs. G x (dk_tree (nd_disk s'))))"
      by (rule Cons.IH [OF _ rest a(2,3)]) (use Cons.prems(1) in simp)
    then obtain b where b: "r = Inr b \<and> nd_root s' = root \<and> nd_lib s' = L \<and>
      shrunk W (dk_tree (nd_disk s1)) (dk_tree (nd_disk s')) \<and>
      (ca_error b = None \<longrightarrow> ca_error a = None \<and> (\<forall>x \<in> set xs. G x (dk_tree (nd_disk s'))))" ..
    then have sh: "shrunk W (dk_tree (nd_disk s1)) (dk_tree (nd_disk s'))" by simp
    have "ca_error acc = None \<and> (\<forall>y \<in> set (x # xs). G y (dk_tree (nd_disk s')))" if e: "ca_error b = None"
    proof -
      have "ca_error a = None" "\<forall>y \<in> set xs. G y (dk_tree (nd_disk s'))" using b e by simp_all
      moreover have "G x (dk_tree (nd_disk s'))" by (rule assms(2) [OF _ sh]) (use a(5) calculation in simp)
      ultimately show ?thesis using a(5) by simp
    qed
    with b shrunk_trans [OF a(4) sh] show ?case by simp
  qed (auto simp: give_def)
  then show ?thesis by (elim exE conjE) (rule that)
qed

lemma remove_part:
  assumes "and_then (attempt (on_disk (fs_remove_dir_all p))) (\<lambda>x. give (removed_path shown msg x acc)) s = (r, s')"
    and "nd_root s = root" "nd_lib s = L" "\<And>q. prefix p q \<Longrightarrow> W q"
  shows "\<exists>a. r = Inr a \<and> cleans root L W s s' \<and>
    (ca_error a = None \<longrightarrow> ca_error acc = None \<and> \<not> fs_exists p (dk_tree (nd_disk s')))"
proof -
  obtain x d' where x: "fs_remove_dir_all p (nd_disk s) = (x, d')" by fastforce
  then have r: "r = Inr (removed_path shown msg x acc)" "s' = s\<lparr>nd_disk := d'\<rparr>"
    using assms(1) by (auto simp: and_then_def attempt_def on_disk_def zoom_def give_def)
  note sh = remove_dir_shrinks [OF x]
  then have "shrunk W (dk_tree (nd_disk s)) (dk_tree d')" using shrunk_weaken assms(4) by blast
  with sh show ?thesis
    using assms(2,3) by (auto simp: r cleans_def removed_path_def split: sum.splits)
qed

definition cleanup_scope :: "lib \<Rightarrow> path \<Rightarrow> ident list \<Rightarrow> path \<Rightarrow> bool" where
  "cleanup_scope L root ids q \<longleftrightarrow> strict_prefix (staging_root root) q \<or>
     (\<exists>i \<in> set ids. prefix (commit_path L root i) q)"

lemma staging_scope:
  assumes "prefix (staging_root root @ [x]) q"
  shows "cleanup_scope L root ids q"
proof -
  have "strict_prefix (staging_root root) (staging_root root @ [x])" by (simp add: strict_prefix_def)
  with assms show ?thesis unfolding cleanup_scope_def by (meson prefix_order.less_le_trans)
qed

lemma cleans_released:
  "cleans root L W (s\<lparr>nd_staging_leases := m\<rparr>) s' \<Longrightarrow> cleans root L W s s'"
  by (simp add: cleans_def)

lemma cleans_to_attempt:
  "cleans_to root L (cleanup_scope L root ids) (\<lambda>a t. \<not> fs_exists (staging_dir root a) t) cleanup_attempt a"
  unfolding cleans_to_def
proof (intro allI impI)
  fix acc :: cleanup_acc and s s' :: "'a node" and r
  assume run: "cleanup_attempt acc a s = (r, s')" and c: "nd_root s = root" "nd_lib s = L"
  let ?p = "staging_dir root a"
  let ?s = "s\<lparr>nd_staging_leases := tab_remove ?p (nd_staging_leases s)\<rparr>"
  show "\<exists>acc'. r = Inr acc' \<and> cleans root L (cleanup_scope L root ids) s s' \<and>
    (ca_error acc' = None \<longrightarrow> ca_error acc = None \<and> \<not> fs_exists ?p (dk_tree (nd_disk s')))"
  proof (cases "fs_exists ?p (dk_tree (nd_disk s))")
    case True
    have "and_then (attempt (on_disk (fs_remove_dir_all ?p)))
        (\<lambda>x. give (removed_path (path_string ?p) (''cleanup attempt '' @ a @ '': '') x acc)) ?s = (r, s')"
      using run True c by (simp add: cleanup_attempt_def run_looks)
    from remove_part [OF this, of root L "cleanup_scope L root ids"] c show ?thesis
      using staging_scope cleans_released by (fastforce simp: staging_dir_def)
  next
    case False
    then show ?thesis
      using run c by (auto simp: cleanup_attempt_def run_looks cleans_def give_def)
  qed
qed

lemma cleans_to_path:
  "cleans_to root L (cleanup_scope L root ids)
     (\<lambda>sp t. is_under_staging root (path_components sp) \<and> \<not> fs_exists (path_components sp) t) cleanup_path sp"
  unfolding cleans_to_def
proof (intro allI impI)
  fix acc :: cleanup_acc and s s' :: "'a node" and r
  assume run: "cleanup_path acc sp s = (r, s')" and c: "nd_root s = root" "nd_lib s = L"
  let ?p = "path_components sp"
  let ?s = "s\<lparr>nd_staging_leases := tab_remove ?p (nd_staging_leases s)\<rparr>"
  show "\<exists>acc'. r = Inr acc' \<and> cleans root L (cleanup_scope L root ids) s s' \<and>
    (ca_error acc' = None \<longrightarrow> ca_error acc = None \<and> is_under_staging root ?p \<and> \<not> fs_exists ?p (dk_tree (nd_disk s')))"
  proof (cases "is_under_staging root ?p \<and> fs_exists ?p (dk_tree (nd_disk s))")
    case True
    then obtain zs where zs: "?p = staging_root root @ zs" by (auto simp: is_under_staging_def prefix_def)
    with True have "length zs = Suc 0" by (simp add: is_under_staging_def)
    then obtain x where x: "?p = staging_root root @ [x]" using zs by (auto simp: length_Suc_conv)
    have "and_then (attempt (on_disk (fs_remove_dir_all ?p)))
        (\<lambda>x. give (removed_path sp (''cleanup '' @ sp @ '': '') x acc)) ?s = (r, s')"
      using run True c by (simp add: cleanup_path_def run_looks Let_def)
    from remove_part [OF this, of root L "cleanup_scope L root ids"] c True show ?thesis
      using staging_scope x cleans_released by fastforce
  next
    case False
    then show ?thesis
      using run c by (auto simp: cleanup_path_def run_looks cleans_def give_def Let_def split: if_splits)
  qed
qed

lemma cleans_to_checkpoint:
  assumes "i \<in> set ids"
  shows "cleans_to root L (cleanup_scope L root ids) (\<lambda>i t. \<not> fs_exists (commit_path L root i) t) cleanup_checkpoint i"
  unfolding cleans_to_def
proof (intro allI impI)
  fix acc :: cleanup_acc and s s' :: "'a node" and r
  assume run: "cleanup_checkpoint acc i s = (r, s')" and c: "nd_root s = root" "nd_lib s = L"
  let ?p = "commit_path L root i"
  obtain x d' where x: "delete_committed L root i (nd_disk s) = (x, d')" by fastforce
  have run': "and_then (attempt (on_disk (delete_committed L root i))) (\<lambda>r. give (case r of
        Inr _ \<Rightarrow> acc\<lparr>ca_checkpoints := ca_checkpoints acc @ [to_hex (lib_hex_encode (nd_lib s)) i]\<rparr>
      | Inl e \<Rightarrow> acc\<lparr>ca_error := Some (''cleanup '' @ to_hex (lib_hex_encode (nd_lib s)) i @ '': '' @ error_to_string e)\<rparr>)) s
      = (r, s')"
    using run c by (simp add: cleanup_checkpoint_def run_looks)
  have s': "s' = s\<lparr>nd_disk := d'\<rparr>"
    and r: "\<exists>a. r = Inr a \<and> (ca_error a = None \<longrightarrow> x = Inr () \<and> ca_error acc = None)"
    using run' x by (auto simp: and_then_def attempt_def on_disk_def zoom_def give_def split: sum.splits)
  have sh: "shrunk (prefix ?p) (dk_tree (nd_disk s)) (dk_tree d')"
    and gone: "x = Inr () \<longrightarrow> \<not> fs_exists ?p (dk_tree d')"
    using x remove_dir_shrinks [of ?p "nd_disk s" x d']
    by (auto simp: delete_committed_def and_then_def ask_def give_def split: if_splits)
  have "shrunk (cleanup_scope L root ids) (dk_tree (nd_disk s)) (dk_tree d')"
    by (rule shrunk_weaken [OF sh]) (use assms in \<open>auto simp: cleanup_scope_def\<close>)
  with r gone c show "\<exists>a. r = Inr a \<and> cleans root L (cleanup_scope L root ids) s s' \<and>
    (ca_error a = None \<longrightarrow> ca_error acc = None \<and> \<not> fs_exists ?p (dk_tree (nd_disk s')))"
    by (auto simp: s' cleans_def)
qed

lemma cleans_to_component: "cleans_to root L W (\<lambda>c t. True) (cleanup_component target ctx) c"
  unfolding cleans_to_def
proof (intro allI impI)
  fix acc :: cleanup_acc and s s' :: "'a node" and r
  assume run: "cleanup_component target ctx acc c s = (r, s')" and c: "nd_root s = root" "nd_lib s = L"
  show "\<exists>a. r = Inr a \<and> cleans root L W s s' \<and> (ca_error a = None \<longrightarrow> ca_error acc = None \<and> True)"
    using run c
    by (auto simp: cleanup_component_def run_looks and_then_def attempt_def on_world_def zoom_def give_def cleans_def
        split: option.splits prod.splits sum.splits)
qed

lemma cleans_to_target: "cleans_to root L W (\<lambda>target t. True) cleanup_restore_target target"
  unfolding cleans_to_def
proof (intro allI impI)
  fix acc :: cleanup_acc and s s' :: "'a node" and r
  assume run: "cleanup_restore_target acc target s = (r, s')" and c: "nd_root s = root" "nd_lib s = L"
  let ?s = "s\<lparr>nd_pending := tab_remove (rct_attempt_id target) (nd_pending s)\<rparr>"
  from run obtain ctx cs where run': "for_fold (cleanup_component target ctx) acc cs ?s = (r, s')"
    by (auto simp: cleanup_restore_target_def run_looks)
  have c': "nd_root ?s = root" "nd_lib ?s = L" using c by simp_all
  obtain a where "r = Inr a" "nd_root s' = root" "nd_lib s' = L"
    "shrunk W (dk_tree (nd_disk ?s)) (dk_tree (nd_disk s'))" "ca_error a = None \<longrightarrow> ca_error acc = None \<and> (\<forall>x \<in> set cs. True)"
    by (rule cleans_to_fold [OF cleans_to_component [where W = W] TrueI run' c'])
  then show "\<exists>a. r = Inr a \<and> cleans root L W s s' \<and> (ca_error a = None \<longrightarrow> ca_error acc = None \<and> True)"
    using c by (auto simp: cleans_def)
qed


subsection \<open>Refused requests\<close>

text \<open>The coordinator epoch a request carries, and the token of a fetch.\<close>

fun request_epoch :: "node_request \<Rightarrow> u64 option" where
  "request_epoch (NqCapture q) = Some (ncr_coordinator_epoch q)"
| "request_epoch (NqPromote q) = Some (nmr_coordinator_epoch q)"
| "request_epoch (NqResume q) = Some (nur_coordinator_epoch q)"
| "request_epoch (NqRestore q) = Some (nrr_coordinator_epoch q)"
| "request_epoch (NqVerify q) = Some (nvr_coordinator_epoch q)"
| "request_epoch (NqProbe q) = Some (npr_coordinator_epoch q)"
| "request_epoch (NqCleanup q) = Some (nlr_coordinator_epoch q)"
| "request_epoch (NqReplicate q peer) = Some (nyr_coordinator_epoch q)"
| "request_epoch (NqAllowFetch q) = Some (nar_coordinator_epoch q)"
| "request_epoch _ = None"

fun request_token :: "node_request \<Rightarrow> (ident \<times> string) option" where
  "request_token (NqFetchManifest q) = Some (fmq_checkpoint_id q, fmq_fetch_token q)"
| "request_token (NqFetchComponent q) = Some (fcq_checkpoint_id q, fcq_fetch_token q)"
| "request_token _ = None"

definition token_valid :: "'p node \<Rightarrow> ident \<times> string \<Rightarrow> bool" where
  "token_valid s k \<longleftrightarrow> (\<exists>e. (k, e) \<in> set (nd_fetch_tokens s) \<and> nd_clock s (nd_reads s) \<le> e)"

lemma check_token_runs:
  "check_token i tk s = (if token_valid s (i, tk) then Inr () else Inl (FencingFailure ''unknown fetch token for {checkpoint_id}''),
     s\<lparr>nd_reads := nd_reads s + 1,
       nd_fetch_tokens := filter (\<lambda>(_, e). e \<ge> nd_clock s (nd_reads s)) (nd_fetch_tokens s)\<rparr>)"
proof -
  let ?m = "filter (\<lambda>(_, e). e \<ge> nd_clock s (nd_reads s)) (nd_fetch_tokens s)"
  have "map_of ?m (i, tk) = None \<longleftrightarrow> \<not> token_valid s (i, tk)"
    by (force simp: map_of_eq_None_iff token_valid_def)
  then show ?thesis
    by (auto simp: check_token_def node_now_def and_then_def change_def look_def give_def raise_def split: option.splits)
qed

lemma fenced_stale:
  "e \<noteq> nd_epoch s \<Longrightarrow> fenced e wrap m s = (Inl (StaleCoordinatorEpoch (nd_epoch s) e), s)"
  by (simp add: fenced_def check_epoch_def and_then_def look_def raise_def)


subsection \<open>Losing the coordinator\<close>

text \<open>The heartbeat thread over a list of rounds: what the coordinator would answer in each, and
  which staging directories are past their age.\<close>

fun heartbeats ::
  "json \<Rightarrow> ((path \<Rightarrow> bool) \<times> (node_heartbeat_request \<Rightarrow> node_heartbeat_response fabric_result)) list
     \<Rightarrow> nat \<Rightarrow> nat \<Rightarrow> ('p node, nat \<times> nat) prog" where
  "heartbeats resources [] failures tick = give (failures, tick)"
| "heartbeats resources ((old, coordinator) # rounds) failures tick =
     and_then (heartbeat_round resources old coordinator failures tick) (\<lambda>(failures', tick').
       heartbeats resources rounds failures' tick')"

text \<open>A round of a node that has lost its connection.\<close>

lemma lost_round:
  assumes "\<not> nd_connected s"
  obtains f' k' s' where "heartbeat_round resources old coordinator f k s = (Inr (f', k'), s')"
    "\<not> nd_connected s'" "nd_stop s \<Longrightarrow> nd_stop s' \<and> f' = f"
    "\<not> nd_stop s \<Longrightarrow> f' = Suc f \<and> nd_stop s' = (f \<ge> 9)"
proof -
  have tick: "heartbeat_tick resources coordinator s = (Inr False, s)"
    using assms by (simp add: heartbeat_tick_def and_then_def look_def give_def)
  obtain x d where "recover_partial_older_than (nd_root s) (map fst (nd_staging_leases s)) old (nd_disk s) = (x, d)"
    by fastforce
  then have sweep: "ignore (on_disk (recover_partial_older_than (nd_root s) (map fst (nd_staging_leases s)) old)) s
      = (Inr (), s\<lparr>nd_disk := d\<rparr>)"
    by (simp add: ignore_def and_then_def attempt_def on_disk_def zoom_def give_def)
  consider "nd_stop s" | "\<not> nd_stop s" "f \<ge> 9" | "\<not> nd_stop s" "\<not> f \<ge> 9" "Suc k mod 10 = 0"
    | "\<not> nd_stop s" "\<not> f \<ge> 9" "Suc k mod 10 \<noteq> 0" by blast
  then show ?thesis
  proof cases
    case 1
    with assms show ?thesis by (intro that [of f k s]) (auto simp: heartbeat_round_def run_looks give_def)
  next
    case 2
    with assms tick show ?thesis
      by (intro that [of "Suc f" k "s\<lparr>nd_stop := True\<rparr>"])
        (auto simp: heartbeat_round_def run_looks and_then_def [of "heartbeat_tick resources coordinator"] give_def)
  next
    case 3
    with assms tick sweep show ?thesis
      by (intro that [of "Suc f" "Suc k" "s\<lparr>nd_disk := d\<rparr>"])
        (auto simp: heartbeat_round_def run_looks and_then_def [of "heartbeat_tick resources coordinator"]
          and_then_def [of "ignore m" for m] give_def)
  next
    case 4
    with assms tick show ?thesis
      by (intro that [of "Suc f" "Suc k" s])
        (auto simp: heartbeat_round_def run_looks and_then_def [of "heartbeat_tick resources coordinator"] give_def)
  qed
qed

lemma lost_rounds:
  assumes "\<not> nd_connected s"
  shows "\<exists>f' k' s'. heartbeats resources rounds f k s = (Inr (f', k'), s') \<and> \<not> nd_connected s' \<and>
    (nd_stop s' \<longleftrightarrow> nd_stop s \<or> rounds \<noteq> [] \<and> f + length rounds \<ge> 10)"
  using assms
proof (induction rounds arbitrary: f k s)
  case (Cons a rounds)
  obtain old coordinator where a: "a = (old, coordinator)" by fastforce
  from lost_round [OF Cons.prems, of resources old coordinator f k] obtain f1 k1 s1 where
    r: "heartbeat_round resources old coordinator f k s = (Inr (f1, k1), s1)" "\<not> nd_connected s1"
    "nd_stop s \<Longrightarrow> nd_stop s1 \<and> f1 = f" "\<not> nd_stop s \<Longrightarrow> f1 = Suc f \<and> nd_stop s1 = (f \<ge> 9)" by metis
  from Cons.IH [OF r(2), of f1 k1] r show ?case by (cases "nd_stop s") (auto simp: a and_then_def)
qed (simp add: give_def)


end
