(* ===== verification/NodeCapture.thy ===== *)
theory NodeCapture
  imports NodeSafety
begin

section \<open>From a capture to a checkpoint that can be restored\<close>

text \<open>
  The path of a payload through a node: a provider returns it, the capture compresses it into the
  staging directory, the promotion moves the directory, the verification accepts it, and a
  restore reads the same bytes back.
\<close>

subsection \<open>Parts of a request that leave the disk alone\<close>

definition same_files :: "'p node \<Rightarrow> 'p node \<Rightarrow> bool" where
  "same_files s s' \<longleftrightarrow> nd_disk s' = nd_disk s \<and> same_node s s'"

interpretation files: run_relation same_files
  by unfold_locales (auto simp: same_files_def same_node_def)

lemma files_on_world: "along same_files (on_world m)"
  unfolding on_world_def
  by (rule files.along_zoom [where Q = "\<lambda>_ _. True"]) (auto simp: same_files_def same_node_def along_def)

lemma files_prepare: "along same_files (prepare_providers ctx ps)"
  by (induction ps) (auto intro!: files.along_rules files_on_world split: sum.split)

lemma files_quiesce: "along same_files (quiesce_providers mode ctx ps)"
  unfolding quiesce_providers_def
  by (cases mode) (auto intro!: files.along_rules files_on_world)

subsection \<open>Writing a component\<close>

text \<open>The stored file holds the payload, in the form the entry records.\<close>

definition component_holds ::
  "lib \<Rightarrow> codecs \<Rightarrow> compression_spec \<Rightarrow> file_tree \<Rightarrow> path \<Rightarrow> component_entry \<Rightarrow> bytes \<Rightarrow> bool" where
  "component_holds L K spec t dir c payload \<longleftrightarrow>
     component_stored L K t dir c \<and> sha256_hex L payload = ce_content_hash c \<and>
     sr_codec (ce_storage_representation c) = codec_as_str (cs_codec spec) \<and>
     sr_original_size (ce_storage_representation c) = of_nat (length payload) \<and>
     (\<exists>stored. fs_get t (dir @ [''components'', ce_component_id c]) = Some (FileE stored) \<and>
        compress_bytes K spec payload = Inr stored)"

lemma component_holds_cong:
  assumes "component_holds L K spec t dir c payload"
    and "\<And>x. x \<in> {ce_component_id c, ce_component_id c @ ''.crc32c''} \<Longrightarrow>
      fs_get t' (dir' @ [''components'', x]) = fs_get t (dir @ [''components'', x])"
  shows "component_holds L K spec t' dir' c payload"
  using assms by (simp add: component_holds_def component_stored_def stored_ok_def)

lemma write_component_payload_Inr:
  assumes "write_component_payload L K staging i payload spec d = (Inr repr, d')" "sanitize_segment i = i"
  obtains stored where "compress_bytes K spec payload = Inr stored"
    "repr = \<lparr>sr_codec = codec_as_str (cs_codec spec), sr_original_size = of_nat (length payload),
       sr_stored_size = of_nat (length stored), sr_stored_hash = sha256_hex L stored,
       sr_relative_path = ''components/'' @ i\<rparr>"
    "fs_get (dk_tree d') (staging @ [''components'', i]) = Some (FileE stored)"
    "fs_get (dk_tree d') (staging @ [''components'', i @ ''.crc32c'']) =
       Some (FileE (line (hex8 (cd_crc32c K stored))))"
    "\<And>x. x \<notin> {i, i @ ''.crc32c'', i @ ''.sha256''} \<Longrightarrow>
       fs_get (dk_tree d') (staging @ [''components'', x]) = fs_get (dk_tree d) (staging @ [''components'', x])"
proof -
  let ?p = "staging @ [''components'', i]"
  from assms obtain stored d1 d2 d3 d4 d5 d6 where
    c: "compress_bytes K spec payload = Inr stored"
    and m1: "fs_create_dir_all (staging @ [''components'']) d = (Inr (), d1)"
    and m2: "fs_create_dir_all (staging @ [''integrity'']) d1 = (Inr (), d2)"
    and w: "fs_write ?p stored d2 = (Inr (), d3)" and s: "fs_sync ?p d3 = (Inr (), d4)"
    and w1: "fs_write (sidecar_sha_path ?p) (line (sha256_hex L stored)) d4 = (Inr (), d5)"
    and w2: "fs_write (sidecar_crc_path ?p) (line (hex8 (cd_crc32c K stored))) d5 = (Inr (), d6)"
    and w3: "fs_write (staging @ [''integrity'', i @ ''.sha256'']) (line (sha256_hex L payload)) d6 = (Inr (), d')"
    and r: "repr = \<lparr>sr_codec = codec_as_str (cs_codec spec), sr_original_size = of_nat (length payload),
       sr_stored_size = of_nat (length stored), sr_stored_hash = sha256_hex L stored,
       sr_relative_path = ''components/'' @ i\<rparr>"
    by (auto simp: write_component_payload_def component_path_def integrity_path_def Let_def and_then_Inr)
  have t: "dk_tree d' = fs_put (staging @ [''integrity'', i @ ''.sha256'']) (FileE (line (sha256_hex L payload)))
     (fs_put (sidecar_crc_path ?p) (FileE (line (hex8 (cd_crc32c K stored))))
     (fs_put (sidecar_sha_path ?p) (FileE (line (sha256_hex L stored)))
     (fs_put ?p (FileE stored) (dk_tree d2))))"
    using w w1 w2 w3 reads_onlyD [OF reads_only_basic(6) s] by (simp add: fs_write_Inr)
  have mk: "fs_get (dk_tree d2) (staging @ [''components'', x]) = fs_get (dk_tree d) (staging @ [''components'', x])" for x
    using m1 m2 by (auto simp: fs_create_dir_all_Inr fs_get_make_dirs split: option.split)
  show ?thesis
    by (rule that [OF c r]) (auto simp: t fs_get_put mk)
qed

text \<open>The bytes of a component are the ones its provider returned, from some state of the workload.\<close>

definition supplied :: "capture_ctx \<Rightarrow> 'p provider list \<Rightarrow> component_entry \<Rightarrow> bytes \<Rightarrow> bool" where
  "supplied ctx ps c payload \<longleftrightarrow> (\<exists>p \<in> set ps. ce_component_id c = ps_component_id (pv_spec p) \<and>
     (\<exists>w w'. pv_capture p ctx w = (Inr payload, w')))"

definition captured_in :: "lib \<Rightarrow> codecs \<Rightarrow> capture_ctx \<Rightarrow> 'p provider list \<Rightarrow> file_tree \<Rightarrow> component_entry \<Rightarrow> bool" where
  "captured_in L K ctx ps t c \<longleftrightarrow>
     (\<exists>payload. supplied ctx ps c payload \<and>
        component_holds L K (cx_compression ctx) t (cx_staging_dir ctx) c payload)"

text \<open>The entries keep clear of each other's files.\<close>

definition clear_entries :: "component_entry list \<Rightarrow> bool" where
  "clear_entries cs \<longleftrightarrow> sidecar_free (map ce_component_id cs) \<and>
     (\<forall>c \<in> set cs. sanitize_segment (ce_component_id c) = ce_component_id c)"

lemma clear_entries_prefix: "prefix cs ds \<Longrightarrow> clear_entries ds \<Longrightarrow> clear_entries cs"
  by (auto simp: clear_entries_def sidecar_free_def prefix_def)

lemma capture_component_Inr:
  assumes "capture_component ctx acc p s = (Inr sums, s')" "p \<in> set ps" "hex_lib (nd_lib s)"
    and "clear_entries (su_entries sums)"
    and "\<forall>c \<in> set (su_entries acc). captured_in (nd_lib s) (nd_codecs s) ctx ps (dk_tree (nd_disk s)) c"
  shows "prefix (su_entries acc) (su_entries sums) \<and> same_node s s' \<and>
    (\<forall>c \<in> set (su_entries sums). captured_in (nd_lib s) (nd_codecs s) ctx ps (dk_tree (nd_disk s')) c)"
proof -
  let ?L = "nd_lib s" and ?K = "nd_codecs s" and ?i = "ps_component_id (pv_spec p)" and ?dir = "cx_staging_dir ctx"
  from assms(1) obtain payload s1 s2 repr d' where
    cap: "on_world (pv_capture p ctx) s = (Inr payload, s1)" and ver: "on_world (pv_verify p ctx) s1 = (Inr (), s2)"
    and wr: "write_component_payload (nd_lib s2) (nd_codecs s2) ?dir ?i payload (cx_compression ctx) (nd_disk s2) = (Inr repr, d')"
    and s': "s' = s2\<lparr>nd_disk := d'\<rparr>"
    and es: "su_entries sums = su_entries acc @ [component_entry_of (pv_spec p) (sha256_hex (nd_lib s2) payload) repr]"
    by (auto simp: capture_component_def and_then_Inr on_disk_Inr)
  have f: "same_files s s2"
    using alongD [OF files_on_world cap] alongD [OF files_on_world ver] files.R_trans by blast
  then have cfg: "nd_lib s2 = ?L" "nd_codecs s2 = ?K" "nd_disk s2 = nd_disk s" "same_node s s2"
    by (simp_all add: same_files_def same_node_def)
  let ?c = "component_entry_of (pv_spec p) (sha256_hex ?L payload) repr"
  have es': "su_entries sums = su_entries acc @ [?c]" using es cfg by simp
  have id: "ce_component_id ?c = ?i" by (simp add: component_entry_of_def)
  have seg: "sanitize_segment ?i = ?i" using assms(4) id by (auto simp: clear_entries_def es')
  from wr [unfolded cfg] seg obtain stored where
    st: "compress_bytes ?K (cx_compression ctx) payload = Inr stored"
    and repr: "repr = \<lparr>sr_codec = codec_as_str (cs_codec (cx_compression ctx)), sr_original_size = of_nat (length payload),
       sr_stored_size = of_nat (length stored), sr_stored_hash = sha256_hex ?L stored,
       sr_relative_path = ''components/'' @ ?i\<rparr>"
    and stf: "fs_get (dk_tree d') (?dir @ [''components'', ?i]) = Some (FileE stored)"
      "fs_get (dk_tree d') (?dir @ [''components'', ?i @ ''.crc32c'']) = Some (FileE (line (hex8 (cd_crc32c ?K stored))))"
    and other: "\<And>x. x \<notin> {?i, ?i @ ''.crc32c'', ?i @ ''.sha256''} \<Longrightarrow>
       fs_get (dk_tree d') (?dir @ [''components'', x]) = fs_get (dk_tree (nd_disk s)) (?dir @ [''components'', x])"
    by (rule write_component_payload_Inr) blast
  have "component_holds ?L ?K (cx_compression ctx) (dk_tree d') ?dir ?c payload"
    using seg stf st
    by (simp add: component_holds_def component_stored_def stored_ok_def component_entry_of_def repr)
  moreover have "supplied ctx ps ?c payload"
    using cap assms(2) id by (auto simp: supplied_def on_world_def zoom_def split: prod.splits)
  ultimately have new: "captured_in ?L ?K ctx ps (dk_tree d') ?c" by (auto simp: captured_in_def)
  have old: "captured_in ?L ?K ctx ps (dk_tree d') c" if c: "c \<in> set (su_entries acc)" for c
  proof -
    have "?i \<notin> ce_component_id ` set (su_entries acc)"
      using assms(4) by (simp add: clear_entries_def es' sidecar_free_def id)
    then have ne: "ce_component_id c \<noteq> ?i" using imageI [OF c, of ce_component_id] by metis
    have "ce_component_id c \<notin> {?i, ?i @ ''.crc32c'', ?i @ ''.sha256''}"
      "ce_component_id c @ ''.crc32c'' \<notin> {?i, ?i @ ''.crc32c'', ?i @ ''.sha256''}"
      using assms(4) c ne suffixes_differ [of "ce_component_id c" ?i]
      by (auto simp: clear_entries_def es' sidecar_free_def id)
    then have "fs_get (dk_tree d') (?dir @ [''components'', x]) = fs_get (dk_tree (nd_disk s)) (?dir @ [''components'', x])"
      if "x \<in> {ce_component_id c, ce_component_id c @ ''.crc32c''}" for x
      using that other by blast
    moreover obtain payload' where "supplied ctx ps c payload'"
      "component_holds ?L ?K (cx_compression ctx) (dk_tree (nd_disk s)) ?dir c payload'"
      using assms(5) c by (auto simp: captured_in_def)
    ultimately show ?thesis using component_holds_cong by (auto simp: captured_in_def)
  qed
  from new old cfg(4) show ?thesis by (auto simp: es' s' same_node_def)
qed

lemma capture_all_prefix:
  "for_fold (capture_component ctx) acc qs s = (Inr sums, s') \<Longrightarrow> prefix (su_entries acc) (su_entries sums)"
proof (induction qs arbitrary: acc s)
  case (Cons q qs)
  then obtain acc1 s1 where one: "capture_component ctx acc q s = (Inr acc1, s1)"
    and r: "for_fold (capture_component ctx) acc1 qs s1 = (Inr sums, s')"
    by (auto simp: and_then_Inr)
  have "prefix (su_entries acc) (su_entries acc1)"
    using one by (auto simp: capture_component_def and_then_Inr)
  then show ?case using Cons.IH [OF r] prefix_order.trans by blast
qed simp

lemma capture_all_Inr:
  assumes "for_fold (capture_component ctx) acc qs s = (Inr sums, s')" "set qs \<subseteq> set ps" "hex_lib (nd_lib s)"
    and "clear_entries (su_entries sums)"
    and "\<forall>c \<in> set (su_entries acc). captured_in (nd_lib s) (nd_codecs s) ctx ps (dk_tree (nd_disk s)) c"
  shows "same_node s s' \<and>
    (\<forall>c \<in> set (su_entries sums). captured_in (nd_lib s) (nd_codecs s) ctx ps (dk_tree (nd_disk s')) c)"
  using assms(1-3,5)
proof (induction qs arbitrary: acc s)
  case Nil
  then show ?case by (simp add: same_node_def)
next
  case (Cons q qs)
  from Cons.prems(1) obtain acc1 s1 where one: "capture_component ctx acc q s = (Inr acc1, s1)"
    and r: "for_fold (capture_component ctx) acc1 qs s1 = (Inr sums, s')"
    by (auto simp: and_then_Inr)
  have "clear_entries (su_entries acc1)" using clear_entries_prefix [OF capture_all_prefix [OF r] assms(4)] .
  from capture_component_Inr [OF one _ Cons.prems(3) this Cons.prems(4)] Cons.prems(2)
  have s1: "same_node s s1"
    "\<forall>c \<in> set (su_entries acc1). captured_in (nd_lib s) (nd_codecs s) ctx ps (dk_tree (nd_disk s1)) c" by auto
  from s1(1) have cfg: "nd_lib s1 = nd_lib s" "nd_codecs s1 = nd_codecs s" by (simp_all add: same_node_def)
  from Cons.IH [OF r] Cons.prems(2,3) s1 show ?case by (simp add: cfg same_node_def)
qed

text \<open>The run of a capture that answered ok: its providers, and the loop over them.\<close>

lemma do_capture_run:
  assumes "do_capture req s = (Inr res, s')" "ncs_ok res"
  defines "ctx \<equiv> capture_ctx_of req (staging_dir (nd_root s) (ncr_attempt_id req))"
  obtains ps s5 sums s4 where
    "select_providers (nd_providers s) (ncr_workload_id req) (ncr_components req) = Inr ps"
    "same_node s s5" "same_node s4 s'" "nd_disk s' = nd_disk s4" "ncs_components res = su_entries sums"
    "for_fold (capture_component ctx)
       \<lparr>su_entries = [], su_logical = 0, su_stored = 0, su_compressed = 0\<rparr> ps s5 = (Inr sums, s4)"
proof -
  let ?staging = "staging_dir (nd_root s) (ncr_attempt_id req)"
  have no: "\<not> (abort_capture req a b e t = (Inr res, s'))" for a b e t
    using assms(2) by (auto simp: abort_capture_def and_then_Inr capture_failed_def)
  from assms(1) no obtain s1 s2 ps prepared s3 ack sums s4 where
    l: "lease_staging ?staging s = (Inr (), s1)" and f: "on_disk (fresh_staging ?staging) s1 = (Inr (), s2)"
    and ps: "select_providers (nd_providers s2) (ncr_workload_id req) (ncr_components req) = Inr ps"
    and pr: "prepare_providers ctx ps s2 = (Inr (prepared, Inr ()), s3)"
    and rest: "capture_rest req ctx ps s3 = (Inr (ack, sums), s4)"
    and res: "ncs_components res = su_entries sums"
    and s': "s' = s4\<lparr>nd_quiesced := tab_insert (ncr_attempt_id req) (ncr_workload_id req) (nd_quiesced s4)\<rparr>"
    unfolding ctx_def by (auto simp: do_capture_def and_then_Inr my_staging_def Let_def split: sum.splits)
  from rest obtain s5 where q: "quiesce_providers (ncr_quiescence req) ctx ps s3 = (Inr ack, s5)"
    and all: "for_fold (capture_component ctx)
         \<lparr>su_entries = [], su_logical = 0, su_stored = 0, su_compressed = 0\<rparr> ps s5 = (Inr sums, s4)"
    by (auto simp: capture_rest_def and_then_Inr)
  have n1: "same_node s s1 \<and> nd_providers s1 = nd_providers s"
    using l by (auto simp: lease_staging_def and_then_Inr node_now_def same_node_def)
  have n2: "same_node s1 s2 \<and> nd_providers s2 = nd_providers s1"
    using f by (auto simp: on_disk_Inr same_node_def)
  have "same_files s2 s5"
    using alongD [OF files_prepare pr] alongD [OF files_quiesce q] files.R_trans by blast
  with n1 n2 have n5: "same_node s s5" by (simp add: same_files_def same_node_def)
  show ?thesis
  proof (rule that [OF _ n5 _ _ res all])
    show "select_providers (nd_providers s) (ncr_workload_id req) (ncr_components req) = Inr ps"
      using ps n1 n2 by simp
  qed (simp_all add: s' same_node_def)
qed

text \<open>What a capture that answered ok left in its staging directory.\<close>

lemma do_capture_ok:
  assumes "do_capture req s = (Inr res, s')" "ncs_ok res" "hex_lib (nd_lib s)" "clear_entries (ncs_components res)"
  obtains ps where
    "select_providers (nd_providers s) (ncr_workload_id req) (ncr_components req) = Inr ps"
    "same_node s s'"
    "\<forall>c \<in> set (ncs_components res). captured_in (nd_lib s) (nd_codecs s)
       (capture_ctx_of req (staging_dir (nd_root s) (ncr_attempt_id req))) ps (dk_tree (nd_disk s')) c"
proof -
  let ?ctx = "capture_ctx_of req (staging_dir (nd_root s) (ncr_attempt_id req))"
  obtain ps s5 sums s4 where ps: "select_providers (nd_providers s) (ncr_workload_id req) (ncr_components req) = Inr ps"
    and n5: "same_node s s5" and n4: "same_node s4 s'" "nd_disk s' = nd_disk s4"
    and res: "ncs_components res = su_entries sums"
    and all: "for_fold (capture_component ?ctx)
         \<lparr>su_entries = [], su_logical = 0, su_stored = 0, su_compressed = 0\<rparr> ps s5 = (Inr sums, s4)"
    by (rule do_capture_run [OF assms(1,2)])
  have cfg: "nd_lib s5 = nd_lib s" "nd_codecs s5 = nd_codecs s" using n5 by (simp_all add: same_node_def)
  have c: "same_node s5 s4 \<and> (\<forall>c \<in> set (ncs_components res).
      captured_in (nd_lib s) (nd_codecs s) ?ctx ps (dk_tree (nd_disk s4)) c)"
    using capture_all_Inr [OF all order_refl] assms(3,4) by (simp add: cfg res)
  show ?thesis
  proof (rule that [OF ps])
    show "same_node s s'" using c n5 n4 by (simp add: same_node_def)
    show "\<forall>c \<in> set (ncs_components res). captured_in (nd_lib s) (nd_codecs s) ?ctx ps (dk_tree (nd_disk s')) c"
      using c by (simp add: n4)
  qed
qed

subsection \<open>Promoting it\<close>

lemma write_commit_files_Inr:
  assumes "write_commit_files staging req entry d = (Inr u, d')"
  shows "fs_get (dk_tree d') (staging @ [''manifest'']) = Some (FileE (nmr_manifest_bytes req))"
    and "fs_get (dk_tree d') (staging @ [''manifest.digest'']) = Some (FileE (line (nmr_digest req)))"
    and "fs_get (dk_tree d') (staging @ [''components'', x]) = fs_get (dk_tree d) (staging @ [''components'', x])"
proof -
  let ?p = "\<lambda>x. staging @ [x]" and ?r = "staging @ [''integrity'', ''root'']" and ?j = "staging @ [''journal'', ''records.jsonl'']"
  from assms obtain d1 d2 d3 d4 where w: "fs_write (?p ''manifest'') (nmr_manifest_bytes req) d = (Inr (), d1)"
    "fs_write (?p ''manifest.digest'') (line (nmr_digest req)) d1 = (Inr (), d2)"
    "fs_create_dir_all (?p ''integrity'') d2 = (Inr (), d3)"
    "fs_write ?r (line (nmr_integrity_root req)) d3 = (Inr (), d4)"
    "fs_append ?j (string_bytes entry) d4 = (Inr u, d')"
    by (auto simp: write_commit_files_def and_then_Inr)
  then have root: "\<not> is_root (?p ''manifest'')" "\<not> is_root (?p ''manifest.digest'')"
    by (simp_all add: fs_write_Inr writable_def)
  have last: "fs_get (dk_tree d') q = fs_get (dk_tree d3) q" if "q \<noteq> ?r" "q \<noteq> ?j" for q
    using w(4,5) that by (simp add: fs_write_Inr fs_append_Inr fs_get_put)
  have mid: "fs_get (dk_tree d3) q = fs_get (dk_tree d2) q" if "\<not> prefix q (?p ''integrity'')" for q
    using w(3) that by (auto simp: fs_create_dir_all_Inr fs_get_make_dirs split: option.split)
  have first: "fs_get (dk_tree d2) q = (if q = ?p ''manifest.digest'' then Some (FileE (line (nmr_digest req)))
      else if q = ?p ''manifest'' then Some (FileE (nmr_manifest_bytes req)) else fs_get (dk_tree d) q)" for q
    using w(1,2) root by (simp add: fs_write_Inr fs_get_put)
  show "fs_get (dk_tree d') (staging @ [''manifest'']) = Some (FileE (nmr_manifest_bytes req))"
    "fs_get (dk_tree d') (staging @ [''manifest.digest'']) = Some (FileE (line (nmr_digest req)))"
    "fs_get (dk_tree d') (staging @ [''components'', x]) = fs_get (dk_tree d) (staging @ [''components'', x])"
    by (simp_all add: last mid first)
qed

lemma promote_failed_not_ok [simp]: "\<not> nms_ok (promote_failed a msg)"
  by (simp add: promote_failed_def)

lemma do_promote_ok:
  assumes "do_promote req s = (Inr res, s')" "nms_ok res"
  defines "staging \<equiv> staging_dir (nd_root s) (nmr_attempt_id req)"
    and "commit \<equiv> commit_path (nd_lib s) (nd_root s) (nmr_checkpoint_id req)"
  obtains m d1 entry where
    "sha256_hex (nd_lib s) (nmr_manifest_bytes req) = nmr_digest req"
    "manifest_parse (nd_lib s) (nmr_manifest_bytes req) = Inr m" "m_checkpoint_id m = nmr_checkpoint_id req"
    "write_commit_files staging req entry (nd_disk s) = (Inr (), d1)"
    "promote staging commit d1 = (Inr (), nd_disk s')" "same_node s s'"
proof -
  from assms(1,2) obtain m now s1 s2 r s3 where
    m: "sha256_hex (nd_lib s) (nmr_manifest_bytes req) = nmr_digest req"
    "manifest_parse (nd_lib s) (nmr_manifest_bytes req) = Inr m" "m_checkpoint_id m = nmr_checkpoint_id req"
    and n: "node_now s = (Inr now, s1)"
    and w: "on_disk (write_commit_files staging req (show_nat (unat now) @ '' promote manifest'' @ newline)) s1 = (Inr (), s2)"
    and p': "on_disk (promote staging (commit_path (nd_lib s2) (nd_root s2) (nmr_checkpoint_id req))) s2 = (r, s3)"
    and k: "(case r of Inl e \<Rightarrow> give (promote_failed (nmr_attempt_id req) (error_to_string e))
      | Inr _ \<Rightarrow> and_then (release_staging staging) (\<lambda>_. give \<lparr>nms_attempt_id = nmr_attempt_id req,
          nms_ok = True, nms_error = None,
          nms_commit_path = Some (path_string (commit_path (nd_lib s2) (nd_root s2) (nmr_checkpoint_id req)))\<rparr>)) s3 = (Inr res, s')"
    unfolding staging_def
    by (auto simp: do_promote_def and_then_Inr my_staging_def my_commit_def
        on_disk_Inr [where m = "ask _"] split: if_splits)
  from k assms(2) obtain u where r: "r = Inr u"
    and s': "s' = s3\<lparr>nd_staging_leases := tab_remove staging (nd_staging_leases s3)\<rparr>"
    by (cases r) (auto simp: and_then_Inr release_staging_Inr)
  have p: "on_disk (promote staging (commit_path (nd_lib s2) (nd_root s2) (nmr_checkpoint_id req))) s2 = (Inr (), s3)"
    using p' r by simp
  have s1: "nd_disk s1 = nd_disk s" "same_node s s1" using n by (auto simp: node_now_def same_node_def)
  from w obtain d1 where d1: "write_commit_files staging req (show_nat (unat now) @ '' promote manifest'' @ newline) (nd_disk s) = (Inr (), d1)"
    "s2 = s1\<lparr>nd_disk := d1\<rparr>" using s1 by (auto simp: on_disk_Inr)
  show ?thesis
  proof (rule that [OF m d1(1)])
    show "promote staging commit d1 = (Inr (), nd_disk s')" "same_node s s'"
      using p s' d1(2) s1 by (auto simp: on_disk_Inr same_node_def commit_def)
  qed
qed

subsection \<open>Reading it back\<close>

text \<open>What is relied on of the zstd crate: decoding what was encoded gives the input, from its start.\<close>

definition zstd_lossless :: "codecs \<Rightarrow> bool" where
  "zstd_lossless K \<longleftrightarrow> (\<forall>level payload stored n. cd_zstd_encode K level payload = Some stored \<longrightarrow>
     cd_zstd_read K stored n = Some (take n payload))"

lemma codec_str_inverse [simp]: "codec_from_str (codec_as_str c) = Inr c"
  by (cases c) (simp_all add: codec_from_str_def)

lemma decompress_compress:
  assumes "compress_bytes K spec payload = Inr stored" "zstd_lossless K"
    and "length payload \<le> unat bound" "length stored \<le> unat bound"
  shows "decompress_bytes K \<lparr>cs_codec = cs_codec spec, cs_level = l, cs_format_version = v\<rparr> stored bound = Inr payload"
proof (cases "cs_codec spec")
  case CodecZstd
  with assms(1) have "cd_zstd_encode K (cs_level spec) payload = Some stored"
    by (simp add: compress_bytes_def)
  with assms(2) have "cd_zstd_read K stored n = Some (take n payload)" for n
    by (simp add: zstd_lossless_def)
  moreover have "length payload \<le> unat (sat_add bound 1)"
    using assms(3) sat_add_ge [of bound 1] by (simp add: word_le_nat_alt)
  ultimately show ?thesis using assms(3) CodecZstd by (simp add: decompress_bytes_def)
qed (use assms in \<open>simp_all add: compress_bytes_def decompress_bytes_def\<close>)

lemma read_back:
  assumes "component_holds L K spec (dk_tree d) commit c payload" "quiet d" "zstd_lossless K"
    and "length payload \<le> unat bound" "sr_stored_size (ce_storage_representation c) \<le> bound"
    and "length (file_bytes (commit @ [''components'', ce_component_id c]) (dk_tree d)) < 2 ^ 64"
  shows "read_component_payload L K commit (ce_storage_representation c) (ce_content_hash c) bound d =
    (Inr payload, d\<lparr>dk_calls := dk_calls d + 1\<rparr>)"
proof -
  let ?r = "ce_storage_representation c" and ?p = "commit @ [''components'', ce_component_id c]"
  obtain stored where st: "fs_get (dk_tree d) ?p = Some (FileE stored)" "compress_bytes K spec payload = Inr stored"
    and c: "component_stored L K (dk_tree d) commit c" "sha256_hex L payload = ce_content_hash c"
      "sr_codec ?r = codec_as_str (cs_codec spec)" "sr_original_size ?r = of_nat (length payload)"
    using assms(1) by (auto simp: component_holds_def)
  have j: "safe_join commit (sr_relative_path ?r) = Inr ?p"
    using c(1) by (auto simp: component_stored_def safe_join_cons)
  have "of_nat (length stored) = sr_stored_size ?r"
    using c(1) st(1) by (auto simp: component_stored_def stored_ok_def)
  moreover have "unat (of_nat (length stored) :: u64) = length stored"
    using assms(6) st(1) by (simp add: file_bytes_def unat_of_nat)
  ultimately have len: "length stored \<le> unat bound"
    using assms(5) by (simp add: word_le_nat_alt)
  show ?thesis
    using assms(2) st j len c decompress_compress [OF st(2) assms(3,4) len]
    by (simp add: read_component_payload_def prog_eval fs_read_quiet)
qed

subsection \<open>The whole way\<close>

lemma select_providers_registered:
  "select_providers reg w cs = Inr ps \<Longrightarrow> set ps \<subseteq> snd ` set reg"
proof (induction cs arbitrary: ps)
  case (Cons c cs)
  show ?case
  proof (cases "registry_get reg w (cr_component_id c)")
    case None
    with Cons show ?thesis by (simp split: if_splits)
  next
    case (Some p)
    then have "p \<in> snd ` set reg" by (force simp: registry_get_def dest: map_of_SomeD)
    moreover from Some Cons.prems obtain qs where "select_providers reg w cs = Inr qs" "ps = p # qs" by auto
    ultimately show ?thesis using Cons.IH by simp
  qed
qed simp

lemma promoted_components:
  assumes "do_promote preq s1 = (Inr pres, s2)" "nms_ok pres" "nmr_attempt_id preq = a"
    and "manifest_parse (nd_lib s1) (nmr_manifest_bytes preq) = Inr m" "hex_lib (nd_lib s1)"
    and "\<forall>c \<in> set (m_components m).
      component_holds (nd_lib s1) (nd_codecs s1) spec (dk_tree (nd_disk s1)) (staging_dir (nd_root s1) a) c (pay c)"
  defines "commit \<equiv> commit_path (nd_lib s1) (nd_root s1) (nmr_checkpoint_id preq)"
  shows "replica_ok (nd_lib s1) (nd_codecs s1) (dk_tree (nd_disk s2)) commit (nmr_digest preq) m \<and>
    (\<forall>c \<in> set (m_components m).
       component_holds (nd_lib s1) (nd_codecs s1) spec (dk_tree (nd_disk s2)) commit c (pay c)) \<and>
    same_node s1 s2"
proof -
  let ?L = "nd_lib s1" and ?K = "nd_codecs s1" and ?staging = "staging_dir (nd_root s1) a"
  obtain d1 entry where h: "sha256_hex ?L (nmr_manifest_bytes preq) = nmr_digest preq"
    and w: "write_commit_files ?staging preq entry (nd_disk s1) = (Inr (), d1)"
    and pr: "promote ?staging commit d1 = (Inr (), nd_disk s2)" and n2: "same_node s1 s2"
    unfolding commit_def by (rule do_promote_ok [OF assms(1,2)]) (auto simp: assms(3,4))
  note sep = staging_commit_separate [of "nd_root s1" a ?L "nmr_checkpoint_id preq", folded commit_def]
  note par = staging_not_parent [of "nd_root s1" a ?L "nmr_checkpoint_id preq", folded commit_def]
  have held: "component_holds ?L ?K spec (dk_tree d1) ?staging c (pay c)" if "c \<in> set (m_components m)" for c
    by (rule component_holds_cong [OF bspec [OF assms(6) that]], rule write_commit_files_Inr(3) [OF w])
  have moved: "component_holds ?L ?K spec (dk_tree (nd_disk s2)) commit c (pay c)" if "c \<in> set (m_components m)" for c
    by (rule component_holds_cong [OF held [OF that]], rule promote_moves(1) [OF pr sep par])
  have "staged_ok ?L ?K (dk_tree d1) ?staging (nmr_manifest_bytes preq) m"
    using assms(4) write_commit_files_Inr [OF w] held h by (auto simp: staged_ok_def component_holds_def)
  from promoted_replica_ok [OF pr sep par this assms(5)] h moved n2 show ?thesis by simp
qed


end
