(* ===== verification/NodeDemo.thy ===== *)
theory NodeDemo
  imports NodeRestore NodeLimits NodeCapture
begin

section \<open>A concrete node\<close>

text \<open>
  A node with an empty disk that never faults, a library whose digest is the length of its input
  and whose only manifest has one component of three bytes, and a peer that serves it in one
  chunk: the environment in which the witnesses of the properties of the nodes run.
\<close>

definition node_component :: component_entry where
  "node_component = \<lparr>ce_component_id = ''c'', ce_component_type = ApplicationState, ce_generation = 1,
     ce_required = True, ce_logical_size = 3,
     ce_storage_representation = \<lparr>sr_codec = ''none'', sr_original_size = 3, sr_stored_size = 3,
       sr_stored_hash = hex_enc [3], sr_relative_path = ''components/c''\<rparr>,
     ce_content_hash = hex_enc [3], ce_schema_version = 1, ce_restore_handler = ''app'',
     ce_compatibility = JObject [], ce_dependencies = [], ce_capture_status = ''captured'',
     ce_restore_status = ''pending''\<rparr>"

definition node_manifest :: manifest where
  "node_manifest = (manifest_scaffold sample_checkpoint)\<lparr>m_components := [node_component],
     m_integrity := \<lparr>ii_content_hash_algorithm = ''sha256'', ii_root = hex_enc [4]\<rparr>\<rparr>"

definition node_lib :: lib where
  "node_lib = \<lparr>lib_to_vec = (\<lambda>m. [1, 2]), lib_from_slice = (\<lambda>bs. Some node_manifest),
     lib_sha256 = (\<lambda>bs. [of_nat (length bs)]), lib_hex_encode = hex_enc\<rparr>"

definition node_codecs :: codecs where
  "node_codecs = \<lparr>cd_crc32c = (\<lambda>bs. 0), cd_zstd_encode = (\<lambda>l bs. Some bs),
     cd_zstd_read = (\<lambda>bs n. Some (take n bs))\<rparr>"

definition clean_disk :: disk where
  "clean_disk = \<lparr>dk_tree = [], dk_calls = 0, dk_fault = (\<lambda>n. None)\<rparr>"

definition demo_node :: "unit node" where
  "demo_node = \<lparr>nd_node_id = ''n1'', nd_boot_id = ''b1'', nd_root = [''/'', ''data''], nd_lib = node_lib,
     nd_codecs = node_codecs, nd_hex_decode = (\<lambda>s. None), nd_clock = (\<lambda>k. 5), nd_reads = 0,
     nd_failpoints = [], nd_disk = clean_disk, nd_world = (), nd_providers = [], nd_attached = [],
     nd_epoch = 1, nd_connected = True, nd_stop = False, nd_fetch_tokens = [], nd_staging_leases = [],
     nd_quiesced = [], nd_pending = []\<rparr>"

definition demo_replicate :: node_replicate_request where
  "demo_replicate = \<lparr>nyr_attempt_id = ''a1'', nyr_checkpoint_id = ck_checkpoint_id sample_checkpoint,
     nyr_expected_manifest_digest = hex_enc [2], nyr_from_addr = ''n2'', nyr_fetch_token = ''t'',
     nyr_coordinator_epoch = 1\<rparr>"

definition demo_peer :: peer_answers where
  "demo_peer = \<lparr>pa_connect = Inr (),
     pa_manifest = Inr \<lparr>fmr_ok = True, fmr_error = None, fmr_manifest_bytes = Some [1, 2],
       fmr_components = [node_component]\<rparr>,
     pa_chunks = [Inr \<lparr>fcr_ok = True, fcr_error = None, fcr_offset = 0, fcr_bytes = [7, 8, 9], fcr_last = True\<rparr>]\<rparr>"

lemmas node_data = node_component_def node_manifest_def node_lib_def node_codecs_def clean_disk_def
  demo_node_def demo_replicate_def demo_peer_def

lemma node_parse: "manifest_parse node_lib bs = Inr node_manifest"
  by (simp add: manifest_parse_Inr verify_integrity_root_def compute_integrity_root_def
      integrity_root_of_def node_data string_bytes_def manifest_scaffold_def)


text \<open>The replica is fetched.\<close>

lemma demo_replicates:
  "case do_replicate (\<lambda>a. True) demo_peer demo_replicate demo_node of
     (Inr res, s') \<Rightarrow> nys_ok res | _ \<Rightarrow> False"
  by code_simp

lemma node_hex: "hex_lib node_lib"
proof -
  have "hex_text (hex_enc bs)" for bs
  proof (induction bs)
    case (Cons b bs)
    have "unat b < 256" by (rule order.strict_trans2 [OF unsigned_less]) simp
    then have "hex_char (nibble (unat b div 16))" "hex_char (nibble (unat b mod 16))"
      by (auto simp: nibble_def hex_char_def Let_def)
    with Cons.IH show ?case by (simp add: hex_text_def)
  qed (simp add: hex_text_def)
  then show ?thesis by (simp add: hex_lib_def node_lib_def)
qed

lemma node_anchored: "anchored node_lib digest m \<Longrightarrow> m = node_manifest"
  by (auto simp: anchored_def node_parse)

lemma node_plain: "plain_manifest node_manifest"
  by (simp add: plain_manifest_def node_manifest_def node_component_def sidecar_free_def)


subsection \<open>The other properties of a node\<close>

definition replicated_node :: "unit node" where
  "replicated_node = snd (node_dispatch (\<lambda>a. True) (NqReplicate demo_replicate demo_peer) demo_node)"

definition demo_commit :: path where
  "demo_commit = commit_path node_lib [''/'', ''data''] (ck_checkpoint_id sample_checkpoint)"

lemma demo_wf: "node_wf demo_node"
  by code_simp


definition demo_cleanup :: node_cleanup_request where
  "demo_cleanup = \<lparr>nlr_staging_attempts = [''a1''], nlr_staging_paths = [''/data/staging/../checkpoints''],
     nlr_restore_attempts = [], nlr_checkpoint_ids = [], nlr_coordinator_epoch = 1\<rparr>"

definition stored_disk :: disk where
  "stored_disk = clean_disk\<lparr>dk_tree := [([''/'', ''data''], DirE), ([''/'', ''data'', ''checkpoints''], DirE),
     (demo_commit, DirE), (demo_commit @ [''manifest''], FileE [1, 2]),
     (demo_commit @ [''manifest.digest''], FileE (line (hex_enc [2]))),
     (demo_commit @ [''integrity''], DirE), (demo_commit @ [''components''], DirE),
     (demo_commit @ [''components'', ''c''], FileE [7, 8, 9])]\<rparr>"


definition hosting_node :: "unit node" where
  "hosting_node = demo_node\<lparr>nd_disk := stored_disk, nd_providers := [((m_workload_id node_manifest, ''c''),
     application_provider \<lparr>ps_component_id = ''c'', ps_component_type = ApplicationState, ps_required = True,
         ps_schema_version = 1, ps_restore_handler = ''app'', ps_compatibility = JObject [], ps_dependencies = []\<rparr>
       (give [7, 8, 9]) (\<lambda>payload. give ()) None None None)]\<rparr>"

definition demo_restore :: node_restore_request where
  "demo_restore = \<lparr>nrr_attempt_id = ''r1'', nrr_checkpoint_id = ck_checkpoint_id sample_checkpoint,
     nrr_workload_id = m_workload_id node_manifest, nrr_expected_manifest_digest = hex_enc [2],
     nrr_max_component_bytes = Some 10, nrr_coordinator_epoch = 1\<rparr>"

lemma demo_restores:
  "case do_restore demo_restore hosting_node of (Inr res, s') \<Rightarrow> nrs_ok res | _ \<Rightarrow> False"
  by code_simp




subsection \<open>A capture and its promotion\<close>

text \<open>The library of this node knows one manifest too, with the component as a capture records it.\<close>

definition fresh_manifest :: manifest where
  "fresh_manifest = node_manifest\<lparr>m_components := [node_component\<lparr>ce_generation := 0\<rparr>]\<rparr>"

definition fresh_lib :: lib where
  "fresh_lib = \<lparr>lib_to_vec = (\<lambda>m. [1, 2]),
     lib_from_slice = (\<lambda>bs. if bs = [] then None else Some fresh_manifest),
     lib_sha256 = (\<lambda>bs. [of_nat (length bs)]), lib_hex_encode = hex_enc\<rparr>"

definition demo_provider :: "unit provider" where
  "demo_provider = application_provider
     \<lparr>ps_component_id = ''c'', ps_component_type = ApplicationState, ps_required = True,
       ps_schema_version = 1, ps_restore_handler = ''app'', ps_compatibility = JObject [], ps_dependencies = []\<rparr>
     (give [7, 8, 9]) (\<lambda>payload. give ()) None None None"

definition capturing_node :: "unit node" where
  "capturing_node = \<lparr>nd_node_id = ''n1'', nd_boot_id = ''b1'', nd_root = [''/'', ''data''], nd_lib = fresh_lib,
     nd_codecs = node_codecs, nd_hex_decode = (\<lambda>s. None), nd_clock = (\<lambda>k. 5), nd_reads = 0,
     nd_failpoints = [], nd_disk = clean_disk, nd_world = (),
     nd_providers = [((Id (replicate 16 1), ''c''), demo_provider)], nd_attached = [],
     nd_epoch = 1, nd_connected = True, nd_stop = False, nd_fetch_tokens = [], nd_staging_leases = [],
     nd_quiesced = [], nd_pending = []\<rparr>"

definition demo_capture_request :: node_capture_request where
  "demo_capture_request = \<lparr>ncr_attempt_id = ''att'', ncr_checkpoint_id = Id (replicate 16 2),
     ncr_workload_id = Id (replicate 16 1), ncr_checkpoint_generation = 1, ncr_consistency = CrashConsistent,
     ncr_quiescence = QNone,
     ncr_components = [\<lparr>cr_component_id = ''c'', cr_component_type = ApplicationState, cr_required = True,
        cr_schema_version = 1, cr_restore_handler = ''app''\<rparr>],
     ncr_compression = none_spec, ncr_coordinator_epoch = 1\<rparr>"

definition demo_promote :: node_promote_request where
  "demo_promote = \<lparr>nmr_attempt_id = ''att'', nmr_checkpoint_id = Id (replicate 16 2),
     nmr_manifest_bytes = [1, 2], nmr_digest = hex_enc [2], nmr_integrity_root = hex_enc [4],
     nmr_coordinator_epoch = 1\<rparr>"

text \<open>Code equations for the evaluation: the digits as a table, and programs that wait for the disk.\<close>

lemma nibble_code [code]:
  "nibble n = (if n < 16 then ''0123456789abcdef'' ! n else char_of (n + 87))"
proof (cases "n < 16")
  case True
  then have "n \<in> {0, 1, 2, 3, 4, 5, 6, 7, 8, 9, 10, 11, 12, 13, 14, 15}" by (simp; arith)
  with True show ?thesis by (auto simp: nibble_def char_of_def bit_0)
qed (simp add: nibble_def)

lemma write_component_payload_code [code]:
  "write_component_payload L K staging i payload spec d =
     and_then (fs_create_dir_all (staging @ [''components''])) (\<lambda>_.
     and_then (fs_create_dir_all (staging @ [''integrity''])) (\<lambda>_.
     and_then (lift (compress_bytes K spec payload)) (\<lambda>stored.
     let path = component_path staging i in
     and_then (fs_write path stored) (\<lambda>_.
     and_then (fs_sync path) (\<lambda>_.
     and_then (fs_write (sidecar_sha_path path) (line (sha256_hex L stored))) (\<lambda>_.
     and_then (fs_write (sidecar_crc_path path) (line (hex8 (cd_crc32c K stored)))) (\<lambda>_.
     and_then (fs_write (integrity_path staging i) (line (sha256_hex L payload))) (\<lambda>_.
     give \<lparr>sr_codec = codec_as_str (cs_codec spec), sr_original_size = of_nat (length payload),
           sr_stored_size = of_nat (length stored), sr_stored_hash = sha256_hex L stored,
           sr_relative_path = ''components/'' @ sanitize_segment i\<rparr>)))))))) d"
  by (simp add: write_component_payload_def Let_def)


definition att_staging :: path where
  "att_staging = staging_dir [''/'', ''data''] ''att''"

definition staged_disk :: disk where
  "staged_disk = snd (fresh_staging att_staging clean_disk)"

definition filled_disk :: disk where
  "filled_disk = snd (write_component_payload fresh_lib node_codecs att_staging ''c'' [7, 8, 9] none_spec staged_disk)"

definition sealed_disk :: disk where
  "sealed_disk = snd (write_commit_files att_staging demo_promote (show_nat 5 @ '' promote manifest'' @ newline) filled_disk)"

definition promoted_disk :: disk where
  "promoted_disk = snd (promote att_staging (commit_path fresh_lib [''/'', ''data''] (Id (replicate 16 2))) sealed_disk)"

lemma staged_run: "fst (fresh_staging att_staging clean_disk) = Inr ()"
  by code_simp

lemma filled_run:
  "fst (write_component_payload fresh_lib node_codecs att_staging ''c'' [7, 8, 9] none_spec staged_disk) =
     Inr (ce_storage_representation node_component)"
  by code_simp

lemma sealed_run:
  "fst (write_commit_files att_staging demo_promote (show_nat 5 @ '' promote manifest'' @ newline) filled_disk) = Inr ()"
  by code_simp

lemma promoted_run:
  "fst (promote att_staging (commit_path fresh_lib [''/'', ''data''] (Id (replicate 16 2))) sealed_disk) = Inr ()"
  by code_simp

lemma fresh_parse: "manifest_parse fresh_lib [1, 2] = Inr fresh_manifest"
  by (simp add: manifest_parse_Inr verify_integrity_root_def compute_integrity_root_def
      integrity_root_of_def node_data fresh_lib_def fresh_manifest_def string_bytes_def manifest_scaffold_def)

lemma pair_eq: "fst p = x \<Longrightarrow> p = (x, snd p)"
  by (cases p) simp

lemma fresh_entry:
  "component_entry_of (pv_spec demo_provider) (sha256_hex fresh_lib [7, 8, 9]) (ce_storage_representation node_component) =
     node_component\<lparr>ce_generation := 0\<rparr>"
  by (simp add: component_entry_of_def demo_provider_def application_provider_def node_component_def
      fresh_lib_def sha256_hex_def)

lemma demo_provider_calls:
  "ps_component_id (pv_spec demo_provider) = ''c''"
  "pv_prepare demo_provider = (\<lambda>_. give ())" "pv_capture demo_provider = (\<lambda>_. give [7, 8, 9])"
  "pv_verify demo_provider = (\<lambda>_. give ())"
  by (simp_all add: demo_provider_def application_provider_def)

lemma demo_promote_fields:
  "nmr_attempt_id demo_promote = ''att''" "nmr_checkpoint_id demo_promote = Id (replicate 16 2)"
  "nmr_manifest_bytes demo_promote = [1, 2]" "nmr_digest demo_promote = hex_enc [2]"
  "nmr_integrity_root demo_promote = hex_enc [4]"
  by (simp_all add: demo_promote_def)

lemma fresh_manifest_fields:
  "m_checkpoint_id fresh_manifest = Id (replicate 16 2)" "m_capture_attempt fresh_manifest = ''att''"
  "ii_root (m_integrity fresh_manifest) = hex_enc [4]"
  "m_components fresh_manifest = [node_component\<lparr>ce_generation := 0\<rparr>]"
  by (simp_all add: fresh_manifest_def node_manifest_def manifest_scaffold_def sample_checkpoint_def)

lemma demo_capture_fields:
  "ncr_attempt_id demo_capture_request = ''att''" "ncr_workload_id demo_capture_request = Id (replicate 16 1)"
  "ncr_quiescence demo_capture_request = QNone" "ncr_compression demo_capture_request = none_spec"
  by (simp_all add: demo_capture_request_def)

lemma demo_selects:
  "select_providers (nd_providers capturing_node) (Id (replicate 16 1)) (ncr_components demo_capture_request) =
     Inr [demo_provider]"
  by (simp add: capturing_node_def demo_capture_request_def registry_get_def)

lemma capturing_fields:
  "nd_root capturing_node = [''/'', ''data'']" "nd_lib capturing_node = fresh_lib"
  "nd_codecs capturing_node = node_codecs" "nd_disk capturing_node = clean_disk"
  "nd_clock capturing_node = (\<lambda>k. 5)"
  by (simp_all add: capturing_node_def)

lemma demo_captures:
  "\<exists>cres s1. do_capture demo_capture_request capturing_node = (Inr cres, s1) \<and> ncs_ok cres \<and>
     ncs_components cres = m_components fresh_manifest \<and> nd_disk s1 = filled_disk \<and>
     nd_lib s1 = fresh_lib \<and> nd_root s1 = [''/'', ''data''] \<and> nd_clock s1 = (\<lambda>k. 5)"
  using pair_eq [OF staged_run, folded staged_disk_def] pair_eq [OF filled_run, folded filled_disk_def]
  by (simp add: do_capture_def my_staging_def look_def lease_staging_def node_now_def change_def on_disk_def
      zoom_def on_world_def prog_eval capturing_fields demo_capture_fields demo_selects
      att_staging_def [symmetric] Let_def capture_ctx_of_def capture_rest_def quiesce_providers_def
      capture_component_def demo_provider_calls fresh_entry fresh_manifest_fields)

lemma staging_present: "fs_exists att_staging (dk_tree filled_disk)"
  by code_simp

lemma demo_promotes:
  assumes "nd_disk s = filled_disk" "nd_lib s = fresh_lib" "nd_root s = [''/'', ''data'']" "nd_clock s = (\<lambda>k. 5)"
  shows "\<exists>pres s2. do_promote demo_promote s = (Inr pres, s2) \<and> nms_ok pres"
proof -
  note runs = pair_eq [OF sealed_run, folded sealed_disk_def] pair_eq [OF promoted_run, folded promoted_disk_def]
  have sha: "sha256_hex fresh_lib [1, 2] = hex_enc [2]" by (simp add: sha256_hex_def fresh_lib_def)
  show ?thesis
    using runs fresh_parse assms sha staging_present
    by (simp add: do_promote_def my_staging_def my_commit_def release_staging_def look_def node_now_def change_def
        on_disk_def zoom_def prog_eval ask_def att_staging_def [symmetric] demo_promote_fields fresh_manifest_fields
        del: hex_enc.simps)
qed


end
