(* ===== verification/Cluster.thy ===== *)
theory Cluster
  imports NodeCapture Coordinator
begin

section \<open>A coordinator and its nodes\<close>

text \<open>
  The composition of the two halves of the system. The world the coordinator calls into is a
  cluster: the state of every node, and a network that may lose a request before the node has
  seen it, or the answer after the node has acted on it. A request is served by the
  \<open>dispatch\<close> of the node; the error of a handler travels as an envelope, which only a caller
  that expects an envelope can read.
\<close>

subsection \<open>The cluster\<close>

datatype delivery = Delivered | RequestLost | AnswerLost

record 'p cluster =
  cl_nodes :: "string \<Rightarrow> 'p node"
  cl_delivery :: "nat \<Rightarrow> delivery"
  cl_peers :: "nat \<Rightarrow> peer_answers"
  cl_calls :: nat

definition lost :: fabric_error where
  "lost = Timeout ''transport idle timeout''"

text \<open>One exchange with a node: the response, or the text of the error its handler returned.\<close>

definition exchange ::
  "(string \<Rightarrow> bool) \<Rightarrow> string \<Rightarrow> node_request \<Rightarrow> 'p cluster
     \<Rightarrow> (string + node_response) fabric_result \<times> 'p cluster" where
  "exchange addr_ok node rq cl =
     (let cl1 = cl\<lparr>cl_calls := cl_calls cl + 1\<rparr> in
      if cl_delivery cl (cl_calls cl) = RequestLost then (Inl lost, cl1)
      else case node_dispatch addr_ok rq (cl_nodes cl node) of (r, n) \<Rightarrow>
        (if cl_delivery cl (cl_calls cl) = AnswerLost then Inl lost
         else Inr (case r of Inl e \<Rightarrow> Inl (error_to_string e) | Inr x \<Rightarrow> Inr x),
         cl1\<lparr>cl_nodes := (cl_nodes cl)(node := n)\<rparr>))"

definition bad_response :: fabric_error where
  "bad_response = ProtocolError ''bad node response: {e}''"

text \<open>The answer read as the type the caller expects. The envelope of an error lacks the fields of
  every result type, so it does not parse as one of them.\<close>

definition ask_node ::
  "(node_response \<Rightarrow> 'r option) \<Rightarrow> (envelope \<Rightarrow> 'r option) \<Rightarrow> (string \<Rightarrow> bool) \<Rightarrow> string \<Rightarrow> node_request
     \<Rightarrow> 'p cluster \<Rightarrow> 'r fabric_result \<times> 'p cluster" where
  "ask_node pick of_envelope addr_ok node rq cl =
     (case exchange addr_ok node rq cl of (r, cl') \<Rightarrow>
        (bind_r r (\<lambda>x. ok_or bad_response (case x of
            Inl msg \<Rightarrow> of_envelope (envelope_err msg)
          | Inr y \<Rightarrow> pick y)), cl'))"

definition cluster_network :: "(string \<Rightarrow> bool) \<Rightarrow> 'p cluster network" where
  "cluster_network addr_ok = \<lparr>
     nw_addr_ok = addr_ok,
     nw_capture = (\<lambda>n q. ask_node (\<lambda>x. case x of NpCapture y \<Rightarrow> Some y | _ \<Rightarrow> None) (\<lambda>_. None)
        addr_ok n (NqCapture q)),
     nw_promote = (\<lambda>n q. ask_node (\<lambda>x. case x of NpPromote y \<Rightarrow> Some y | _ \<Rightarrow> None) (\<lambda>_. None)
        addr_ok n (NqPromote q)),
     nw_resume = (\<lambda>n q. ask_node (\<lambda>x. case x of NpResume y \<Rightarrow> Some y | _ \<Rightarrow> None) (\<lambda>_. None)
        addr_ok n (NqResume q)),
     nw_cleanup = (\<lambda>n q. ask_node (\<lambda>x. case x of NpCleanup y \<Rightarrow> Some y | _ \<Rightarrow> None) (\<lambda>_. None)
        addr_ok n (NqCleanup q)),
     nw_probe = (\<lambda>n q. ask_node (\<lambda>x. case x of NpProbe y \<Rightarrow> Some y | _ \<Rightarrow> None) (\<lambda>_. None)
        addr_ok n (NqProbe q)),
     nw_restore = (\<lambda>n q. ask_node (\<lambda>x. case x of NpRestore y \<Rightarrow> Some y | _ \<Rightarrow> None) (\<lambda>_. None)
        addr_ok n (NqRestore q)),
     nw_replicate = (\<lambda>n q cl. ask_node (\<lambda>x. case x of NpReplicate y \<Rightarrow> Some y | _ \<Rightarrow> None) (\<lambda>_. None)
        addr_ok n (NqReplicate q (cl_peers cl (cl_calls cl))) cl),
     nw_allow_fetch = (\<lambda>n q. ask_node (\<lambda>x. case x of NpEnvelope y \<Rightarrow> Some y | _ \<Rightarrow> None) Some
        addr_ok n (NqAllowFetch q)),
     nw_verify = (\<lambda>n q. ask_node (\<lambda>x. case x of NpVerify y \<Rightarrow> Some y | _ \<Rightarrow> None) (\<lambda>_. None)
        addr_ok n (NqVerify q))\<rparr>"

subsection \<open>Calls that got an answer\<close>

lemma answered_Inr: "(case p of (r, w) \<Rightarrow> (r, f w)) = (Inr x, t) \<longleftrightarrow> (\<exists>w. p = (Inr x, w) \<and> t = f w)"
  by (cases p) auto

lemma call_node_Inr:
  "call_node rpc node q s = (Inr x, s') \<longleftrightarrow>
     (\<exists>u s1 w. node_addr node s = (Inr u, s1) \<and> rpc (ev_net (sy_env s1)) node q (sy_world s1) = (Inr x, w) \<and>
        s' = s1\<lparr>sy_world := w\<rparr>)"
  by (simp add: call_node_def and_then_Inr answered_Inr)

lemma fenced_Inr:
  "fenced e wrap m n = (Inr x, n') \<longleftrightarrow> e = nd_epoch n \<and> (\<exists>y. m n = (Inr y, n') \<and> x = wrap y)"
  by (auto simp: fenced_def and_then_Inr check_epoch_def split: if_splits)

lemma exchange_Inr:
  "exchange addr_ok node rq cl = (Inr (Inr y), cl') \<longleftrightarrow>
     cl_delivery cl (cl_calls cl) = Delivered \<and>
     (\<exists>n. node_dispatch addr_ok rq (cl_nodes cl node) = (Inr y, n) \<and>
        cl' = cl\<lparr>cl_calls := cl_calls cl + 1, cl_nodes := (cl_nodes cl)(node := n)\<rparr>)"
  by (cases "cl_delivery cl (cl_calls cl)")
    (auto simp: exchange_def Let_def split: prod.splits sum.splits)

lemma ask_node_Inr:
  "ask_node pick (\<lambda>_. None) addr_ok node rq cl = (Inr x, cl') \<longleftrightarrow>
     (\<exists>y. exchange addr_ok node rq cl = (Inr (Inr y), cl') \<and> pick y = Some x)"
proof -
  obtain r c where e: "exchange addr_ok node rq cl = (r, c)" by fastforce
  show ?thesis
  proof (cases r)
    case (Inr z)
    with e show ?thesis by (cases z) (auto simp: ask_node_def ok_or_def split: option.splits)
  qed (use e in \<open>simp add: ask_node_def\<close>)
qed

lemma pick_Some:
  "(case x of NpCapture y \<Rightarrow> Some y | _ \<Rightarrow> None) = Some c \<longleftrightarrow> x = NpCapture c"
  "(case x of NpPromote y \<Rightarrow> Some y | _ \<Rightarrow> None) = Some p \<longleftrightarrow> x = NpPromote p"
  "(case x of NpRestore y \<Rightarrow> Some y | _ \<Rightarrow> None) = Some r \<longleftrightarrow> x = NpRestore r"
  by (cases x; auto)+

lemma cluster_calls:
  assumes "ev_net (sy_env s) = cluster_network addr_ok"
  shows "nw_capture (ev_net (sy_env s)) node cq cl = (Inr cx, cl') \<Longrightarrow>
      \<exists>n. do_capture cq (cl_nodes cl node) = (Inr cx, n) \<and> cl_nodes cl' = (cl_nodes cl)(node := n)"
    and "nw_promote (ev_net (sy_env s)) node pq cl = (Inr px, cl') \<Longrightarrow>
      \<exists>n. do_promote pq (cl_nodes cl node) = (Inr px, n) \<and> cl_nodes cl' = (cl_nodes cl)(node := n)"
    and "nw_restore (ev_net (sy_env s)) node rq cl = (Inr rx, cl') \<Longrightarrow>
      \<exists>n. do_restore rq (cl_nodes cl node) = (Inr rx, n) \<and> cl_nodes cl' = (cl_nodes cl)(node := n)"
  by (auto simp: assms cluster_network_def ask_node_Inr exchange_Inr fenced_Inr pick_Some)

subsection \<open>What a call leaves alone\<close>

text \<open>The operations on the store do not touch the cluster.\<close>

definition still :: "'w sys \<Rightarrow> 'w sys \<Rightarrow> bool" where
  "still s s' \<longleftrightarrow> sy_env s' = sy_env s \<and> sy_world s' = sy_world s"

interpretation still: run_relation still
  by unfold_locales (auto simp: still_def)

lemma still_store: "along still (db tx)" "along still (dbq q)"
  by (auto simp: along_def still_def db_def dbq_def Let_def split: sum.splits)

lemma still_basic: "along still now_ms" "along still random_id" "along still (hex_of i)"
  "along still (with_lib f)" "along still (fire n)"
  by (auto simp: along_def still_def now_ms_def random_id_def hex_of_def with_lib_def fire_def split: prod.splits)

lemma still_node_addr: "along still (node_addr d)"
  unfolding node_addr_def
  by (intro still.along_and_then still_store still.along_case_option still.along_still)
    (auto simp: along_def still_def)

lemma still_db_now: "along still (db_now tx)"
  unfolding db_now_def by (intro still.along_rules still_basic still_store)

lemmas still_rules = still.along_rules still_basic still_store still_node_addr still_db_now

lemma still_coordinator:
  "along still (set_lifecycle ck l)" "along still (journal a b c d)" "along still (audit ctx op wi ci r det)"
  "along still (finish_attempt a st res err)" "along still (require_checkpoint i)"
  "along still (seal_checkpoint a ck)" "along still (reserve_capture a i j node)"
  "along still (pick_capture_node wl)" "along still (require_workload i)"
  unfolding set_lifecycle_def journal_def audit_def audit_store_def finish_attempt_def require_checkpoint_def
    seal_checkpoint_def reserve_capture_def pick_capture_node_def require_workload_def node_is_active_def Let_def
  by (intro still_rules; simp split: list.split add: still.along_still)+

lemmas still_ops = still_basic still_store still_node_addr still_db_now still_coordinator

text \<open>A call to a node reaches no other node, and does to it what its handler does. The theory of a
  relation between states of a node thus gives one between states of the coordinator and its cluster.\<close>

definition at_node :: "('p node \<Rightarrow> 'p node \<Rightarrow> bool) \<Rightarrow> string \<Rightarrow> 'p cluster sys \<Rightarrow> 'p cluster sys \<Rightarrow> bool" where
  "at_node R k s s' \<longleftrightarrow> sy_env s' = sy_env s \<and> (\<forall>addr_ok. ev_net (sy_env s) = cluster_network addr_ok \<longrightarrow>
     R (cl_nodes (sy_world s) k) (cl_nodes (sy_world s') k))"

locale node_relation = run_relation R for R :: "'p node \<Rightarrow> 'p node \<Rightarrow> bool"

sublocale node_relation \<subseteq> at: run_relation "at_node R k" for k
  by unfold_locales (auto simp: at_node_def R_refl intro: R_trans)

context node_relation
begin

lemma still_at: "along still m \<Longrightarrow> along (at_node R k) m"
  by (auto simp: along_def still_def at_node_def R_refl)

lemma exchange_at:
  assumes "exchange addr_ok node rq cl = (r, cl')" and "node = k \<Longrightarrow> along R (node_dispatch addr_ok rq)"
  shows "R (cl_nodes cl k) (cl_nodes cl' k)"
proof -
  obtain x n where d: "node_dispatch addr_ok rq (cl_nodes cl node) = (x, n)" by fastforce
  have "node = k \<Longrightarrow> R (cl_nodes cl k) n" using assms(2) d by (auto dest: alongD)
  with assms(1) d show ?thesis by (auto simp: exchange_def Let_def R_refl split: if_splits)
qed

lemma ask_node_at:
  assumes "ask_node pick env addr_ok node rq cl = (r, cl')" and "node = k \<Longrightarrow> along R (node_dispatch addr_ok rq)"
  shows "R (cl_nodes cl k) (cl_nodes cl' k)"
  using assms exchange_at [OF _ assms(2)] by (auto simp: ask_node_def split: prod.splits)

lemma call_at:
  assumes "\<And>addr_ok cl r cl'. rpc (cluster_network addr_ok) node q cl = (r, cl') \<Longrightarrow>
      R (cl_nodes cl k) (cl_nodes cl' k)"
  shows "along (at_node R k) (call_node rpc node q)"
  unfolding call_node_def
  by (rule at.along_and_then [OF still_at [OF still_node_addr]])
    (auto simp: along_def at_node_def assms split: prod.splits)

lemma handled_at:
  "(\<And>ok. node = k \<Longrightarrow> along R (node_dispatch ok (NqResume rq))) \<Longrightarrow> along (at_node R k) (call_node nw_resume node rq)"
  "(\<And>ok. node = k \<Longrightarrow> along R (node_dispatch ok (NqAllowFetch aq))) \<Longrightarrow>
     along (at_node R k) (call_node nw_allow_fetch node aq)"
  "(\<And>ok peer. node = k \<Longrightarrow> along R (node_dispatch ok (NqReplicate yq peer))) \<Longrightarrow>
     along (at_node R k) (call_node nw_replicate node yq)"
  "(\<And>ok. node = k \<Longrightarrow> along R (node_dispatch ok (NqProbe pq))) \<Longrightarrow> along (at_node R k) (call_node nw_probe node pq)"
  by (rule call_at, simp only: cluster_network_def network.simps, erule ask_node_at, blast)+

end

subsection \<open>The files of a node\<close>

abbreviation same_at :: "string \<Rightarrow> 'p cluster sys \<Rightarrow> 'p cluster sys \<Rightarrow> bool" where
  "same_at \<equiv> at_node same_files"

interpretation fixed: node_relation same_files
  by (rule node_relation.intro) (rule files.run_relation_axioms)

lemma files_now: "along same_files node_now"
  by (auto simp: along_def node_now_def same_files_def same_node_def)

lemma files_change: "(\<And>s. same_files s (f s)) \<Longrightarrow> along same_files (change f)"
  by (rule files.along_change)

lemma files_fenced: "along same_files m \<Longrightarrow> along same_files (fenced e wrap m)"
  unfolding fenced_def check_epoch_def by (intro files.along_rules)

lemma files_resume_provider: "along same_files (resume_provider req tr ctx acc spec)"
  unfolding resume_provider_def by (intro files.along_rules files_on_world)

lemma files_do_resume: "along same_files (do_resume req)"
  unfolding do_resume_def resume_all_def my_staging_def my_commit_def
  by (intro files.along_rules files_resume_provider files_on_world files_change;
      simp add: same_files_def same_node_def)

lemma files_allow_fetch: "along same_files (allow_fetch req)"
  unfolding allow_fetch_def
  by (intro files.along_rules files_now files_change; simp add: same_files_def same_node_def)

lemma calls_at:
  "along (same_at k) (call_node nw_resume node rq)"
  "along (same_at k) (call_node nw_allow_fetch node aq)"
  "node \<noteq> k \<Longrightarrow> along (same_at k) (call_node nw_replicate node yq)"
  by (rule fixed.handled_at, auto intro!: files_fenced files_do_resume files_allow_fetch)+

end
