(* ===== verification/EndToEnd.thy ===== *)
theory EndToEnd
  imports Cluster StoreProps
begin

section \<open>A capture from the coordinator to the disk of its node\<close>

text \<open>
  A capture the coordinator reports as committed, followed through the cluster: the request to
  the node, the staging directory, the sealed manifest, the promotion, the commit of the row, and
  everything the coordinator still does before it answers.
\<close>

subsection \<open>What is assumed of the libraries and the nodes\<close>

text \<open>What is relied on of serde: what parses from a serialised manifest is that manifest.\<close>

definition serde_faithful :: "lib \<Rightarrow> bool" where
  "serde_faithful L \<longleftrightarrow> (\<forall>m m'. lib_from_slice L (lib_to_vec L m) = Some m' \<longrightarrow> m' = m)"

text \<open>A provider is registered under the identifier it has: \<open>registry_register\<close> sees to that.\<close>

definition registry_ok :: "'p registry \<Rightarrow> bool" where
  "registry_ok m \<longleftrightarrow> (\<forall>((w, c), p) \<in> set m. ps_component_id (pv_spec p) = c)"

lemma registry_ok_updates [simp]:
  "registry_ok []" "registry_ok m \<Longrightarrow> registry_ok (registry_register w p m)"
  "registry_ok m \<Longrightarrow> registry_ok (registry_remove w c m)" "registry_ok m \<Longrightarrow> registry_ok (registry_remove_workload w m)"
  by (auto simp: registry_ok_def registry_register_def registry_remove_def registry_remove_workload_def
      tab_insert_def tab_remove_def)

definition node_ready :: "lib \<Rightarrow> 'p node \<Rightarrow> bool" where
  "node_ready L n \<longleftrightarrow> nd_lib n = L \<and> registry_ok (nd_providers n) \<and> zstd_lossless (nd_codecs n)"

subsection \<open>The components a capture returns\<close>

lemma capture_all_ids:
  "for_fold (capture_component ctx) acc qs s = (Inr sums, s') \<Longrightarrow>
     map ce_component_id (su_entries sums) =
       map ce_component_id (su_entries acc) @ map (\<lambda>p. ps_component_id (pv_spec p)) qs"
proof (induction qs arbitrary: acc s)
  case (Cons q qs)
  then obtain acc1 s1 where one: "capture_component ctx acc q s = (Inr acc1, s1)"
    and r: "for_fold (capture_component ctx) acc1 qs s1 = (Inr sums, s')"
    by (auto simp: and_then_Inr)
  have "map ce_component_id (su_entries acc1) = map ce_component_id (su_entries acc) @ [ps_component_id (pv_spec q)]"
    using one by (auto simp: capture_component_def and_then_Inr component_entry_of_def)
  with Cons.IH [OF r] show ?case by simp
qed simp

lemma select_providers_ids:
  "select_providers m w cs = Inr ps \<Longrightarrow> registry_ok m \<Longrightarrow>
     subseq (map (\<lambda>p. ps_component_id (pv_spec p)) ps) (map cr_component_id cs)"
proof (induction cs arbitrary: ps)
  case (Cons c cs)
  show ?case
  proof (cases "registry_get m w (cr_component_id c)")
    case None
    with Cons show ?thesis by (auto split: if_splits)
  next
    case (Some p)
    then have "((w, cr_component_id c), p) \<in> set m" by (simp add: registry_get_def map_of_SomeD)
    with Cons.prems(2) have "ps_component_id (pv_spec p) = cr_component_id c" by (auto simp: registry_ok_def)
    moreover from Some Cons.prems obtain qs where "select_providers m w cs = Inr qs" "ps = p # qs" by auto
    ultimately show ?thesis using Cons by simp
  qed
qed simp

lemma subseq_subset: "subseq xs ys \<Longrightarrow> set xs \<subseteq> set ys"
  by (induction rule: list_emb.induct) auto

lemma sidecar_free_subseq:
  assumes "subseq xs ys" "sidecar_free ys"
  shows "sidecar_free xs"
proof -
  have "distinct xs" using assms by (auto simp: sidecar_free_def subseq_conv_nths)
  with subseq_subset [OF assms(1)] assms(2) show ?thesis by (simp add: sidecar_free_def subset_eq)
qed

lemma validated_segments:
  assumes "validate_capture_request w opts policy prev now = Inr ()" "c \<in> set (co_components opts)"
  shows "sanitize_segment (cr_component_id c) = cr_component_id c"
proof -
  have "component_id_ok c = Inr ()" using assms by (auto simp: validate_capture_request_def split: if_splits)
  then show ?thesis by (simp add: component_id_ok_Inr sanitize_id_iff)
qed

lemma captured_clear:
  assumes "do_capture req n = (Inr res, n')" "ncs_ok res" "registry_ok (nd_providers n)"
    and "sidecar_free (map cr_component_id (ncr_components req))"
    and "\<forall>c \<in> set (ncr_components req). sanitize_segment (cr_component_id c) = cr_component_id c"
  shows "clear_entries (ncs_components res)"
proof -
  let ?ctx = "capture_ctx_of req (staging_dir (nd_root n) (ncr_attempt_id req))"
  obtain ps s5 sums s4 where ps: "select_providers (nd_providers n) (ncr_workload_id req) (ncr_components req) = Inr ps"
    and res: "ncs_components res = su_entries sums"
    and all: "for_fold (capture_component ?ctx)
         \<lparr>su_entries = [], su_logical = 0, su_stored = 0, su_compressed = 0\<rparr> ps s5 = (Inr sums, s4)"
    by (rule do_capture_run [OF assms(1,2)])
  have "subseq (map ce_component_id (ncs_components res)) (map cr_component_id (ncr_components req))"
    using select_providers_ids [OF ps assms(3)] capture_all_ids [OF all] by (simp add: res)
  with assms(4,5) show ?thesis
    using subseq_subset [of "map ce_component_id (ncs_components res)"] sidecar_free_subseq
    by (fastforce simp: clear_entries_def)
qed

subsection \<open>The phases of a capture\<close>

lemma capture_on_node_Inr:
  assumes "capture_on_node self workload node a rc opts ck s = (Inr ck1, s')"
    and "ev_net (sy_env s) = cluster_network addr_ok"
  obtains creq cres n where "do_capture creq (cl_nodes (sy_world s) node) = (Inr cres, n)" "ncs_ok cres"
    "ncr_attempt_id creq = a" "ncr_components creq = co_components opts" "ncr_workload_id creq = w_workload_id workload"
    "ck_components ck1 = ncs_components cres" "ck_checkpoint_id ck1 = ck_checkpoint_id ck"
    "cl_nodes (sy_world s') = (cl_nodes (sy_world s))(node := n)" "sy_env s' = sy_env s"
    "validate_component_completeness (co_components opts) (ncs_components cres) = Inr ()"
proof -
  define creq where "creq = \<lparr>ncr_attempt_id = a,
        ncr_checkpoint_id = ck_checkpoint_id ck, ncr_workload_id = w_workload_id workload,
        ncr_checkpoint_generation = ck_checkpoint_generation ck,
        ncr_consistency = rc, ncr_quiescence = co_quiescence opts,
        ncr_components = co_components opts, ncr_compression = compression_spec_of (cc_policy self),
        ncr_coordinator_epoch = cc_epoch self\<rparr>"
  from assms(1) obtain s1 s2 cres s3 achieved s4 where
    i: "db (checkpoint_insert ck) s = (Inr (), s1)" and l: "set_lifecycle ck Capturing s1 = (Inr (), s2)"
    and c: "call_node nw_capture node creq s2 = (Inr cres, s3)" and ok: "ncs_ok cres"
    and ck1: "ck1 = captured_checkpoint self workload opts achieved cres ck"
    and v: "validate_component_completeness (co_components opts) (ncs_components cres) = Inr ()"
    and l2: "set_lifecycle ck1 Captured s3 = (Inr (), s4)" and l3: "set_lifecycle ck1 Validating s4 = (Inr (), s')"
    unfolding capture_on_node_def creq_def [symmetric] Let_def
    by (auto simp: and_then_Inr split: if_splits)
  have st: "still s s2" using alongD [OF still_store(1) i] alongD [OF still_coordinator(1) l] still.R_trans by blast
  from c obtain u s2' cl where na: "node_addr node s2 = (Inr u, s2')"
    and cc: "nw_capture (ev_net (sy_env s2')) node creq (sy_world s2') = (Inr cres, cl)" "s3 = s2'\<lparr>sy_world := cl\<rparr>"
    by (auto simp: call_node_Inr)
  have st': "still s s2'" using st alongD [OF still_node_addr na] still.R_trans by blast
  with assms(2) have "ev_net (sy_env s2') = cluster_network addr_ok" by (simp add: still_def)
  from cluster_calls(1) [OF this cc(1)] st' obtain n where
    n: "do_capture creq (cl_nodes (sy_world s) node) = (Inr cres, n)" "cl_nodes cl = (cl_nodes (sy_world s))(node := n)"
    by (auto simp: still_def)
  have "still s3 s'" using alongD [OF still_coordinator(1) l2] alongD [OF still_coordinator(1) l3] still.R_trans by blast
  then show ?thesis
    using that [OF n(1) ok] n(2) st' cc(2) v by (simp add: creq_def ck1 captured_checkpoint_def still_def)
qed

lemma seal_checkpoint_Inr:
  assumes "seal_checkpoint a ck s = (Inr (ck2, sealed), s')"
  obtains now where "sealed = seal (ev_lib (sy_env s)) ((manifest_scaffold ck)\<lparr>m_seal_ms := now\<rparr>)"
    "ck_manifest_digest ck2 = Some (sm_digest sealed)" "ck_checkpoint_id ck2 = ck_checkpoint_id ck" "still s s'"
proof -
  have "still s s'" using alongD [OF still_coordinator(6) assms] .
  with assms that show ?thesis
    by (auto simp: seal_checkpoint_def Let_def and_then_Inr with_lib_def now_ms_def fire_def split: prod.splits if_splits)
qed

lemma sealed_parse:
  assumes "manifest_parse L (sm_canonical_bytes (seal L m)) = Inr m'" "serde_faithful L"
  shows "m_components m' = m_components m" "m_checkpoint_id m' = m_checkpoint_id m"
proof -
  have "lib_from_slice L (lib_to_vec L (sm_manifest (seal L m))) = Some m'"
    using assms(1) by (simp add: manifest_parse_Inr seal_def Let_def)
  then have "m' = sm_manifest (seal L m)" using assms(2) by (simp add: serde_faithful_def)
  then show "m_components m' = m_components m" "m_checkpoint_id m' = m_checkpoint_id m" by (simp_all add: seal_def Let_def)
qed

subsection \<open>The row\<close>

definition committed_on :: "string \<Rightarrow> string \<Rightarrow> checkpoint_object \<Rightarrow> bool" where
  "committed_on node digest c \<longleftrightarrow> ck_lifecycle c = Available \<and> ck_manifest_digest c = Some digest \<and> digest \<noteq> [] \<and>
     node \<in> dl_node ` set (ck_durable_locations c)"

lemma db_Inr: "db tx s = (Inr x, s') \<Longrightarrow> tx (sy_store s) = Inr (x, sy_store s')"
  by (auto simp: db_def Let_def split: if_splits sum.splits)

lemma ok_after:
  assumes "m s = (r, s')" "sys_keeps coord_steps m" "store_ok (sy_store s)"
  shows "store_ok (sy_store s')"
  using coord_steps_grow [OF sys_keepsD [OF assms(2,1)] assms(3)] by simp

lemma checkpoint_row_replaced:
  assumes "checkpoint_row i s = Some old" "ck_checkpoint_id r = i"
  shows "checkpoint_row i ((upd_checkpoint i (\<lambda>_. r) s)\<lparr>st_components := rows\<rparr>) = Some r"
proof -
  have "row_get ck_checkpoint_id i cs = Some old \<Longrightarrow>
      row_get ck_checkpoint_id i (row_update ck_checkpoint_id i (\<lambda>_. r) cs) = Some r" for cs
    using assms(2) by (induction cs) (auto simp: row_get_def row_update_def split: if_splits)
  with assms(1) show ?thesis by (simp add: checkpoint_row_def upd_checkpoint_def)
qed

lemma updated_row:
  assumes "checkpoint_update c s = Inr (u, s')"
  obtains w where "checkpoint_row (ck_checkpoint_id c) s' = Some ((checkpoint_to_row c)\<lparr>ck_workload_id := w\<rparr>)"
proof (rule checkpoint_update_Inr [OF assms])
  fix old rows
  assume "checkpoint_row (ck_checkpoint_id c) s = Some old"
    and "s' = (upd_checkpoint (ck_checkpoint_id c)
      (\<lambda>_. (checkpoint_to_row c)\<lparr>ck_workload_id := ck_workload_id old\<rparr>) s)\<lparr>st_components := rows\<rparr>"
  with checkpoint_row_replaced [where r = "(checkpoint_to_row c)\<lparr>ck_workload_id := ck_workload_id old\<rparr>"] that
  show thesis by (simp add: checkpoint_to_row_def)
qed

lemma journal_rows: "journal k a st d s = (r, s') \<Longrightarrow> checkpoint_row i (sy_store s') = checkpoint_row i (sy_store s)"
  by (auto simp: journal_def db_now_def and_then_def now_ms_def db_def journal_append_def Let_def checkpoint_row_def
      split: if_splits sum.splits)

lemma persist_checkpoint_Inr:
  assumes "persist_checkpoint self node a ck sealed s = (Inr u, s')"
    and "ev_net (sy_env s) = cluster_network addr_ok" "store_ok (sy_store s)"
    and "ck_manifest_digest ck = Some d"
  obtains preq pres n c where "do_promote preq (cl_nodes (sy_world s) node) = (Inr pres, n)" "nms_ok pres"
    "nmr_attempt_id preq = a" "nmr_checkpoint_id preq = ck_checkpoint_id ck"
    "nmr_manifest_bytes preq = sm_canonical_bytes sealed" "nmr_digest preq = sm_digest sealed"
    "cl_nodes (sy_world s') = (cl_nodes (sy_world s))(node := n)" "sy_env s' = sy_env s"
    "checkpoint_row (ck_checkpoint_id ck) (sy_store s') = Some c" "committed_on node d c"
proof -
  define preq where "preq = \<lparr>nmr_attempt_id = a,
        nmr_checkpoint_id = ck_checkpoint_id ck, nmr_manifest_bytes = sm_canonical_bytes sealed,
        nmr_digest = sm_digest sealed, nmr_integrity_root = sm_integrity_root sealed,
        nmr_coordinator_epoch = cc_epoch self\<rparr>"
  let ?i = "ck_checkpoint_id ck"
  from assms(1) obtain s1 pres s2 s3 s4 s5 s6 now where
    l: "set_lifecycle ck Persisting s = (Inr (), s1)" and c: "call_node nw_promote node preq s1 = (Inr pres, s2)"
    and ok: "nms_ok pres" and up: "db (checkpoint_update (promoted_checkpoint node pres ck)) s2 = (Inr (), s3)"
    and j: "journal ''capture'' a cap_PERSISTED ''checkpoint promoted on node'' s3 = (Inr (), s4)"
    and f: "fire ''capture.before_db_commit'' s4 = (Inr (), s5)" and n: "now_ms s5 = (Inr now, s6)"
    and cm: "db (capture_commit now ?i a) s6 = (Inr u, s')"
    unfolding persist_checkpoint_def preq_def [symmetric] db_now_def
    by (auto simp: and_then_Inr split: if_splits)
  have "still s s1" using alongD [OF still_coordinator(1) l] .
  moreover from c obtain v s1' cl where na: "node_addr node s1 = (Inr v, s1')"
    and cc: "nw_promote (ev_net (sy_env s1')) node preq (sy_world s1') = (Inr pres, cl)" "s2 = s1'\<lparr>sy_world := cl\<rparr>"
    by (auto simp: call_node_Inr)
  ultimately have st: "still s s1'" using alongD [OF still_node_addr na] still.R_trans by blast
  with assms(2) have "ev_net (sy_env s1') = cluster_network addr_ok" by (simp add: still_def)
  from cluster_calls(2) [OF this cc(1)] st obtain m where
    m: "do_promote preq (cl_nodes (sy_world s) node) = (Inr pres, m)" "cl_nodes cl = (cl_nodes (sy_world s))(node := m)"
    by (auto simp: still_def)
  have "still s2 s'"
    using alongD [OF still_store(1) up] alongD [OF still_coordinator(2) j] alongD [OF still_basic(5) f]
      alongD [OF still_basic(1) n] alongD [OF still_store(1) cm] by (auto simp: still_def)
  then have world: "cl_nodes (sy_world s') = (cl_nodes (sy_world s))(node := m)" "sy_env s' = sy_env s"
    using m(2) st cc(2) by (simp_all add: still_def)
  have "store_ok (sy_store s1)"
    using ok_after [where m = "set_lifecycle ck Persisting", OF l _ assms(3)] set_lifecycle_steps by blast
  moreover have "sy_store s2 = sy_store s1" 
    using c read_only_call [of nw_promote node preq] unfolding read_only_def by blast
  ultimately have "store_ok (sy_store s3)"
    using db_Inr [OF up] store_step_keeps store_step.intros by metis
  then have "store_ok (sy_store s4)"
    using ok_after [where m = "journal _ _ _ _", OF j] common_steps by blast
  moreover have same: "sy_store s6 = sy_store s4" using f n by (auto simp: fire_def now_ms_def split: prod.splits)
  moreover obtain w where "checkpoint_row ?i (sy_store s4) =
      Some ((checkpoint_to_row (promoted_checkpoint node pres ck))\<lparr>ck_workload_id := w\<rparr>)"
    using updated_row [OF db_Inr [OF up]] journal_rows [OF j] by (auto simp: promoted_checkpoint_def)
  ultimately obtain c where "checkpoint_row ?i (sy_store s') = Some c" "committed_on node d c"
    using db_Inr [OF cm] assms(4)
    by (auto simp: capture_commit_Inr commit_effect_self committed_on_def promoted_checkpoint_def checkpoint_to_row_def)
  with that [of preq] m(1) ok world show ?thesis by (simp add: preq_def)
qed

subsection \<open>What the coordinator does after the commit\<close>

definition row_kept :: "ident \<Rightarrow> store \<Rightarrow> store \<Rightarrow> bool" where
  "row_kept i s t \<longleftrightarrow> (\<forall>c. checkpoint_row i s = Some c \<longrightarrow> (\<exists>c'. checkpoint_row i t = Some c' \<and>
     ck_lifecycle c' = ck_lifecycle c \<and> ck_manifest_digest c' = ck_manifest_digest c \<and>
     set (ck_durable_locations c) \<subseteq> set (ck_durable_locations c')))"

interpretation rowk: step_contract "row_kept i"
  by unfold_locales (auto simp: row_kept_def, blast)

lemma row_kept_tx:
  "tx_along (row_kept i) (attempt_finish now a st res err)" "tx_along (row_kept i) (reservation_release a)"
  "tx_along (row_kept i) (audit_append now actor op wi ci r det)" "tx_along (row_kept i) (journal_append now k a st d)"
proof -
  have "row_kept i s t" if "st_checkpoints t = st_checkpoints s" for s t
    using that by (auto simp: row_kept_def checkpoint_row_def)
  then show "tx_along (row_kept i) (attempt_finish now a st res err)" "tx_along (row_kept i) (reservation_release a)"
    "tx_along (row_kept i) (audit_append now actor op wi ci r det)" "tx_along (row_kept i) (journal_append now k a st d)"
    unfolding tx_along_def by (auto simp: other_tables split: if_splits option.splits)
qed

lemma row_kept_location: "tx_along (row_kept i) (checkpoint_add_location j l)"
  unfolding tx_along_def
  by (cases "i = j") (auto simp: checkpoint_add_location_def Let_def set_locations_def row_kept_def ok_or_def
      split: option.splits)

lemma row_kept_replicate: "sys_keeps (row_kept i) (replicate_to_policy self j ctx)"
proof -
  have one: "sys_keeps (row_kept i) (replicate_one self j ck target)" for ck target
    unfolding replicate_one_def fetch_grant_def manifest_anchor_def
    by (cases "ck_durable_locations ck")
      (simp_all, (intro rowk.keeps_rules row_kept_location)+)
  have "sys_keeps (row_kept i) (replicate_loop self j ck ts)" for ck ts
    by (induction ts arbitrary: ck) (auto intro!: rowk.keeps_reads rowk.keeps_and_then one)
  then show ?thesis
    unfolding replicate_to_policy_def require_checkpoint_def audit_def audit_store_def
    by (intro rowk.keeps_rules row_kept_tx)
qed

lemma row_kept_finish: "sys_keeps (row_kept i) (finish_capture self w node a j ctx)"
  unfolding finish_capture_def audit_def audit_store_def journal_def finish_attempt_def
  by (intro rowk.keeps_rules row_kept_tx row_kept_replicate)

lemmas at_rules = fixed.at.along_rules calls_at still_ops [THEN fixed.still_at]

lemma replicate_loop_at: "k \<notin> set ts \<Longrightarrow> along (same_at k) (replicate_loop self i ck ts)"
proof (induction ts arbitrary: ck)
  case (Cons t ts)
  have "along (same_at k) (replicate_one self i ck t)"
    unfolding replicate_one_def fetch_grant_def manifest_anchor_def using Cons.prems
    by (cases "ck_durable_locations ck")
      (auto intro!: at_rules)
  with Cons show ?case by (auto intro!: at_rules)
qed (simp add: fixed.at.along_still)

text \<open>New replicas go to nodes that have none, so the node of the capture is left alone.\<close>

lemma replicate_at:
  assumes "replicate_to_policy self i ctx s = (Inr u, s')"
    and "checkpoint_row i (sy_store s) = Some c" "committed_on k d c"
  shows "same_at k s s'"
proof (cases "p_min_valid_replicas (cc_policy self) \<le> 1")
  case True
  with assms(1) show ?thesis by (simp add: replicate_to_policy_def fixed.at.R_refl)
next
  case False
  with assms(1) obtain ck s1 nodes s2 ck' s3 where r: "require_checkpoint i s = (Inr ck, s1)"
    and n: "dbq node_list s1 = (Inr nodes, s2)"
    and l: "replicate_loop self i ck (map n_id (filter (\<lambda>n. n_status n = ''ACTIVE'' \<and>
        n_id n \<notin> set (map dl_node (ck_durable_locations ck))) nodes)) s2 = (Inr ck', s3)"
    and a: "audit ctx ''checkpoint.replicate'' (Some (ck_workload_id ck')) (Some i) AuditOk
        ''replica count now {}'' s3 = (Inr (), s')"
    by (auto simp: replicate_to_policy_def and_then_Inr Let_def)
  have "ck_durable_locations ck = ck_durable_locations c"
    using r assms(2) by (auto simp: require_checkpoint_def and_then_Inr dbq_def Let_def checkpoint_get_def
        load_checkpoint_def row_to_checkpoint_def ok_or_def split: if_splits)
  with assms(3) have "k \<in> set (map dl_node (ck_durable_locations ck))" by (simp add: committed_on_def)
  then have "k \<notin> set (map n_id (filter (\<lambda>n. n_status n = ''ACTIVE'' \<and>
        n_id n \<notin> set (map dl_node (ck_durable_locations ck))) nodes))"
    unfolding set_map set_filter by blast
  from alongD [OF replicate_loop_at [OF this] l] alongD [OF fixed.still_at [OF still_coordinator(5)] r]
    alongD [OF fixed.still_at [OF still_store(2)] n] alongD [OF fixed.still_at [OF still_coordinator(3)] a]
  show ?thesis using fixed.at.R_trans by blast
qed

lemma finish_capture_at:
  assumes "finish_capture self w node a i ctx s = (Inr u, s')"
    and "checkpoint_row i (sy_store s) = Some c" "committed_on k d c"
  shows "same_at k s s' \<and> (\<exists>c'. checkpoint_row i (sy_store s') = Some c' \<and> committed_on k d c')"
proof
  from assms(1) obtain res s1 s2 n s3 s4 s5 where
    r: "call_node nw_resume node (resume_request self a i (w_workload_id w) None None True) s = (Inr res, s1)"
    and j: "journal ''capture'' a cap_RESUME_DONE ''source resumed'' s1 = (Inr (), s2)"
    and p: "replicate_to_policy self i ctx s2 = (Inr n, s3)"
    and f: "finish_attempt a ''COMMITTED'' (Some ''capture committed'') None s3 = (Inr (), s4)"
    and d: "audit ctx ''capture.commit'' (Some (w_workload_id w)) (Some i) AuditOk
        ''generation {checkpoint_generation} on node {node}: {achieved:?} {resumability:?} replicas={replicas}'' s4 = (Inr (), s5)"
    and e: "fire ''capture.after_commit'' s5 = (Inr u, s')"
    by (auto simp: finish_capture_def and_then_Inr Let_def split: if_splits)
  have "sy_store s1 = sy_store s"
    using r read_only_call [of nw_resume node "resume_request self a i (w_workload_id w) None None True"]
    unfolding read_only_def by blast
  then have "checkpoint_row i (sy_store s2) = Some c" using journal_rows [OF j] assms(2) by simp
  note p' = replicate_at [OF p this assms(3)]
  have "same_at k s s1" "same_at k s1 s2" using alongD [OF calls_at(1) r] alongD [OF fixed.still_at [OF still_coordinator(2)] j] .
  moreover have "same_at k s3 s4" using alongD [OF fixed.still_at [OF still_coordinator(4)] f] .
  moreover have "same_at k s4 s5" using alongD [OF fixed.still_at [OF still_coordinator(3)] d] .
  moreover have "same_at k s5 s'" using alongD [OF fixed.still_at [OF still_basic(5)] e] .
  ultimately show "same_at k s s'" using p' fixed.at.R_trans [of k] by metis
  show "\<exists>c'. checkpoint_row i (sy_store s') = Some c' \<and> committed_on k d c'"
    using sys_keepsD [OF row_kept_finish assms(1)] assms(2,3)
    by (fastforce simp: row_kept_def committed_on_def)
qed

subsection \<open>The whole request\<close>

lemma on_error_Inr [simp]: "on_error m h s = (Inr x, s') \<longleftrightarrow> m s = (Inr x, s')"
  by (auto simp: on_error_def split: prod.splits sum.splits)

text \<open>What happens before the first call to a node: the cluster is not touched, the store stays
  well formed.\<close>

definition calm :: "'w sys \<Rightarrow> 'w sys \<Rightarrow> bool" where
  "calm s s' \<longleftrightarrow> still s s' \<and> (store_ok (sy_store s) \<longrightarrow> store_ok (sy_store s'))"

lemma alongI_calm: "along still m \<Longrightarrow> sys_keeps coord_steps m \<Longrightarrow> m s = (r, s') \<Longrightarrow> calm s s'"
  using ok_after alongD by (fastforce simp: calm_def)

lemma request_capture_Inr:
  assumes "request_capture self w opts ctx s = (Inr out, s')"
  obtains workload node a i g rc s0 where
    "execute_capture self workload node a i g rc opts ctx s0 = (Inr out, s')" "calm s s0"
    "\<forall>c \<in> set (co_components opts). sanitize_segment (cr_component_id c) = cr_component_id c"
proof -
  from assms obtain s1 workload s2 cks s3 now s4 node s5 whex s6 rid s7 rhex s8 mg s9 i s10 a s0 u1 u2 v x1 x2 where
    o: "fire ''capture.before_validation'' s = (Inr u1, s1)" "require_workload w s1 = (Inr workload, s2)"
      "dbq (checkpoint_list (Some w)) s2 = (Inr cks, s3)" "now_ms s3 = (Inr now, s4)"
      "pick_capture_node workload s4 = (Inr node, s5)" "hex_of w s5 = (Inr whex, s6)"
      "random_id s6 = (Inr rid, s7)" "hex_of rid s7 = (Inr rhex, s8)"
      "dbq (checkpoint_max_generation w) s8 = (Inr mg, s9)" "random_id s9 = (Inr i, s10)"
      "reserve_capture a i w node s10 = (Inr u2, s0)"
    and v: "validate_capture_request workload opts (cc_policy self) v now = Inr ()"
    and e: "execute_capture self workload node a i x1 x2 opts ctx s0 = (Inr out, s')"
    by (auto simp: request_capture_def and_then_Inr Let_def)
  note c = alongI_calm [OF still_basic(5) steps.keeps_reads(8) o(1)]
    alongI_calm [OF still_coordinator(9) common_steps(4) o(2)] alongI_calm [OF still_store(2) steps.keeps_reads(9) o(3)]
    alongI_calm [OF still_basic(1) steps.keeps_reads(4) o(4)] alongI_calm [OF still_coordinator(8) pick_capture_node_steps o(5)]
    alongI_calm [OF still_basic(3) steps.keeps_reads(6) o(6)] alongI_calm [OF still_basic(2) steps.keeps_reads(5) o(7)]
    alongI_calm [OF still_basic(3) steps.keeps_reads(6) o(8)] alongI_calm [OF still_store(2) steps.keeps_reads(9) o(9)]
    alongI_calm [OF still_basic(2) steps.keeps_reads(5) o(10)]
    alongI_calm [OF still_coordinator(7) capture_end_steps(2) o(11)]
  have "calm s s0" using c by (simp add: calm_def still_def)
  moreover have "\<forall>c \<in> set (co_components opts). sanitize_segment (cr_component_id c) = cr_component_id c"
    using validated_segments [OF v] by blast
  ultimately show ?thesis using that [OF e] by blast
qed

text \<open>One run through the phases, with what each leaves behind.\<close>

lemma execute_capture_run:
  fixes s0 :: "'p cluster sys"
  assumes run: "execute_capture self workload k a i g rc opts ctx s0 = (Inr out, s')"
    and net: "ev_net (sy_env s0) = cluster_network addr_ok" and ok: "store_ok (sy_store s0)"
  obtains creq cres n1 preq pres n2 mf c where
    "do_capture creq (cl_nodes (sy_world s0) k) = (Inr cres, n1)" "ncs_ok cres"
    "ncr_components creq = co_components opts" "ncr_attempt_id creq = nmr_attempt_id preq"
    "validate_component_completeness (co_components opts) (ncs_components cres) = Inr ()"
    "do_promote preq n1 = (Inr pres, n2)" "nms_ok pres" "nmr_checkpoint_id preq = i"
    "nmr_manifest_bytes preq = sm_canonical_bytes (seal (ev_lib (sy_env s0)) mf)"
    "nmr_digest preq = sm_digest (seal (ev_lib (sy_env s0)) mf)"
    "m_components mf = ncs_components cres" "m_checkpoint_id mf = i"
    "same_files n2 (cl_nodes (sy_world s') k)" "oo_node out = Some k" "oo_checkpoint_id out = Some i"
    "checkpoint_row i (sy_store s') = Some c" "committed_on k (nmr_digest preq) c"
proof -
  from run obtain now s1 ck1 s2 ck2 sealed s3 u s4 v where n: "now_ms s0 = (Inr now, s1)"
    and cap: "capture_on_node self workload k a rc opts (checkpoint_scaffold workload i g a (cc_epoch self) k opts
        (cc_policy self) now) s1 = (Inr ck1, s2)"
    and se: "seal_checkpoint a ck1 s2 = (Inr (ck2, sealed), s3)"
    and pe: "persist_checkpoint self k a ck2 sealed s3 = (Inr u, s4)"
    and fi: "finish_capture self workload k a i ctx s4 = (Inr v, s')"
    and out: "oo_node out = Some k" "oo_checkpoint_id out = Some i"
    by (auto simp: execute_capture_def and_then_Inr Let_def)
  let ?ck = "checkpoint_scaffold workload i g a (cc_epoch self) k opts (cc_policy self) now"
  note sc = scaffold_created [of workload i g a "cc_epoch self" k opts "cc_policy self" now]
  have s1: "still s0 s1" "sy_store s1 = sy_store s0"
    using alongD [OF still_basic(1) n] n by (auto simp: now_ms_def)
  then have net1: "ev_net (sy_env s1) = cluster_network addr_ok" using net by (simp add: still_def)
  obtain creq cres n1 where c: "do_capture creq (cl_nodes (sy_world s1) k) = (Inr cres, n1)" "ncs_ok cres"
    "ncr_attempt_id creq = a" "ncr_components creq = co_components opts"
    "ck_components ck1 = ncs_components cres" "ck_checkpoint_id ck1 = ck_checkpoint_id ?ck"
    "cl_nodes (sy_world s2) = (cl_nodes (sy_world s1))(k := n1)" "sy_env s2 = sy_env s1"
    "validate_component_completeness (co_components opts) (ncs_components cres) = Inr ()"
    by (rule capture_on_node_Inr [OF cap net1]) blast
  obtain t where z: "sealed = seal (ev_lib (sy_env s2)) ((manifest_scaffold ck1)\<lparr>m_seal_ms := t\<rparr>)"
    "ck_manifest_digest ck2 = Some (sm_digest sealed)" "ck_checkpoint_id ck2 = ck_checkpoint_id ck1" "still s2 s3"
    by (rule seal_checkpoint_Inr [OF se])
  have cap': "coord_steps (sy_store s1) (sy_store s2) \<and> ck_checkpoint_id ck1 = i \<and>
      life_of i (sy_store s2) = Some Validating"
    using obeysD [OF capture_on_node_obeys [where P = "\<lambda>_. True"] _ cap] by (simp add: sc)
  then have "coord_steps (sy_store s2) (sy_store s3)"
    using obeysD [OF seal_checkpoint_obeys _ se] by simp
  then have ok3: "store_ok (sy_store s3)"
    using cap' coord_steps_grow ok s1(2) by metis
  have net3: "ev_net (sy_env s3) = cluster_network addr_ok" using net1 c(8) z(4) by (simp add: still_def)
  obtain preq pres n2 cr where p: "do_promote preq (cl_nodes (sy_world s3) k) = (Inr pres, n2)" "nms_ok pres"
    "nmr_attempt_id preq = a" "nmr_checkpoint_id preq = ck_checkpoint_id ck2"
    "nmr_manifest_bytes preq = sm_canonical_bytes sealed" "nmr_digest preq = sm_digest sealed"
    "cl_nodes (sy_world s4) = (cl_nodes (sy_world s3))(k := n2)" "sy_env s4 = sy_env s3"
    "checkpoint_row (ck_checkpoint_id ck2) (sy_store s4) = Some cr" "committed_on k (sm_digest sealed) cr"
    by (rule persist_checkpoint_Inr [OF pe net3 ok3 z(2)])
  have i: "ck_checkpoint_id ck2 = i" using z(3) cap' by simp
  have f: "same_at k s4 s'" "\<exists>c'. checkpoint_row i (sy_store s') = Some c' \<and> committed_on k (sm_digest sealed) c'"
    using finish_capture_at [OF fi p(9) [unfolded i] p(10)] by blast+
  have "same_files n2 (cl_nodes (sy_world s') k)" using f(1) p(7,8) net3 by (auto simp: at_node_def)
  moreover have "cl_nodes (sy_world s1) = cl_nodes (sy_world s0)" "sy_env s2 = sy_env s0"
    "cl_nodes (sy_world s3) k = n1" using s1 c(7,8) z(4) by (simp_all add: still_def)
  ultimately show ?thesis
    using that [of creq cres n1 preq pres n2 "(manifest_scaffold ck1)\<lparr>m_seal_ms := t\<rparr>"] c p(1-6) z(1) f(2) out cap' i
    by (auto simp: manifest_scaffold_def)
qed

subsection \<open>The whole way\<close>

text \<open>A component of a directory of a node that a restore reads back as these bytes, whatever bound
  it sets above their sizes.\<close>

definition reads_back :: "'p node \<Rightarrow> path \<Rightarrow> component_entry \<Rightarrow> bytes \<Rightarrow> bool" where
  "reads_back n commit e payload \<longleftrightarrow> (\<forall>bound.
     length payload \<le> unat bound \<and> sr_stored_size (ce_storage_representation e) \<le> bound \<and>
     length (file_bytes (commit @ [''components'', ce_component_id e]) (dk_tree (nd_disk n))) < 2 ^ 64 \<and>
     quiet (nd_disk n) \<longrightarrow>
       fst (read_component_payload (nd_lib n) (nd_codecs n) commit (ce_storage_representation e)
         (ce_content_hash e) bound (nd_disk n)) = Inr payload)"

text \<open>The bytes came out of a provider of the node that is registered for the component, and have the
  content hash of its entry.\<close>

definition provided :: "'p node \<Rightarrow> component_entry \<Rightarrow> bytes \<Rightarrow> bool" where
  "provided n e payload \<longleftrightarrow> (\<exists>p \<in> snd ` set (nd_providers n). ps_component_id (pv_spec p) = ce_component_id e \<and>
     (\<exists>cx w w'. pv_capture p cx w = (Inr payload, w'))) \<and> sha256_hex (nd_lib n) payload = ce_content_hash e"

lemma held_reads_back:
  assumes "component_holds (nd_lib n) (nd_codecs n) spec (dk_tree (nd_disk n)) commit e payload" "zstd_lossless (nd_codecs n)"
  shows "reads_back n commit e payload"
  using read_back [OF assms(1) _ assms(2)] by (simp add: reads_back_def)

text \<open>What a node holds after it captured and promoted, with the disk it has later.\<close>

lemma captured_and_promoted:
  fixes n :: "'p node"
  assumes cap: "do_capture creq n = (Inr cres, n1)" "ncs_ok cres" and clear: "clear_entries (ncs_components cres)"
    and pro: "do_promote preq n1 = (Inr pres, n2)" "nms_ok pres" and a: "ncr_attempt_id creq = nmr_attempt_id preq"
    and parse: "manifest_parse (nd_lib n) (nmr_manifest_bytes preq) = Inr m"
    and same: "m_components m = ncs_components cres" "same_files n2 n3"
    and lib: "hex_lib (nd_lib n)" "zstd_lossless (nd_codecs n)"
  defines "commit \<equiv> commit_path (nd_lib n) (nd_root n) (nmr_checkpoint_id preq)"
  shows "same_node n n3 \<and> replica_ok (nd_lib n) (nd_codecs n) (dk_tree (nd_disk n3)) commit (nmr_digest preq) m \<and>
    (\<forall>e \<in> set (m_components m). \<exists>payload. provided n e payload \<and> reads_back n3 commit e payload)"
proof -
  let ?ctx = "capture_ctx_of creq (staging_dir (nd_root n) (ncr_attempt_id creq))"
  obtain ps where ps: "select_providers (nd_providers n) (ncr_workload_id creq) (ncr_components creq) = Inr ps"
    and n1: "same_node n n1" and held: "\<forall>e \<in> set (ncs_components cres).
      captured_in (nd_lib n) (nd_codecs n) ?ctx ps (dk_tree (nd_disk n1)) e"
    by (rule do_capture_ok [OF cap lib(1) clear])
  from n1 have cfg1: "nd_lib n1 = nd_lib n" "nd_codecs n1 = nd_codecs n" "nd_root n1 = nd_root n"
    by (simp_all add: same_node_def)
  have dir: "cx_staging_dir ?ctx = staging_dir (nd_root n1) (nmr_attempt_id preq)"
    by (simp add: capture_ctx_of_def cfg1 a)
  from held obtain pay where sup: "\<forall>e \<in> set (m_components m). supplied ?ctx ps e (pay e)"
    and staged: "\<forall>e \<in> set (m_components m). component_holds (nd_lib n) (nd_codecs n) (cx_compression ?ctx)
      (dk_tree (nd_disk n1)) (cx_staging_dir ?ctx) e (pay e)"
    unfolding captured_in_def same(1) by metis
  from promoted_components [OF pro refl, of m "cx_compression ?ctx" pay] staged parse lib(1)
  have rep: "replica_ok (nd_lib n) (nd_codecs n) (dk_tree (nd_disk n2)) commit (nmr_digest preq) m"
    and hold: "\<forall>e \<in> set (m_components m). component_holds (nd_lib n) (nd_codecs n) (cx_compression ?ctx)
      (dk_tree (nd_disk n2)) commit e (pay e)" and n2: "same_node n1 n2"
    by (simp_all add: cfg1 dir commit_def)
  have n3: "same_node n n3" "nd_disk n3 = nd_disk n2"
    using n1 n2 same(2) by (simp_all add: same_files_def same_node_def)
  then have cfg3: "nd_lib n3 = nd_lib n" "nd_codecs n3 = nd_codecs n" by (simp_all add: same_node_def)
  have "provided n e (pay e) \<and> reads_back n3 commit e (pay e)" if e: "e \<in> set (m_components m)" for e
  proof
    show "reads_back n3 commit e (pay e)"
      by (rule held_reads_back) (use hold e lib(2) in \<open>auto simp: cfg3 n3(2)\<close>)
    show "provided n e (pay e)"
      using sup staged e select_providers_registered [OF ps]
      by (fastforce simp: provided_def supplied_def component_holds_def)
  qed
  with rep n3 show ?thesis by auto
qed


end
