(* ===== verification/ClusterDemo.thy ===== *)
theory ClusterDemo
  imports EndToEnd NodeDemo Demo
begin

section \<open>A concrete cluster\<close>

text \<open>
  A coordinator with one registered node and one workload, over a network that loses nothing: the
  environment of the witness of the property of the whole path.
\<close>

definition live_request :: capture_component_request where
  "live_request = \<lparr>cr_component_id = ''c'', cr_component_type = ApplicationState, cr_required = True,
     cr_schema_version = 1, cr_restore_handler = ''app''\<rparr>"

definition live_options :: capture_options where
  "live_options = default_capture_options\<lparr>co_components := [live_request]\<rparr>"

definition live_workload :: workload where
  "live_workload = sample_workload\<lparr>w_workload_id := Id [1]\<rparr>"

definition live_attempt :: string where
  "live_attempt = ''capture-01-05''"

definition live_coordinator :: coordinator where
  "live_coordinator = \<lparr>cc_epoch = 1, cc_policy = default_policy, cc_stale_ms = 30000\<rparr>"

definition live_component :: component_entry where
  "live_component = node_component\<lparr>ce_generation := 0,
     ce_storage_representation := (ce_storage_representation node_component)\<lparr>sr_codec := ''zstd''\<rparr>\<rparr>"

definition live_result :: node_capture_result where
  "live_result = \<lparr>ncs_attempt_id = live_attempt, ncs_ok = True, ncs_error = None,
     ncs_components = [live_component], ncs_total_logical_bytes = 3,
     ncs_total_physical_bytes = 3, ncs_compressed_bytes = 3, ncs_cooperative_ack = False,
     ncs_staging_path = Some (path_string (staging_dir [''/'', ''data''] live_attempt))\<rparr>"

definition live_scaffold :: checkpoint_object where
  "live_scaffold = checkpoint_scaffold live_workload (Id [6]) 1 live_attempt 1 ''n1'' live_options default_policy 5"

definition live_captured :: checkpoint_object where
  "live_captured = captured_checkpoint live_coordinator live_workload live_options
     (derive_consistency (Some CrashConsistent) QNone None False) live_result live_scaffold"

text \<open>The library of this system: a digest that is the length, and a serialiser that tells the
  sealed manifest of this capture from every other.\<close>

definition live_manifest :: manifest where
  "live_manifest = (manifest_scaffold live_captured)\<lparr>m_seal_ms := 5,
     m_integrity := \<lparr>ii_content_hash_algorithm = ''sha256'', ii_root = hex_enc [3]\<rparr>\<rparr>"

definition live_lib :: lib where
  "live_lib = \<lparr>lib_to_vec = (\<lambda>m. if m = live_manifest then [1, 2] else [2]),
     lib_from_slice = (\<lambda>bs. if bs = [1, 2] then Some live_manifest else None),
     lib_sha256 = (\<lambda>bs. [of_nat (length bs)]), lib_hex_encode = hex_enc\<rparr>"

lemma live_faithful: "serde_faithful live_lib"
  by (simp add: serde_faithful_def live_lib_def split: if_splits)

lemma live_hex: "hex_lib live_lib"
  using node_hex by (simp add: hex_lib_def live_lib_def node_lib_def)

lemma live_without_root: "m\<lparr>m_integrity := (m_integrity m)\<lparr>ii_root := []\<rparr>\<rparr> \<noteq> live_manifest"
proof
  assume "m\<lparr>m_integrity := (m_integrity m)\<lparr>ii_root := []\<rparr>\<rparr> = live_manifest"
  from arg_cong [OF this, of "\<lambda>m. ii_root (m_integrity m)"] show False by (simp add: live_manifest_def)
qed

lemma live_hashes: "map ce_content_hash (m_components live_manifest) = [hex_enc [3]]"
  by (simp add: live_manifest_def manifest_scaffold_def live_captured_def captured_checkpoint_def live_result_def
      live_component_def node_component_def del: hex_enc.simps)

lemma live_root: "compute_integrity_root live_lib live_manifest = hex_enc [3]"
proof -
  have "lib_to_vec live_lib (live_manifest\<lparr>m_integrity := (m_integrity live_manifest)\<lparr>ii_root := []\<rparr>\<rparr>) = [2]"
    by (simp add: live_lib_def live_without_root)
  then show ?thesis
    unfolding compute_integrity_root_def integrity_root_of_def live_hashes
    by (simp add: live_lib_def string_bytes_def)
qed

lemma live_unsealed:
  "live_manifest = (let m = (manifest_scaffold live_captured)\<lparr>m_seal_ms := 5\<rparr> in
     m\<lparr>m_integrity := (m_integrity m)\<lparr>ii_root := hex_enc [3]\<rparr>\<rparr>)"
  by (simp add: live_manifest_def manifest_scaffold_def del: hex_enc.simps)

lemma live_seal:
  "seal live_lib ((manifest_scaffold live_captured)\<lparr>m_seal_ms := 5\<rparr>) =
     \<lparr>sm_manifest = live_manifest, sm_canonical_bytes = [1, 2], sm_digest = hex_enc [2], sm_integrity_root = hex_enc [3]\<rparr>"
proof -
  let ?m = "(manifest_scaffold live_captured)\<lparr>m_seal_ms := 5\<rparr>"
  have "compute_integrity_root live_lib ?m = compute_integrity_root live_lib live_manifest"
    unfolding live_unsealed Let_def by (rule compute_root_ignores_root [symmetric])
  then have r: "compute_integrity_root live_lib ?m = hex_enc [3]" by (simp only: live_root)
  have "lib_to_vec live_lib live_manifest = [1, 2]" "sha256_hex live_lib [1, 2] = hex_enc [2]"
    by (simp_all add: live_lib_def sha256_hex_def)
  then show ?thesis unfolding seal_def Let_def r live_unsealed [unfolded Let_def, symmetric] by simp
qed

lemma live_parse: "manifest_parse live_lib [1, 2] = Inr live_manifest"
proof -
  have "ii_root (m_integrity live_manifest) = hex_enc [3]" "m_format_version live_manifest = MANIFEST_FORMAT_VERSION"
    by (simp_all add: live_manifest_def manifest_scaffold_def del: hex_enc.simps)
  moreover have "lib_from_slice live_lib [1, 2] = Some live_manifest" by (simp add: live_lib_def)
  ultimately show ?thesis by (simp add: manifest_parse_Inr verify_integrity_root_def live_root)
qed

subsection \<open>Its node\<close>

text \<open>The digest and the names of paths are those of the library of the node before.\<close>

lemma live_lib_same:
  "sha256_hex live_lib = sha256_hex fresh_lib" "commit_path live_lib = commit_path fresh_lib"
  "write_component_payload live_lib = write_component_payload fresh_lib"
proof -
  show s: "sha256_hex live_lib = sha256_hex fresh_lib"
    by (rule ext) (simp add: sha256_hex_def live_lib_def fresh_lib_def)
  show "commit_path live_lib = commit_path fresh_lib"
    by (intro ext) (simp add: commit_path_def live_lib_def fresh_lib_def)
  show "write_component_payload live_lib = write_component_payload fresh_lib"
    unfolding write_component_payload_def [abs_def] s ..
qed

definition live_node :: "unit node" where
  "live_node = capturing_node\<lparr>nd_lib := live_lib, nd_providers := [((Id [1], ''c''), demo_provider)]\<rparr>"

definition live_staging :: path where
  "live_staging = staging_dir [''/'', ''data''] live_attempt"

definition live_commit :: path where
  "live_commit = commit_path fresh_lib [''/'', ''data''] (Id [6])"

definition live_creq :: node_capture_request where
  "live_creq = \<lparr>ncr_attempt_id = live_attempt, ncr_checkpoint_id = Id [6], ncr_workload_id = Id [1],
     ncr_checkpoint_generation = 1, ncr_consistency = CrashConsistent, ncr_quiescence = QNone,
     ncr_components = [live_request], ncr_compression = zstd_spec 3, ncr_coordinator_epoch = 1\<rparr>"

definition live_preq :: node_promote_request where
  "live_preq = \<lparr>nmr_attempt_id = live_attempt, nmr_checkpoint_id = Id [6], nmr_manifest_bytes = [1, 2],
     nmr_digest = hex_enc [2], nmr_integrity_root = hex_enc [3], nmr_coordinator_epoch = 1\<rparr>"

definition live_disk1 :: disk where
  "live_disk1 = snd (fresh_staging live_staging clean_disk)"

definition live_disk2 :: disk where
  "live_disk2 = snd (write_component_payload fresh_lib node_codecs live_staging ''c'' [7, 8, 9] (zstd_spec 3) live_disk1)"

definition live_disk3 :: disk where
  "live_disk3 = snd (write_commit_files live_staging live_preq (show_nat 5 @ '' promote manifest'' @ newline) live_disk2)"

definition live_disk4 :: disk where
  "live_disk4 = snd (promote live_staging live_commit live_disk3)"

lemma live_run1: "fst (fresh_staging live_staging clean_disk) = Inr ()"
  by code_simp

lemma live_run2:
  "fst (write_component_payload fresh_lib node_codecs live_staging ''c'' [7, 8, 9] (zstd_spec 3) live_disk1) =
     Inr (ce_storage_representation live_component)"
  by code_simp

lemma live_present: "fs_exists live_staging (dk_tree live_disk2)"
  by code_simp

lemma live_run3:
  "fst (write_commit_files live_staging live_preq (show_nat 5 @ '' promote manifest'' @ newline) live_disk2) = Inr ()"
  by code_simp

lemma live_run4: "fst (promote live_staging live_commit live_disk3) = Inr ()"
  by code_simp

lemma live_entry:
  "component_entry_of (pv_spec demo_provider) (sha256_hex fresh_lib [7, 8, 9]) (ce_storage_representation live_component) =
     live_component"
  by (simp add: component_entry_of_def demo_provider_def application_provider_def node_component_def
      live_component_def fresh_lib_def sha256_hex_def)

lemma live_node_fields:
  "nd_root live_node = [''/'', ''data'']" "nd_lib live_node = live_lib" "nd_codecs live_node = node_codecs"
  "nd_disk live_node = clean_disk" "nd_clock live_node = (\<lambda>k. 5)" "nd_epoch live_node = 1"
  "nd_quiesced live_node = []" "nd_providers live_node = [((Id [1], ''c''), demo_provider)]" "nd_world live_node = ()"
  by (simp_all add: live_node_def capturing_node_def)

lemma live_creq_fields:
  "ncr_attempt_id live_creq = live_attempt" "ncr_workload_id live_creq = Id [1]"
  "ncr_quiescence live_creq = QNone" "ncr_compression live_creq = zstd_spec 3"
  by (simp_all add: live_creq_def)

lemma live_preq_fields:
  "nmr_attempt_id live_preq = live_attempt" "nmr_checkpoint_id live_preq = Id [6]"
  "nmr_manifest_bytes live_preq = [1, 2]" "nmr_digest live_preq = hex_enc [2]"
  "nmr_integrity_root live_preq = hex_enc [3]"
  by (simp_all add: live_preq_def)

lemma live_manifest_fields:
  "m_checkpoint_id live_manifest = Id [6]" "m_capture_attempt live_manifest = live_attempt"
  "ii_root (m_integrity live_manifest) = hex_enc [3]"
  by (simp_all add: live_manifest_def manifest_scaffold_def live_captured_def captured_checkpoint_def
      live_scaffold_def checkpoint_scaffold_def del: hex_enc.simps)

lemma live_selects:
  "select_providers (nd_providers live_node) (Id [1]) (ncr_components live_creq) = Inr [demo_provider]"
  by (simp add: live_node_fields live_creq_def live_request_def registry_get_def)

definition live_node1 :: "unit node" where
  "live_node1 = snd (do_capture live_creq live_node)"

lemma live_captures:
  "do_capture live_creq live_node = (Inr live_result, live_node1)"
  "nd_disk live_node1 = live_disk2" "nd_quiesced live_node1 = [(live_attempt, Id [1])]"
  "nd_lib live_node1 = live_lib" "nd_root live_node1 = [''/'', ''data'']" "nd_clock live_node1 = (\<lambda>k. 5)"
  "nd_providers live_node1 = nd_providers live_node" "nd_epoch live_node1 = 1"
proof -
  note runs = pair_eq [OF live_run1, folded live_disk1_def] pair_eq [OF live_run2, folded live_disk2_def]
  have sizes: "sr_stored_size (ce_storage_representation live_component) = 3" "is_compressed (zstd_spec 3)"
    by (simp_all add: live_component_def node_component_def is_compressed_def zstd_spec_def)
  have "\<exists>n. do_capture live_creq live_node = (Inr live_result, n) \<and>
     nd_disk n = live_disk2 \<and> nd_quiesced n = [(live_attempt, Id [1])] \<and>
     nd_lib n = live_lib \<and> nd_root n = [''/'', ''data''] \<and> nd_clock n = (\<lambda>k. 5) \<and>
     nd_providers n = nd_providers live_node \<and> nd_epoch n = 1"
    using runs sizes
    by (simp add: do_capture_def my_staging_def look_def lease_staging_def node_now_def change_def on_disk_def
      zoom_def on_world_def prog_eval live_node_fields(1-7,9) live_creq_fields live_selects
      live_staging_def [symmetric] Let_def capture_ctx_of_def capture_rest_def quiesce_providers_def
      capture_component_def demo_provider_calls live_entry live_lib_same live_result_def sat_add_def tab_insert_def)
  then show "do_capture live_creq live_node = (Inr live_result, live_node1)"
  "nd_disk live_node1 = live_disk2" "nd_quiesced live_node1 = [(live_attempt, Id [1])]"
  "nd_lib live_node1 = live_lib" "nd_root live_node1 = [''/'', ''data'']" "nd_clock live_node1 = (\<lambda>k. 5)"
  "nd_providers live_node1 = nd_providers live_node" "nd_epoch live_node1 = 1"
    by (auto simp: live_node1_def)
qed

definition live_promoted :: node_promote_result where
  "live_promoted = \<lparr>nms_attempt_id = live_attempt, nms_ok = True, nms_error = None,
     nms_commit_path = Some (path_string live_commit)\<rparr>"

definition live_node2 :: "unit node" where
  "live_node2 = snd (do_promote live_preq live_node1)"

lemma live_promotes:
  "do_promote live_preq live_node1 = (Inr live_promoted, live_node2)"
  "nd_quiesced live_node2 = [(live_attempt, Id [1])]" "nd_providers live_node2 = nd_providers live_node"
  "nd_epoch live_node2 = 1"
proof -
  note runs = pair_eq [OF live_run3, folded live_disk3_def] pair_eq [OF live_run4, folded live_disk4_def]
  have sha: "sha256_hex fresh_lib [1, 2] = hex_enc [2]" by (simp add: sha256_hex_def fresh_lib_def)
  have "\<exists>n. do_promote live_preq live_node1 = (Inr live_promoted, n) \<and>
     nd_quiesced n = [(live_attempt, Id [1])] \<and> nd_providers n = nd_providers live_node \<and> nd_epoch n = 1"
    using runs live_parse sha live_present
    by (simp add: do_promote_def my_staging_def my_commit_def release_staging_def look_def node_now_def change_def
        on_disk_def zoom_def prog_eval ask_def live_captures(2-8) live_lib_same live_staging_def [symmetric]
        live_commit_def [symmetric] live_preq_fields live_manifest_fields live_promoted_def
        del: hex_enc.simps)
  then show "do_promote live_preq live_node1 = (Inr live_promoted, live_node2)"
  "nd_quiesced live_node2 = [(live_attempt, Id [1])]" "nd_providers live_node2 = nd_providers live_node"
  "nd_epoch live_node2 = 1"
    by (auto simp: live_node2_def)
qed

definition live_rreq :: node_resume_request where
  "live_rreq = \<lparr>nur_attempt_id = live_attempt, nur_checkpoint_id = Id [6], nur_workload_id = Id [1],
     nur_fence_token = None, nur_execution_epoch = None, nur_resume = True, nur_coordinator_epoch = 1\<rparr>"

definition live_node3 :: "unit node" where
  "live_node3 = snd (do_resume live_rreq live_node2)"

lemma live_resumes:
  "do_resume live_rreq live_node2 = (Inr \<lparr>nus_attempt_id = live_attempt, nus_ok = True, nus_error = None\<rparr>, live_node3)"
proof -
  have "\<exists>n. do_resume live_rreq live_node2 = (Inr \<lparr>nus_attempt_id = live_attempt, nus_ok = True, nus_error = None\<rparr>, n)"
    using live_promotes(2-4)
    by (simp add: do_resume_def resume_all_def live_rreq_def look_def change_def prog_eval my_staging_def my_commit_def
        registry_list_def live_node_fields Let_def resume_provider_def registry_get_def demo_provider_def
        application_provider_def on_world_def zoom_def resume_result_def run_hook_def first_error_def)
  then show ?thesis by (auto simp: live_node3_def)
qed

subsection \<open>The system\<close>

definition live_row :: node_record where
  "live_row = \<lparr>n_id = ''n1'', n_addr = ''a'', n_boot_id = ''b1'', n_status = ''ACTIVE'', n_registered_ms = 5,
     n_last_heartbeat_ms = 5, n_resources = \<lparr>nr_data_dir = ''/data'', nr_runtime = sample_runtime,
       nr_hardware = default_hardware, nr_details = JObject []\<rparr>\<rparr>"

definition live_store :: store where
  "live_store = empty_store\<lparr>st_workloads := [live_workload], st_nodes := [live_row]\<rparr>"

definition live_cluster :: "unit cluster" where
  "live_cluster = \<lparr>cl_nodes = (\<lambda>k. live_node), cl_delivery = (\<lambda>k. Delivered), cl_peers = (\<lambda>k. demo_peer),
     cl_calls = 0\<rparr>"

definition live_env :: "unit cluster env" where
  "live_env = \<lparr>ev_clock = (\<lambda>k. 5), ev_random = (\<lambda>k. Id [of_nat k + 5]), ev_fault = (\<lambda>k. False),
     ev_lib = live_lib, ev_net = cluster_network (\<lambda>a. True)\<rparr>"

definition live_start :: "unit cluster sys" where
  "live_start = \<lparr>sy_store = live_store, sy_world = live_cluster, sy_failpoints = [], sy_reads = 0,
     sy_draws = 0, sy_accesses = 0, sy_env = live_env\<rparr>"

definition live_ctx :: operation_context where
  "live_ctx = for_authority demo_authority 30000"

lemma live_store_ok: "store_ok live_store"
  by (simp add: store_ok_def live_store_def empty_store_def workload_sql_ok_def live_workload_def sample_workload_def
      sql_u64_def)

lemma live_row_fields: "n_id live_row = ''n1''" "n_addr live_row = ''a''" "n_status live_row = ''ACTIVE''"
  by (simp_all add: live_row_def)

definition live_cluster1 :: "unit cluster" where
  "live_cluster1 = live_cluster\<lparr>cl_calls := 1, cl_nodes := (\<lambda>k. live_node)(''n1'' := live_node1)\<rparr>"

definition live_cluster2 :: "unit cluster" where
  "live_cluster2 = live_cluster\<lparr>cl_calls := 2, cl_nodes := (\<lambda>k. live_node)(''n1'' := live_node2)\<rparr>"

definition live_cluster3 :: "unit cluster" where
  "live_cluster3 = live_cluster\<lparr>cl_calls := 3, cl_nodes := (\<lambda>k. live_node)(''n1'' := live_node3)\<rparr>"

lemma live_calls:
  "nw_capture (cluster_network a) ''n1'' live_creq live_cluster = (Inr live_result, live_cluster1)"
  "nw_promote (cluster_network a) ''n1'' live_preq live_cluster1 = (Inr live_promoted, live_cluster2)"
  "nw_resume (cluster_network a) ''n1'' live_rreq live_cluster2 =
     (Inr \<lparr>nus_attempt_id = live_attempt, nus_ok = True, nus_error = None\<rparr>, live_cluster3)"
  using live_captures live_promotes live_resumes live_node_fields(6)
  by (simp_all add: cluster_network_def ask_node_def exchange_def fenced_def check_epoch_def prog_eval look_def
      live_cluster_def live_cluster1_def live_cluster2_def live_cluster3_def ok_or_def live_creq_def live_preq_def
      live_rreq_def)

lemma live_fields:
  "nw_addr_ok (cluster_network a) = a"
  "ck_checkpoint_id live_scaffold = Id [6]" "ck_lifecycle live_scaffold = Created" "ck_components live_scaffold = []"
  "ck_workload_id live_scaffold = Id [1]" "ck_checkpoint_generation live_scaffold = 1" "checkpoint_sql_ok live_scaffold"
  "ck_workload_generation live_scaffold = 0"
  "cc_epoch live_coordinator = 1" "cc_policy live_coordinator = default_policy"
  "w_workload_id live_workload = Id [1]" "w_workload_generation live_workload = 0" "w_active_node live_workload = Some ''n1''"
  "w_checkpoint_generation live_workload = 0" "w_execution_epoch live_workload = 0"
  "\<not> is_fenced live_workload"
  "co_components live_options = [live_request]" "co_quiescence live_options = QNone" "co_frontier live_options = None"
  "co_side_effects live_options = None" "co_consistency live_options = None"
  "compression_spec_of default_policy = zstd_spec 3" "cr_component_id live_request = ''c''" "cr_required live_request"
  "ce_component_id live_component = ''c''"
  "ncs_ok live_result" "ncs_components live_result = [live_component]" "ncs_cooperative_ack live_result = False"
  "nms_ok live_promoted"
  by (simp_all add: cluster_network_def live_scaffold_def checkpoint_scaffold_def live_workload_def sample_workload_def
      checkpoint_sql_ok_def sql_u64_def live_coordinator_def is_fenced_def live_options_def default_capture_options_def
      compression_spec_of_def default_policy_def live_request_def live_component_def node_component_def live_result_def
      live_promoted_def)

lemma live_captured_fields:
  "captured_checkpoint live_coordinator live_workload live_options
     (derive_consistency (Some CrashConsistent) QNone None False) live_result live_scaffold = live_captured"
  "ck_checkpoint_id live_captured = Id [6]" "ck_components live_captured = [live_component]"
  "ck_lifecycle live_captured = Created"
  by (simp_all add: live_captured_def captured_checkpoint_def live_fields)

lemma live_texts:
  "to_hex (lib_hex_encode live_lib) (Id [1]) = ''01''" "to_hex (lib_hex_encode live_lib) (Id [5]) = ''05''"
proof -
  have "hex_enc [1] = ''01''" "hex_enc [5] = ''05''" by code_simp+
  then show "to_hex (lib_hex_encode live_lib) (Id [1]) = ''01''" "to_hex (lib_hex_encode live_lib) (Id [5]) = ''05''"
    by (simp_all add: to_hex_def live_lib_def del: hex_enc.simps)
qed

lemma live_policy:
  "p_required_consistency default_policy = None" "p_min_valid_replicas default_policy = 1"
  "authorize (oc_roles live_ctx) (ap_capture (p_authority default_policy)) = Inr ()"
  by (simp_all add: default_policy_def live_ctx_def for_authority_def demo_authority_def authorize_def)

lemma live_validate: "validate_capture_request live_workload live_options default_policy None 5 = Inr ()"
  by (simp add: validate_capture_request_def live_options_def default_capture_options_def live_request_def
      live_workload_def sample_workload_def default_policy_def component_id_ok_Inr safe_char_def ascii_alnum_def)

text \<open>The states a capture goes through, as far as it depends on them.\<close>

definition live_state :: "checkpoint_object list \<Rightarrow> unit cluster \<Rightarrow> unit cluster sys \<Rightarrow> bool" where
  "live_state cks cl s \<longleftrightarrow> sy_env s = live_env \<and> sy_failpoints s = [] \<and> sy_world s = cl \<and>
     st_nodes (sy_store s) = [live_row] \<and> st_workloads (sy_store s) = [live_workload] \<and>
     st_checkpoints (sy_store s) = cks \<and> st_components (sy_store s) = []"

lemma live_env_fields:
  "ev_clock live_env = (\<lambda>k. 5)" "ev_random live_env = (\<lambda>k. Id [of_nat k + 5])" "ev_fault live_env = (\<lambda>k. False)"
  "ev_lib live_env = live_lib" "ev_net live_env = cluster_network (\<lambda>a. True)"
  by (simp_all add: live_env_def)

lemmas live_reads = node_is_active_def node_list_def require_workload_def workload_get_def workload_row_def
  row_get_def checkpoint_list_def last_seal_def pick_capture_node_def checkpoint_max_generation_def sat_add_def
  reserve_capture_def reservation_create_def attempt_begin_def journal_def journal_append_def row_insert_ignore_def
  add_journal_def active_scope_def workload_captureable_def ok_or_def

definition live_reserved :: "unit cluster sys" where
  "live_reserved = live_start\<lparr>sy_store := live_store\<lparr>
       st_attempts := [\<lparr>at_id = live_attempt, at_kind = ''capture'', at_checkpoint_id = Some (Id [6]),
         at_workload_id = Some (Id [1]), at_node = ''n1'', at_state = ''ACTIVE'', at_started_ms = 5,
         at_finished_ms = None, at_result = None, at_error = None\<rparr>],
       st_reservations := [\<lparr>rs_id = live_attempt, rs_kind = ''capture'', rs_workload_id = Some (Id [1]),
         rs_checkpoint_id = None, rs_node = ''n1'', rs_state = ''ACTIVE'', rs_created_ms = 5,
         rs_expires_ms = 5 + RESERVATION_TTL_MS\<rparr>],
       st_journal := [\<lparr>j_kind = ''capture'', j_key = live_attempt, j_state = cap_RESERVED,
         j_detail = ''reservation committed'', j_ts_ms = 5\<rparr>]\<rparr>,
     sy_reads := Suc (Suc (Suc (Suc 0))), sy_draws := Suc (Suc 0),
     sy_accesses := Suc (Suc (Suc (Suc (Suc (Suc (Suc 0))))))\<rparr>"

lemma live_reserved_state: "live_state [] live_cluster live_reserved"
  by (simp add: live_state_def live_reserved_def live_start_def live_store_def empty_store_def)

lemma live_request_start:
  "request_capture live_coordinator (Id [1]) live_options live_ctx live_start =
     on_error (execute_capture live_coordinator live_workload ''n1'' live_attempt (Id [6]) 1 CrashConsistent live_options live_ctx)
       (\<lambda>e. abort_capture_attempt live_coordinator live_attempt (Id [6]) (Id [1])
              (''capture failed: '' @ error_to_string e) live_ctx) live_reserved"
proof -
  have "sql_u64 (5 + RESERVATION_TTL_MS)" by (simp add: sql_u64_def RESERVATION_TTL_MS_def)
  then show ?thesis
    by (simp add: request_capture_def combinator_defs live_start_def live_env_fields live_store_def empty_store_def
      live_fields live_row_fields live_policy live_validate live_texts live_reads live_attempt_def live_reserved_def)
qed

text \<open>The capture on the node.\<close>

abbreviation live_row_at :: "lifecycle_state \<Rightarrow> checkpoint_object" where
  "live_row_at l \<equiv> live_scaffold\<lparr>ck_components := [], ck_lineage_parents := [], ck_lineage_children := [],
     ck_lifecycle := l, ck_integrity_state := IPending\<rparr>"

lemma live_complete: "validate_component_completeness [live_request] [live_component] = Inr ()"
  by (simp add: live_fields)

lemmas live_rows = checkpoint_insert_def checkpoint_to_row_def set_lifecycle_def checkpoint_get_def checkpoint_row_def
  row_get_def load_checkpoint_def row_to_checkpoint_def transition_def checkpoint_set_lifecycle_def upd_checkpoint_def
  row_update_def node_list_def live_fields live_captured_fields live_env_fields live_row_fields

lemma live_capture_on_node:
  assumes "live_state [] live_cluster s"
  shows "\<exists>s1. capture_on_node live_coordinator live_workload ''n1'' live_attempt CrashConsistent live_options live_scaffold s
     = (Inr live_captured, s1) \<and> live_state [live_row_at Validating] live_cluster1 s1"
  using assms live_calls(1) [of "\<lambda>a. True", unfolded live_creq_def]
  by (simp add: live_state_def capture_on_node_def combinator_defs live_complete live_rows live_policy
      enforce_consistency_def)

text \<open>The seal.\<close>

definition live_sealed :: checkpoint_object where
  "live_sealed = live_captured\<lparr>ck_seal_ms := 5, ck_manifest_digest := Some (hex_enc [2]),
     ck_manifest_json := Some (bytes_string [1, 2])\<rparr>"

definition live_seal_result :: sealed_manifest where
  "live_seal_result = \<lparr>sm_manifest = live_manifest, sm_canonical_bytes = [1, 2], sm_digest = hex_enc [2],
     sm_integrity_root = hex_enc [3]\<rparr>"

definition live_sealed_row :: checkpoint_object where
  "live_sealed_row = (live_row_at Sealed)\<lparr>ck_manifest_digest := Some (hex_enc [2]),
     ck_manifest_json := Some (bytes_string [1, 2]), ck_integrity_state := IValid\<rparr>"

lemma live_canonical: "lib_to_vec live_lib live_manifest = [1, 2]" "manifest_digest live_lib live_manifest = hex_enc [2]"
  by (simp_all add: manifest_digest_def live_lib_def sha256_hex_def)

lemma live_seal_checkpoint:
  assumes "live_state [live_row_at Validating] live_cluster1 s"
  shows "\<exists>s1. seal_checkpoint live_attempt live_captured s = (Inr (live_sealed, live_seal_result), s1) \<and>
    live_state [live_sealed_row] live_cluster1 s1"
  using assms
  by (simp add: live_state_def seal_checkpoint_def combinator_defs live_seal live_canonical live_rows journal_def journal_append_def
      add_journal_def checkpoint_set_digest_def checkpoint_set_integrity_def live_sealed_def live_seal_result_def
      live_sealed_row_def del: hex_enc.simps)

text \<open>The promotion and the commit.\<close>

lemma live_sealed_fields:
  "ck_checkpoint_id live_sealed = Id [6]" "ck_components live_sealed = [live_component]"
  "ck_manifest_digest live_sealed = Some (hex_enc [2])" "ck_workload_id live_sealed = Id [1]"
  "ck_workload_generation live_sealed = 0" "ck_checkpoint_generation live_sealed = 1"
  "checkpoint_sql_ok (promoted_checkpoint ''n1'' live_promoted live_sealed)"
  by (simp_all add: live_sealed_def live_captured_def captured_checkpoint_def live_scaffold_def checkpoint_scaffold_def
      live_fields promoted_checkpoint_def checkpoint_sql_ok_def sql_u64_def live_result_def del: hex_enc.simps)

lemma live_sealed_row_fields:
  "ck_checkpoint_id live_sealed_row = Id [6]" "ck_lifecycle live_sealed_row = Sealed" "ck_workload_id live_sealed_row = Id [1]"
  by (simp_all add: live_sealed_row_def live_fields)

lemma live_component_row: "row_insert component_key \<lparr>cm_checkpoint_id = Id [6], cm_entry = live_component\<rparr> [] =
    Some [\<lparr>cm_checkpoint_id = Id [6], cm_entry = live_component\<rparr>]"
  "sql_u64 (ce_generation live_component)" "sql_u64 (ce_logical_size live_component)"
  by (simp_all add: row_insert_def live_component_def node_component_def sql_u64_def)

definition live_promoted_ckpt :: checkpoint_object where
  "live_promoted_ckpt = promoted_checkpoint ''n1'' live_promoted live_sealed"

definition live_promoted_row :: checkpoint_object where
  "live_promoted_row = live_promoted_ckpt\<lparr>ck_components := [], ck_lineage_parents := [], ck_lineage_children := [],
     ck_workload_id := Id [1]\<rparr>"

lemma live_promoted_fields:
  "ck_checkpoint_id live_promoted_ckpt = Id [6]" "ck_components live_promoted_ckpt = [live_component]"
  "checkpoint_sql_ok live_promoted_ckpt"
  using live_sealed_fields by (simp_all add: live_promoted_ckpt_def promoted_checkpoint_def)

lemma live_promoted_row_fields:
  "ck_checkpoint_id live_promoted_row = Id [6]" "ck_lifecycle live_promoted_row = Persisting"
  "ck_durable_locations live_promoted_row \<noteq> []" "ck_manifest_digest live_promoted_row = Some (hex_enc [2])"
  "ck_workload_id live_promoted_row = Id [1]" "ck_workload_generation live_promoted_row = 0"
  using live_sealed_fields
  by (simp_all add: live_promoted_row_def live_promoted_ckpt_def promoted_checkpoint_def del: hex_enc.simps)

lemma commit_effect_nodes: "st_nodes (commit_effect now i a c w st) = st_nodes st"
  by (simp add: commit_effect_def commit_workload_def commit_lineage_def commit_links_def upd_opt_def add_journal_def
      add_lineage_def upd_checkpoint_def upd_workload_def Let_def split: option.splits)

lemma live_commit_ok:
  assumes "st_checkpoints st = [live_promoted_row]" "st_workloads st = [live_workload]"
  shows "capture_commit now (Id [6]) live_attempt st =
    Inr ((), commit_effect now (Id [6]) live_attempt live_promoted_row live_workload st)"
  using assms
  by (simp add: capture_commit_Inr checkpoint_row_def workload_row_def row_get_def live_promoted_row_fields live_fields)

lemma live_persist:
  assumes "live_state [live_sealed_row] live_cluster1 s"
  shows "\<exists>s1. persist_checkpoint live_coordinator ''n1'' live_attempt live_sealed live_seal_result s = (Inr (), s1) \<and>
    sy_env s1 = live_env \<and> sy_failpoints s1 = [] \<and> sy_world s1 = live_cluster2 \<and> st_nodes (sy_store s1) = [live_row]"
  using assms live_calls(2) [of "\<lambda>a. True", unfolded live_preq_def]
  by (simp add: live_state_def persist_checkpoint_def combinator_defs live_rows journal_def journal_append_def
      add_journal_def checkpoint_update_def live_sealed_fields live_sealed_row_fields live_seal_result_def live_component_row
      live_promoted_ckpt_def [symmetric] live_promoted_fields live_promoted_row_def [symmetric]
      live_commit_ok commit_effect_nodes del: hex_enc.simps)

text \<open>The rest of the request.\<close>

lemma live_cluster_finish:
  assumes "sy_env s = live_env" "sy_failpoints s = []" "sy_world s = live_cluster2" "st_nodes (sy_store s) = [live_row]"
  shows "\<exists>s1. finish_capture live_coordinator live_workload ''n1'' live_attempt (Id [6]) live_ctx s = (Inr (), s1)"
  using assms live_calls(3) [of "\<lambda>a. True", unfolded live_rreq_def]
  by (simp add: finish_capture_def combinator_defs resume_request_def live_env_fields live_row_fields live_fields
      node_list_def journal_def journal_append_def add_journal_def replicate_to_policy_def live_policy
      finish_attempt_def attempt_finish_def reservation_release_def audit_def audit_store_def audit_append_def)

lemma live_run:
  "\<exists>out s'. request_capture live_coordinator (Id [1]) live_options live_ctx live_start = (Inr out, s') \<and>
     oo_node out = Some ''n1''"
proof -
  define s where "s = live_reserved\<lparr>sy_reads := sy_reads live_reserved + 1\<rparr>"
  have now: "now_ms live_reserved = (Inr 5, s)" and st: "live_state [] live_cluster s"
    using live_reserved_state by (simp_all add: s_def now_ms_def live_state_def live_env_fields)
  obtain s1 where 1: "capture_on_node live_coordinator live_workload ''n1'' live_attempt CrashConsistent live_options
      live_scaffold s = (Inr live_captured, s1)" "live_state [live_row_at Validating] live_cluster1 s1"
    using live_capture_on_node [OF st] by blast
  obtain s2 where 2: "seal_checkpoint live_attempt live_captured s1 = (Inr (live_sealed, live_seal_result), s2)"
    "live_state [live_sealed_row] live_cluster1 s2"
    using live_seal_checkpoint [OF 1(2)] by blast
  obtain s3 where 3: "persist_checkpoint live_coordinator ''n1'' live_attempt live_sealed live_seal_result s2 = (Inr (), s3)"
    "sy_env s3 = live_env" "sy_failpoints s3 = []" "sy_world s3 = live_cluster2" "st_nodes (sy_store s3) = [live_row]"
    using live_persist [OF 2(2)] by blast
  obtain s4 where 4: "finish_capture live_coordinator live_workload ''n1'' live_attempt (Id [6]) live_ctx s3 = (Inr (), s4)"
    using live_cluster_finish [OF 3(2-5)] by blast
  show ?thesis
    unfolding live_request_start on_error_Inr
    using now 1(1) 2(1) 3(1) 4
    by (simp add: execute_capture_def and_then_def Let_def live_fields live_scaffold_def [symmetric] give_def)
qed


end
