(* ===== verification/FsProvider.thy ===== *)
theory FsProvider
  imports Providers
begin

section \<open>The file system provider (providers.rs)\<close>

text \<open>
  Capture walks the source paths and packs every regular file; restore plans, journals and then
  writes; a cleanup replays the journal backwards. The plan is kept in memory and, as a file
  below the restore root, on disk. Symbolic links are not modelled, and a path of a payload
  ends in no separator. The serialisation of payloads and journals is in \<open>fs_codec\<close>.
\<close>

record restore_journal =
  rj_files :: "(string \<times> bytes option) list"
  rj_created_dirs :: "string list"
  rj_root_created :: bool

record filesystem_provider =
  fsp_spec :: provider_spec
  fsp_source_paths :: "path list"
  fsp_restore_roots :: "path list"

text \<open>The state: the disk, the journals behind the lock, the identifiers the generator draws.\<close>

record fs_state =
  fx_disk :: disk
  fx_journals :: "(string \<times> restore_journal) list"
  fx_ids :: "nat \<Rightarrow> ident"
  fx_drawn :: nat

record fs_codec =
  fc_lib :: lib
  fc_entries_to_vec :: "(string \<times> bytes) list \<Rightarrow> bytes"
  fc_entries_from_slice :: "bytes \<Rightarrow> (string \<times> bytes) list option"
  fc_journal_to_vec :: "restore_journal \<Rightarrow> bytes"
  fc_journal_from_slice :: "bytes \<Rightarrow> restore_journal option"

definition RESTORE_JOURNAL_DIR :: string where
  "RESTORE_JOURNAL_DIR = ''.checkpoint-fabric-restore-journals''"

definition on_files :: "(disk, 'a) prog \<Rightarrow> (fs_state, 'a) prog" where
  "on_files = zoom fx_disk (\<lambda>d s. s\<lparr>fx_disk := d\<rparr>)"

definition draw_id :: "(fs_state, ident) prog" where
  "draw_id s = (Inr (fx_ids s (fx_drawn s)), s\<lparr>fx_drawn := fx_drawn s + 1\<rparr>)"

subsection \<open>Paths and journals\<close>

text \<open>A directory that went away meanwhile, or is no longer empty, is no error.\<close>

definition remove_directory_if_empty :: "path \<Rightarrow> (disk, unit) prog" where
  "remove_directory_if_empty p =
     and_then (ask (fs_exists p)) (\<lambda>there.
     if \<not> there then give ()
     else and_then (rename_error (\<lambda>_. CleanupFailure ''{error}'') (fs_read_dir p)) (\<lambda>entries.
     if entries \<noteq> [] then give ()
     else and_then (attempt (fs_remove_dir p)) (\<lambda>removed.
     case removed of
       Inr _ \<Rightarrow> give ()
     | Inl _ \<Rightarrow> and_then (attempt (fs_read_dir p)) (\<lambda>current.
         case current of
           Inr (_ # _) \<Rightarrow> give ()
         | _ \<Rightarrow> raise (CleanupFailure ''{error}'')))))"

definition restore_root :: "filesystem_provider \<Rightarrow> path fabric_result" where
  "restore_root P = (case fsp_restore_roots P of
     [] \<Rightarrow> Inl (RestoreFailure ''filesystem provider has no restore root'')
   | r # _ \<Rightarrow> Inr r)"

definition journal_name :: "lib \<Rightarrow> string \<Rightarrow> string" where
  "journal_name L attempt_id = sha256_hex L (string_bytes attempt_id) @ ''.json''"

definition journal_path :: "lib \<Rightarrow> filesystem_provider \<Rightarrow> string \<Rightarrow> path fabric_result" where
  "journal_path L P attempt_id =
     bind_r (restore_root P) (\<lambda>root. Inr (root @ [RESTORE_JOURNAL_DIR, journal_name L attempt_id]))"

definition unsafe_relative :: "string \<Rightarrow> path \<Rightarrow> bool" where
  "unsafe_relative rel cs \<longleftrightarrow> rel = [] \<or> hd rel = CHR ''/'' \<or>
     list_ex (\<lambda>c. c = ''/'' \<or> c = ''.'' \<or> c = ''..'') cs \<or> (cs \<noteq> [] \<and> hd cs = RESTORE_JOURNAL_DIR)"

definition checked_restore_relative :: "string \<Rightarrow> path fabric_result" where
  "checked_restore_relative rel =
     (if unsafe_relative rel (path_components rel)
      then Inl (InvalidArgument (''restore payload path traversal rejected: '' @ rel))
      else Inr (path_components rel))"

definition temp_name :: "lib \<Rightarrow> ident \<Rightarrow> string" where
  "temp_name L i = ''.'' @ to_hex (lib_hex_encode L) i @ ''.tmp''"

text \<open>\<open>OpenOptions\<close> with \<open>create_new\<close> refuses a file that exists.\<close>

definition write_new :: "path \<Rightarrow> bytes \<Rightarrow> (disk, unit) prog" where
  "write_new p b =
     and_then (ask (fs_exists p)) (\<lambda>taken. if taken then raise fs_error
     else and_then (fs_write p b) (\<lambda>_. fs_sync p))"

definition real_directory :: "path \<Rightarrow> (disk, unit) prog" where
  "real_directory dir =
     and_then (ask (\<lambda>t. fs_get t dir)) (\<lambda>meta.
     case meta of
       Some DirE \<Rightarrow> give ()
     | Some (FileE _) \<Rightarrow> raise (RestoreFailure ''restore journal directory {} is not a real directory'')
     | None \<Rightarrow> fs_create_dir_all dir)"

text \<open>The journal is written next to its place and renamed: \<open>stage_journal\<close> returns both paths.\<close>

definition stage_journal ::
  "fs_codec \<Rightarrow> filesystem_provider \<Rightarrow> string \<Rightarrow> restore_journal \<Rightarrow> (fs_state, path \<times> path) prog" where
  "stage_journal C P attempt_id journal =
     and_then (lift (journal_path (fc_lib C) P attempt_id)) (\<lambda>path.
     and_then (on_files (real_directory (parent_of path))) (\<lambda>_.
     and_then (on_files (ask (fs_exists path))) (\<lambda>taken.
     if taken
     then raise (RestoreFailure ''filesystem restore attempt {attempt_id} already has a durable journal'')
     else and_then draw_id (\<lambda>i.
     let temp = parent_of path @ [temp_name (fc_lib C) i] in
     and_then (on_files (write_new temp (fc_journal_to_vec C journal))) (\<lambda>_. give (temp, path))))))"

definition persist_restore_journal ::
  "fs_codec \<Rightarrow> filesystem_provider \<Rightarrow> string \<Rightarrow> restore_journal \<Rightarrow> (fs_state, unit) prog" where
  "persist_restore_journal C P attempt_id journal =
     and_then (stage_journal C P attempt_id journal) (\<lambda>(temp, path). on_files (fs_rename temp path))"

definition load_restore_journal ::
  "fs_codec \<Rightarrow> filesystem_provider \<Rightarrow> string \<Rightarrow> (fs_state, restore_journal option) prog" where
  "load_restore_journal C P attempt_id =
     and_then (lift (journal_path (fc_lib C) P attempt_id)) (\<lambda>path.
     and_then (on_files (ask (fs_exists path))) (\<lambda>there.
     if \<not> there then give None
     else and_then (on_files (fs_read path)) (\<lambda>b.
     and_then (lift (ok_or (CleanupFailure ''invalid durable restore journal: {e}'')
       (fc_journal_from_slice C b))) (\<lambda>journal. give (Some journal)))))"

definition remove_restore_journal :: "fs_codec \<Rightarrow> filesystem_provider \<Rightarrow> string \<Rightarrow> (fs_state, unit) prog" where
  "remove_restore_journal C P attempt_id =
     and_then (lift (journal_path (fc_lib C) P attempt_id)) (\<lambda>path.
     and_then (on_files (ask (fs_exists path))) (\<lambda>there.
     and_then (if there then on_files (fs_remove_file path) else give ()) (\<lambda>_.
     on_files (remove_directory_if_empty (parent_of path)))))"

subsection \<open>Capture\<close>

definition fs_prepare_capture :: "filesystem_provider \<Rightarrow> (disk, unit) prog" where
  "fs_prepare_capture P =
     for_each (\<lambda>p. and_then (ask (fs_exists p)) (\<lambda>there. if there then give ()
       else raise (CaptureProviderFailure ''filesystem provider source {} does not exist'')))
     (fsp_source_paths P)"

text \<open>The name of a file below the source \<open>p\<close>, with the separators of the other platform replaced.\<close>

definition rel_name :: "path \<Rightarrow> path \<Rightarrow> string" where
  "rel_name p q = map (\<lambda>c. if c = CHR 0x5C then CHR ''/'' else c) (joined ''/'' (drop (length p) q))"

text \<open>The entries of one directory: directories go on the stack (its top is the head of the
  list), files are read.\<close>

fun visit_entries :: "path \<Rightarrow> path list \<Rightarrow> path list \<times> (string \<times> bytes) list
    \<Rightarrow> (disk, path list \<times> (string \<times> bytes) list) prog" where
  "visit_entries p [] acc = give acc"
| "visit_entries p (q # qs) (stack, entries) =
     and_then (ask (\<lambda>t. fs_get t q)) (\<lambda>ft.
     case ft of
       Some DirE \<Rightarrow> visit_entries p qs (q # stack, entries)
     | Some (FileE _) \<Rightarrow> and_then (fs_read q) (\<lambda>b. visit_entries p qs (stack, entries @ [(rel_name p q, b)]))
     | None \<Rightarrow> visit_entries p qs (stack, entries))"

text \<open>The number of paths at or below \<open>p\<close> bounds the directories still to visit.\<close>

definition subtree_size :: "file_tree \<Rightarrow> path \<Rightarrow> nat" where
  "subtree_size t p = Suc (length (filter (\<lambda>q. strict_prefix p q) (remdups (map fst t))))"

lemma subtree_size_card: "subtree_size t p = Suc (card {q \<in> set (map fst t). strict_prefix p q})"
proof -
  have "{q \<in> set (map fst t). strict_prefix p q} = set (filter (strict_prefix p) (remdups (map fst t)))" by auto
  then show ?thesis by (simp only: subtree_size_def distinct_card distinct_filter distinct_remdups)
qed

lemma children_shape: "c \<in> set (children q t) \<Longrightarrow> c \<in> set (map fst t) \<and> (\<exists>x. c = q @ [x])"
  unfolding children_def parent_of_def by (cases c rule: rev_cases) auto

lemma children_smaller: "sum_list (map (subtree_size t) (filter P (children q t))) < subtree_size t q"
proof -
  let ?K = "set (map fst t)" and ?cs = "filter P (children q t)"
  have d: "distinct ?cs" by (simp add: children_def)
  have size: "subtree_size t c = card {r \<in> ?K. prefix c r}" if "c \<in> set ?cs" for c
  proof -
    have "{r \<in> ?K. prefix c r} = insert c {r \<in> ?K. strict_prefix c r}"
      using that children_shape by (fastforce simp: strict_prefix_def)
    then show ?thesis by (simp add: subtree_size_card strict_prefix_def)
  qed
  have "sum_list (map (subtree_size t) ?cs) = (\<Sum>c \<in> set ?cs. card {r \<in> ?K. prefix c r})"
    using d size by (simp add: sum_list_distinct_conv_sum_set)
  also have "\<dots> = card (\<Union>c \<in> set ?cs. {r \<in> ?K. prefix c r})"
  proof (rule card_UN_disjoint [symmetric])
    have "c = c'" if "c \<in> set ?cs" "c' \<in> set ?cs" "prefix c r" "prefix c' r" for c c' r
      using that children_shape [of c q t] children_shape [of c' q t] by (fastforce simp: prefix_def)
    then show "\<forall>i \<in> set ?cs. \<forall>j \<in> set ?cs. i \<noteq> j \<longrightarrow>
        {r \<in> ?K. prefix i r} \<inter> {r \<in> ?K. prefix j r} = {}" by blast
  qed simp_all
  also have "\<dots> \<le> card {r \<in> ?K. strict_prefix q r}"
  proof (rule card_mono)
    have "strict_prefix q r" if "c \<in> set ?cs" "prefix c r" for c r
      using that children_shape [of c q t] by (fastforce simp: prefix_def strict_prefix_def)
    then show "(\<Union>c \<in> set ?cs. {r \<in> ?K. prefix c r}) \<subseteq> {r \<in> ?K. strict_prefix q r}" by blast
  qed simp
  finally show ?thesis by (simp add: subtree_size_card)
qed

definition read_of :: "path \<Rightarrow> file_tree \<Rightarrow> path \<Rightarrow> string \<times> bytes" where
  "read_of p t q = (rel_name p q, file_bytes q t)"

lemma visit_entries_Inr:
  "visit_entries p qs (stack, es) d = (Inr (stack', es'), d') \<Longrightarrow>
     dk_tree d' = dk_tree d \<and>
     stack' = rev (filter (\<lambda>q. fs_is_dir q (dk_tree d)) qs) @ stack \<and>
     es' = es @ map (read_of p (dk_tree d)) (filter (\<lambda>q. fs_is_file q (dk_tree d)) qs)"
proof (induction qs arbitrary: stack es d)
  case (Cons q qs)
  show ?case
  proof (cases "fs_get (dk_tree d) q")
    case (Some ft)
    with Cons.prems show ?thesis
      by (cases ft) (auto simp: and_then_Inr fs_read_Inr fs_is_dir_def fs_is_file_def read_of_def file_bytes_def
          dest!: Cons.IH)
  qed (use Cons in \<open>auto simp: and_then_Inr fs_is_dir_def fs_is_file_def dest!: Cons.IH\<close>)
qed simp

lemma fs_read_dir_Inr:
  "fs_read_dir p d = (Inr ps, d') \<longleftrightarrow> dk_fault d (dk_calls d) = None \<and> fs_is_dir p (dk_tree d) \<and>
     ps = children p (dk_tree d) \<and> d' = d\<lparr>dk_calls := dk_calls d + 1\<rparr>"
  by (auto simp: fs_read_dir_def sys_call_Inr)

text \<open>The loop over the stack of directories.\<close>

function walk :: "path \<Rightarrow> path list \<Rightarrow> (string \<times> bytes) list \<Rightarrow> (disk, (string \<times> bytes) list) prog" where
  "walk p [] es d = (Inr es, d)"
| "walk p (q # qs) es d =
     (case and_then (fs_read_dir q) (\<lambda>cs. visit_entries p cs (qs, es)) d of
        (Inl e, d') \<Rightarrow> (Inl e, d')
      | (Inr (stack, es'), d') \<Rightarrow> walk p stack es' d')"
  by pat_completeness auto
termination
proof (relation "measure (\<lambda>(p, stack, es, d). sum_list (map (subtree_size (dk_tree d)) stack))", goal_cases)
  case (2 p q qs es d r d' x st es')
  then have run: "and_then (fs_read_dir q) (\<lambda>cs. visit_entries p cs (qs, es)) d = (Inr (st, es'), d')" by simp
  let ?t = "dk_tree d"
  have "dk_tree d' = ?t \<and> st = rev (filter (\<lambda>q. fs_is_dir q ?t) (children q ?t)) @ qs"
    using run by (auto simp: and_then_Inr fs_read_dir_Inr dest!: visit_entries_Inr)
  with children_smaller [of ?t "\<lambda>q. fs_is_dir q ?t" q] show ?case by (simp add: rev_map [symmetric])
qed simp

definition file_name_of :: "path \<Rightarrow> string" where
  "file_name_of p = (if is_root p then joined ''/'' p else last p)"

definition capture_source :: "(string \<times> bytes) list \<Rightarrow> path \<Rightarrow> (disk, (string \<times> bytes) list) prog" where
  "capture_source es p =
     and_then (ask (\<lambda>t. fs_get t p)) (\<lambda>ft.
     case ft of
       Some DirE \<Rightarrow> walk p [p] es
     | Some (FileE _) \<Rightarrow> and_then (fs_read p) (\<lambda>b. give (es @ [(file_name_of p, b)]))
     | None \<Rightarrow> give es)"

definition fs_capture :: "fs_codec \<Rightarrow> filesystem_provider \<Rightarrow> (disk, bytes) prog" where
  "fs_capture C P =
     and_then (for_fold capture_source [] (fsp_source_paths P)) (\<lambda>es.
     give (fc_entries_to_vec C (sort_key fst es)))"

subsection \<open>Restore\<close>

text \<open>The directories above a destination, from the root downwards: they must be directories, and
  the ones that are missing are noted once.\<close>

definition plan_ancestor :: "path \<Rightarrow> restore_journal \<Rightarrow> path \<Rightarrow> (disk, restore_journal) prog" where
  "plan_ancestor root j a =
     and_then (ask (\<lambda>t. fs_get t (root @ a))) (\<lambda>meta.
     case meta of
       Some DirE \<Rightarrow> give j
     | Some (FileE _) \<Rightarrow> raise (RestoreFailure ''filesystem restore ancestor {} is not a real directory'')
     | None \<Rightarrow> let relative = joined ''/'' a in
         give (if relative \<in> set (rj_created_dirs j) then j
               else j\<lparr>rj_created_dirs := rj_created_dirs j @ [relative]\<rparr>))"

definition above :: "path \<Rightarrow> path list" where
  "above rel = map (\<lambda>k. take k rel) [1..<length rel]"

definition plan_entry ::
  "path \<Rightarrow> path list \<times> restore_journal \<Rightarrow> string \<times> bytes \<Rightarrow> (disk, path list \<times> restore_journal) prog" where
  "plan_entry root acc entry =
     (let (seen, j) = acc; (name, _) = entry in
     and_then (lift (checked_restore_relative name)) (\<lambda>rel.
     let dest = root @ rel in
     if dest \<in> set seen
     then raise (RestoreFailure ''duplicate filesystem restore destination {}'')
     else and_then (for_fold (plan_ancestor root) j (above rel)) (\<lambda>j.
     and_then (ask (\<lambda>t. fs_get t dest)) (\<lambda>meta.
     and_then (case meta of
         Some (FileE _) \<Rightarrow> and_then (fs_read dest) (\<lambda>b. give (Some b))
       | Some DirE \<Rightarrow> raise (RestoreFailure ''filesystem restore destination {} is not a regular file'')
       | None \<Rightarrow> give None) (\<lambda>previous.
     give (dest # seen, j\<lparr>rj_files := rj_files j @ [(name, previous)]\<rparr>))))))"

definition plan_restore ::
  "path \<Rightarrow> bool \<Rightarrow> (string \<times> bytes) list \<Rightarrow> (disk, restore_journal) prog" where
  "plan_restore root root_created entries =
     and_then (for_fold (plan_entry root)
       ([], \<lparr>rj_files = [], rj_created_dirs = [], rj_root_created = root_created\<rparr>) entries) (\<lambda>(_, j). give j)"

definition write_entry :: "path \<Rightarrow> string \<times> bytes \<Rightarrow> (disk, unit) prog" where
  "write_entry root entry =
     (let dest = root @ path_components (fst entry) in
     and_then (fs_create_dir_all (parent_of dest)) (\<lambda>_. fs_write dest (snd entry)))"

definition claim_restore :: "fs_codec \<Rightarrow> filesystem_provider \<Rightarrow> string \<Rightarrow> restore_journal \<Rightarrow> (fs_state, unit) prog" where
  "claim_restore C P attempt_id journal =
     and_then (look (\<lambda>s. map_of (fx_journals s) attempt_id)) (\<lambda>active.
     case active of
       Some _ \<Rightarrow> raise (RestoreFailure ''filesystem restore attempt {} is already active'')
     | None \<Rightarrow> and_then (persist_restore_journal C P attempt_id journal) (\<lambda>_.
         change (\<lambda>s. s\<lparr>fx_journals := tab_insert attempt_id journal (fx_journals s)\<rparr>)))"

definition fs_restore :: "fs_codec \<Rightarrow> filesystem_provider \<Rightarrow> string \<Rightarrow> bytes \<Rightarrow> (fs_state, unit) prog" where
  "fs_restore C P attempt_id payload =
     and_then (lift (ok_or (RestoreFailure ''bad fs payload: {e}'') (fc_entries_from_slice C payload))) (\<lambda>entries.
     and_then (lift (restore_root P)) (\<lambda>root.
     and_then (on_files (ask (fs_exists root))) (\<lambda>there.
     and_then (if there then give () else on_files (fs_create_dir_all root)) (\<lambda>_.
     and_then (on_files (plan_restore root (\<not> there) entries)) (\<lambda>journal.
     and_then (claim_restore C P attempt_id journal) (\<lambda>_.
     on_files (for_each (write_entry root) entries)))))))"

subsection \<open>Undoing and confirming a restore\<close>

definition undo_file :: "path \<Rightarrow> string \<times> bytes option \<Rightarrow> (disk, unit) prog" where
  "undo_file root entry =
     and_then (lift (checked_restore_relative (fst entry))) (\<lambda>rel.
     let path = root @ rel in
     case snd entry of
       Some b \<Rightarrow> and_then (fs_create_dir_all (parent_of path)) (\<lambda>_. fs_write path b)
     | None \<Rightarrow> and_then (ask (fs_exists path)) (\<lambda>there.
         if there then rename_error (\<lambda>e. CleanupFailure (error_to_string e)) (fs_remove_file path)
         else give ()))"

definition undo_dir :: "path \<Rightarrow> string \<Rightarrow> (disk, unit) prog" where
  "undo_dir root relative =
     and_then (lift (checked_restore_relative relative)) (\<lambda>rel.
     and_then (ask (fs_exists (root @ rel))) (\<lambda>there.
     if there then remove_directory_if_empty (root @ rel) else give ()))"

text \<open>Deepest first: a stable sort by the negated number of components.\<close>

definition deepest_first :: "string list \<Rightarrow> string list" where
  "deepest_first ds = sort_key (\<lambda>p. - int (length (path_components p))) ds"

text \<open>The durable journal is read even when the one in memory decides.\<close>

definition take_journal ::
  "fs_codec \<Rightarrow> filesystem_provider \<Rightarrow> string \<Rightarrow> (fs_state, restore_journal option) prog" where
  "take_journal C P attempt_id =
     and_then (look (\<lambda>s. map_of (fx_journals s) attempt_id)) (\<lambda>memory.
     and_then (change (\<lambda>s. s\<lparr>fx_journals := tab_remove attempt_id (fx_journals s)\<rparr>)) (\<lambda>_.
     and_then (load_restore_journal C P attempt_id) (\<lambda>stored.
     give (case memory of Some j \<Rightarrow> Some j | None \<Rightarrow> stored))))"

definition fs_cleanup_restore :: "fs_codec \<Rightarrow> filesystem_provider \<Rightarrow> string \<Rightarrow> (fs_state, unit) prog" where
  "fs_cleanup_restore C P attempt_id =
     and_then (take_journal C P attempt_id) (\<lambda>found.
     case found of
       None \<Rightarrow> give ()
     | Some journal \<Rightarrow>
         and_then (lift (restore_root P)) (\<lambda>root.
         and_then (on_files (for_each (undo_file root) (rev (rj_files journal)))) (\<lambda>_.
         and_then (on_files (for_each (undo_dir root) (deepest_first (rj_created_dirs journal)))) (\<lambda>_.
         and_then (remove_restore_journal C P attempt_id) (\<lambda>_.
         and_then (on_files (ask (fs_exists root))) (\<lambda>there.
         if rj_root_created journal \<and> there then on_files (remove_directory_if_empty root)
         else give ()))))))"

definition fs_commit_restore :: "fs_codec \<Rightarrow> filesystem_provider \<Rightarrow> string \<Rightarrow> (fs_state, unit) prog" where
  "fs_commit_restore C P attempt_id =
     and_then (change (\<lambda>s. s\<lparr>fx_journals := tab_remove attempt_id (fx_journals s)\<rparr>)) (\<lambda>_.
     remove_restore_journal C P attempt_id)"

definition fs_quiesce :: "capture_ctx \<Rightarrow> (fs_state, quiesce_outcome) prog" where
  "fs_quiesce = no_ack ''filesystem provider has no cooperative quiescence''"

definition filesystem_capture_provider :: "fs_codec \<Rightarrow> filesystem_provider \<Rightarrow> fs_state provider" where
  "filesystem_capture_provider C P = \<lparr>
     pv_spec = fsp_spec P,
     pv_prepare = (\<lambda>_. on_files (fs_prepare_capture P)),
     pv_quiesce = fs_quiesce,
     pv_capture = (\<lambda>_. on_files (fs_capture C P)),
     pv_verify = (\<lambda>_. give ()),
     pv_resume_source = (\<lambda>_. give ()),
     pv_abort_capture = (\<lambda>_. give ()),
     pv_restore = (\<lambda>ctx. fs_restore C P (rx_attempt_id ctx)),
     pv_verify_restore = (\<lambda>_. give ()),
     pv_cleanup_restore = (\<lambda>ctx. fs_cleanup_restore C P (rx_attempt_id ctx)),
     pv_commit_restore = (\<lambda>ctx. fs_commit_restore C P (rx_attempt_id ctx))\<rparr>"

end
