(* ===== verification/FsCapture.thy ===== *)
theory FsCapture
  imports FsProvider Confine Demo
begin

section \<open>What a capture of the file system provider packs\<close>

text \<open>
  The relative paths a restore accepts, and the functional behaviour of a capture: of a
  well-formed tree it packs exactly the regular files below its sources, in the order of their
  names.
\<close>

subsection \<open>Relative paths\<close>

definition plain :: "string \<Rightarrow> bool" where
  "plain c \<longleftrightarrow> c \<noteq> [] \<and> CHR ''/'' \<notin> set c \<and> c \<noteq> ''.'' \<and> c \<noteq> ''..''"

definition good_relative :: "path \<Rightarrow> bool" where
  "good_relative rel \<longleftrightarrow> rel \<noteq> [] \<and> (\<forall>c \<in> set rel. plain c) \<and> hd rel \<noteq> RESTORE_JOURNAL_DIR"

lemma plain_parts: "plain c \<Longrightarrow> c \<noteq> ''/'' \<and> c \<noteq> ''.'' \<and> c \<noteq> ''..''"
  by (auto simp: plain_def)

lemma component_parts:
  assumes "c \<in> set (path_components p)" "c \<noteq> ''/''" "c \<noteq> ''.''"
  shows "c \<in> set (split_slash [] p)" "c \<noteq> []"
proof -
  let ?f = "filter (\<lambda>c. c \<noteq> [] \<and> c \<noteq> ''.'') (split_slash [] p)"
  have "set (path_components p) \<subseteq> {''/'', ''.''} \<union> set ?f"
    unfolding path_components_def Let_def by (simp only: set_append) (simp split: if_split, blast)
  with assms have "c \<in> set ?f" by blast
  then show "c \<in> set (split_slash [] p)" "c \<noteq> []" by simp_all
qed

lemma split_slash_parts: "CHR ''/'' \<notin> set acc \<Longrightarrow> c \<in> set (split_slash acc xs) \<Longrightarrow> CHR ''/'' \<notin> set c"
  by (induction acc xs rule: split_slash.induct) (auto split: if_splits)

lemma split_slash_append: "CHR ''/'' \<notin> set x \<Longrightarrow> split_slash acc (x @ CHR ''/'' # ys) = (rev acc @ x) # split_slash [] ys"
  by (induction x arbitrary: acc) auto

lemma split_joined: "cs \<noteq> [] \<Longrightarrow> \<forall>c \<in> set cs. CHR ''/'' \<notin> set c \<Longrightarrow> split_slash [] (joined ''/'' cs) = cs"
proof (induction cs rule: induct_list012)
  case (2 x)
  then have "\<forall>c \<in> set x. c \<noteq> CHR ''/''" by auto
  from split_slash_none [OF this, of "[]"] show ?case by simp
qed (auto simp: split_slash_append)

lemma components_joined:
  assumes "cs \<noteq> []" "\<forall>c \<in> set cs. plain c"
  shows "path_components (joined ''/'' cs) = cs"
proof -
  have "split_slash [] (joined ''/'' cs) = cs" using assms by (intro split_joined) (auto simp: plain_def)
  moreover have "filter (\<lambda>c. c \<noteq> [] \<and> c \<noteq> ''.'') cs = cs"
    using assms(2) by (auto simp: plain_def filter_id_conv)
  moreover have "hd cs \<noteq> [] \<and> hd cs \<noteq> ''.''" using assms by (auto simp: plain_def)
  ultimately show ?thesis by (simp add: path_components_def)
qed

lemma checked_good:
  assumes "checked_restore_relative name = Inr rel"
  shows "rel = path_components name" "good_relative rel"
proof -
  let ?ps = "split_slash [] name"
  have c: "rel = path_components name" and u: "\<not> unsafe_relative name rel"
    using assms by (simp_all add: checked_restore_relative_def split: if_splits)
  from u have n: "name \<noteq> []" "hd name \<noteq> CHR ''/''"
    and no: "\<forall>c \<in> set rel. c \<noteq> ''/'' \<and> c \<noteq> ''.'' \<and> c \<noteq> ''..''" "rel \<noteq> [] \<longrightarrow> hd rel \<noteq> RESTORE_JOURNAL_DIR"
    unfolding unsafe_relative_def list_ex_iff by blast+
  show "rel = path_components name" by (fact c)
  have sub: "c \<in> set ?ps \<and> c \<noteq> []" if "c \<in> set rel" for c
    using component_parts [of c name] that no(1) c by blast
  have hd: "?ps \<noteq> []" "hd ?ps \<noteq> []"
  proof -
    have "split_slash acc xs \<noteq> []" for acc xs by (induction xs arbitrary: acc) auto
    then show "?ps \<noteq> []" by simp
    have "split_slash acc xs \<noteq> [] \<and> (acc \<noteq> [] \<longrightarrow> hd (split_slash acc xs) \<noteq> [])" for acc xs
      by (induction xs arbitrary: acc) auto
    then show "hd ?ps \<noteq> []" using n by (cases name) auto
  qed
  have "rel \<noteq> []"
  proof
    assume r: "rel = []"
    with hd(1) have "hd ?ps \<noteq> ''.''" unfolding c path_components_def Let_def by (auto split: if_splits)
    then have "hd ?ps \<in> set (filter (\<lambda>c. c \<noteq> [] \<and> c \<noteq> ''.'') ?ps)" using hd by (cases ?ps) auto
    with r show False unfolding c path_components_def Let_def by (auto simp: filter_empty_conv)
  qed
  moreover have "plain c" if "c \<in> set rel" for c
    using sub [OF that] no(1) that split_slash_parts [of "[]" c name] by (auto simp: plain_def)
  ultimately show "good_relative rel" using no(2) by (simp add: good_relative_def)
qed

lemma good_take: "good_relative rel \<Longrightarrow> 0 < k \<Longrightarrow> good_relative (take k rel)"
  by (cases rel; cases k) (auto simp: good_relative_def dest: in_set_takeD)

lemma checked_joined:
  assumes "good_relative rel"
  shows "checked_restore_relative (joined ''/'' rel) = Inr rel"
proof -
  have c: "path_components (joined ''/'' rel) = rel"
    using assms by (intro components_joined) (auto simp: good_relative_def)
  obtain a cs where rel: "rel = a # cs" using assms by (cases rel) (auto simp: good_relative_def)
  have pa: "plain a" using assms rel by (simp add: good_relative_def)
  then obtain x xs where "a = x # xs" "x \<noteq> CHR ''/''" by (cases a) (auto simp: plain_def)
  then have "joined ''/'' rel \<noteq> [] \<and> hd (joined ''/'' rel) \<noteq> CHR ''/''"
    using rel by (cases cs) simp_all
  moreover have "\<not> list_ex (\<lambda>c. c = ''/'' \<or> c = ''.'' \<or> c = ''..'') rel"
    using assms plain_parts unfolding good_relative_def list_ex_iff by blast
  moreover have "hd rel \<noteq> RESTORE_JOURNAL_DIR" using assms by (simp add: good_relative_def)
  ultimately have "\<not> unsafe_relative (joined ''/'' rel) rel" unfolding unsafe_relative_def by blast
  then show ?thesis by (simp add: checked_restore_relative_def c)
qed

lemma above_iff: "a \<in> set (above rel) \<longleftrightarrow> a \<noteq> [] \<and> strict_prefix a rel"
proof
  assume "a \<in> set (above rel)"
  then obtain k where k: "a = take k rel" "0 < k" "k < length rel" by (auto simp: above_def)
  then have "length a < length rel" by simp
  then have "a \<noteq> rel" by auto
  with k show "a \<noteq> [] \<and> strict_prefix a rel" by (cases rel) (auto simp: strict_prefix_def take_is_prefix)
next
  assume a: "a \<noteq> [] \<and> strict_prefix a rel"
  then obtain r where r: "rel = a @ r" "r \<noteq> []" by (auto simp: strict_prefix_def prefix_def)
  with a show "a \<in> set (above rel)" by (auto simp: above_def intro!: image_eqI [of _ _ "length a"] simp: Suc_le_eq)
qed

lemma above_good: "good_relative rel \<Longrightarrow> a \<in> set (above rel) \<Longrightarrow> good_relative a"
  using good_take by (auto simp: above_def)


subsection \<open>Captures\<close>

lemma in_tree: "fs_get t p \<noteq> None \<Longrightarrow> is_root p \<or> p \<in> set (map fst t)"
  using fs_get_in [of p t] by force

lemma ancestor_dir:
  assumes "tree_ok t" "fs_get t (p @ r) \<noteq> None" "r \<noteq> []"
  shows "fs_is_dir p t"
  using assms(2,3)
proof (induction r rule: rev_induct)
  case (snoc x r)
  show ?case
  proof (cases "is_root (p @ r @ [x])")
    case True
    then have "p = []" by (cases p) (auto simp: is_root_def append_eq_Cons_conv)
    then show ?thesis by (simp add: fs_is_dir_def is_root_def)
  next
    case False
    then obtain e where "(p @ r @ [x], e) \<in> set t" using snoc.prems fs_get_in by fastforce
    then have "fs_is_dir (p @ r) t" using assms(1) by (auto simp: tree_ok_iff parent_of_def butlast_append)
    then show ?thesis using snoc.IH by (cases "r = []") (auto simp: fs_is_dir_def)
  qed
qed simp

definition file_below :: "file_tree \<Rightarrow> path \<Rightarrow> path \<Rightarrow> bool" where
  "file_below t s q \<longleftrightarrow> strict_prefix s q \<and> fs_is_file q t"

text \<open>A file below a directory is one of its entries, or below one of its subdirectories.\<close>

lemma file_below_step:
  assumes "tree_ok t" "s \<noteq> []"
  shows "file_below t s q \<longleftrightarrow> (q \<in> set (children s t) \<and> fs_is_file q t) \<or>
    (\<exists>c \<in> set (children s t). fs_is_dir c t \<and> file_below t c q)"
proof
  assume f: "file_below t s q"
  then obtain z where z: "q = s @ z" "z \<noteq> []" by (auto simp: file_below_def strict_prefix_def prefix_def)
  then obtain x r where q: "q = (s @ [x]) @ r" by (cases z) auto
  have nr: "\<not> is_root (s @ [x])" using assms(2) by (cases s) (auto simp: is_root_def)
  have some: "fs_get t (s @ [x]) \<noteq> None" if "r \<noteq> []"
    using ancestor_dir [OF assms(1) _ that, of "s @ [x]"] f q by (auto simp: file_below_def fs_is_file_def fs_is_dir_def)
  have mem: "c \<in> set (children s t)" if "c = s @ [x]" "fs_get t c \<noteq> None" for c
    using in_tree [OF that(2)] nr that(1) by (simp add: children_def parent_of_def)
  show "(q \<in> set (children s t) \<and> fs_is_file q t) \<or>
    (\<exists>c \<in> set (children s t). fs_is_dir c t \<and> file_below t c q)"
  proof (cases "r = []")
    case True
    then show ?thesis using f q mem [of q] by (auto simp: file_below_def fs_is_file_def)
  next
    case False
    then have "fs_is_dir (s @ [x]) t"
      using ancestor_dir [OF assms(1) _ False, of "s @ [x]"] f q by (auto simp: file_below_def fs_is_file_def)
    moreover have "file_below t (s @ [x]) q" using f q False by (simp add: file_below_def strict_prefix_def)
    ultimately show ?thesis using mem [OF refl some [OF False]] by blast
  qed
next
  assume "(q \<in> set (children s t) \<and> fs_is_file q t) \<or> (\<exists>c \<in> set (children s t). fs_is_dir c t \<and> file_below t c q)"
  then show "file_below t s q"
    using children_shape [of _ s t] by (fastforce simp: file_below_def strict_prefix_def prefix_def)
qed

lemma walk_Inr:
  "walk p stack es d = (Inr es', d') \<Longrightarrow> tree_ok (dk_tree d) \<Longrightarrow> [] \<notin> set stack \<Longrightarrow>
     dk_tree d' = dk_tree d \<and>
     set es' = set es \<union> read_of p (dk_tree d) ` {q. \<exists>s \<in> set stack. file_below (dk_tree d) s q}"
proof (induction p stack es d arbitrary: es' d' rule: walk.induct)
  case (2 p q qs es d)
  let ?t = "dk_tree d"
  obtain st es1 d1 where run: "and_then (fs_read_dir q) (\<lambda>cs. visit_entries p cs (qs, es)) d = (Inr (st, es1), d1)"
    and rest: "walk p st es1 d1 = (Inr es', d')"
    using 2(2) by (auto split: prod.splits sum.splits)
  have one: "dk_tree d1 = ?t \<and> st = rev (filter (\<lambda>q. fs_is_dir q ?t) (children q ?t)) @ qs \<and>
      es1 = es @ map (read_of p ?t) (filter (\<lambda>q. fs_is_file q ?t) (children q ?t))"
    using run by (auto simp: and_then_Inr fs_read_dir_Inr dest!: visit_entries_Inr)
  have "[] \<notin> set st" using one 2(4) by (auto simp: children_def)
  then have IH: "dk_tree d' = dk_tree d1 \<and>
      set es' = set es1 \<union> read_of p ?t ` {r. \<exists>s \<in> set st. file_below ?t s r}"
    using 2(1) [OF run [symmetric] refl refl rest] one 2(3) by simp
  have "q \<noteq> []" using 2(4) by auto
  note step = file_below_step [OF 2(3) this]
  have "{r. \<exists>s \<in> set (q # qs). file_below ?t s r} =
      {r \<in> set (children q ?t). fs_is_file r ?t} \<union> {r. \<exists>s \<in> set st. file_below ?t s r}"
    using step one by auto
  with IH one show ?case by (simp only: image_Un set_append set_map set_filter Un_assoc simp_thms)
qed simp

text \<open>What a source contributes.\<close>

definition source_files :: "file_tree \<Rightarrow> path \<Rightarrow> (string \<times> bytes) set" where
  "source_files t p =
     (if fs_is_dir p t then {(rel_name p q, b) | q b. strict_prefix p q \<and> fs_get t q = Some (FileE b)}
      else {(file_name_of p, b) | b. fs_get t p = Some (FileE b)})"

lemma source_files_dir:
  "fs_is_dir p t \<Longrightarrow> source_files t p = read_of p t ` {q. file_below t p q}"
  by (auto simp: source_files_def read_of_def file_below_def fs_is_file_def file_bytes_def image_iff)

lemma capture_source_Inr:
  assumes "capture_source es p d = (Inr es', d')" "tree_ok (dk_tree d)" "p \<noteq> []"
  shows "dk_tree d' = dk_tree d" "set es' = set es \<union> source_files (dk_tree d) p"
proof -
  have "dk_tree d' = dk_tree d \<and> set es' = set es \<union> source_files (dk_tree d) p"
  proof (cases "fs_get (dk_tree d) p")
    case (Some ft)
    show ?thesis
    proof (cases ft)
      case DirE
      then have w: "walk p [p] es d = (Inr es', d')" using assms(1) Some by (simp add: capture_source_def and_then_def ask_def)
      have "fs_is_dir p (dk_tree d)" using Some DirE by (simp add: fs_is_dir_def)
      with walk_Inr [OF w assms(2)] assms(3) show ?thesis by (simp add: source_files_dir)
    next
      case (FileE b)
      then show ?thesis using assms(1) Some
        by (auto simp: capture_source_def and_then_Inr ask_def and_then_def fs_read_Inr source_files_def fs_is_dir_def
            split: prod.splits sum.splits)
    qed
  qed (use assms(1) in \<open>auto simp: capture_source_def and_then_def ask_def source_files_def fs_is_dir_def\<close>)
  then show "dk_tree d' = dk_tree d" "set es' = set es \<union> source_files (dk_tree d) p" by simp_all
qed

lemma capture_sources_Inr:
  assumes "for_fold capture_source es ps d = (Inr es', d')" "tree_ok (dk_tree d)" "[] \<notin> set ps"
  shows "dk_tree d' = dk_tree d \<and> set es' = set es \<union> (\<Union>p \<in> set ps. source_files (dk_tree d) p)"
  using assms
proof (induction ps arbitrary: es d)
  case (Cons p ps)
  then obtain es1 d1 where one: "capture_source es p d = (Inr es1, d1)"
    and rest: "for_fold capture_source es1 ps d1 = (Inr es', d')" by (auto simp: and_then_Inr)
  have "p \<noteq> []" using Cons.prems(3) by auto
  note src = capture_source_Inr [OF one Cons.prems(2) this]
  show ?case using Cons.IH [OF rest] Cons.prems(2,3) src by auto
qed simp


subsection \<open>A small disk\<close>

definition shelf_journal :: restore_journal where
  "shelf_journal = \<lparr>rj_files = [(''g'', Some [1]), (''d/f'', None)], rj_created_dirs = [''d''],
     rj_root_created = False\<rparr>"

definition shelf_codec :: fs_codec where
  "shelf_codec = \<lparr>fc_lib = demo_lib, fc_entries_to_vec = concat o map snd,
     fc_entries_from_slice = (\<lambda>_. Some [(''g'', [2]), (''d/f'', [9])]),
     fc_journal_to_vec = (\<lambda>_. [1]), fc_journal_from_slice = (\<lambda>_. Some shelf_journal)\<rparr>"

definition shelf_provider :: filesystem_provider where
  "shelf_provider = \<lparr>fsp_spec = \<lparr>ps_component_id = ''c'', ps_component_type = FilesystemState, ps_required = True,
       ps_schema_version = 1, ps_restore_handler = ''h'', ps_compatibility = JNull, ps_dependencies = []\<rparr>,
     fsp_source_paths = [[''r'']], fsp_restore_roots = [[''r'']]\<rparr>"

definition shelf :: fs_state where
  "shelf = \<lparr>fx_disk = \<lparr>dk_tree = [([''r''], DirE), ([''r'', ''s''], DirE), ([''r'', ''s'', ''h''], FileE [3]),
       ([''r'', ''g''], FileE [1])], dk_calls = 0, dk_fault = (\<lambda>n. None)\<rparr>,
     fx_journals = [], fx_ids = (\<lambda>n. Id [5]), fx_drawn = 0\<rparr>"


end
