(* ===== verification/FsRestore.thy ===== *)
theory FsRestore
  imports FsCapture
begin

section \<open>What a cleanup of the file system provider undoes\<close>

text \<open>
  A restore, however far it got, followed by a cleanup without faults gives back the files and
  directories below the restore root, if no destination is a directory of another. The proof
  follows the phases: the plan and its journal, the invariant of the tree while entries are
  written (\<open>under_way\<close>), and the two loops of the cleanup, which shrink what it allows.
\<close>

subsection \<open>Where a call may touch the tree\<close>

definition same_outside :: "(path \<Rightarrow> bool) \<Rightarrow> file_tree \<Rightarrow> file_tree \<Rightarrow> bool" where
  "same_outside W t t' \<longleftrightarrow> (\<forall>q. \<not> W q \<longrightarrow> fs_get t' q = fs_get t q)"

lemma same_outside_refl [simp]: "same_outside W t t"
  by (simp add: same_outside_def)

lemma same_outside_put: "same_outside W t u \<Longrightarrow> W p \<Longrightarrow> \<not> is_root p \<Longrightarrow> same_outside W t (fs_put p e u)"
  by (auto simp: same_outside_def fs_get_put)

lemma same_outside_drop: "same_outside W t u \<Longrightarrow> (\<And>q. P q \<Longrightarrow> W q) \<Longrightarrow> same_outside W t (fs_drop P u)"
  by (auto simp: same_outside_def fs_get_drop)

lemma same_outside_dirs: "same_outside W t u \<Longrightarrow> (\<And>q. q \<in> set qs \<Longrightarrow> W q) \<Longrightarrow> same_outside W t (make_dirs qs u)"
  unfolding same_outside_def fs_get_make_dirs by (auto split: option.split)

lemma along_agree_write: "W p \<Longrightarrow> along (tree_kept (same_outside W t)) (fs_write p b)"
  unfolding fs_write_def
  by (rule along_sys_call) (auto simp: writable_def intro!: same_outside_put split: if_splits)

lemma along_agree_dirs: "(\<And>q. prefix q p \<Longrightarrow> W q) \<Longrightarrow> along (tree_kept (same_outside W t)) (fs_create_dir_all p)"
  unfolding fs_create_dir_all_def
  by (rule along_sys_call) (auto intro!: same_outside_dirs split: if_splits dest: in_set_takeD)

lemma along_agree_remove: "W p \<Longrightarrow> along (tree_kept (same_outside W t)) (fs_remove_file p)"
  "W p \<Longrightarrow> along (tree_kept (same_outside W t)) (fs_remove_dir p)"
  unfolding fs_remove_file_def fs_remove_dir_def
  by (rule along_sys_call; auto intro!: same_outside_drop split: if_splits)+

text \<open>A rename between two siblings.\<close>

lemma along_agree_rename:
  assumes "\<And>q. prefix a q \<Longrightarrow> W q" "\<And>q. prefix b q \<Longrightarrow> W q"
  shows "along (tree_kept (same_outside W t)) (fs_rename a b)"
  unfolding fs_rename_def
proof (rule along_sys_call)
  fix u u' :: file_tree and x :: unit
  assume u: "same_outside W t u" and act: "(if fs_exists a u \<and> \<not> is_root a \<and> \<not> is_root b \<and> \<not> prefix a b \<and>
      fs_is_dir (parent_of b) u \<and> \<not> fs_exists b u then Some ((), move_tree a b u) else None) = Some (x, u')"
  then have r: "\<not> is_root a" "\<not> is_root b" "u' = move_tree a b u" by (auto split: if_splits)
  have "fs_get u' q = fs_get u q" if "\<not> W q" for q
  proof -
    have n: "\<not> prefix a q" "\<not> prefix b q" using assms that by blast+
    show ?thesis
    proof (cases "is_root q")
      case False
      have "map_of u' q = map_of u q"
        using n by (simp add: r(3) move_tree_def map_add_def map_of_move fs_drop_def map_of_filter_pred split: option.split)
      then show ?thesis using False by (auto simp: fs_get_def is_root_def)
    qed simp
  qed
  with u show "same_outside W t u'" by (simp add: same_outside_def)
qed

lemmas agree_calls = along_fs_reads along_agree_write along_agree_dirs along_agree_remove along_agree_rename

text \<open>What lies neither above the restore root nor among its journals.\<close>

definition reserved :: "path \<Rightarrow> path \<Rightarrow> bool" where
  "reserved root q \<longleftrightarrow> prefix q root \<or> prefix (root @ [RESTORE_JOURNAL_DIR]) q"

lemma reserved_root: "prefix q (root @ [RESTORE_JOURNAL_DIR]) \<Longrightarrow> reserved root q"
  by (auto simp: reserved_def)

lemma reserved_journal: "prefix (root @ [RESTORE_JOURNAL_DIR]) q \<Longrightarrow> reserved root q"
  by (simp add: reserved_def)

lemma not_reserved: "good_relative rel \<Longrightarrow> \<not> reserved root (root @ rel)"
  by (cases rel) (auto simp: reserved_def good_relative_def)

definition fs_kept :: "(file_tree \<Rightarrow> bool) \<Rightarrow> fs_state \<Rightarrow> fs_state \<Rightarrow> bool" where
  "fs_kept P s s' \<longleftrightarrow> tree_kept P (fx_disk s) (fx_disk s') \<and> fx_journals s' = fx_journals s"

interpretation fsk: run_relation "fs_kept P"
  by unfold_locales (auto simp: fs_kept_def tree_kept_def)

lemma along_on_files: "along (tree_kept P) m \<Longrightarrow> along (fs_kept P) (on_files m)"
  unfolding on_files_def by (rule fsk.along_zoom [where Q = "tree_kept P"]) (auto simp: fs_kept_def)

lemma along_draw: "along (fs_kept P) draw_id"
  by (auto simp: along_def draw_id_def fs_kept_def tree_kept_def)

lemma along_case_entry:
  "(\<And>b. e = FileE b \<Longrightarrow> along R (f b)) \<Longrightarrow> (e = DirE \<Longrightarrow> along R m) \<Longrightarrow>
     along R (case e of FileE b \<Rightarrow> f b | DirE \<Rightarrow> m)"
  by (cases e) simp_all

lemmas fs_rules = along_case_entry fsk.along_rules along_on_files along_draw tree.along_rules

lemma along_real_directory:
  "along (tree_kept tree_ok) (real_directory p)"
  "(\<And>q. prefix q p \<Longrightarrow> W q) \<Longrightarrow> along (tree_kept (same_outside W t)) (real_directory p)"
  unfolding real_directory_def by (intro fs_rules along_calls agree_calls; assumption)+

lemma along_write_new:
  "along (tree_kept tree_ok) (write_new p b)"
  "W p \<Longrightarrow> along (tree_kept (same_outside W t)) (write_new p b)"
  unfolding write_new_def by (intro fs_rules along_calls agree_calls; assumption)+

lemma along_plan: "along (tree_kept P) (plan_restore root created es)"
  unfolding plan_restore_def plan_entry_def plan_ancestor_def Let_def
  by (intro fs_rules along_fs_reads)

text \<open>A restore up to the moment its journal is active.\<close>

lemma journal_path_Inr:
  "journal_path L P a = Inr path \<longleftrightarrow>
     (\<exists>root. restore_root P = Inr root \<and> path = root @ [RESTORE_JOURNAL_DIR, journal_name L a])"
  by (cases "restore_root P") (auto simp: journal_path_def)

definition jpath :: "fs_codec \<Rightarrow> path \<Rightarrow> string \<Rightarrow> path" where
  "jpath C root a = root @ [RESTORE_JOURNAL_DIR, journal_name (fc_lib C) a]"

lemma parent_jpath [simp]: "parent_of (jpath C root a) = root @ [RESTORE_JOURNAL_DIR]"
  by (simp add: jpath_def parent_of_def butlast_append)

lemma jpath_prefix: "prefix (root @ [RESTORE_JOURNAL_DIR]) (jpath C root a)"
  by (simp add: jpath_def)

text \<open>The paths the staging may touch: above the journals, and the temporary file.\<close>

definition jtemp :: "fs_codec \<Rightarrow> path \<Rightarrow> path \<Rightarrow> bool" where
  "jtemp C root q \<longleftrightarrow> prefix q (root @ [RESTORE_JOURNAL_DIR]) \<or>
     (\<exists>i. q = root @ [RESTORE_JOURNAL_DIR, temp_name (fc_lib C) i])"

lemma jtemp_reserved: "jtemp C root q \<Longrightarrow> reserved root q"
  by (auto simp: jtemp_def reserved_def)

lemma temp_not_journal: "temp_name L i \<noteq> journal_name L' a"
proof
  assume "temp_name L i = journal_name L' a"
  then have "last (temp_name L i) = last (journal_name L' a)" by simp
  then show False by (simp add: temp_name_def journal_name_def)
qed

lemma jpath_not_temp: "\<not> jtemp C root (jpath C root a)"
  using temp_not_journal [symmetric] by (auto simp: jtemp_def jpath_def prefix_def)

lemma along_stage:
  assumes "restore_root P = Inr root"
  shows "along (fs_kept tree_ok) (stage_journal C P a j)"
    "along (fs_kept (same_outside (jtemp C root) t)) (stage_journal C P a j)"
proof -
  have path: "journal_path (fc_lib C) P a = Inr (jpath C root a)"
    using assms by (simp add: journal_path_def jpath_def)
  have lift: "and_then (lift (Inr x)) f = f x" for x and f :: "path \<Rightarrow> (fs_state, path \<times> path) prog"
    by (simp add: and_then_def lift_def fun_eq_iff)
  have W: "jtemp C root ((root @ [RESTORE_JOURNAL_DIR]) @ [temp_name (fc_lib C) i])" for i
    by (auto simp: jtemp_def)
  have V: "jtemp C root q" if "prefix q (root @ [RESTORE_JOURNAL_DIR])" for q using that by (simp add: jtemp_def)
  note eq = stage_journal_def path lift parent_jpath Let_def
  show "along (fs_kept tree_ok) (stage_journal C P a j)"
    unfolding eq by (intro fs_rules along_calls along_real_directory along_write_new)
  show "along (fs_kept (same_outside (jtemp C root) t)) (stage_journal C P a j)"
    unfolding eq by (intro fs_rules along_real_directory along_write_new agree_calls W; erule V)
qed

lemma write_new_Inr: "write_new p b d = (Inr (), d') \<Longrightarrow> \<not> is_root p \<and> fs_get (dk_tree d') p = Some (FileE b)"
  by (auto simp: write_new_def and_then_Inr fs_write_Inr fs_sync_def sys_call_Inr writable_def fs_get_put split: if_splits)

lemma stage_Inr:
  assumes "restore_root P = Inr root" "stage_journal C P a j s = (Inr (temp, path), s')"
  obtains i where "temp = root @ [RESTORE_JOURNAL_DIR, temp_name (fc_lib C) i]" "path = jpath C root a"
    "fs_get (dk_tree (fx_disk s')) temp = Some (FileE (fc_journal_to_vec C j))"
proof -
  have path: "journal_path (fc_lib C) P a = Inr (jpath C root a)"
    using assms(1) by (simp add: journal_path_def jpath_def)
  from assms(2) obtain i u u' where "path = jpath C root a" "temp = root @ [RESTORE_JOURNAL_DIR, temp_name (fc_lib C) i]"
    "on_files (write_new temp (fc_journal_to_vec C j)) u = (Inr (), u')" "s' = u'"
    by (auto simp: stage_journal_def path and_then_Inr Let_def split: if_splits)
  with that show ?thesis by (auto simp: on_files_def zoom_def split: prod.splits dest!: write_new_Inr)
qed

text \<open>Either the journal is in place, or nothing is where it would be.\<close>

lemma persist_result:
  assumes root: "restore_root P = Inr root" and run: "persist_restore_journal C P a j s = (r, s')"
    and ok: "tree_ok (dk_tree (fx_disk s))"
  shows "tree_ok (dk_tree (fx_disk s'))" "fx_journals s' = fx_journals s"
    "same_outside (reserved root) (dk_tree (fx_disk s)) (dk_tree (fx_disk s'))"
    "r = Inr () \<Longrightarrow> fs_get (dk_tree (fx_disk s')) (jpath C root a) = Some (FileE (fc_journal_to_vec C j))"
    "r = Inl e \<Longrightarrow> fs_get (dk_tree (fx_disk s')) (jpath C root a) = fs_get (dk_tree (fx_disk s)) (jpath C root a)"
proof -
  let ?t = "dk_tree (fx_disk s)"
  obtain r1 s1 where st: "stage_journal C P a j s = (r1, s1)" by fastforce
  have k: "tree_ok (dk_tree (fx_disk s1))" "fx_journals s1 = fx_journals s" "same_outside (jtemp C root) ?t (dk_tree (fx_disk s1))"
    using alongD [OF along_stage(1) [OF root] st] alongD [OF along_stage(2) [OF root, where t = ?t] st] ok
    by (auto simp: fs_kept_def tree_kept_def)
  have a1: "same_outside (reserved root) ?t (dk_tree (fx_disk s1))" using k(3) jtemp_reserved by (auto simp: same_outside_def)
  have g1: "fs_get (dk_tree (fx_disk s1)) (jpath C root a) = fs_get ?t (jpath C root a)"
    using k(3) jpath_not_temp by (auto simp: same_outside_def)
  have "tree_ok (dk_tree (fx_disk s')) \<and> fx_journals s' = fx_journals s \<and>
    same_outside (reserved root) ?t (dk_tree (fx_disk s')) \<and>
    (r = Inr () \<longrightarrow> fs_get (dk_tree (fx_disk s')) (jpath C root a) = Some (FileE (fc_journal_to_vec C j))) \<and>
    (\<forall>e. r = Inl e \<longrightarrow> fs_get (dk_tree (fx_disk s')) (jpath C root a) = fs_get ?t (jpath C root a))"
  proof (cases r1)
    case (Inl e)
    then show ?thesis using run st k a1 g1 by (auto simp: persist_restore_journal_def and_then_def)
  next
    case (Inr tp)
    obtain temp path where tp: "tp = (temp, path)" by (cases tp)
    obtain i where i: "temp = root @ [RESTORE_JOURNAL_DIR, temp_name (fc_lib C) i]" "path = jpath C root a"
      "fs_get (dk_tree (fx_disk s1)) temp = Some (FileE (fc_journal_to_vec C j))"
      using stage_Inr [OF root st [unfolded Inr tp]] by blast
    have re: "on_files (fs_rename temp path) s1 = (r, s')"
      using run st Inr tp by (simp add: persist_restore_journal_def and_then_def)
    then obtain d where d: "fs_rename temp path (fx_disk s1) = (r, d)" "s' = s1\<lparr>fx_disk := d\<rparr>"
      by (auto simp: on_files_def zoom_def split: prod.splits)
    have tj: "prefix (root @ [RESTORE_JOURNAL_DIR]) temp" by (simp add: i(1))
    have sub: "reserved root q" if "prefix temp q \<or> prefix path q" for q
      using that tj jpath_prefix prefix_order.trans unfolding i(2) reserved_def by blast
    have "tree_ok (dk_tree d)" using alongD [OF along_fs_rename d(1)] k(1) by (simp add: tree_kept_def)
    moreover have "same_outside (reserved root) ?t (dk_tree d)"
      using alongD [OF along_agree_rename [of temp "reserved root" path ?t] d(1)] sub a1 by (simp add: tree_kept_def)
    moreover have "fs_get (dk_tree d) path = Some (FileE (fc_journal_to_vec C j))" if "r = Inr ()"
    proof -
      have m: "\<not> is_root temp" "\<not> is_root path" "\<not> prefix temp path" "dk_tree d = move_tree temp path (dk_tree (fx_disk s1))"
        using d(1) that by (auto simp: fs_rename_Inr)
      have "\<not> prefix path temp" using m(3) unfolding i(1,2) jpath_def by (auto simp: prefix_def)
      then show ?thesis using fs_get_move [OF m(1-3), of _ path] i(3) m by (auto simp: fs_get_def is_root_def)
    qed
    moreover have "dk_tree d = dk_tree (fx_disk s1)" if "r = Inl e" for e
      using d(1) that unfolding fs_rename_def sys_call_def by (auto simp: Let_def split: option.splits if_splits)
    ultimately show ?thesis using d(2) k(2) g1 i(2) by auto
  qed
  then show "tree_ok (dk_tree (fx_disk s'))" "fx_journals s' = fx_journals s"
    "same_outside (reserved root) ?t (dk_tree (fx_disk s'))"
    "r = Inr () \<Longrightarrow> fs_get (dk_tree (fx_disk s')) (jpath C root a) = Some (FileE (fc_journal_to_vec C j))"
    "r = Inl e \<Longrightarrow> fs_get (dk_tree (fx_disk s')) (jpath C root a) = fs_get ?t (jpath C root a)" by blast+
qed


subsection \<open>The plan of a restore\<close>

definition rel_of :: "string \<times> bytes \<Rightarrow> path" where
  "rel_of e = path_components (fst e)"

definition content_at :: "file_tree \<Rightarrow> path \<Rightarrow> bytes option" where
  "content_at t p = (case fs_get t p of Some (FileE b) \<Rightarrow> Some b | _ \<Rightarrow> None)"

definition lacking :: "path \<Rightarrow> file_tree \<Rightarrow> (string \<times> bytes) list \<Rightarrow> path set" where
  "lacking root t es = {a. fs_get t (root @ a) = None \<and> (\<exists>e \<in> set es. a \<in> set (above (rel_of e)))}"

definition planned :: "path \<Rightarrow> file_tree \<Rightarrow> (string \<times> bytes) list \<Rightarrow> restore_journal \<Rightarrow> bool" where
  "planned root t es j \<longleftrightarrow>
     (\<forall>e \<in> set es. checked_restore_relative (fst e) = Inr (rel_of e) \<and> good_relative (rel_of e) \<and>
        fs_get t (root @ rel_of e) \<noteq> Some DirE \<and>
        (\<forall>a \<in> set (above (rel_of e)). fs_get t (root @ a) = None \<or> fs_get t (root @ a) = Some DirE)) \<and>
     rj_files j = map (\<lambda>e. (fst e, content_at t (root @ rel_of e))) es \<and>
     set (rj_created_dirs j) = joined ''/'' ` lacking root t es"

lemma plan_ancestors_Inr:
  "for_fold (plan_ancestor root) j as d = (Inr j', d') \<Longrightarrow>
     d' = d \<and> rj_files j' = rj_files j \<and> rj_root_created j' = rj_root_created j \<and>
     (\<forall>a \<in> set as. fs_get (dk_tree d) (root @ a) = None \<or> fs_get (dk_tree d) (root @ a) = Some DirE) \<and>
     set (rj_created_dirs j') = set (rj_created_dirs j) \<union> joined ''/'' ` {a \<in> set as. fs_get (dk_tree d) (root @ a) = None}"
proof (induction as arbitrary: j)
  case (Cons a as)
  then obtain j1 d1 where one: "plan_ancestor root j a d = (Inr j1, d1)"
    and rest: "for_fold (plan_ancestor root) j1 as d1 = (Inr j', d')" by (auto simp: and_then_Inr)
  have s: "d1 = d \<and> rj_files j1 = rj_files j \<and> rj_root_created j1 = rj_root_created j \<and>
     (fs_get (dk_tree d) (root @ a) = None \<or> fs_get (dk_tree d) (root @ a) = Some DirE) \<and>
     set (rj_created_dirs j1) = set (rj_created_dirs j) \<union> (if fs_get (dk_tree d) (root @ a) = None then {joined ''/'' a} else {})"
    using one by (auto simp: plan_ancestor_def and_then_Inr Let_def split: option.splits fs_entry.splits if_splits)
  from s have d1: "d1 = d" by simp
  show ?case using Cons.IH [OF rest [unfolded d1]] s by (auto split: if_splits)
qed simp

lemma plan_entry_Inr:
  assumes "plan_entry root (seen, j) e d = (Inr (seen', j'), d')" "planned root (dk_tree d) es j"
  shows "dk_tree d' = dk_tree d" "rj_root_created j' = rj_root_created j" "planned root (dk_tree d) (es @ [e]) j'"
proof -
  let ?t = "dk_tree d"
  obtain name b where e: "e = (name, b)" by (cases e)
  obtain rel j1 prev where rel: "checked_restore_relative name = Inr rel"
    and as: "for_fold (plan_ancestor root) j (above rel) d = (Inr j1, d)"
    and prev: "fs_get ?t (root @ rel) \<noteq> Some DirE" "dk_tree d' = ?t"
    and j': "j' = j1\<lparr>rj_files := rj_files j1 @ [(name, content_at ?t (root @ rel))]\<rparr>"
  proof -
    from assms(1) obtain rel j1 d1 where r: "checked_restore_relative name = Inr rel"
      and a: "for_fold (plan_ancestor root) j (above rel) d = (Inr j1, d1)"
      and m: "and_then (case fs_get (dk_tree d1) (root @ rel) of
          Some (FileE _) \<Rightarrow> and_then (fs_read (root @ rel)) (\<lambda>b. give (Some b))
        | Some DirE \<Rightarrow> raise (RestoreFailure ''filesystem restore destination {} is not a regular file'')
        | None \<Rightarrow> give None)
        (\<lambda>previous. give ((root @ rel) # seen, j1\<lparr>rj_files := rj_files j1 @ [(name, previous)]\<rparr>)) d1 = (Inr (seen', j'), d')"
      by (auto simp: plan_entry_def e and_then_Inr Let_def split: if_splits)
    have d1: "d1 = d" using plan_ancestors_Inr [OF a] by simp
    have "fs_get ?t (root @ rel) \<noteq> Some DirE \<and> dk_tree d' = ?t \<and>
        j' = j1\<lparr>rj_files := rj_files j1 @ [(name, content_at ?t (root @ rel))]\<rparr>"
      using m unfolding d1
      by (auto simp: and_then_Inr content_at_def fs_read_Inr split: option.splits fs_entry.splits)
    with r a d1 show thesis by (intro that) simp_all
  qed
  show "dk_tree d' = ?t" by (fact prev(2))
  note pa = plan_ancestors_Inr [OF as]
  then show "rj_root_created j' = rj_root_created j" using j' by simp
  have re: "rel_of e = rel" and g: "good_relative rel" using checked_good [OF rel] e by (simp_all add: rel_of_def)
  have "lacking root ?t (es @ [e]) = lacking root ?t es \<union> {a \<in> set (above rel). fs_get ?t (root @ a) = None}"
    by (auto simp: lacking_def re)
  then show "planned root ?t (es @ [e]) j'"
    using assms(2) pa rel g prev(1) j' re e by (simp add: planned_def ball_Un image_Un)
qed

lemma plan_entries_Inr:
  "for_fold (plan_entry root) (seen, j) es d = (Inr (seen', j'), d') \<Longrightarrow> planned root (dk_tree d) done' j \<Longrightarrow>
     dk_tree d' = dk_tree d \<and> rj_root_created j' = rj_root_created j \<and> planned root (dk_tree d) (done' @ es) j'"
proof (induction es arbitrary: seen j d done')
  case (Cons e es)
  then obtain seen1 j1 d1 where one: "plan_entry root (seen, j) e d = (Inr (seen1, j1), d1)"
    and rest: "for_fold (plan_entry root) (seen1, j1) es d1 = (Inr (seen', j'), d')"
    by (auto simp: and_then_Inr)
  note s = plan_entry_Inr [OF one Cons.prems(2)]
  have "planned root (dk_tree d1) (done' @ [e]) j1" using s by simp
  from Cons.IH [OF rest this] s show ?case by simp
qed simp

lemma plan_restore_Inr:
  assumes "plan_restore root created es d = (Inr j, d')"
  shows "dk_tree d' = dk_tree d" "rj_root_created j = created" "planned root (dk_tree d) es j"
proof -
  obtain seen where f: "for_fold (plan_entry root)
      ([], \<lparr>rj_files = [], rj_created_dirs = [], rj_root_created = created\<rparr>) es d = (Inr (seen, j), d')"
    using assms by (auto simp: plan_restore_def and_then_Inr)
  have "planned root (dk_tree d) [] \<lparr>rj_files = [], rj_created_dirs = [], rj_root_created = created\<rparr>"
    by (simp add: planned_def lacking_def)
  from plan_entries_Inr [OF f this]
  show "dk_tree d' = dk_tree d" "rj_root_created j = created" "planned root (dk_tree d) es j" by simp_all
qed

lemma planned_agree:
  assumes "same_outside (reserved root) t u" "planned root u es j"
  shows "planned root t es j"
proof -
  have same: "fs_get u (root @ rel) = fs_get t (root @ rel)" if "good_relative rel" for rel
    using assms(1) not_reserved [OF that, of root] by (simp add: same_outside_def)
  have g: "good_relative (rel_of e)" if "e \<in> set es" for e using assms(2) that by (simp add: planned_def)
  have a: "good_relative a" if "e \<in> set es" "a \<in> set (above (rel_of e))" for e a
    using above_good [OF g [OF that(1)] that(2)] .
  have "lacking root u es = lacking root t es" using same a by (auto simp: lacking_def)
  moreover have "map (\<lambda>e. (fst e, content_at u (root @ rel_of e))) es = map (\<lambda>e. (fst e, content_at t (root @ rel_of e))) es"
    using same g by (simp add: content_at_def)
  ultimately show ?thesis using assms(2) same g a by (auto simp: planned_def)
qed


subsection \<open>Writing, and undoing what was written\<close>

definition apart :: "(string \<times> bytes) list \<Rightarrow> bool" where
  "apart es \<longleftrightarrow> list_all (\<lambda>e. list_all (\<lambda>f. rel_of e \<notin> set (above (rel_of f))) es) es"

lemma apartD: "apart es \<Longrightarrow> e \<in> set es \<Longrightarrow> f \<in> set es \<Longrightarrow> rel_of e \<notin> set (above (rel_of f))"
  by (simp add: apart_def list_all_iff)

text \<open>The tree while a restore is under way or being undone: outside the reserved paths only the
  destinations in \<open>D\<close> may hold a new file, and only the missing directories in \<open>A\<close> may be new.\<close>

definition under_way :: "path \<Rightarrow> file_tree \<Rightarrow> path set \<Rightarrow> path set \<Rightarrow> file_tree \<Rightarrow> bool" where
  "under_way root t0 D A t \<longleftrightarrow> (\<forall>q. \<not> reserved root q \<longrightarrow> fs_get t q = fs_get t0 q \<or>
     (\<exists>rel \<in> D. q = root @ rel \<and> fs_is_file q t) \<or> (\<exists>a \<in> A. q = root @ a \<and> fs_is_dir q t))"

text \<open>The journal of the restore is in place and the root is a directory.\<close>

definition anchored_at :: "path \<Rightarrow> path \<Rightarrow> bytes \<Rightarrow> file_tree \<Rightarrow> bool" where
  "anchored_at root path b t \<longleftrightarrow> tree_ok t \<and> fs_is_dir root t \<and> fs_get t path = Some (FileE b)"

lemma under_way_same: "same_outside (reserved root) t0 t \<Longrightarrow> under_way root t0 D A t"
  by (simp add: under_way_def same_outside_def)

lemma dirs_of_dest:
  assumes "prefix q (root @ butlast rel)" "\<not> prefix q root" "good_relative rel"
  obtains a where "q = root @ a" "a \<in> set (above rel)"
proof -
  obtain a where q: "q = root @ a" using assms(1,2) by (auto simp: prefix_append)
  then have "prefix a (butlast rel)" "a \<noteq> []" using assms(1,2) by auto
  moreover have "strict_prefix (butlast rel) rel"
    using assms(3) by (cases rel rule: rev_cases) (auto simp: good_relative_def strict_prefix_def)
  ultimately show ?thesis using q that by (auto simp: above_iff)
qed

text \<open>Directories on the way to a destination.\<close>

lemma under_way_dirs:
  assumes pl: "planned root t0 es j" and e: "e \<in> set es" and u: "under_way root t0 D (lacking root t0 es) t"
    and qs: "\<And>q. q \<in> set qs \<Longrightarrow> prefix q (root @ butlast (rel_of e))"
  shows "under_way root t0 D (lacking root t0 es) (make_dirs qs t)"
  unfolding under_way_def
proof (intro allI impI)
  fix q assume nr: "\<not> reserved root q"
  have g: "good_relative (rel_of e)" using pl e by (simp add: planned_def)
  have old: "fs_get t q = fs_get t0 q \<or> (\<exists>rel \<in> D. q = root @ rel \<and> fs_is_file q t) \<or>
      (\<exists>a \<in> lacking root t0 es. q = root @ a \<and> fs_is_dir q t)"
    using u nr by (simp add: under_way_def)
  show "fs_get (make_dirs qs t) q = fs_get t0 q \<or> (\<exists>rel \<in> D. q = root @ rel \<and> fs_is_file q (make_dirs qs t)) \<or>
      (\<exists>a \<in> lacking root t0 es. q = root @ a \<and> fs_is_dir q (make_dirs qs t))"
  proof (cases "fs_get t q = None \<and> q \<in> set qs")
    case True
    then obtain a where a: "q = root @ a" "a \<in> set (above (rel_of e))"
      using dirs_of_dest [OF qs _ g, of q] nr by (auto simp: reserved_def)
    have "fs_get t0 q = None" using old True by (auto simp: fs_is_file_def fs_is_dir_def)
    then have "a \<in> lacking root t0 es" using a e by (auto simp: lacking_def)
    then show ?thesis using a True by (auto simp: fs_is_dir_def fs_get_make_dirs)
  next
    case False
    then have "fs_get (make_dirs qs t) q = fs_get t q" by (auto simp: fs_get_make_dirs split: option.split)
    then show ?thesis using old by (simp add: fs_is_file_def fs_is_dir_def)
  qed
qed

lemma good_not_root:
  assumes "good_relative rel"
  shows "\<not> is_root (root @ rel)"
proof
  assume r: "is_root (root @ rel)"
  have "rel \<noteq> []" using assms by (simp add: good_relative_def)
  with r have "rel = [''/'']" unfolding is_root_def by (auto simp: append_eq_Cons_conv)
  with assms have "plain ''/''" by (simp add: good_relative_def)
  then show False using plain_parts by blast
qed

lemma under_way_put:
  assumes "under_way root t0 D A t" "rel \<in> D" "good_relative rel"
  shows "under_way root t0 D A (fs_put (root @ rel) (FileE b) t)"
proof -
  note nr = good_not_root [OF assms(3), of root]
  show ?thesis using assms(1,2) unfolding under_way_def fs_is_file_def fs_is_dir_def fs_get_put [OF nr] by auto
qed

lemma anchored_put:
  assumes "anchored_at root (jpath C root a) b t" "good_relative rel" "writable (root @ rel) t"
  shows "anchored_at root (jpath C root a) b (fs_put (root @ rel) (FileE c) t)"
proof -
  have "jpath C root a \<noteq> root @ rel" using not_reserved [OF assms(2), of root] jpath_prefix reserved_journal by metis
  moreover have "root \<noteq> root @ rel" using assms(2) by (simp add: good_relative_def)
  ultimately show ?thesis using assms tree_ok_put [of t "root @ rel" c] good_not_root [OF assms(2), of root]
    unfolding anchored_at_def fs_is_dir_def by (simp add: fs_get_put)
qed

lemma anchored_dirs: "anchored_at root p b t \<Longrightarrow> tree_ok (make_dirs qs t) \<Longrightarrow> anchored_at root p b (make_dirs qs t)"
  by (simp add: anchored_at_def fs_is_dir_def fs_get_make_dirs)

lemma along_write_entry:
  assumes pl: "planned root t0 es j" and e: "e \<in> set es" and D: "rel_of ` set es \<subseteq> D"
  shows "along (tree_kept (\<lambda>t. anchored_at root (jpath C root a) b t \<and> under_way root t0 D (lacking root t0 es) t))
    (write_entry root e)" (is "along (tree_kept ?K) _")
proof -
  let ?rel = "rel_of e"
  have g: "good_relative ?rel" using pl e by (simp add: planned_def)
  have par: "parent_of (root @ ?rel) = root @ butlast ?rel"
    using g by (simp add: parent_of_def butlast_append good_relative_def)
  have "along (tree_kept ?K) (fs_create_dir_all (root @ butlast ?rel))"
    unfolding fs_create_dir_all_def
  proof (rule along_sys_call)
    fix t t' :: file_tree and x :: unit and k
    let ?p = "root @ butlast ?rel"
    assume K: "?K t" and "(if list_all (\<lambda>q. \<not> fs_is_file q t) (prefixes ?p)
      then Some ((), make_dirs (prefixes ?p) t) else None) = Some (x, t')"
    then have ok: "tree_ok (make_dirs (prefixes ?p) t)" "tree_ok (make_dirs (take k (prefixes ?p)) t)"
      "t' = make_dirs (prefixes ?p) t"
      using tree_ok_dirs [of t ?p] by (auto simp: anchored_at_def split: if_splits)
    have "under_way root t0 D (lacking root t0 es) (make_dirs (prefixes ?p) t)"
      "under_way root t0 D (lacking root t0 es) (make_dirs (take k (prefixes ?p)) t)"
      by (rule under_way_dirs [OF pl e]; use K in \<open>auto dest: in_set_takeD\<close>)+
    with ok K anchored_dirs show "?K t'" "?K (make_dirs (take k (prefixes ?p)) t)" by auto
  qed
  moreover have "along (tree_kept ?K) (fs_write (root @ ?rel) c)" for c
    unfolding fs_write_def
    by (rule along_sys_call) (use D e g in \<open>auto intro!: anchored_put under_way_put split: if_splits\<close>)
  ultimately show ?thesis
    unfolding write_entry_def Let_def rel_of_def [symmetric] par by (intro tree.along_rules)
qed


text \<open>Runs on a disk without faults.\<close>

lemma sys_call_quiet:
  "quiet d \<Longrightarrow> act (dk_tree d) = Some (x, t) \<Longrightarrow>
     sys_call partial act d = (Inr x, d\<lparr>dk_calls := dk_calls d + 1, dk_tree := t\<rparr>)"
  by (simp add: sys_call_def Let_def)

lemma quiet_tree [simp]: "quiet (d\<lparr>dk_calls := n, dk_tree := t\<rparr>) = quiet d"
  by (simp add: quiet_def)

lemma sys_call_quiet_ex:
  "quiet d \<Longrightarrow> act (dk_tree d) = Some (x, t) \<Longrightarrow>
     \<exists>d'. sys_call partial act d = (Inr x, d') \<and> quiet d' \<and> dk_tree d' = t"
  by (simp add: sys_call_quiet)

lemma for_each_quiet:
  assumes "\<And>x xs d. quiet d \<Longrightarrow> I (x # xs) (dk_tree d) \<Longrightarrow> \<exists>d'. f x d = (Inr (), d') \<and> quiet d' \<and> I xs (dk_tree d')"
    and "quiet d" "I xs (dk_tree d)"
  shows "\<exists>d'. for_each f xs d = (Inr (), d') \<and> quiet d' \<and> I [] (dk_tree d')"
  using assms(2,3)
proof (induction xs arbitrary: d)
  case (Cons x xs)
  from assms(1) [OF Cons.prems] obtain d1 where "f x d = (Inr (), d1) \<and> quiet d1 \<and> I xs (dk_tree d1)" ..
  with Cons.IH [of d1] show ?case by (auto simp: and_then_def)
qed simp

lemma make_dirs_present: "\<forall>q \<in> set qs. fs_exists q t \<Longrightarrow> make_dirs qs t = t"
  by (induction qs) auto

lemma create_dirs_present:
  assumes "quiet d" "\<And>q. prefix q p \<Longrightarrow> fs_is_dir q (dk_tree d)"
  shows "\<exists>d'. fs_create_dir_all p d = (Inr (), d') \<and> quiet d' \<and> dk_tree d' = dk_tree d"
proof -
  have "make_dirs (prefixes p) (dk_tree d) = dk_tree d"
    using assms(2) by (intro make_dirs_present) (auto simp: fs_exists_def fs_is_dir_def)
  moreover have "list_all (\<lambda>q. \<not> fs_is_file q (dk_tree d)) (prefixes p)"
    using assms(2) by (auto simp: list_all_iff fs_is_file_def fs_is_dir_def)
  ultimately show ?thesis unfolding fs_create_dir_all_def using assms(1) by (intro sys_call_quiet_ex) simp_all
qed

lemma write_quiet:
  assumes "quiet d" "writable p (dk_tree d)"
  shows "\<exists>d'. fs_write p b d = (Inr (), d') \<and> quiet d' \<and> dk_tree d' = fs_put p (FileE b) (dk_tree d)"
  unfolding fs_write_def using assms by (intro sys_call_quiet_ex) simp_all

lemma remove_file_quiet:
  assumes "quiet d" "fs_is_file p (dk_tree d)"
  shows "\<exists>d'. fs_remove_file p d = (Inr (), d') \<and> quiet d' \<and> dk_tree d' = fs_drop (\<lambda>q. q = p) (dk_tree d)"
  unfolding fs_remove_file_def using assms by (intro sys_call_quiet_ex) simp_all

lemma remove_empty_quiet:
  assumes q: "quiet d" and p: "fs_is_dir p (dk_tree d)" "\<not> is_root p"
  shows "\<exists>d'. remove_directory_if_empty p d = (Inr (), d') \<and> quiet d' \<and>
    dk_tree d' = (if children p (dk_tree d) = [] then fs_drop (\<lambda>q. q = p) (dk_tree d) else dk_tree d)"
proof -
  let ?d1 = "d\<lparr>dk_calls := dk_calls d + 1\<rparr>"
  have r: "fs_read_dir p d = (Inr (children p (dk_tree d)), ?d1)" using q p by (simp add: fs_read_dir_Inr)
  have ex: "fs_exists p (dk_tree d)" using p by (simp add: fs_exists_def fs_is_dir_def)
  show ?thesis
  proof (cases "children p (dk_tree d) = []")
    case True
    then have "fs_remove_dir p ?d1 = (Inr (), ?d1\<lparr>dk_calls := dk_calls ?d1 + 1, dk_tree := fs_drop (\<lambda>q. q = p) (dk_tree d)\<rparr>)"
      unfolding fs_remove_dir_def using p q by (intro sys_call_quiet) simp_all
    then show ?thesis using True r ex q
      by (simp add: remove_directory_if_empty_def and_then_def ask_def rename_error_def attempt_def give_def)
  qed (use r ex q in \<open>simp add: remove_directory_if_empty_def and_then_def ask_def rename_error_def give_def\<close>)
qed

lemma dirs_up: "tree_ok t \<Longrightarrow> fs_is_dir p t \<Longrightarrow> prefix q p \<Longrightarrow> fs_is_dir q t"
  using ancestor_dir [of t q] by (auto simp: prefix_def fs_is_dir_def) (metis append_Nil2 option.distinct(1))

lemma under_way_settled:
  assumes "under_way root t0 D A t" "\<And>q. q \<noteq> root @ rel \<Longrightarrow> fs_get u q = fs_get t q"
    "fs_get u (root @ rel) = fs_get t0 (root @ rel)"
  shows "under_way root t0 (D - {rel}) (A - {rel}) u"
  unfolding under_way_def
proof (intro allI impI)
  fix q assume "\<not> reserved root q"
  with assms show "fs_get u q = fs_get t0 q \<or> (\<exists>r \<in> D - {rel}. q = root @ r \<and> fs_is_file q u) \<or>
      (\<exists>a \<in> A - {rel}. q = root @ a \<and> fs_is_dir q u)"
    by (cases "q = root @ rel") (auto simp: under_way_def fs_is_file_def fs_is_dir_def)
qed

lemma anchored_drop:
  assumes "anchored_at root (jpath C root a) b t" "good_relative rel" "tree_ok (fs_drop (\<lambda>q. q = root @ rel) t)"
  shows "anchored_at root (jpath C root a) b (fs_drop (\<lambda>q. q = root @ rel) t)"
proof -
  have "jpath C root a \<noteq> root @ rel" using not_reserved [OF assms(2), of root] jpath_prefix reserved_journal by metis
  moreover have "root \<noteq> root @ rel" using assms(2) by (simp add: good_relative_def)
  ultimately show ?thesis using assms unfolding anchored_at_def fs_is_dir_def by (simp add: fs_get_drop)
qed

lemma undo_file_quiet:
  assumes pl: "planned root t0 es j" and ap: "apart es" and t0: "tree_ok t0" and e: "e \<in> set es" and q: "quiet d"
    and an: "anchored_at root (jpath C root a) b (dk_tree d)"
    and u: "under_way root t0 D (lacking root t0 es) (dk_tree d)" and D: "D \<subseteq> rel_of ` set es"
  shows "\<exists>d'. undo_file root (fst e, content_at t0 (root @ rel_of e)) d = (Inr (), d') \<and> quiet d' \<and>
    anchored_at root (jpath C root a) b (dk_tree d') \<and> under_way root t0 (D - {rel_of e}) (lacking root t0 es) (dk_tree d')"
proof -
  let ?t = "dk_tree d" and ?rel = "rel_of e" and ?A = "lacking root t0 es"
  let ?p = "root @ ?rel"
  have chk: "checked_restore_relative (fst e) = Inr ?rel" and g: "good_relative ?rel" and nd: "fs_get t0 ?p \<noteq> Some DirE"
    using pl e by (auto simp: planned_def)
  note nr = not_reserved [OF g, of root] and nroot = good_not_root [OF g, of root]
  have notA: "?rel \<notin> ?A" using apartD [OF ap e] by (auto simp: lacking_def)
  then have A: "?A - {?rel} = ?A" by blast
  have at: "fs_get ?t ?p = fs_get t0 ?p \<or> fs_is_file ?p ?t"
    using u nr notA by (auto simp: under_way_def)
  have okt: "tree_ok ?t" "fs_is_dir root ?t" using an by (simp_all add: anchored_at_def)
  show ?thesis
  proof (cases "fs_get t0 ?p")
    case None
    then have c: "content_at t0 ?p = None" by (simp add: content_at_def)
    show ?thesis
    proof (cases "fs_is_file ?p ?t")
      case True
      then obtain d' where d': "fs_remove_file ?p d = (Inr (), d')" "quiet d'" "dk_tree d' = fs_drop (\<lambda>q. q = ?p) ?t"
        using remove_file_quiet [OF q True] by blast
      have "tree_ok (dk_tree d')" using alongD [OF along_fs_remove_file d'(1)] okt(1) by (simp add: tree_kept_def)
      then have "anchored_at root (jpath C root a) b (dk_tree d')" using anchored_drop [OF an g] d'(3) by simp
      moreover have "under_way root t0 (D - {?rel}) (?A - {?rel}) (dk_tree d')"
        by (rule under_way_settled [OF u]) (use None nroot in \<open>simp_all add: d'(3) fs_get_drop\<close>)
      moreover have "undo_file root (fst e, content_at t0 ?p) d = (Inr (), d')"
        using True d'(1) by (auto simp: undo_file_def chk c and_then_def lift_def ask_def rename_error_def fs_exists_def fs_is_file_def Let_def)
      ultimately show ?thesis using A d'(2) by auto
    next
      case False
      then have n: "fs_get ?t ?p = None" using at None by simp
      have "under_way root t0 (D - {?rel}) (?A - {?rel}) ?t"
        by (rule under_way_settled [OF u]) (use n None in simp_all)
      moreover have "undo_file root (fst e, content_at t0 ?p) d = (Inr (), d)"
        using n by (auto simp: undo_file_def chk c and_then_def lift_def ask_def give_def fs_exists_def Let_def)
      ultimately show ?thesis using A q an by auto
    qed
  next
    case (Some en)
    then obtain old where old: "en = FileE old" using nd by (cases en) auto
    have par: "parent_of ?p = root @ butlast ?rel" using g by (simp add: parent_of_def butlast_append good_relative_def)
    have dirs: "fs_is_dir x ?t" if x: "prefix x (root @ butlast ?rel)" for x
    proof (cases "prefix x root")
      case True
      then show ?thesis using dirs_up okt by blast
    next
      case False
      then obtain y where y: "x = root @ y" "y \<in> set (above ?rel)" using dirs_of_dest [OF x _ g] by blast
      then obtain z where z: "?p = x @ z" "z \<noteq> []" by (auto simp: above_iff strict_prefix_def prefix_def)
      have "fs_is_dir x t0" using ancestor_dir [OF t0 _ z(2), of x] Some z(1) by simp
      moreover have "\<not> reserved root x" using not_reserved above_good [OF g y(2)] y(1) by simp
      moreover have "y \<notin> D" using apartD [OF ap _ e] D y(2) by blast
      ultimately show ?thesis using u y(1) by (auto simp: under_way_def fs_is_dir_def)
    qed
    obtain d1 where d1: "fs_create_dir_all (root @ butlast ?rel) d = (Inr (), d1)" "quiet d1" "dk_tree d1 = ?t"
      using create_dirs_present [OF q dirs] by blast
    have w: "writable ?p (dk_tree d1)"
      using at Some old nroot dirs [of "root @ butlast ?rel"] d1(3) par
      by (auto simp: writable_def fs_is_dir_def fs_is_file_def)
    obtain d' where d': "fs_write ?p old d1 = (Inr (), d')" "quiet d'" "dk_tree d' = fs_put ?p (FileE old) ?t"
      using write_quiet [OF d1(2) w] d1(3) by auto
    have "anchored_at root (jpath C root a) b (dk_tree d')" using anchored_put [OF an g] w d1(3) d'(3) by simp
    moreover have "under_way root t0 (D - {?rel}) (?A - {?rel}) (dk_tree d')"
      by (rule under_way_settled [OF u]) (use Some old nroot in \<open>simp_all add: d'(3) fs_get_put\<close>)
    moreover have "undo_file root (fst e, content_at t0 ?p) d = (Inr (), d')"
      using d1(1) d'(1) Some old by (simp add: undo_file_def chk content_at_def and_then_def lift_def par Let_def)
    ultimately show ?thesis using A d'(2) by auto
  qed
qed


lemma undo_dir_quiet:
  assumes pl: "planned root t0 es j" and t0: "tree_ok t0" and q: "quiet d"
    and an: "anchored_at root (jpath C root a) b (dk_tree d)" and u: "under_way root t0 {} A (dk_tree d)"
    and A: "A \<subseteq> lacking root t0 es" and x: "x \<in> A" and deep: "\<And>y. y \<in> A \<Longrightarrow> length y \<le> length x"
  shows "\<exists>d'. undo_dir root (joined ''/'' x) d = (Inr (), d') \<and> quiet d' \<and>
    anchored_at root (jpath C root a) b (dk_tree d') \<and> under_way root t0 {} (A - {x}) (dk_tree d')"
proof -
  let ?t = "dk_tree d" and ?p = "root @ x"
  obtain e where e: "e \<in> set es" "x \<in> set (above (rel_of e))" using x A by (auto simp: lacking_def)
  have g: "good_relative x" using pl e by (auto simp: planned_def intro: above_good)
  have none: "fs_get t0 ?p = None" using x A by (auto simp: lacking_def)
  note chk = checked_joined [OF g] and nroot = good_not_root [OF g, of root]
  have okt: "tree_ok ?t" using an by (simp add: anchored_at_def)
  show ?thesis
  proof (cases "fs_get ?t ?p")
    case None
    have "under_way root t0 ({} - {x}) (A - {x}) ?t" by (rule under_way_settled [OF u]) (use none None in simp_all)
    moreover have "undo_dir root (joined ''/'' x) d = (Inr (), d)"
      using None by (simp add: undo_dir_def chk and_then_def lift_def ask_def give_def fs_exists_def)
    ultimately show ?thesis using q an by auto
  next
    case (Some en)
    have dir: "fs_is_dir ?p ?t" using u not_reserved [OF g, of root] none Some by (auto simp: under_way_def)
    have "c \<notin> set (children ?p ?t)" for c
    proof
      assume "c \<in> set (children ?p ?t)"
      then obtain y en' where c: "c = ?p @ [y]" "(c, en') \<in> set ?t" using children_shape by fastforce
      have some: "fs_get ?t c = Some en'" using fs_get_of_in [OF okt c(2)] .
      have nr: "\<not> reserved root c" using g c(1) by (cases x) (auto simp: reserved_def good_relative_def)
      have "fs_get t0 c = None"
        using ancestor_dir [OF t0, of ?p "[y]"] none c(1) by (cases "fs_get t0 c") (auto simp: fs_is_dir_def)
      then obtain z where "z \<in> A" "c = root @ z" using u nr some by (auto simp: under_way_def)
      with deep [of z] c(1) show False by simp
    qed
    then have emp: "children ?p ?t = []" by (cases "children ?p ?t") auto
    obtain d' where d': "remove_directory_if_empty ?p d = (Inr (), d')" "quiet d'" "dk_tree d' = fs_drop (\<lambda>q. q = ?p) ?t"
      using remove_empty_quiet [OF q dir nroot] emp by auto
    have "tree_ok (fs_drop (\<lambda>q. q = ?p) ?t)"
    proof (rule tree_ok_drop [OF okt])
      fix r en' assume r: "(r, en') \<in> set ?t" "parent_of r = ?p"
      then have "r \<noteq> []" using okt by (auto simp: tree_ok_iff is_root_def)
      then have "r \<in> set (children ?p ?t)" using r by (force simp: children_def)
      with emp show "r = ?p" by simp
    qed
    then have "anchored_at root (jpath C root a) b (dk_tree d')" using anchored_drop [OF an g] d'(3) by simp
    moreover have "under_way root t0 ({} - {x}) (A - {x}) (dk_tree d')"
      by (rule under_way_settled [OF u]) (use none nroot in \<open>simp_all add: d'(3) fs_get_drop\<close>)
    moreover have "undo_dir root (joined ''/'' x) d = (Inr (), d')"
      using Some d'(1) by (simp add: undo_dir_def chk and_then_def lift_def ask_def fs_exists_def)
    ultimately show ?thesis using d'(2) by auto
  qed
qed

text \<open>The two loops of a cleanup.\<close>

lemma undo_files_quiet:
  assumes pl: "planned root t0 es j" and ap: "apart es" and t0: "tree_ok t0" and q: "quiet d"
    and an: "anchored_at root (jpath C root a) b (dk_tree d)"
    and u: "under_way root t0 (rel_of ` set es) (lacking root t0 es) (dk_tree d)"
  shows "\<exists>d'. for_each (undo_file root) (rev (rj_files j)) d = (Inr (), d') \<and> quiet d' \<and>
    anchored_at root (jpath C root a) b (dk_tree d') \<and> under_way root t0 {} (lacking root t0 es) (dk_tree d')"
proof -
  let ?u = "\<lambda>e. (fst e, content_at t0 (root @ rel_of e))"
  let ?I = "\<lambda>fs t. \<exists>xs. fs = map ?u xs \<and> set xs \<subseteq> set es \<and> anchored_at root (jpath C root a) b t \<and>
    under_way root t0 (rel_of ` set xs) (lacking root t0 es) t"
  have files: "rev (rj_files j) = map ?u (rev es)" using pl by (simp add: planned_def rev_map)
  have weaken: "under_way root t0 D' A t" if "under_way root t0 D A t" "D \<subseteq> D'" for D D' A t
    using that unfolding under_way_def by blast
  have "\<exists>d'. for_each (undo_file root) (rev (rj_files j)) d = (Inr (), d') \<and> quiet d' \<and> ?I [] (dk_tree d')"
  proof (rule for_each_quiet [where I = ?I, OF _ q])
    show "?I (rev (rj_files j)) (dk_tree d)" using an u by (intro exI [of _ "rev es"]) (simp add: files)
    fix f fs d assume qd: "quiet d" and I: "?I (f # fs) (dk_tree d)"
    then obtain e xs where e: "f = ?u e" "fs = map ?u xs" "e \<in> set es" "set xs \<subseteq> set es"
      "anchored_at root (jpath C root a) b (dk_tree d)"
      "under_way root t0 (rel_of ` set (e # xs)) (lacking root t0 es) (dk_tree d)" by (auto simp: Cons_eq_map_conv)
    have sub: "rel_of ` set (e # xs) \<subseteq> rel_of ` set es" using e(3,4) by auto
    obtain d' where d': "undo_file root f d = (Inr (), d')" "quiet d'" "anchored_at root (jpath C root a) b (dk_tree d')"
      "under_way root t0 (rel_of ` set (e # xs) - {rel_of e}) (lacking root t0 es) (dk_tree d')"
      using undo_file_quiet [OF pl ap t0 e(3) qd e(5,6) sub] e(1) by blast
    have "under_way root t0 (rel_of ` set xs) (lacking root t0 es) (dk_tree d')" by (rule weaken [OF d'(4)]) auto
    with d' e show "\<exists>d'. undo_file root f d = (Inr (), d') \<and> quiet d' \<and> ?I fs (dk_tree d')" by blast
  qed
  then show ?thesis by auto
qed

lemma undo_dirs_quiet:
  assumes pl: "planned root t0 es j" and t0: "tree_ok t0" and q: "quiet d"
    and an: "anchored_at root (jpath C root a) b (dk_tree d)"
    and u: "under_way root t0 {} (lacking root t0 es) (dk_tree d)"
  shows "\<exists>d'. for_each (undo_dir root) (deepest_first (rj_created_dirs j)) d = (Inr (), d') \<and> quiet d' \<and>
    anchored_at root (jpath C root a) b (dk_tree d') \<and> under_way root t0 {} {} (dk_tree d')"
proof -
  let ?A = "lacking root t0 es" and ?n = "\<lambda>p. - int (length (path_components p))"
  let ?J = "\<lambda>ds. {x \<in> ?A. joined ''/'' x \<in> set ds}"
  let ?I = "\<lambda>ds t. sorted (map ?n ds) \<and> set ds \<subseteq> joined ''/'' ` ?A \<and> anchored_at root (jpath C root a) b t \<and>
    under_way root t0 {} (?J ds) t"
  have names: "set (deepest_first (rj_created_dirs j)) = joined ''/'' ` ?A"
    using pl by (simp add: planned_def deepest_first_def)
  have good: "good_relative x" if "x \<in> ?A" for x
    using that pl above_good by (fastforce simp: lacking_def planned_def)
  have comps: "path_components (joined ''/'' x) = x" if "x \<in> ?A" for x
    using checked_good(1) [OF checked_joined [OF good [OF that]]] by simp
  have weaken: "under_way root t0 D B' t" if "under_way root t0 D B t" "B \<subseteq> B'" for D B B' t
    using that unfolding under_way_def by blast
  have "\<exists>d'. for_each (undo_dir root) (deepest_first (rj_created_dirs j)) d = (Inr (), d') \<and> quiet d' \<and> ?I [] (dk_tree d')"
  proof (rule for_each_quiet [where I = ?I, OF _ q])
    have "?J (deepest_first (rj_created_dirs j)) = ?A" unfolding names by blast
    then show "?I (deepest_first (rj_created_dirs j)) (dk_tree d)"
      using an u names by (simp add: deepest_first_def)
    fix r ds d assume qd: "quiet d" and I: "?I (r # ds) (dk_tree d)"
    then obtain x where x: "x \<in> ?A" "r = joined ''/'' x" by auto
    have deep: "length y \<le> length x" if "y \<in> ?J (r # ds)" for y
    proof -
      have "length (path_components (joined ''/'' y)) \<le> length (path_components (joined ''/'' x))"
        using that I x(2) by auto
      then show ?thesis using that x(1) comps by simp
    qed
    have "?J (r # ds) \<subseteq> ?A" by blast
    moreover have "x \<in> ?J (r # ds)" using x by simp
    ultimately obtain d' where d': "undo_dir root r d = (Inr (), d')" "quiet d'"
      "anchored_at root (jpath C root a) b (dk_tree d')" "under_way root t0 {} (?J (r # ds) - {x}) (dk_tree d')"
      using undo_dir_quiet [OF pl t0 qd, of C a b "?J (r # ds)" x] I x(2) deep by blast
    have "?J (r # ds) - {x} \<subseteq> ?J ds" using x comps by (auto dest: arg_cong [of _ _ path_components])
    with d' I weaken show "\<exists>d'. undo_dir root r d = (Inr (), d') \<and> quiet d' \<and> ?I ds (dk_tree d')" by auto
  qed
  then show ?thesis by auto
qed


subsection \<open>A restore and its cleanup\<close>

definition idle :: "fs_codec \<Rightarrow> path \<Rightarrow> string \<Rightarrow> fs_state \<Rightarrow> fs_state \<Rightarrow> bool" where
  "idle C root a s s' \<longleftrightarrow> tree_ok (dk_tree (fx_disk s')) \<and> fx_journals s' = fx_journals s \<and>
     same_outside (reserved root) (dk_tree (fx_disk s)) (dk_tree (fx_disk s')) \<and>
     fs_get (dk_tree (fx_disk s')) (jpath C root a) = fs_get (dk_tree (fx_disk s)) (jpath C root a)"

definition active_restore ::
  "fs_codec \<Rightarrow> path \<Rightarrow> string \<Rightarrow> file_tree \<Rightarrow> (string \<times> bytes) list \<Rightarrow> restore_journal \<Rightarrow> file_tree \<Rightarrow> bool" where
  "active_restore C root a t0 es j t \<longleftrightarrow> planned root t0 es j \<and>
     (rj_root_created j \<longrightarrow> \<not> fs_exists root t0) \<and>
     anchored_at root (jpath C root a) (fc_journal_to_vec C j) t \<and>
     under_way root t0 (rel_of ` set es) (lacking root t0 es) t"

lemma idle_refl: "tree_ok (dk_tree (fx_disk s)) \<Longrightarrow> idle C root a s s"
  by (simp add: idle_def)

lemma create_root_idle:
  assumes "(if there then give () else on_files (fs_create_dir_all root)) s = (r, s')" "tree_ok (dk_tree (fx_disk s))"
  shows "idle C root a s s'"
proof -
  let ?t = "dk_tree (fx_disk s)" and ?m = "if there then give () else on_files (fs_create_dir_all root)"
  have "along (fs_kept tree_ok) ?m" "along (fs_kept (same_outside (\<lambda>q. prefix q root) ?t)) ?m"
    by (intro fs_rules along_calls agree_calls; assumption)+
  from alongD [OF this(1) assms(1)] alongD [OF this(2) assms(1)] assms(2)
  have k: "tree_ok (dk_tree (fx_disk s'))" "fx_journals s' = fx_journals s"
    "same_outside (\<lambda>q. prefix q root) ?t (dk_tree (fx_disk s'))" by (simp_all add: fs_kept_def tree_kept_def)
  have "\<not> prefix (jpath C root a) root" by (auto simp: jpath_def dest: prefix_length_le)
  with k show ?thesis by (auto simp: idle_def same_outside_def reserved_def)
qed

lemma on_files_eq: "on_files m s = (r, s') \<longleftrightarrow> (\<exists>d. m (fx_disk s) = (r, d) \<and> s' = s\<lparr>fx_disk := d\<rparr>)"
  by (auto simp: on_files_def zoom_def split: prod.splits)

lemma write_entries_active:
  assumes "active_restore C root a t0 es j (dk_tree d)" "for_each (write_entry root) es d = (r, d')"
  shows "active_restore C root a t0 es j (dk_tree d')"
proof -
  let ?K = "\<lambda>t. anchored_at root (jpath C root a) (fc_journal_to_vec C j) t \<and>
    under_way root t0 (rel_of ` set es) (lacking root t0 es) t"
  have pl: "planned root t0 es j" using assms(1) by (simp add: active_restore_def)
  have "along (tree_kept ?K) (for_each (write_entry root) es)"
    by (rule tree.along_for_each, rule along_write_entry [OF pl]) simp_all
  from alongD [OF this assms(2)] assms(1) show ?thesis by (simp add: active_restore_def tree_kept_def)
qed

lemma claim_restore_result:
  assumes root: "restore_root P = Inr root" and run: "claim_restore C P a j s = (r, s')"
    and ok: "tree_ok (dk_tree (fx_disk s))" and free: "map_of (fx_journals s) a = None"
  shows "(\<exists>e. r = Inl e \<and> idle C root a s s') \<or>
    (r = Inr () \<and> map_of (fx_journals s') a = Some j \<and> same_outside (reserved root) (dk_tree (fx_disk s)) (dk_tree (fx_disk s')) \<and>
     anchored_at root (jpath C root a) (fc_journal_to_vec C j) (dk_tree (fx_disk s')))"
proof -
  obtain r1 s1 where p: "persist_restore_journal C P a j s = (r1, s1)" by fastforce
  note pr = persist_result [OF root p ok]
  show ?thesis
  proof (cases r1)
    case (Inl e)
    then have "r = Inl e" "s' = s1" using run p free by (auto simp: claim_restore_def and_then_def look_def)
    then show ?thesis using pr(1-3) pr(5) [OF Inl] by (simp add: idle_def)
  next
    case (Inr u)
    then have i: "r1 = Inr ()" by simp
    have r: "r = Inr ()" "s' = s1\<lparr>fx_journals := tab_insert a j (fx_journals s1)\<rparr>"
      using run p free i by (auto simp: claim_restore_def and_then_def look_def change_def)
    have "fs_get (dk_tree (fx_disk s1)) (root @ [RESTORE_JOURNAL_DIR, journal_name (fc_lib C) a]) \<noteq> None"
      using pr(4) [OF i] by (simp add: jpath_def)
    from ancestor_dir [OF pr(1) this] have "fs_is_dir root (dk_tree (fx_disk s1))" by simp
    then show ?thesis using r pr(1,3) pr(4) [OF i] by (simp add: anchored_at_def)
  qed
qed

lemma restore_result:
  assumes root: "restore_root P = Inr root" and run: "fs_restore C P a payload s = (r, s')"
    and ok: "tree_ok (dk_tree (fx_disk s))" and free: "map_of (fx_journals s) a = None"
  shows "idle C root a s s' \<or> (\<exists>es j. fc_entries_from_slice C payload = Some es \<and> map_of (fx_journals s') a = Some j \<and>
    active_restore C root a (dk_tree (fx_disk s)) es j (dk_tree (fx_disk s')))"
proof (cases "fc_entries_from_slice C payload")
  case None
  then have "s' = s" using run by (simp add: fs_restore_def and_then_def lift_def ok_or_def)
  then show ?thesis using idle_refl [OF ok] by simp
next
  case (Some es)
  let ?t = "dk_tree (fx_disk s)" and ?there = "fs_exists root (dk_tree (fx_disk s))"
  obtain rc sc where c: "(if ?there then give () else on_files (fs_create_dir_all root)) s = (rc, sc)" by fastforce
  obtain rp sp where p: "on_files (plan_restore root (\<not> ?there) es) sc = (rp, sp)" by fastforce
  note ic = create_root_idle [OF c ok, of C a]
  then have okc: "tree_ok (dk_tree (fx_disk sc))" and jc: "fx_journals sc = fx_journals s" by (simp_all add: idle_def)
  obtain d where d: "plan_restore root (\<not> ?there) es (fx_disk sc) = (rp, d)" "sp = sc\<lparr>fx_disk := d\<rparr>"
    using p by (auto simp: on_files_eq)
  have "dk_tree d = dk_tree (fx_disk sc)"
    using alongD [OF along_plan [where P = "\<lambda>t. t = dk_tree (fx_disk sc)"] d(1)] by (simp add: tree_kept_def)
  then have tp: "dk_tree (fx_disk sp) = dk_tree (fx_disk sc)" "fx_journals sp = fx_journals s" using d(2) jc by simp_all
  then have ip: "idle C root a s sp" using ic by (simp add: idle_def)
  have steps: "fs_restore C P a payload s = (case rc of Inl e \<Rightarrow> (Inl e, sc) | Inr u \<Rightarrow>
      (case rp of Inl e \<Rightarrow> (Inl e, sp) | Inr j \<Rightarrow>
        and_then (claim_restore C P a j) (\<lambda>_. on_files (for_each (write_entry root) es)) sp))"
  proof -
    have "on_files (ask (fs_exists root)) s = (Inr ?there, s)" by (simp add: on_files_eq)
    then show ?thesis using c p by (simp add: fs_restore_def root Some and_then_def lift_def split: sum.split)
  qed
  show ?thesis
  proof (cases rc)
    case (Inl e)
    then show ?thesis using run steps ic by simp
  next
    case (Inr u)
    note rc = this
    show ?thesis
    proof (cases rp)
      case (Inl e)
      then show ?thesis using run steps rc ip by simp
    next
      case (Inr j)
      obtain rq sq where q: "claim_restore C P a j sp = (rq, sq)" by fastforce
      have okp: "tree_ok (dk_tree (fx_disk sp))" "map_of (fx_journals sp) a = None" using tp okc free by simp_all
      from plan_restore_Inr [OF d(1) [unfolded Inr]]
      have pl: "rj_root_created j = (\<not> ?there)" "planned root (dk_tree (fx_disk sc)) es j" by simp_all
      have pl0: "planned root ?t es j" using planned_agree [OF _ pl(2)] ic by (simp add: idle_def)
      from claim_restore_result [OF root q okp] consider e where "rq = Inl e" "idle C root a sp sq"
        | "rq = Inr ()" "map_of (fx_journals sq) a = Some j" "same_outside (reserved root) (dk_tree (fx_disk sp)) (dk_tree (fx_disk sq))"
          "anchored_at root (jpath C root a) (fc_journal_to_vec C j) (dk_tree (fx_disk sq))" by blast
      then show ?thesis
      proof cases
        case 1
        then have "s' = sq" using run steps rc Inr q by (simp add: and_then_def)
        then show ?thesis using 1 ip by (auto simp: idle_def same_outside_def)
      next
        case 2
        then have "on_files (for_each (write_entry root) es) sq = (r, s')" using run steps rc Inr q by (simp add: and_then_def)
        then obtain d' where w: "for_each (write_entry root) es (fx_disk sq) = (r, d')" "s' = sq\<lparr>fx_disk := d'\<rparr>"
          by (auto simp: on_files_eq)
        have "same_outside (reserved root) ?t (dk_tree (fx_disk sq))" using 2(3) ip by (auto simp: idle_def same_outside_def)
        then have "active_restore C root a ?t es j (dk_tree (fx_disk sq))"
          using pl0 pl(1) 2(4) under_way_same by (simp add: active_restore_def)
        from write_entries_active [OF this w(1)] show ?thesis using w(2) Some 2(2) by auto
      qed
    qed
  qed
qed


lemma load_found:
  assumes "restore_root P = Inr root" "quiet (fx_disk s)"
    "fs_get (dk_tree (fx_disk s)) (jpath C root a) = Some (FileE b)" "fc_journal_from_slice C b = Some j"
  shows "\<exists>d. load_restore_journal C P a s = (Inr (Some j), s\<lparr>fx_disk := d\<rparr>) \<and> quiet d \<and> dk_tree d = dk_tree (fx_disk s)"
proof -
  let ?d = "(fx_disk s)\<lparr>dk_calls := dk_calls (fx_disk s) + 1\<rparr>"
  have path: "journal_path (fc_lib C) P a = Inr (jpath C root a)" using assms(1) by (simp add: journal_path_def jpath_def)
  have "fs_read (jpath C root a) (fx_disk s) = (Inr b, ?d)" using assms by (simp add: fs_read_Inr)
  then have "load_restore_journal C P a s = (Inr (Some j), s\<lparr>fx_disk := ?d\<rparr>)"
    using assms(3,4)
    by (simp add: load_restore_journal_def path and_then_def lift_def on_files_def zoom_def ask_def fs_exists_def ok_or_def give_def)
  then show ?thesis using assms(2) by (intro exI [of _ ?d]) simp
qed

lemma load_missing:
  assumes "restore_root P = Inr root" "\<not> fs_exists (jpath C root a) (dk_tree (fx_disk s))"
  shows "load_restore_journal C P a s = (Inr None, s)"
proof -
  have path: "journal_path (fc_lib C) P a = Inr (jpath C root a)" using assms(1) by (simp add: journal_path_def jpath_def)
  show ?thesis using assms(2)
    by (simp add: load_restore_journal_def path and_then_def lift_def on_files_def zoom_def ask_def give_def)
qed

text \<open>What a cleanup does to the disk once it has found the journal.\<close>

lemma remove_journal_quiet:
  assumes root: "restore_root P = Inr root" and q: "quiet (fx_disk s)"
    and an: "anchored_at root (jpath C root a) b (dk_tree (fx_disk s))"
  shows "\<exists>d. remove_restore_journal C P a s = (Inr (), s\<lparr>fx_disk := d\<rparr>) \<and> quiet d \<and> fs_is_dir root (dk_tree d) \<and>
    same_outside (reserved root) (dk_tree (fx_disk s)) (dk_tree d)"
proof -
  let ?p = "jpath C root a" and ?dir = "root @ [RESTORE_JOURNAL_DIR]" and ?t = "dk_tree (fx_disk s)"
  have path: "journal_path (fc_lib C) P a = Inr ?p" using root by (simp add: journal_path_def jpath_def)
  have is_f: "fs_is_file ?p ?t" and okt: "tree_ok ?t" and dir: "fs_is_dir root ?t"
    using an by (auto simp: anchored_at_def fs_is_file_def)
  obtain d1 where d1: "fs_remove_file ?p (fx_disk s) = (Inr (), d1)" "quiet d1" "dk_tree d1 = fs_drop (\<lambda>q. q = ?p) ?t"
    using remove_file_quiet [OF q is_f] by blast
  have nroot: "\<not> is_root ?dir" by (auto simp: is_root_def RESTORE_JOURNAL_DIR_def append_eq_Cons_conv)
  have "fs_get ?t (?dir @ [journal_name (fc_lib C) a]) \<noteq> None" using is_f by (auto simp: fs_is_file_def jpath_def)
  from ancestor_dir [OF okt this] have "fs_is_dir ?dir ?t" by simp
  then have dd: "fs_is_dir ?dir (dk_tree d1)" by (simp add: d1(3) fs_is_dir_def fs_get_drop jpath_def)
  obtain d2 where d2: "remove_directory_if_empty ?dir d1 = (Inr (), d2)" "quiet d2"
    "dk_tree d2 = (if children ?dir (dk_tree d1) = [] then fs_drop (\<lambda>q. q = ?dir) (dk_tree d1) else dk_tree d1)"
    using remove_empty_quiet [OF d1(2) dd nroot] by blast
  have g: "fs_get (dk_tree d2) q = fs_get ?t q" if "q \<noteq> ?p" "q \<noteq> ?dir" for q
    using that by (simp add: d2(3) d1(3) fs_get_drop)
  have "fs_is_dir root (dk_tree d2)" using dir g [of root] by (simp add: fs_is_dir_def jpath_def)
  moreover have "same_outside (reserved root) ?t (dk_tree d2)"
    unfolding same_outside_def using g jpath_prefix reserved_journal by (metis prefix_order.refl)
  moreover have "remove_restore_journal C P a s = (Inr (), s\<lparr>fx_disk := d2\<rparr>)"
    using is_f d1(1) d2(1)
    by (auto simp: remove_restore_journal_def path and_then_def lift_def on_files_def zoom_def ask_def fs_exists_def fs_is_file_def)
  ultimately show ?thesis using d2(2) by blast
qed

lemma cleanup_found:
  assumes root: "restore_root P = Inr root" and q: "quiet (fx_disk s)" and t0: "tree_ok t0" and ap: "apart es"
    and ac: "active_restore C root a t0 es j (dk_tree (fx_disk s))"
    and memory: "map_of (fx_journals s) a = Some j \<or> map_of (fx_journals s) a = None"
    and codec: "fc_journal_from_slice C (fc_journal_to_vec C j) = Some j"
  shows "\<exists>s'. fs_cleanup_restore C P a s = (Inr (), s') \<and> same_outside (reserved root) t0 (dk_tree (fx_disk s'))"
proof -
  let ?s = "s\<lparr>fx_journals := tab_remove a (fx_journals s)\<rparr>" and ?b = "fc_journal_to_vec C j"
  have pl: "planned root t0 es j" and created: "rj_root_created j \<longrightarrow> \<not> fs_exists root t0"
    and an: "anchored_at root (jpath C root a) ?b (dk_tree (fx_disk ?s))"
    and u: "under_way root t0 (rel_of ` set es) (lacking root t0 es) (dk_tree (fx_disk ?s))"
    using ac by (simp_all add: active_restore_def)
  have qs: "quiet (fx_disk ?s)" using q by simp
  have "fs_get (dk_tree (fx_disk ?s)) (jpath C root a) = Some (FileE ?b)" using an by (simp add: anchored_at_def)
  from load_found [OF root qs this codec]
  obtain d1 where d1: "load_restore_journal C P a ?s = (Inr (Some j), ?s\<lparr>fx_disk := d1\<rparr>)" "quiet d1" "dk_tree d1 = dk_tree (fx_disk ?s)"
    by blast
  have take: "take_journal C P a s = (Inr (Some j), ?s\<lparr>fx_disk := d1\<rparr>)"
    using d1(1) memory by (auto simp: take_journal_def and_then_def look_def change_def give_def)
  have an1: "anchored_at root (jpath C root a) ?b (dk_tree d1)"
    and u1: "under_way root t0 (rel_of ` set es) (lacking root t0 es) (dk_tree d1)" using an u d1(3) by simp_all
  obtain d2 where d2: "for_each (undo_file root) (rev (rj_files j)) d1 = (Inr (), d2)" "quiet d2"
    "anchored_at root (jpath C root a) ?b (dk_tree d2)" "under_way root t0 {} (lacking root t0 es) (dk_tree d2)"
    using undo_files_quiet [OF pl ap t0 d1(2) an1 u1] by blast
  obtain d3 where d3: "for_each (undo_dir root) (deepest_first (rj_created_dirs j)) d2 = (Inr (), d3)" "quiet d3"
    "anchored_at root (jpath C root a) ?b (dk_tree d3)" "under_way root t0 {} {} (dk_tree d3)"
    using undo_dirs_quiet [OF pl t0 d2(2-4)] by blast
  let ?s3 = "?s\<lparr>fx_disk := d3\<rparr>"
  have "quiet (fx_disk ?s3)" "anchored_at root (jpath C root a) ?b (dk_tree (fx_disk ?s3))" using d3 by simp_all
  from remove_journal_quiet [OF root this] obtain d4 where
    d4: "remove_restore_journal C P a ?s3 = (Inr (), ?s3\<lparr>fx_disk := d4\<rparr>)" "quiet d4" "fs_is_dir root (dk_tree d4)"
      "same_outside (reserved root) (dk_tree d3) (dk_tree d4)" by auto
  have a4: "same_outside (reserved root) t0 (dk_tree d4)" using d3(4) d4(4) by (simp add: same_outside_def under_way_def)
  have there: "fs_exists root (dk_tree d4)" using d4(3) by (auto simp: fs_exists_def fs_is_dir_def)
  have last: "\<exists>d5. (if rj_root_created j then on_files (remove_directory_if_empty root) else give ()) (?s\<lparr>fx_disk := d4\<rparr>)
      = (Inr (), ?s\<lparr>fx_disk := d5\<rparr>) \<and> same_outside (reserved root) t0 (dk_tree d5)"
  proof (cases "rj_root_created j")
    case True
    then have "\<not> is_root root" using created by (auto simp: fs_exists_def)
    from remove_empty_quiet [OF d4(2,3) this] obtain d5 where
      d5: "remove_directory_if_empty root d4 = (Inr (), d5)"
      "dk_tree d5 = (if children root (dk_tree d4) = [] then fs_drop (\<lambda>q. q = root) (dk_tree d4) else dk_tree d4)" by blast
    have "same_outside (reserved root) t0 (dk_tree d5)"
      using a4 unfolding d5(2) by (auto simp: reserved_def intro!: same_outside_drop)
    with d5(1) True show ?thesis by (auto simp: on_files_def zoom_def)
  qed (use a4 in auto)
  then obtain d5 where d5: "(if rj_root_created j then on_files (remove_directory_if_empty root) else give ()) (?s\<lparr>fx_disk := d4\<rparr>)
      = (Inr (), ?s\<lparr>fx_disk := d5\<rparr>)" "same_outside (reserved root) t0 (dk_tree d5)" by blast
  have "fs_cleanup_restore C P a s = (Inr (), ?s\<lparr>fx_disk := d5\<rparr>)"
    using take root d2(1) d3(1) d4(1) d5(1) there
    by (simp add: fs_cleanup_restore_def and_then_def lift_def on_files_def zoom_def ask_def)
  then show ?thesis using d5(2) by auto
qed

text \<open>C12: Whatever a file system restore does - it succeeds, is refused, or stops at a fault in the
  middle of any step - a cleanup on a disk without faults succeeds and leaves everything outside
  the path of the restore root and the journal directory as it was before the restore. This also
  holds when the process restarted in between and only the durable journal is left. Where no
  destination is a directory above another, no journal of the attempt existed, and the codec
  reads back the journal it wrote.\<close>

theorem fs_cleanup_undoes:
  assumes "fsp_restore_roots P = root # others" "fs_restore C P a payload s = (r, s1)" "tree_ok (dk_tree (fx_disk s))"
    and "map_of (fx_journals s) a = None" "\<not> fs_exists (jpath C root a) (dk_tree (fx_disk s))"
    and "\<And>es. fc_entries_from_slice C payload = Some es \<Longrightarrow> apart es"
    and "\<And>j. map_of (fx_journals s1) a = Some j \<Longrightarrow> fc_journal_from_slice C (fc_journal_to_vec C j) = Some j"
    and "dk_tree (fx_disk s2) = dk_tree (fx_disk s1)" "quiet (fx_disk s2)"
      "fx_journals s2 = fx_journals s1 \<or> fx_journals s2 = []"
  shows "\<exists>s3. fs_cleanup_restore C P a s2 = (Inr (), s3) \<and>
    (\<forall>q. reserved root q \<or> fs_get (dk_tree (fx_disk s3)) q = fs_get (dk_tree (fx_disk s)) q)"
proof -
  have root: "restore_root P = Inr root" using assms(1) by (simp add: restore_root_def)
  from restore_result [OF root assms(2-4)] show ?thesis
  proof (elim disjE exE conjE)
    assume idle: "idle C root a s s1"
    let ?s = "s2\<lparr>fx_journals := tab_remove a (fx_journals s2)\<rparr>"
    have "\<not> fs_exists (jpath C root a) (dk_tree (fx_disk ?s))" using idle assms(5,8) by (simp add: idle_def fs_exists_def)
    then have "load_restore_journal C P a ?s = (Inr None, ?s)" by (rule load_missing [OF root])
    moreover have "map_of (fx_journals s2) a = None" using idle assms(4,10) by (auto simp: idle_def)
    ultimately have "fs_cleanup_restore C P a s2 = (Inr (), ?s)"
      by (simp add: fs_cleanup_restore_def take_journal_def and_then_def look_def change_def give_def)
    then show ?thesis using idle assms(8) by (auto simp: idle_def same_outside_def)
  next
    fix es j
    assume es: "fc_entries_from_slice C payload = Some es" and j: "map_of (fx_journals s1) a = Some j"
      and ac: "active_restore C root a (dk_tree (fx_disk s)) es j (dk_tree (fx_disk s1))"
    have mem: "map_of (fx_journals s2) a = Some j \<or> map_of (fx_journals s2) a = None" using assms(10) j by auto
    have "active_restore C root a (dk_tree (fx_disk s)) es j (dk_tree (fx_disk s2))" using ac assms(8) by simp
    from cleanup_found [OF root assms(9,3) assms(6) [OF es] this mem assms(7) [OF j]]
    show ?thesis by (auto simp: same_outside_def)
  qed
qed

text \<open>The process restarts after the restore: the journal in memory is gone.\<close>

definition shelf_run :: "(fabric_error + unit) \<times> fs_state" where
  "shelf_run = fs_restore shelf_codec shelf_provider ''x'' [] shelf"

definition shelf_restarted :: fs_state where
  "shelf_restarted = shelf\<lparr>fx_disk := (fx_disk shelf)\<lparr>dk_tree := dk_tree (fx_disk (snd shelf_run))\<rparr>\<rparr>"

theorem fs_cleanup_undoes_witness:
  "fs_get (dk_tree (fx_disk shelf_restarted)) [''r'', ''g''] = Some (FileE [2]) \<and>
   (\<exists>s3. fs_cleanup_restore shelf_codec shelf_provider ''x'' shelf_restarted = (Inr (), s3) \<and>
     (\<forall>q. reserved [''r''] q \<or> fs_get (dk_tree (fx_disk s3)) q = fs_get (dk_tree (fx_disk shelf)) q))"
proof (intro conjI)
  show "fs_get (dk_tree (fx_disk shelf_restarted)) [''r'', ''g''] = Some (FileE [2])" by code_simp
  show "\<exists>s3. fs_cleanup_restore shelf_codec shelf_provider ''x'' shelf_restarted = (Inr (), s3) \<and>
     (\<forall>q. reserved [''r''] q \<or> fs_get (dk_tree (fx_disk s3)) q = fs_get (dk_tree (fx_disk shelf)) q)"
  proof (rule fs_cleanup_undoes [where others = "[]" and r = "fst shelf_run" and ?s1.0 = "snd shelf_run"])
    show "fs_restore shelf_codec shelf_provider ''x'' [] shelf = (fst shelf_run, snd shelf_run)"
      by (simp add: shelf_run_def)
    show "tree_ok (dk_tree (fx_disk shelf))" by code_simp
    show "\<not> fs_exists (jpath shelf_codec [''r''] ''x'') (dk_tree (fx_disk shelf))" by code_simp
    have "apart [(''g'', [2]), (''d/f'', [9])]" by code_simp
    then show "apart es" if "fc_entries_from_slice shelf_codec [] = Some es" for es
      using that by (simp add: shelf_codec_def)
    have "fx_journals (snd shelf_run) = [(''x'', shelf_journal)]" by code_simp
    then show "fc_journal_from_slice shelf_codec (fc_journal_to_vec shelf_codec j) = Some j"
      if "map_of (fx_journals (snd shelf_run)) ''x'' = Some j" for j
      using that by (simp add: shelf_codec_def)
  qed (simp_all add: shelf_provider_def shelf_restarted_def shelf_def quiet_def)
qed

end
