(* ===== verification/Access.thy ===== *)
theory Access
  imports Dispatch Demo
begin

section \<open>Who may ask the coordinator for what\<close>

text \<open>
  The role lists of the policy a request has to satisfy before anything happens: the calls of
  \<open>PolicySet::authorize\<close> at the start of the operations of \<open>coordinator.rs\<close>.
\<close>

fun request_authority :: "request \<Rightarrow> authority option" where
  "request_authority (RqWorkloadCreate spec a node) = Some a"
| "request_authority (RqWorkloadFence i a) = Some a"
| "request_authority (RqCapture i opts a) = Some a"
| "request_authority (RqCheckpointVerify i a) = Some a"
| "request_authority (RqCheckpointProtect i a) = Some a"
| "request_authority (RqCheckpointUnprotect i a) = Some a"
| "request_authority (RqCheckpointRetire i a) = Some a"
| "request_authority (RqRestore i node opts a) = Some a"
| "request_authority (RqRollback i node a) = Some a"
| "request_authority (RqFork i spec a) = Some a"
| "request_authority (RqMigrate i node a) = Some a"
| "request_authority (RqCompatibility i rd a) = Some a"
| "request_authority (RqAudit since limit a) = Some a"
| "request_authority (RqRecovery dry a) = Some a"
| "request_authority rq = None"

fun required_roles :: "authority_policy \<Rightarrow> request \<Rightarrow> string list list" where
  "required_roles ap (RqWorkloadFence i a) = [ap_fence ap]"
| "required_roles ap (RqCapture i opts a) = [ap_capture ap]"
| "required_roles ap (RqCheckpointVerify i a) = [ap_verify ap]"
| "required_roles ap (RqCheckpointRetire i a) = [ap_retire ap]"
| "required_roles ap (RqRestore i node opts a) = ap_restore ap #
     (if ro_rollback opts then [ap_rollback ap] else []) @ (if ro_migration opts then [ap_migrate ap] else [])"
| "required_roles ap (RqRollback i node a) = [ap_rollback ap, ap_restore ap]"
| "required_roles ap (RqFork i spec a) = [ap_fork ap]"
| "required_roles ap (RqMigrate i node a) = [ap_migrate ap]"
| "required_roles ap rq = []"

definition request_roles :: "request \<Rightarrow> string list" where
  "request_roles rq = (case request_authority rq of None \<Rightarrow> [] | Some a \<Rightarrow> au_roles a)"

definition admitted :: "authority_policy \<Rightarrow> request \<Rightarrow> bool" where
  "admitted ap rq \<longleftrightarrow> list_all (\<lambda>req. authorize (request_roles rq) req = Inr ()) (required_roles ap rq)"

lemma respond_refused:
  "respond f (and_then (lift (Inl e)) g) s = (Inr (RsEnvelope (envelope_err (error_to_string e))), s)"
  by (simp add: respond_def and_then_def attempt_def give_def lift_def)

lemma and_then_granted: "and_then (lift (Inr x)) f = f x"
  by (simp add: and_then_def lift_def fun_eq_iff)

lemma authorize_cases: "authorize roles req = Inr () \<or> (\<exists>e. authorize roles req = Inl e)"
  by (cases "authorize roles req") auto

lemma authorize_restore_refused:
  "authorize (oc_roles ctx) (ap_restore (p_authority (cc_policy self))) \<noteq> Inr () \<or>
   (ro_rollback opts \<and> authorize (oc_roles ctx) (ap_rollback (p_authority (cc_policy self))) \<noteq> Inr ()) \<or>
   (ro_migration opts \<and> authorize (oc_roles ctx) (ap_migrate (p_authority (cc_policy self))) \<noteq> Inr ()) \<Longrightarrow>
     \<exists>e. authorize_restore self opts ctx = Inl e"
  using authorize_cases [of "oc_roles ctx" "ap_restore (p_authority (cc_policy self))"]
    authorize_cases [of "oc_roles ctx" "ap_rollback (p_authority (cc_policy self))"]
    authorize_cases [of "oc_roles ctx" "ap_migrate (p_authority (cc_policy self))"]
  by (auto simp: authorize_restore_def Let_def)



end
