(* ===== verification/Cli.thy ===== *)
theory Cli
  imports Access Wire
begin

section \<open>The command line client (cli.rs, cli_impl.rs)\<close>

text \<open>
  The commands as \<open>clap\<close> parses them, the request each one sends with its operation code, and
  what it makes of the answer. Parsing of JSON and identifiers, the serialisation of requests
  and the rendering of results are fields of \<open>cli_env\<close>; the connection is a pair of programs.
  The two start commands build a configuration and then wait for a signal; the waiting is not
  modelled.
\<close>

subsection \<open>Commands\<close>

datatype workload_cmd =
    WorkloadCmdCreate string string string u32 bool "string option"
  | WorkloadCmdInspect string
  | WorkloadCmdList
  | WorkloadCmdFence string
  | WorkloadCmdLineage string

datatype checkpoint_cmd =
    CheckpointCmdInspect string
  | CheckpointCmdList "string option"
  | CheckpointCmdVerify string
  | CheckpointCmdProtect string
  | CheckpointCmdPin string
  | CheckpointCmdUnprotect string
  | CheckpointCmdRetire string
  | CheckpointCmdLineage string

text \<open>The commands that talk to a running coordinator.\<close>

datatype client_cmd =
    CmdCoordinatorStop
  | CmdWorkload workload_cmd
  | CmdCapture string "string option" string string "string option"
  | CmdCaptureStatus string
  | CmdCheckpoint checkpoint_cmd
  | CmdRestore string string bool bool
  | CmdRollback string string
  | CmdFork string string string string bool
  | CmdMigrate string string
  | CmdCompatibility string "string option" "string option" "string option"
  | CmdAudit "u64 option" nat
  | CmdRecovery bool
  | CmdStats
  | CmdNodes

subsection \<open>Requests\<close>

record cli_env =
  cl_hex_decode :: "string \<Rightarrow> bytes option"
  cl_os :: string
  cl_arch :: string
  cl_version :: string
  cl_json :: "string \<Rightarrow> json option"
  cl_to_vec :: "request \<Rightarrow> bytes"
  cl_envelope :: "bytes \<Rightarrow> envelope option"
  cl_value :: "bytes \<Rightarrow> json option"
  cl_workload :: "bytes \<Rightarrow> json option"
  cl_render :: "bool \<Rightarrow> json \<Rightarrow> string option"
  cl_render_envelope :: "envelope \<Rightarrow> string"

definition operator :: "string \<Rightarrow> authority" where
  "operator actor = \<lparr>au_actor = actor, au_roles = [''operator'']\<rparr>"

definition owner :: "string \<Rightarrow> authority" where
  "owner actor = \<lparr>au_actor = actor, au_roles = [''owner'']\<rparr>"

definition local_default :: "cli_env \<Rightarrow> runtime_descriptor" where
  "local_default E = \<lparr>rd_os = cl_os E, rd_arch = cl_arch E,
     rd_runtime_version = ''checkpoint-fabric/'' @ cl_version E, rd_state_schema_version = 1,
     rd_workload_class = ''generic'', rd_backend_class = ''cpu'', rd_accelerator_capabilities = [],
     rd_provider_versions = [], rd_application = None\<rparr>"

text \<open>An error of \<open>anyhow\<close> is its text.\<close>

definition as_text :: "'a fabric_result \<Rightarrow> string + 'a" where
  "as_text r = (case r of Inl e \<Rightarrow> Inl (error_to_string e) | Inr x \<Rightarrow> Inr x)"

definition cli_id :: "cli_env \<Rightarrow> string \<Rightarrow> string + ident" where
  "cli_id E s = as_text (from_hex (cl_hex_decode E) s)"

definition cli_spec :: "cli_env \<Rightarrow> string \<Rightarrow> string \<Rightarrow> string \<Rightarrow> u32 \<Rightarrow> bool \<Rightarrow> workload_spec" where
  "cli_spec E owner_name class_name backend schema single_active = \<lparr>
     ws_workload_id = None, ws_owner = owner_name, ws_class = class_name, ws_backend_class = backend,
     ws_state_schema_version = schema, ws_runtime = local_default E, ws_metadata = JObject [],
     ws_protection = default_protection, ws_single_active = single_active\<rparr>"

text \<open>What the client does with the answer: print it, expect an envelope without error, print the
  workload in it, or only note that there was one.\<close>

datatype reply_use = Emit | ExpectOk string | PrintWorkload | Noted string

definition parse_consistency :: "string option \<Rightarrow> string + consistency_class option" where
  "parse_consistency c = (case c of
       None \<Rightarrow> Inr None
     | Some s \<Rightarrow>
         if s = ''crash'' \<or> s = ''CRASH_CONSISTENT'' then Inr (Some CrashConsistent)
         else if s = ''application'' \<or> s = ''APPLICATION_CONSISTENT'' then Inr (Some ApplicationConsistent)
         else if s = ''execution'' \<or> s = ''EXECUTION_CONSISTENT'' then Inr (Some ExecutionConsistent)
         else Inl (''unknown consistency class '' @ quoted s))"

definition lower_char :: "char \<Rightarrow> char" where
  "lower_char c = (let n = of_char c :: nat in if 65 \<le> n \<and> n \<le> 90 then char_of (n + 32) else c)"

text \<open>\<open>to_lowercase\<close> on the letters that matter for the three modes, which are ASCII.\<close>

definition parse_quiescence :: "string \<Rightarrow> string + quiescence_mode" where
  "parse_quiescence q = (let s = map lower_char q in
     if s = ''cooperative'' then Inr Cooperative
     else if s = ''forced'' then Inr Forced
     else if s = ''none'' then Inr QNone
     else Inl (''unknown quiescence mode '' @ quoted s))"

fun split_commas :: "string \<Rightarrow> string \<Rightarrow> string list" where
  "split_commas acc [] = [rev acc]"
| "split_commas acc (c # cs) =
     (if c = CHR '','' then rev acc # split_commas [] cs else split_commas (c # acc) cs)"

definition parse_components :: "string \<Rightarrow> capture_component_request list" where
  "parse_components s =
     map (\<lambda>cid. \<lparr>cr_component_id = cid, cr_component_type = CustomState, cr_required = True,
            cr_schema_version = 1, cr_restore_handler = ''cli''\<rparr>)
       (filter (\<lambda>x. x \<noteq> []) (map trim (split_commas [] s)))"

definition parse_metadata :: "cli_env \<Rightarrow> string option \<Rightarrow> string + json" where
  "parse_metadata E m = (case m of None \<Rightarrow> Inr (JObject []) | Some t \<Rightarrow> ok_or ''{e}'' (cl_json E t))"

definition workload_request :: "cli_env \<Rightarrow> workload_cmd \<Rightarrow> string + op_code \<times> request \<times> reply_use" where
  "workload_request E cmd = (case cmd of
       WorkloadCmdCreate o' c b schema single node \<Rightarrow>
         Inr (OpWorkloadCreate, RqWorkloadCreate (cli_spec E o' c b schema single) (owner ''cli'') node, PrintWorkload)
     | WorkloadCmdInspect i \<Rightarrow> bind_r (cli_id E i) (\<lambda>w. Inr (OpWorkloadInspect, RqWorkloadInspect w, Emit))
     | WorkloadCmdList \<Rightarrow> Inr (OpWorkloadList, RqWorkloadList, Emit)
     | WorkloadCmdFence i \<Rightarrow> bind_r (cli_id E i) (\<lambda>w.
         Inr (OpWorkloadFence, RqWorkloadFence w (operator ''cli''), Emit))
     | WorkloadCmdLineage i \<Rightarrow> bind_r (cli_id E i) (\<lambda>w. Inr (OpWorkloadLineage, RqWorkloadLineage w, Emit)))"

definition checkpoint_request :: "cli_env \<Rightarrow> checkpoint_cmd \<Rightarrow> string + op_code \<times> request \<times> reply_use" where
  "checkpoint_request E cmd = (case cmd of
       CheckpointCmdInspect i \<Rightarrow> bind_r (cli_id E i) (\<lambda>c. Inr (OpCheckpointInspect, RqCheckpointInspect c, Emit))
     | CheckpointCmdList w \<Rightarrow>
         bind_r (case w of None \<Rightarrow> Inr None | Some s \<Rightarrow> bind_r (cli_id E s) (\<lambda>i. Inr (Some i))) (\<lambda>w.
         Inr (OpCheckpointList, RqCheckpointList w, Emit))
     | CheckpointCmdVerify i \<Rightarrow> bind_r (cli_id E i) (\<lambda>c.
         Inr (OpCheckpointVerify, RqCheckpointVerify c (operator ''cli''), Emit))
     | CheckpointCmdProtect i \<Rightarrow> bind_r (cli_id E i) (\<lambda>c.
         Inr (OpCheckpointProtect, RqCheckpointProtect c (operator ''cli''), ExpectOk ''protected''))
     | CheckpointCmdPin i \<Rightarrow> bind_r (cli_id E i) (\<lambda>c.
         Inr (OpCheckpointProtect, RqCheckpointProtect c (operator ''cli''), ExpectOk ''pinned''))
     | CheckpointCmdUnprotect i \<Rightarrow> bind_r (cli_id E i) (\<lambda>c.
         Inr (OpCheckpointUnprotect, RqCheckpointUnprotect c (operator ''cli''), ExpectOk ''unprotected''))
     | CheckpointCmdRetire i \<Rightarrow> bind_r (cli_id E i) (\<lambda>c.
         Inr (OpCheckpointRetire, RqCheckpointRetire c (operator ''cli''), ExpectOk ''retired''))
     | CheckpointCmdLineage i \<Rightarrow> bind_r (cli_id E i) (\<lambda>c. Inr (OpCheckpointLineage, RqCheckpointLineage c, Emit)))"

definition capture_request :: "cli_env \<Rightarrow> string \<Rightarrow> string option \<Rightarrow> string \<Rightarrow> string \<Rightarrow> string option
    \<Rightarrow> string + op_code \<times> request \<times> reply_use" where
  "capture_request E workload_id consistency quiescence components metadata =
     bind_r (parse_consistency consistency) (\<lambda>c.
     bind_r (parse_quiescence quiescence) (\<lambda>q.
     bind_r (parse_metadata E metadata) (\<lambda>m.
     bind_r (cli_id E workload_id) (\<lambda>w.
     Inr (OpCapture, RqCapture w (default_capture_options\<lparr>co_consistency := c, co_quiescence := q,
            co_components := parse_components components, co_metadata := m\<rparr>) (owner ''cli''), Emit)))))"

definition cli_target :: "cli_env \<Rightarrow> string option \<Rightarrow> string option \<Rightarrow> string option \<Rightarrow> runtime_descriptor" where
  "cli_target E os arch backend = (let d = local_default E in
     d\<lparr>rd_os := (case os of None \<Rightarrow> rd_os d | Some x \<Rightarrow> x),
       rd_arch := (case arch of None \<Rightarrow> rd_arch d | Some x \<Rightarrow> x),
       rd_backend_class := (case backend of None \<Rightarrow> rd_backend_class d | Some x \<Rightarrow> x)\<rparr>)"

definition cli_request :: "cli_env \<Rightarrow> client_cmd \<Rightarrow> string + op_code \<times> request \<times> reply_use" where
  "cli_request E cmd = (case cmd of
       CmdCoordinatorStop \<Rightarrow> Inr (OpCoordinatorShutdown, RqShutdown, Noted ''shutdown requested'')
     | CmdWorkload c \<Rightarrow> workload_request E c
     | CmdCapture w c q cs m \<Rightarrow> capture_request E w c q cs m
     | CmdCaptureStatus a \<Rightarrow> Inr (OpCaptureStatus, RqCaptureStatus a, Emit)
     | CmdCheckpoint c \<Rightarrow> checkpoint_request E c
     | CmdRestore i node no_resume force \<Rightarrow> bind_r (cli_id E i) (\<lambda>c.
         Inr (OpRestore, RqRestore c node
           (default_restore_options\<lparr>ro_resume := \<not> no_resume, ro_migration := force\<rparr>) (operator ''cli''), Emit))
     | CmdRollback i node \<Rightarrow> bind_r (cli_id E i) (\<lambda>c. Inr (OpRollback, RqRollback c node (operator ''cli''), Emit))
     | CmdFork i o' c b single \<Rightarrow> bind_r (cli_id E i) (\<lambda>k.
         Inr (OpFork, RqFork k (cli_spec E o' c b 1 single) (owner ''cli''), PrintWorkload))
     | CmdMigrate i node \<Rightarrow> bind_r (cli_id E i) (\<lambda>c. Inr (OpMigrate, RqMigrate c node (operator ''cli''), Emit))
     | CmdCompatibility i os arch backend \<Rightarrow> bind_r (cli_id E i) (\<lambda>c.
         Inr (OpCompatibility, RqCompatibility c (cli_target E os arch backend) (operator ''cli''), Emit))
     | CmdAudit since limit \<Rightarrow> Inr (OpAudit, RqAudit since limit (operator ''cli''), Emit)
     | CmdRecovery dry_run \<Rightarrow> Inr (OpRecovery, RqRecovery dry_run (operator ''cli''), Emit)
     | CmdStats \<Rightarrow> Inr (OpStats, RqStats, Emit)
     | CmdNodes \<Rightarrow> Inr (OpNodeList, RqNodeList, Emit))"

subsection \<open>Running a command\<close>

text \<open>The process ends with what it printed, with status 1 after a message, or with an error.\<close>

datatype cli_result = CliOk string | CliExit string | CliErr string

record 'k client =
  kc_connect :: "('k, unit) prog"
  kc_call :: "op_code \<Rightarrow> bytes \<Rightarrow> ('k, bytes) prog"

definition env_message :: "envelope \<Rightarrow> string" where
  "env_message e = (case env_error e of None \<Rightarrow> ''unknown error'' | Some m \<Rightarrow> m)"

definition print_value :: "cli_env \<Rightarrow> bool \<Rightarrow> json \<Rightarrow> string" where
  "print_value E pretty v = (case cl_render E pretty v of None \<Rightarrow> [] | Some s \<Rightarrow> s)"

definition refusal :: "cli_env \<Rightarrow> bytes \<Rightarrow> envelope option" where
  "refusal E payload = (case cl_envelope E payload of
     None \<Rightarrow> None | Some e \<Rightarrow> if env_status e = 0 then None else Some e)"

definition emit :: "cli_env \<Rightarrow> bool \<Rightarrow> bytes \<Rightarrow> cli_result" where
  "emit E pretty payload = (case refusal E payload of
       Some e \<Rightarrow> CliExit (if pretty then cl_render_envelope E e else ''error: '' @ env_message e)
     | None \<Rightarrow> (case cl_value E payload of
           None \<Rightarrow> CliErr ''{e}''
         | Some v \<Rightarrow> CliOk (print_value E pretty v)))"

definition reply_ok :: "cli_env \<Rightarrow> string \<Rightarrow> bytes \<Rightarrow> cli_result" where
  "reply_ok E msg payload = (case refusal E payload of
       Some e \<Rightarrow> CliErr (env_message e)
     | None \<Rightarrow> CliOk msg)"

definition use_reply :: "cli_env \<Rightarrow> bool \<Rightarrow> reply_use \<Rightarrow> bytes \<Rightarrow> cli_result" where
  "use_reply E pretty use payload = (case use of
       Emit \<Rightarrow> emit E pretty payload
     | ExpectOk msg \<Rightarrow> reply_ok E msg payload
     | PrintWorkload \<Rightarrow> (case cl_workload E payload of
           None \<Rightarrow> CliErr (error_to_string (ProtocolError ''bad response payload: {e}''))
         | Some v \<Rightarrow> CliOk (print_value E pretty v))
     | Noted msg \<Rightarrow> CliOk msg)"

definition run_command :: "cli_env \<Rightarrow> 'k client \<Rightarrow> bool \<Rightarrow> client_cmd \<Rightarrow> 'k \<Rightarrow> cli_result \<times> 'k" where
  "run_command E K pretty cmd k =
     (case kc_connect K k of
        (Inl e, k1) \<Rightarrow> (CliErr (error_to_string e), k1)
      | (Inr _, k1) \<Rightarrow>
          (case cli_request E cmd of
             Inl msg \<Rightarrow> (CliErr msg, k1)
           | Inr (op, rq, use) \<Rightarrow>
               (case kc_call K op (cl_to_vec E rq) k1 of
                  (Inl e, k2) \<Rightarrow> (CliErr (error_to_string e), k2)
                | (Inr payload, k2) \<Rightarrow> (use_reply E pretty use payload, k2))))"


subsection \<open>The two start commands\<close>

definition DEFAULT_STALE_MS :: u64 where
  "DEFAULT_STALE_MS = 6000"

record coordinator_config =
  kf_data_dir :: string
  kf_listen :: "string option"
  kf_epoch :: "u64 option"
  kf_stale_ms :: u64
  kf_policy :: "policy_set option"
  kf_failpoints :: "string option"

record node_start_config =
  nf_name :: string
  nf_coordinator_addr :: string
  nf_listen_addr :: string
  nf_data_dir :: string
  nf_heartbeat_ms :: u64
  nf_max_connections :: nat
  nf_staging_ttl_ms :: u64
  nf_runtime :: runtime_descriptor
  nf_hardware :: hardware_descriptor
  nf_resources :: json
  nf_failpoints :: "string option"

text \<open>The machine a start command runs on: its files, its address syntax, its environment.\<close>

record start_env =
  st_read_file :: "string \<Rightarrow> string option"
  st_parse_policy :: "string \<Rightarrow> policy_set option"
  st_parse_addr :: "string \<Rightarrow> string option"
  st_failpoints :: "string option"

definition coordinator_config_default_in :: "string \<Rightarrow> coordinator_config" where
  "coordinator_config_default_in dir = \<lparr>kf_data_dir = dir, kf_listen = None, kf_epoch = None,
     kf_stale_ms = DEFAULT_STALE_MS, kf_policy = None, kf_failpoints = None\<rparr>"

definition node_config_default_in :: "cli_env \<Rightarrow> string \<Rightarrow> string \<Rightarrow> string \<Rightarrow> node_start_config" where
  "node_config_default_in E name coordinator_addr dir = \<lparr>nf_name = name, nf_coordinator_addr = coordinator_addr,
     nf_listen_addr = ''127.0.0.1:0'', nf_data_dir = dir, nf_heartbeat_ms = 1000, nf_max_connections = 16,
     nf_staging_ttl_ms = 3600000, nf_runtime = local_default E, nf_hardware = default_hardware,
     nf_resources = JObject [], nf_failpoints = None\<rparr>"

definition start_policy :: "start_env \<Rightarrow> string option \<Rightarrow> string + policy_set option" where
  "start_policy S policy_file = (case policy_file of
       None \<Rightarrow> Inr None
     | Some path \<Rightarrow> bind_r (ok_or ''{e}'' (st_read_file S path)) (\<lambda>text.
         bind_r (as_text (policy_from_json (st_parse_policy S) text)) (\<lambda>p. Inr (Some p))))"

definition coordinator_start_config ::
  "start_env \<Rightarrow> string \<Rightarrow> string \<Rightarrow> u64 option \<Rightarrow> string option \<Rightarrow> u64 option \<Rightarrow> string + coordinator_config" where
  "coordinator_start_config S data_dir listen epoch policy_file stale_ms =
     bind_r (start_policy S policy_file) (\<lambda>policy.
     bind_r (ok_or ''{e}'' (st_parse_addr S listen)) (\<lambda>addr.
     Inr \<lparr>kf_data_dir = data_dir, kf_listen = Some addr, kf_epoch = epoch,
          kf_stale_ms = (case stale_ms of None \<Rightarrow> DEFAULT_STALE_MS | Some m \<Rightarrow> m),
          kf_policy = policy, kf_failpoints = st_failpoints S\<rparr>))"

definition open_configured :: "coordinator_config \<Rightarrow> ('w, coordinator) op" where
  "open_configured cfg = open_coordinator (kf_epoch cfg) (kf_policy cfg) (kf_failpoints cfg) (kf_stale_ms cfg)"

definition node_start_config_of ::
  "start_env \<Rightarrow> cli_env \<Rightarrow> string \<Rightarrow> string \<Rightarrow> string \<Rightarrow> string \<Rightarrow> u64 option \<Rightarrow> string + node_start_config" where
  "node_start_config_of S E name data_dir coordinator_addr listen heartbeat_ms =
     bind_r (ok_or ''{e}'' (st_parse_addr S coordinator_addr)) (\<lambda>coordinator_addr.
     bind_r (ok_or ''{e}'' (st_parse_addr S listen)) (\<lambda>listen.
     Inr \<lparr>nf_name = name, nf_coordinator_addr = coordinator_addr, nf_listen_addr = listen,
          nf_data_dir = data_dir, nf_heartbeat_ms = (case heartbeat_ms of None \<Rightarrow> 1000 | Some m \<Rightarrow> m),
          nf_max_connections = 16, nf_staging_ttl_ms = 3600000, nf_runtime = local_default E,
          nf_hardware = default_hardware, nf_resources = JObject [], nf_failpoints = st_failpoints S\<rparr>))"

subsection \<open>What the client sends is what the coordinator serves\<close>

text \<open>The operation code under which \<open>dispatch\<close> decodes a request.\<close>

fun served_as :: "request \<Rightarrow> op_code option" where
  "served_as RqShutdown = Some OpCoordinatorShutdown"
| "served_as (RqWorkloadCreate s a n) = Some OpWorkloadCreate"
| "served_as (RqWorkloadInspect i) = Some OpWorkloadInspect"
| "served_as RqWorkloadList = Some OpWorkloadList"
| "served_as (RqWorkloadFence i a) = Some OpWorkloadFence"
| "served_as (RqWorkloadLineage i) = Some OpWorkloadLineage"
| "served_as (RqCapture i opts a) = Some OpCapture"
| "served_as (RqCaptureStatus i) = Some OpCaptureStatus"
| "served_as (RqCheckpointInspect i) = Some OpCheckpointInspect"
| "served_as (RqCheckpointList w) = Some OpCheckpointList"
| "served_as (RqCheckpointVerify i a) = Some OpCheckpointVerify"
| "served_as (RqCheckpointProtect i a) = Some OpCheckpointProtect"
| "served_as (RqCheckpointUnprotect i a) = Some OpCheckpointUnprotect"
| "served_as (RqCheckpointRetire i a) = Some OpCheckpointRetire"
| "served_as (RqCheckpointLineage i) = Some OpCheckpointLineage"
| "served_as (RqRestore i n opts a) = Some OpRestore"
| "served_as (RqRollback i n a) = Some OpRollback"
| "served_as (RqFork i s a) = Some OpFork"
| "served_as (RqMigrate i n a) = Some OpMigrate"
| "served_as (RqCompatibility i rd a) = Some OpCompatibility"
| "served_as (RqAudit since limit a) = Some OpAudit"
| "served_as (RqRecovery dry a) = Some OpRecovery"
| "served_as RqStats = Some OpStats"
| "served_as RqNodeList = Some OpNodeList"
| "served_as rq = None"

lemma operator_admitted: "authorize [''operator''] req = Inr ()"
  by (simp add: authorize_def)

text \<open>What the default policy lets an owner do is enough for capture and fork.\<close>

definition owners_capture :: "authority_policy \<Rightarrow> bool" where
  "owners_capture ap \<longleftrightarrow> list_all (\<lambda>req. req = [] \<or> ''owner'' \<in> set req) [ap_capture ap, ap_fork ap]"

lemma owner_admitted: "req = [] \<or> ''owner'' \<in> set req \<Longrightarrow> authorize [''owner''] req = Inr ()"
  by (auto simp: authorize_Inr)

lemmas cli_parts = workload_request_def checkpoint_request_def capture_request_def

text \<open>C39: Under any policy that lets owners capture and fork - the default policy does - every
  command the client sends passes all role checks of its operation, and it is sent under the
  operation code the coordinator decodes that request from.\<close>

theorem cli_commands_admitted:
  assumes "cli_request E cmd = Inr (op, rq, use)" "owners_capture ap"
  shows "admitted ap rq \<and> served_as rq = Some op"
proof -
  have "request_roles rq = [''operator''] \<or> required_roles ap rq = [] \<or>
      (request_roles rq = [''owner''] \<and> required_roles ap rq \<in> {[ap_capture ap], [ap_fork ap]})"
    using assms(1)
    by (cases cmd) (auto simp: cli_request_def cli_parts request_roles_def operator_def owner_def
        split: workload_cmd.splits checkpoint_cmd.splits)
  moreover have "served_as rq = Some op"
    using assms(1)
    by (cases cmd) (auto simp: cli_request_def cli_parts split: workload_cmd.splits checkpoint_cmd.splits)
  ultimately show ?thesis
    using assms(2) operator_admitted owner_admitted by (auto simp: admitted_def owners_capture_def list_all_iff)
qed

definition plain_cli :: cli_env where
  "plain_cli = \<lparr>cl_hex_decode = (\<lambda>s. Some (replicate 16 0)), cl_os = ''linux'', cl_arch = ''x86_64'',
     cl_version = ''1'', cl_json = (\<lambda>s. None), cl_to_vec = (\<lambda>rq. [1]), cl_envelope = (\<lambda>b. None),
     cl_value = (\<lambda>b. None), cl_workload = (\<lambda>b. None), cl_render = (\<lambda>p v. None), cl_render_envelope = (\<lambda>e. [])\<rparr>"

theorem cli_commands_admitted_witness:
  "case cli_request plain_cli (CmdCapture (replicate 32 (CHR ''0'')) (Some ''crash'') ''Forced'' ''a, b'' None) of
     Inr (op, rq, use) \<Rightarrow> admitted default_authority_policy rq \<and> served_as rq = Some op \<and> op = OpCapture
   | Inl e \<Rightarrow> False"
proof -
  let ?cmd = "CmdCapture (replicate 32 (CHR ''0'')) (Some ''crash'') ''Forced'' ''a, b'' None"
  have q: "parse_quiescence ''Forced'' = Inr Forced" by code_simp
  have "\<exists>rq use. cli_request plain_cli ?cmd = Inr (OpCapture, rq, use)"
    by (simp add: cli_request_def capture_request_def parse_consistency_def q parse_metadata_def cli_id_def as_text_def from_hex_def ID_BYTES_def plain_cli_def Let_def)
  then obtain rq use where run: "cli_request plain_cli ?cmd = Inr (OpCapture, rq, use)" by blast
  have "owners_capture default_authority_policy" by (simp add: owners_capture_def default_authority_policy_def)
  from cli_commands_admitted [OF run this] run show ?thesis by simp
qed

text \<open>A pin is sent as a protection.\<close>

lemma pin_is_protect:
  "cli_request E (CmdCheckpoint (CheckpointCmdPin i)) = Inr (op, rq, u) \<Longrightarrow>
     \<exists>u'. cli_request E (CmdCheckpoint (CheckpointCmdProtect i)) = Inr (op, rq, u')"
  by (auto simp: cli_request_def checkpoint_request_def)

text \<open>A command reports success only for an answer that is no error envelope.\<close>

lemma reported_success:
  assumes "run_command E K pretty cmd k = (CliOk out, k')" "cmd \<noteq> CmdCoordinatorStop"
    "\<And>b e. cl_envelope E b = Some e \<Longrightarrow> cl_workload E b = None"
  shows "\<exists>op payload b k1. kc_call K op payload k1 = (Inr b, k') \<and> refusal E b = None"
proof -
  obtain u k1 op rq use b where steps: "kc_connect K k = (Inr u, k1)" "cli_request E cmd = Inr (op, rq, use)"
    "kc_call K op (cl_to_vec E rq) k1 = (Inr b, k')" "use_reply E pretty use b = CliOk out"
    using assms(1) by (auto simp: run_command_def split: prod.splits sum.splits)
  have "\<forall>msg. use \<noteq> Noted msg"
    using steps(2) assms(2)
    by (cases cmd) (auto simp: cli_request_def cli_parts split: workload_cmd.splits checkpoint_cmd.splits)
  then have "refusal E b = None"
    using steps(4) assms(3)
    by (cases use) (auto simp: use_reply_def emit_def reply_ok_def refusal_def split: option.splits if_splits)
  with steps(3) show ?thesis by blast
qed

end
