(* ===== verification/Streams.thy ===== *)
theory Streams
  imports Payload
begin

section \<open>Streaming compression (compression.rs)\<close>

text \<open>
  The streaming codecs over what the reads of a reader return, in any split, and a sink that
  takes pieces. The buffers around the two change neither the bytes nor their order and are not
  modelled. The zstd encoder and decoder are third-party code: \<open>zstd_stream\<close> holds their calls.
\<close>

type_synonym reads = "(fabric_error + bytes) list"

record 'k sink =
  sk_write :: "bytes \<Rightarrow> ('k, unit) prog"
  sk_flush :: "('k, unit) prog"

record 'z zstd_stream =
  zs_new :: "int \<Rightarrow> 'z option"
  zs_push :: "'z \<Rightarrow> bytes \<Rightarrow> (bytes \<times> 'z) option"
  zs_finish :: "'z \<Rightarrow> bytes option"
  zs_decode :: "reads \<Rightarrow> reads option"

record compression_stats =
  cst_original_size :: u64
  cst_stored_size :: u64

text \<open>The loop over the reads: an empty read is the end. \<open>each\<close> is what is done with a piece.\<close>

fun read_each :: "('b \<Rightarrow> bytes \<Rightarrow> ('k, 'b) prog) \<Rightarrow> 'b \<Rightarrow> reads \<Rightarrow> ('k, 'b) prog" where
  "read_each each acc [] = give acc"
| "read_each each acc (Inl e # rs) = raise e"
| "read_each each acc (Inr b # rs) =
     (if b = [] then give acc else and_then (each acc b) (\<lambda>acc'. read_each each acc' rs))"

text \<open>\<open>CountingWriter\<close>: the counter saturates.\<close>

definition count_write :: "'k sink \<Rightarrow> u64 \<Rightarrow> bytes \<Rightarrow> ('k, u64) prog" where
  "count_write K n b = and_then (sk_write K b) (\<lambda>_. give (sat_add n (of_nat (length b))))"

definition plain_piece :: "'k sink \<Rightarrow> u64 \<times> u64 \<Rightarrow> bytes \<Rightarrow> ('k, u64 \<times> u64) prog" where
  "plain_piece K acc b =
     and_then (count_write K (snd acc) b) (\<lambda>m. give (fst acc + of_nat (length b), m))"

definition zstd_piece ::
  "'z zstd_stream \<Rightarrow> 'k sink \<Rightarrow> u64 \<times> u64 \<times> 'z \<Rightarrow> bytes \<Rightarrow> ('k, u64 \<times> u64 \<times> 'z) prog" where
  "zstd_piece Z K acc b =
     (case acc of (n, m, z) \<Rightarrow>
     and_then (lift (ok_or (Io ''{e}'') (zs_push Z z b))) (\<lambda>(out, z').
     and_then (count_write K m out) (\<lambda>m'. give (n + of_nat (length b), m', z'))))"

definition compress_stream ::
  "'z zstd_stream \<Rightarrow> 'k sink \<Rightarrow> compression_spec \<Rightarrow> reads \<Rightarrow> ('k, compression_stats) prog" where
  "compress_stream Z K spec rs =
     and_then (case cs_codec spec of
         CodecNone \<Rightarrow> read_each (plain_piece K) (0, 0) rs
       | CodecZstd \<Rightarrow>
           and_then (lift (ok_or (Internal ''zstd encoder: {e}'') (zs_new Z (cs_level spec)))) (\<lambda>z.
           and_then (read_each (zstd_piece Z K) (0, 0, z) rs) (\<lambda>(n, m, z').
           and_then (lift (ok_or (Internal ''zstd finish: {e}'') (zs_finish Z z'))) (\<lambda>out.
           and_then (count_write K m out) (\<lambda>m'. give (n, m'))))))
     (\<lambda>(original, stored).
     and_then (sk_flush K) (\<lambda>_.
     give \<lparr>cst_original_size = original, cst_stored_size = stored\<rparr>))"

definition bounded_piece :: "'k sink \<Rightarrow> u64 \<Rightarrow> u64 \<Rightarrow> bytes \<Rightarrow> ('k, u64) prog" where
  "bounded_piece K max_output n b =
     (let out = n + of_nat (length b) in
      if out > max_output
      then raise (IntegrityFailure ''decompressed payload exceeds bounded output size'')
      else and_then (sk_write K b) (\<lambda>_. give out))"

definition decompress_stream ::
  "'z zstd_stream \<Rightarrow> 'k sink \<Rightarrow> compression_spec \<Rightarrow> reads \<Rightarrow> u64 \<Rightarrow> ('k, u64) prog" where
  "decompress_stream Z K spec rs max_output =
     and_then (case cs_codec spec of
         CodecNone \<Rightarrow> read_each (bounded_piece K max_output) 0 rs
       | CodecZstd \<Rightarrow>
           and_then (lift (ok_or (Internal ''zstd decoder: {e}'') (zs_decode Z rs))) (\<lambda>ds.
           read_each (bounded_piece K max_output) 0 ds))
     (\<lambda>out. and_then (sk_flush K) (\<lambda>_. give out))"

subsection \<open>Writing to a vector\<close>

definition vec_sink :: "bytes sink" where
  "vec_sink = \<lparr>sk_write = (\<lambda>b. change (\<lambda>k. k @ b)), sk_flush = give ()\<rparr>"

text \<open>The reads of a payload: it comes in some non-empty pieces, in order.\<close>

definition pieces_of :: "bytes \<Rightarrow> bytes list \<Rightarrow> bool" where
  "pieces_of payload cs \<longleftrightarrow> concat cs = payload \<and> list_all (\<lambda>c. c \<noteq> []) cs"

text \<open>What the crate documents of its streams: pushing the pieces and finishing yields a stream
  that decodes, however it is read, to pieces of the payload.\<close>

fun push_all :: "'z zstd_stream \<Rightarrow> 'z \<Rightarrow> bytes list \<Rightarrow> (bytes \<times> 'z) option" where
  "push_all Z z [] = Some ([], z)"
| "push_all Z z (c # cs) = (case zs_push Z z c of None \<Rightarrow> None | Some (out, z') \<Rightarrow>
     (case push_all Z z' cs of None \<Rightarrow> None | Some (rest, z'') \<Rightarrow> Some (out @ rest, z'')))"

definition zstd_encodes :: "'z zstd_stream \<Rightarrow> int \<Rightarrow> bytes list \<Rightarrow> bytes \<Rightarrow> bool" where
  "zstd_encodes Z level cs stored \<longleftrightarrow>
     (case zs_new Z level of None \<Rightarrow> False | Some z \<Rightarrow>
     (case push_all Z z cs of None \<Rightarrow> False | Some (out, z') \<Rightarrow>
     (case zs_finish Z z' of None \<Rightarrow> False | Some fin \<Rightarrow> stored = out @ fin)))"

definition zstd_decodes :: "'z zstd_stream \<Rightarrow> bytes list \<Rightarrow> bytes list \<Rightarrow> bool" where
  "zstd_decodes Z ds es \<longleftrightarrow> zs_decode Z (map Inr ds) = Some (map Inr es)"

lemma count_vec: "count_write vec_sink n b k = (Inr (sat_add n (of_nat (length b))), k @ b)"
  by (simp add: count_write_def vec_sink_def and_then_def change_def give_def)

lemma unat_len: "n < 2 ^ 64 \<Longrightarrow> unat (of_nat n :: u64) = n"
  by (simp add: unat_of_nat)

lemma plain_piece_vec:
  "plain_piece vec_sink (n, m) b k = (Inr (n + of_nat (length b), sat_add m (of_nat (length b))), k @ b)"
  by (simp add: plain_piece_def and_then_def count_vec give_def)

lemma zstd_piece_vec:
  "zs_push Z z b = Some (out, z') \<Longrightarrow> zstd_piece Z vec_sink (n, m, z) b k =
     (Inr (n + of_nat (length b), sat_add m (of_nat (length out)), z'), k @ out)"
  by (simp add: zstd_piece_def and_then_def count_vec give_def lift_def ok_or_def)

lemma flush_vec: "sk_flush vec_sink k = (Inr (), k)"
  by (simp add: vec_sink_def give_def)

lemma sat_add_lengths:
  assumes "a + b < (2::nat) ^ 64"
  shows "sat_add (of_nat a) (of_nat b :: u64) = of_nat (a + b)"
proof -
  have "unat (of_nat a :: u64) = a" "unat (of_nat b :: u64) = b" using assms by (auto intro: unat_len)
  then show ?thesis using assms by (simp only: sat_add_def if_True) simp
qed

lemma read_plain:
  "list_all (\<lambda>c. c \<noteq> []) cs \<Longrightarrow> length k + length (concat cs) < 2 ^ 64 \<Longrightarrow>
     read_each (plain_piece vec_sink) (of_nat (length k), of_nat (length k)) (map Inr cs) k =
       (Inr (of_nat (length (k @ concat cs)), of_nat (length (k @ concat cs))), k @ concat cs)"
proof (induction cs arbitrary: k)
  case (Cons c cs)
  then have n: "length k + length c < 2 ^ 64" by simp
  have "read_each (plain_piece vec_sink) (of_nat (length (k @ c)), of_nat (length (k @ c))) (map Inr cs) (k @ c) =
      (Inr (of_nat (length ((k @ c) @ concat cs)), of_nat (length ((k @ c) @ concat cs))), (k @ c) @ concat cs)"
    by (rule Cons.IH) (use Cons.prems in simp_all)
  then show ?case using Cons.prems(1) sat_add_lengths [OF n] by (simp add: and_then_def plain_piece_vec)
qed (simp add: give_def)

lemma read_zstd:
  "list_all (\<lambda>c. c \<noteq> []) cs \<Longrightarrow> push_all Z z cs = Some (out, z') \<Longrightarrow> length k + length out < 2 ^ 64 \<Longrightarrow>
     read_each (zstd_piece Z vec_sink) (n, of_nat (length k), z) (map Inr cs) k =
       (Inr (n + of_nat (length (concat cs)), of_nat (length (k @ out)), z'), k @ out)"
proof (induction cs arbitrary: k n z out)
  case (Cons c cs)
  then obtain o1 z1 o2 where p: "zs_push Z z c = Some (o1, z1)" "push_all Z z1 cs = Some (o2, z')" "out = o1 @ o2"
    by (auto split: option.splits)
  then have l: "length k + length o1 < 2 ^ 64" using Cons.prems(3) by simp
  have "read_each (zstd_piece Z vec_sink) (n + of_nat (length c), of_nat (length (k @ o1)), z1) (map Inr cs) (k @ o1) =
      (Inr ((n + of_nat (length c)) + of_nat (length (concat cs)), of_nat (length ((k @ o1) @ o2)), z'), (k @ o1) @ o2)"
    by (rule Cons.IH) (use Cons.prems p in simp_all)
  then show ?case using Cons.prems(1) p sat_add_lengths [OF l]
    by (simp add: and_then_def zstd_piece_vec add_ac)
qed (simp add: give_def)

lemma compress_stream_vec:
  assumes "pieces_of payload cs" "length payload < 2 ^ 64" "length stored < 2 ^ 64"
    and "case cs_codec spec of CodecNone \<Rightarrow> stored = payload | CodecZstd \<Rightarrow> zstd_encodes Z (cs_level spec) cs stored"
  shows "compress_stream Z vec_sink spec (map Inr cs) [] =
    (Inr \<lparr>cst_original_size = of_nat (length payload), cst_stored_size = of_nat (length stored)\<rparr>, stored)"
proof (cases "cs_codec spec")
  case CodecNone
  then show ?thesis using read_plain [of cs "[]"] assms
    by (simp add: compress_stream_def pieces_of_def and_then_def flush_vec give_def)
next
  case CodecZstd
  then obtain z out z' fin where z: "zs_new Z (cs_level spec) = Some z" "push_all Z z cs = Some (out, z')"
    "zs_finish Z z' = Some fin" "stored = out @ fin"
    using assms(4) by (auto simp: zstd_encodes_def split: option.splits)
  then have l: "length out + length fin < 2 ^ 64" using assms(3) by simp
  show ?thesis using CodecZstd z read_zstd [of cs Z z out z' "[]" 0] assms sat_add_lengths [OF l]
    by (simp add: compress_stream_def pieces_of_def and_then_def lift_def ok_or_def count_vec flush_vec give_def)
qed

lemma read_bounded:
  "list_all (\<lambda>c. c \<noteq> []) cs \<Longrightarrow> length k + length (concat cs) < 2 ^ 64 \<Longrightarrow>
     (if length k + length (concat cs) \<le> unat m \<or> cs = []
      then read_each (bounded_piece vec_sink m) (of_nat (length k)) (map Inr cs) k =
        (Inr (of_nat (length (k @ concat cs))), k @ concat cs)
      else fst (read_each (bounded_piece vec_sink m) (of_nat (length k)) (map Inr cs) k) =
        Inl (IntegrityFailure ''decompressed payload exceeds bounded output size''))"
proof (induction cs arbitrary: k)
  case (Cons c cs)
  have u: "unat (of_nat (length k) + of_nat (length c) :: u64) = length k + length c"
  proof -
    have "unat (of_nat (length k + length c) :: u64) = length k + length c"
      using Cons.prems(2) by (intro unat_len) simp
    then show ?thesis by simp
  qed
  have IH: "if length (k @ c) + length (concat cs) \<le> unat m \<or> cs = []
      then read_each (bounded_piece vec_sink m) (of_nat (length (k @ c))) (map Inr cs) (k @ c) =
        (Inr (of_nat (length ((k @ c) @ concat cs))), (k @ c) @ concat cs)
      else fst (read_each (bounded_piece vec_sink m) (of_nat (length (k @ c))) (map Inr cs) (k @ c)) =
        Inl (IntegrityFailure ''decompressed payload exceeds bounded output size'')"
    by (rule Cons.IH) (use Cons.prems in simp_all)
  have c: "c \<noteq> []" using Cons.prems(1) by simp
  show ?case
  proof (cases "length k + length c \<le> unat m")
    case True
    then have w: "\<not> of_nat (length k) + of_nat (length c) > m" by (simp add: word_less_nat_alt u)
    have run: "read_each (bounded_piece vec_sink m) (of_nat (length k)) (map Inr (c # cs)) k =
        read_each (bounded_piece vec_sink m) (of_nat (length (k @ c))) (map Inr cs) (k @ c)"
      using c w by (simp add: bounded_piece_def and_then_def vec_sink_def change_def give_def Let_def)
    have e: "length (k @ c) + length (concat cs) = length k + length (concat (c # cs))"
      "(k @ c) @ concat cs = k @ concat (c # cs)" by simp_all
    have b: "length k + length (concat (c # cs)) \<le> unat m \<or> cs = [] \<longleftrightarrow>
        length k + length (concat (c # cs)) \<le> unat m \<or> c # cs = []"
      using True by auto
    show ?thesis unfolding run using IH unfolding e b .
  next
    case False
    then have w: "of_nat (length k) + of_nat (length c) > m" by (simp add: word_less_nat_alt u)
    then show ?thesis using c False
      by (simp add: bounded_piece_def and_then_def raise_def Let_def)
  qed
qed (simp add: give_def)

lemma decompress_stream_vec:
  assumes "pieces_of payload es" "length payload < 2 ^ 64"
    and "case cs_codec spec of CodecNone \<Rightarrow> ds = es | CodecZstd \<Rightarrow> zstd_decodes Z ds es"
  shows "if length payload \<le> unat m
    then decompress_stream Z vec_sink spec (map Inr ds) m [] = (Inr (of_nat (length payload)), payload)
    else fst (decompress_stream Z vec_sink spec (map Inr ds) m []) =
      Inl (IntegrityFailure ''decompressed payload exceeds bounded output size'')"
proof -
  let ?loop = "read_each (bounded_piece vec_sink m) 0 (map Inr es)"
  have eq: "decompress_stream Z vec_sink spec (map Inr ds) m =
      and_then ?loop (\<lambda>out. and_then (sk_flush vec_sink) (\<lambda>_. give out))"
    using assms(3) by (cases "cs_codec spec")
      (simp_all add: decompress_stream_def zstd_decodes_def and_then_def lift_def ok_or_def fun_eq_iff)
  have loop: "if length payload \<le> unat m \<or> es = [] then ?loop [] = (Inr (of_nat (length payload)), payload)
      else fst (?loop []) = Inl (IntegrityFailure ''decompressed payload exceeds bounded output size'')"
    using read_bounded [of es "[]" m] assms(1,2) by (auto simp: pieces_of_def split: if_splits)
  show ?thesis
  proof (cases "length payload \<le> unat m")
    case True
    with loop have "?loop [] = (Inr (of_nat (length payload)), payload)" by simp
    with True show ?thesis by (simp add: eq flush_vec and_then_def give_def)
  next
    case False
    then have "es \<noteq> []" using assms(1) by (auto simp: pieces_of_def)
    with False loop have "fst (?loop []) = Inl (IntegrityFailure ''decompressed payload exceeds bounded output size'')" by simp
    with False show ?thesis by (cases "?loop []") (simp add: eq and_then_def)
  qed
qed

text \<open>C24: Compressing a payload that arrives in any non-empty pieces counts both sizes right, and
  decompressing what was stored, again read in any pieces, gives the payload back if it fits the
  bound and the integrity error if it does not - for the identity codec outright, for zstd given
  that the crate decodes what it encoded.\<close>

theorem stream_codec_roundtrip:
  assumes "pieces_of payload cs" "length payload < 2 ^ 64" "length stored < 2 ^ 64"
    and "case cs_codec spec of CodecNone \<Rightarrow> stored = payload | CodecZstd \<Rightarrow> zstd_encodes Z (cs_level spec) cs stored"
    and "concat ds = stored"
    and "pieces_of payload es"
    and "case cs_codec spec of CodecNone \<Rightarrow> ds = es | CodecZstd \<Rightarrow> zstd_decodes Z ds es"
  shows "compress_stream Z vec_sink spec (map Inr cs) [] =
      (Inr \<lparr>cst_original_size = of_nat (length payload), cst_stored_size = of_nat (length stored)\<rparr>, concat ds) \<and>
    (if length payload \<le> unat m
     then decompress_stream Z vec_sink spec (map Inr ds) m [] = (Inr (of_nat (length payload)), payload)
     else fst (decompress_stream Z vec_sink spec (map Inr ds) m []) =
       Inl (IntegrityFailure ''decompressed payload exceeds bounded output size''))"
  using compress_stream_vec [OF assms(1-4)] decompress_stream_vec [OF assms(6,2,7)] assms(5) by simp

text \<open>A codec that adds a header byte and a trailer byte, and the decoder that strips them.\<close>

definition framed_stream :: "bool zstd_stream" where
  "framed_stream = \<lparr>zs_new = (\<lambda>level. Some False),
     zs_push = (\<lambda>begun b. Some (if begun then b else 40 # b, True)),
     zs_finish = (\<lambda>begun. Some [41]),
     zs_decode = (\<lambda>rs. if rs = map Inr [[40, 1], [2, 3, 41]] then Some (map Inr [[1], [2, 3]]) else None)\<rparr>"

theorem stream_codec_roundtrip_witness:
  "compress_stream framed_stream vec_sink \<lparr>cs_codec = CodecZstd, cs_level = 3, cs_format_version = ''1''\<rparr>
      (map Inr [[1, 2], [3]]) [] = (Inr \<lparr>cst_original_size = 3, cst_stored_size = 5\<rparr>, [40, 1, 2, 3, 41]) \<and>
   decompress_stream framed_stream vec_sink \<lparr>cs_codec = CodecZstd, cs_level = 3, cs_format_version = ''1''\<rparr>
      (map Inr [[40, 1], [2, 3, 41]]) 3 [] = (Inr 3, [1, 2, 3]) \<and>
   fst (decompress_stream framed_stream vec_sink \<lparr>cs_codec = CodecZstd, cs_level = 3, cs_format_version = ''1''\<rparr>
      (map Inr [[40, 1], [2, 3, 41]]) 2 []) =
        Inl (IntegrityFailure ''decompressed payload exceeds bounded output size'')"
proof -
  let ?spec = "\<lparr>cs_codec = CodecZstd, cs_level = 3, cs_format_version = ''1''\<rparr>"
  note run = stream_codec_roundtrip [where Z = framed_stream and spec = ?spec and payload = "[1, 2, 3]"
      and cs = "[[1, 2], [3]]" and stored = "[40, 1, 2, 3, 41]" and ds = "[[40, 1], [2, 3, 41]]" and es = "[[1], [2, 3]]"]
  from run [where m = 3] run [where m = 2] show ?thesis
    by (simp add: pieces_of_def zstd_encodes_def zstd_decodes_def framed_stream_def)
qed

end
