(* ===== verification/Views.thy ===== *)
theory Views
  imports CoordinatorAdmin NodeReplica
begin

section \<open>Names, views and housekeeping\<close>

text \<open>
  The textual names of the enums (\<open>checkpoint.rs\<close>, \<open>compatibility.rs\<close>), the descriptors for
  other systems (\<open>integrations.rs\<close>), the reads the coordinator passes through, the clean-up of
  a node's staging directories at start (\<open>recovery.rs\<close>), and the bounded shutdown of a server
  (\<open>transport.rs\<close>).
\<close>

subsection \<open>Names\<close>

fun checkpoint_type_as_str :: "checkpoint_type \<Rightarrow> string" where
  "checkpoint_type_as_str Full = ''FULL''"
| "checkpoint_type_as_str Incremental = ''INCREMENTAL''"
| "checkpoint_type_as_str Delta = ''DELTA''"
| "checkpoint_type_as_str Application = ''APPLICATION''"
| "checkpoint_type_as_str Process = ''PROCESS''"
| "checkpoint_type_as_str ExecutionFrontier = ''EXECUTION_FRONTIER''"
| "checkpoint_type_as_str Portable = ''PORTABLE''"
| "checkpoint_type_as_str LocalOnly = ''LOCAL_ONLY''"

fun consistency_as_str :: "consistency_class \<Rightarrow> string" where
  "consistency_as_str CrashConsistent = ''CRASH_CONSISTENT''"
| "consistency_as_str ApplicationConsistent = ''APPLICATION_CONSISTENT''"
| "consistency_as_str ExecutionConsistent = ''EXECUTION_CONSISTENT''"

fun resumability_as_str :: "resumability_class \<Rightarrow> string" where
  "resumability_as_str Exact = ''EXACT''"
| "resumability_as_str Equivalent = ''EQUIVALENT''"
| "resumability_as_str Degraded = ''DEGRADED''"
| "resumability_as_str RestartFromCheckpoint = ''RESTART_FROM_CHECKPOINT''"
| "resumability_as_str NonResumable = ''NON_RESUMABLE''"

fun integrity_as_str :: "integrity_state \<Rightarrow> string" where
  "integrity_as_str IPending = ''pending''"
| "integrity_as_str IValid = ''valid''"
| "integrity_as_str ICorrupt = ''corrupt''"
| "integrity_as_str IUnverifiable = ''unverifiable''"

fun component_type_as_str :: "component_type \<Rightarrow> string" where
  "component_type_as_str ProcessMetadata = ''PROCESS_METADATA''"
| "component_type_as_str ApplicationState = ''APPLICATION_STATE''"
| "component_type_as_str MemoryRegion = ''MEMORY_REGION''"
| "component_type_as_str AcceleratorState = ''ACCELERATOR_STATE''"
| "component_type_as_str RuntimeState = ''RUNTIME_STATE''"
| "component_type_as_str QueueState = ''QUEUE_STATE''"
| "component_type_as_str SchedulerState = ''SCHEDULER_STATE''"
| "component_type_as_str RngState = ''RNG_STATE''"
| "component_type_as_str FilesystemState = ''FILESYSTEM_STATE''"
| "component_type_as_str OpenResourceDescriptor = ''OPEN_RESOURCE_DESCRIPTOR''"
| "component_type_as_str ToolState = ''TOOL_STATE''"
| "component_type_as_str ModelState = ''MODEL_STATE''"
| "component_type_as_str KvState = ''KV_STATE''"
| "component_type_as_str CustomState = ''CUSTOM_STATE''"

fun verdict_as_str :: "compat_verdict \<Rightarrow> string" where
  "verdict_as_str Compatible = ''COMPATIBLE''"
| "verdict_as_str CompatibleWithTranslation = ''COMPATIBLE_WITH_TRANSLATION''"
| "verdict_as_str CompatibleDegraded = ''COMPATIBLE_DEGRADED''"
| "verdict_as_str Incompatible = ''INCOMPATIBLE''"

text \<open>No two values share a name.\<close>

lemma names_inj:
  "inj checkpoint_type_as_str" "inj consistency_as_str" "inj resumability_as_str" "inj integrity_as_str"
  "inj component_type_as_str" "inj verdict_as_str"
proof -
  show "inj checkpoint_type_as_str" by (rule injI) (case_tac x; case_tac y; simp)
  show "inj consistency_as_str" by (rule injI) (case_tac x; case_tac y; simp)
  show "inj resumability_as_str" by (rule injI) (case_tac x; case_tac y; simp)
  show "inj integrity_as_str" by (rule injI) (case_tac x; case_tac y; simp)
  show "inj component_type_as_str" by (rule injI) (case_tac x; case_tac y; simp)
  show "inj verdict_as_str" by (rule injI) (case_tac x; case_tac y; simp)
qed

subsection \<open>Views for other systems (integrations.rs)\<close>

definition reclaim_view_of :: "checkpoint_object \<Rightarrow> u32 \<Rightarrow> reclaim_view" where
  "reclaim_view_of c min_generations_retained = \<lparr>
     rv_checkpoint_id = ck_checkpoint_id c,
     rv_workload_id = ck_workload_id c,
     rv_checkpoint_generation = ck_checkpoint_generation c,
     rv_lifecycle = lifecycle_as_str (ck_lifecycle c),
     rv_value = sat_add (ck_restore_count c) (u32_to_u64 (ck_replica_count c)),
     rv_protection = ck_protection c,
     rv_reconstructibility =
       (if is_restorable (ck_lifecycle c) then ''restorable'' else ''not_restorable''),
     rv_lineage_parents = ck_lineage_parents c,
     rv_superseded_by = ck_superseded_by c,
     rv_min_generations = min_generations_retained,
     rv_retirement_eligibility = ck_retirement_eligibility c,
     rv_total_physical_bytes = ck_total_physical_bytes c,
     rv_replicas = ck_replica_count c\<rparr>"

text \<open>The view of the coordinator differs from it in the eligibility only, and in that its value
  may wrap where this one saturates.\<close>

lemma candidate_view_reclaim:
  assumes "unat (ck_restore_count c) + unat (ck_replica_count c) < 2 ^ 64"
  shows "candidate_view policy w n i c =
    (reclaim_view_of c (p_min_generations_retained policy))
      \<lparr>rv_retirement_eligibility := candidate_eligibility policy w n i c\<rparr>"
proof -
  show ?thesis using assms by (simp add: candidate_view_def reclaim_view_of_def sat_add_def unat_u32_to_u64)
qed

record compute_placement =
  cpl_checkpoint_id :: ident
  cpl_cpu_arch :: string
  cpl_accelerator :: "string option"
  cpl_memory_bytes :: u64
  cpl_runtime_requirement :: string
  cpl_state_locality :: "string list"
  cpl_estimated_restore_bytes :: u64
  cpl_network_cost_estimate :: u64

definition compute_placement_of :: "checkpoint_object \<Rightarrow> compute_placement" where
  "compute_placement_of c = \<lparr>
     cpl_checkpoint_id = ck_checkpoint_id c,
     cpl_cpu_arch = hd_arch (ck_hardware_descriptor c),
     cpl_accelerator = map_option (\<lambda>a. ar_vendor a @ '':'' @ ar_capability a) (hd_accelerator (ck_hardware_descriptor c)),
     cpl_memory_bytes = ck_total_logical_bytes c,
     cpl_runtime_requirement = rd_runtime_version (ck_runtime_descriptor c),
     cpl_state_locality = map dl_node (ck_durable_locations c),
     cpl_estimated_restore_bytes = ck_total_physical_bytes c,
     cpl_network_cost_estimate = sat_mul (ck_total_physical_bytes c) 2\<rparr>"

text \<open>The estimated cost is never below what is transferred.\<close>

lemma placement_cost: "cpl_estimated_restore_bytes (compute_placement_of c) \<le> cpl_network_cost_estimate (compute_placement_of c)"
proof -
  let ?b = "ck_total_physical_bytes c"
  have "?b \<le> sat_mul ?b 2"
  proof (cases "unat ?b * 2 < 2 ^ 64")
    case True
    then have "unat (?b * 2) = unat ?b * 2" by (simp add: unat_word_ariths)
    then show ?thesis using True by (simp add: sat_mul_def word_le_nat_alt)
  next
    case False
    have "unat ?b < 2 ^ 64" using unsigned_less [of ?b, where ?'a = nat] by simp
    then have "unat ?b \<le> unat u64_max" by simp
    then show ?thesis using False by (simp add: sat_mul_def word_le_nat_alt)
  qed
  then show ?thesis by (simp add: compute_placement_of_def)
qed

record flash_tier_residency =
  ftr_logical_id :: string
  ftr_tier :: string
  ftr_hot :: bool

definition is_portable_residency :: "flash_tier_residency \<Rightarrow> bool" where
  "is_portable_residency r \<longleftrightarrow> CHR ''/'' \<notin> set (ftr_logical_id r) \<and> CHR 0x5C \<notin> set (ftr_logical_id r) \<and>
     ftr_logical_id r \<noteq> [] \<and> ftr_tier r \<noteq> []"

subsection \<open>Reads\<close>

text \<open>The stored policy of a version, parsed as it is read.\<close>

definition policy_load :: "u32 \<Rightarrow> policy_set option query" where
  "policy_load version s =
     (case filter (\<lambda>r. p_version (pr_policy r) = version) (st_policies s) of
        [] \<Rightarrow> Inr None
      | r # _ \<Rightarrow>
          if p_version (pr_policy r) = 0 then Inl (InvalidArgument ''policy version must be >= 1'')
          else Inr (Some (pr_policy r)))"

definition inspect_workload :: "ident \<Rightarrow> ('w, workload option) op" where
  "inspect_workload i = dbq (workload_get i)"

definition list_workloads :: "('w, workload list) op" where
  "list_workloads = dbq workload_list"

definition attached_workloads :: "'p node \<Rightarrow> ident list" where
  "attached_workloads s = map fst (nd_attached s)"

definition provider_specs :: "'p node \<Rightarrow> ident \<Rightarrow> provider_spec list" where
  "provider_specs s i = registry_list (nd_providers s) i"

definition decode_error :: "(bytes \<Rightarrow> envelope option) \<Rightarrow> bytes \<Rightarrow> string option" where
  "decode_error from_slice payload = (case from_slice payload of None \<Rightarrow> None | Some e \<Rightarrow> env_error e)"

subsection \<open>Staging directories left behind (recovery.rs)\<close>

definition reconcile_node_storage :: "path \<Rightarrow> string list \<Rightarrow> (disk, path list) prog" where
  "reconcile_node_storage root active_attempts = recover_partial root (map (staging_dir root) active_attempts)"

definition recovery_error :: "string \<Rightarrow> fabric_error" where
  "recovery_error msg = Internal (''recovery: '' @ msg)"

lemma remove_all_spares:
  "remove_all old ps d = (r, d') \<Longrightarrow> (\<And>p. p \<in> set ps \<Longrightarrow> old p \<Longrightarrow> \<not> prefix p q) \<Longrightarrow>
     fs_get (dk_tree d') q = fs_get (dk_tree d) q"
proof (induction ps arbitrary: d r d')
  case (Cons p ps)
  show ?case
  proof (cases "fs_is_dir p (dk_tree d) \<and> old p")
    case False
    then have "remove_all old ps d = (r, d')" using Cons.prems(1) by (auto simp: and_then_def ask_def)
    from Cons.IH [OF this] Cons.prems(2) show ?thesis by simp
  next
    case True
    obtain r1 d1 where one: "fs_remove_dir_all p d = (r1, d1)" by fastforce
    have np: "\<not> prefix p q" using Cons.prems(2) [of p] True by simp
    have keep: "fs_get (dk_tree d1) q = fs_get (dk_tree d) q"
      using one np unfolding fs_remove_dir_all_def sys_call_def
      by (auto simp: Let_def fs_get_drop split: option.splits if_splits dest!: in_set_takeD)
    show ?thesis
    proof (cases r1)
      case (Inl e)
      then show ?thesis using Cons.prems(1) True one keep by (simp add: and_then_def ask_def)
    next
      case (Inr u)
      obtain r2 d2 where two: "remove_all old ps d1 = (r2, d2)" by fastforce
      have "d' = d2" using Cons.prems(1) True one two Inr by (auto simp: and_then_def ask_def give_def split: sum.splits)
      with Cons.IH [OF two] Cons.prems(2) keep show ?thesis by simp
    qed
  qed
qed simp

lemma child_shape: "c \<in> set (children d t) \<Longrightarrow> \<exists>x. c = d @ [x]"
  unfolding children_def parent_of_def by (cases c rule: rev_cases) auto

text \<open>The files of an attempt that is still active survive, whatever fails.\<close>

lemma reconcile_spares_active:
  assumes "reconcile_node_storage root active d = (r, d')" "a \<in> set active" "prefix (staging_dir root a) q"
  shows "fs_get (dk_tree d') q = fs_get (dk_tree d) q"
proof -
  obtain x d1 where rd: "fs_read_dir (staging_root root) d = (x, d1)" by fastforce
  have t1: "dk_tree d1 = dk_tree d"
    using rd unfolding fs_read_dir_def sys_call_def by (auto simp: Let_def split: option.splits if_splits)
  show ?thesis
  proof (cases x)
    case (Inl e)
    then show ?thesis using assms(1) rd t1
      by (simp add: reconcile_node_storage_def recover_partial_def recover_partial_older_than_def and_then_def attempt_def give_def)
  next
    case (Inr ps)
    then have ps: "ps = children (staging_root root) (dk_tree d)"
      using rd unfolding fs_read_dir_def sys_call_def by (auto simp: Let_def split: option.splits if_splits)
    have run: "remove_all (\<lambda>p. p \<notin> set (map (staging_dir root) active) \<and> True) ps d1 = (r, d')"
      using assms(1) rd Inr
      by (simp add: reconcile_node_storage_def recover_partial_def recover_partial_older_than_def and_then_def attempt_def)
    have "\<not> prefix p q" if p: "p \<in> set ps" "p \<notin> set (map (staging_dir root) active) \<and> True" for p
    proof
      assume "prefix p q"
      moreover obtain x where "p = staging_root root @ [x]" using p(1) child_shape unfolding ps by blast
      ultimately have "p = staging_dir root a" using assms(3) by (auto simp: prefix_def staging_dir_def)
      then show False using p(2) assms(2) by auto
    qed
    from remove_all_spares [OF run this] t1 show ?thesis by simp
  qed
qed

subsection \<open>Shutdown of a server (transport.rs)\<close>

text \<open>Each worker is waited for until it is done or the deadline is reached; \<open>needs\<close> are the times
  the workers still run for, from when they are waited for.\<close>

fun join_workers :: "nat \<Rightarrow> nat \<Rightarrow> nat list \<Rightarrow> nat" where
  "join_workers deadline now [] = now"
| "join_workers deadline now (n # ns) = join_workers deadline (now + min n (deadline - now)) ns"

definition server_shutdown :: "nat \<Rightarrow> nat \<Rightarrow> nat list \<Rightarrow> nat" where
  "server_shutdown budget now needs = join_workers (now + budget) now needs"

lemma join_workers_bound: "now \<le> deadline \<Longrightarrow> join_workers deadline now ns \<le> deadline"
  by (induction ns arbitrary: now) auto

lemma server_shutdown_bounded: "server_shutdown budget now needs \<le> now + budget"
  by (simp add: server_shutdown_def join_workers_bound)

end
