(* ===== verification/Spec2Isabelle.thy ===== *)
theory Spec2Isabelle
  imports Prelude Errors Ids Lifecycle Domain Policy Compatibility Capture Restore Lineage Manifest
    Store StoreCheckpoints StoreTables StoreInv StoreKeeps StoreProps StoreAuthority
    Failpoints CoordSteps Programs Protocol Sys Recovery Coordinator CoordinatorRestore CoordinatorAdmin Dispatch Demo System Migration
    Wire Transport Files Payload Providers Node NodeReplica StoredFiles NodeProps Confine NodeSafety NodeRestore NodeLimits NodeCapture NodeDemo Cluster EndToEnd ClusterDemo FsProvider FsCapture FsRestore Access Cli Streams Views
begin

text \<open>
  \<^bold>\<open>Checkpoint Fabric\<close>, a runtime that captures the execution state of workloads as sealed
  checkpoints and restores, migrates, forks and retires them. The program is one Rust crate
  (\<open>src/src\<close>) with three kinds of processes: a \<^emph>\<open>coordinator\<close> that owns all authority and keeps it in
  a database, \<^emph>\<open>nodes\<close> that hold the providers of the workloads and the stored components, and a
  command line that sends requests to the coordinator. They talk in frames over TCP.

  \<^bold>\<open>Parts, and the theories that model them.\<close> Names of definitions and fields are those of the
  source; a field carries a prefix for its struct (\<open>ck_lifecycle\<close> is \<open>CheckpointObject::lifecycle\<close>).

  \<^item> \<^emph>\<open>Values and decisions\<close>, pure functions in the source and here: \<open>Errors\<close> (errors.rs), \<open>Ids\<close> (id.rs),
    \<open>Lifecycle\<close> (lifecycle.rs), \<open>Domain\<close> (checkpoint.rs, workload.rs, frontier.rs, audit.rs,
    sideeffect.rs), \<open>Policy\<close> (policy.rs), \<open>Compatibility\<close> (compatibility.rs), \<open>Capture\<close> (capture.rs),
    \<open>Restore\<close> (restore.rs, migration.rs), \<open>Lineage\<close> (lineage.rs), \<open>Manifest\<close> (manifest.rs and the pure part
    of integrity.rs).
  \<^item> \<^emph>\<open>The durable store\<close> (persistence.rs): \<open>Store\<close> (records of tables, workloads, nodes, epochs),
    \<open>StoreCheckpoints\<close> (checkpoint rows and the two commits), \<open>StoreTables\<close> (reservations, attempts,
    journal, lineage, audit). A transaction is a function from the tables to a result and the new
    tables. \<open>StoreInv\<close> states the invariant \<open>store_ok\<close> and the values a row can hold, \<open>StoreKeeps\<close>
    proves that every transaction keeps it, \<open>StoreProps\<close> makes the transactions the steps of a
    transition system, \<open>StoreAuthority\<close> shows what they promise of epochs, fences and claims.
  \<^item> \<^emph>\<open>The coordinator\<close> (coordinator.rs, recovery.rs, failpoints.rs): \<open>Programs\<close> has the control flow
    (\<open>?\<close>, match on a result, ignored results), \<open>Sys\<close> the state and the environment, \<open>Recovery\<close> the
    reconciliation after a crash, \<open>Coordinator\<close> capture, \<open>CoordinatorRestore\<close> restore, rollback,
    fork and migration, \<open>CoordinatorAdmin\<close> the other operations, \<open>Dispatch\<close> the requests. \<open>CoordSteps\<close> is
    the abstract specification: the transactions with the guards the coordinator establishes.
  \<^item> \<^emph>\<open>The wire\<close> (protocol.rs, transport.rs): \<open>Protocol\<close> (payload structs), \<open>Wire\<close> (frames, operation codes),
    \<open>Transport\<close> (reading frames from a stream, the client call, serving, the bound on connections).
  \<^item> \<^emph>\<open>The node\<close> (node.rs, storage.rs, integrity.rs, compression.rs): \<open>Files\<close> (the file system calls with
    faults), \<open>Payload\<close> (staging, promotion, writing and checking component files), \<open>Providers\<close> (the
    provider trait and the in-memory providers), \<open>Node\<close> (capture, promote, resume, restore, cleanup),
    \<open>NodeReplica\<close> (replication, the fetch service, dispatch, heartbeats, start-up), \<open>StoredFiles\<close> and
    \<open>NodeProps\<close> (what a verified replica is), \<open>Confine\<close> (relations a run keeps), \<open>NodeSafety\<close>,
    \<open>NodeRestore\<close>, \<open>NodeLimits\<close>, \<open>NodeCapture\<close> (its guarantees), \<open>NodeDemo\<close> (their witnesses), \<open>Streams\<close> (the streaming codecs).
  \<^item> \<^emph>\<open>The file system provider\<close> (providers.rs): \<open>FsProvider\<close> (capture, restore, journal, cleanup),
    \<open>FsCapture\<close> and \<open>FsRestore\<close> (their guarantees).
  \<^item> \<^emph>\<open>Coordinator and nodes together\<close>: \<open>Cluster\<close> is a network made of node states, where a request or an
    answer may be lost (\<open>call_node\<close> of coordinator.rs over \<open>RpcClient::call\<close> of transport.rs and the
    \<open>dispatch\<close> of node.rs); \<open>EndToEnd\<close> follows a capture through it; \<open>ClusterDemo\<close> runs one.
  \<^item> \<^emph>\<open>The command line\<close> (cli.rs, cli_impl.rs): \<open>Cli\<close>. \<open>Access\<close> has the roles each request needs.
    \<open>Views\<close> has the textual names, the descriptors of integrations.rs and small accessors of the
    other parts.

  \<^bold>\<open>How the parts meet.\<close> \<open>dispatch\<close> runs a request on \<open>'w sys\<close>: the store, the armed failpoints, the state \<open>'w\<close> of
  the outside, and counters into the environment. A call to a node goes through
  \<open>'w network\<close>, which may answer anything and do anything to \<open>'w\<close>; the theorems about the
  coordinator hold for every network. The theories of the node prove, from the other side, what a
  real node does with those requests, for every disk, every fault and every peer. The payload structs of
  \<open>Protocol\<close> are shared by both, and \<open>cluster_network\<close> instantiates the network with nodes: a call
  is one exchange, the error of a handler comes back as an envelope that does not parse as the
  expected type, and what a node fetches from its peers is an oracle of the cluster. A program returns its result \<^emph>\<open>and\<close> the state it leaves, also when
  it fails, so no error path is lost; faults of the database, of the disk and of the nodes are
  oracles of the environment, and a fault at every access from some point on is a crash there.

  \<^bold>\<open>What the lemmas show.\<close>
  \<^item> The system (\<open>System\<close>, over \<open>StoreProps\<close> and \<open>CoordSteps\<close>): whatever requests, timer ticks, restarts
    and faults come in whatever order, the coordinator only makes the steps of its specification,
    and every state it reaches satisfies \<open>store_ok\<close>: reservations exclusive, epochs monotone, one
    active node for a single-active workload, committed checkpoints located and sealed.
  \<^item> The composition (\<open>EndToEnd\<close>): a capture the coordinator reports is on the disk of the node it
    names, under the digest of its row, with every required component, and reads back as what
    the providers returned.
  \<^item> A migration ends after at most two calls (\<open>Migration\<close>), so every request is answered.
  \<^item> The commits: the exact effect of a capture and of a restore commit on every table, their
    idempotence, and the fencing of claims.
  \<^item> The decisions: compatibility, consistency and resumability are never overclaimed; policy selection,
    lineage walks and the lifecycle are characterised by iff statements.
  \<^item> The wire: frames round-trip, decoding is sound and bounded, a stream is reassembled the same
    whatever the split of its reads, a call gets the answer of its handler.
  \<^item> The node: a replica that was replicated verifies, a payload that was captured and
    promoted reads back as its provider returned it, nothing is applied before the stored set is
    checked, cleanup stays in its directories, a request without authority changes nothing, a
    node that loses the coordinator stops, every request keeps the node well-formed.
  \<^item> The file system provider: a capture is complete, a cleanup undoes a restore however far it got.

  \<^bold>\<open>Locales.\<close> \<open>class_cap\<close>/\<open>faithful_cap\<close> (a verdict never raises a class; interpreted on
  \<open>resumability_for\<close> and on both modes of \<open>restored_resumability\<close>), \<open>step_contract\<close> (what an operation of the
  coordinator may do to the store; interpreted on the specification \<open>coord_steps\<close> and on the
  trivial one for postconditions), \<open>run_relation\<close> (a reflexive, transitive relation that the
  primitive calls keep; interpreted on the relations of the node, of the provider, and of the cluster:
  what leaves every node alone, and what leaves the files of one node alone).

  \<^bold>\<open>Bounds and fuel.\<close> The recursion of \<open>migrate\<close> has fuel 2: the checkpoint a capture
  returns is available, so the second call does not recur, and no request is answered
  \<open>RsUnfinished\<close> (\<open>Migration\<close>). Loops over a socket are bounded by what the stream will still return, since a
  stream with nothing left times out, and the fetch loop by the answers of its peer.
  \<open>validate_incremental_chain\<close> has the depth limit of the policy; \<open>ancestor_path\<close> has none, is a
  partial function, and is total when the lookup has finitely many answers. The walk of the file
  system provider ends because what is left to visit gets smaller. Integers have their width (\<open>u64\<close>, \<open>u32\<close>), with saturation and wrap-around as in the source.

  \<^bold>\<open>Parameters.\<close> Third-party crates are parameters: \<open>sha2\<close>, \<open>crc\<close>, \<open>hex\<close>, \<open>serde_json\<close> (\<open>lib\<close>,
  \<open>codecs\<close>, \<open>fs_codec\<close>), \<open>zstd\<close> (\<open>zstd_stream\<close>); the hypotheses on them are named and say that a
  decoder undoes its encoder (\<open>serde_faithful\<close>, \<open>zstd_lossless\<close>) and that hexadecimal text is made of hexadecimal
  digits (\<open>hex_lib\<close>). Providers are records of programs over an arbitrary state.

  \<^bold>\<open>Not modelled.\<close> The SQLite engine (a transaction is atomic, as WAL mode gives it), the JSON text of
  its columns and the opening of its file; sockets, TCP options and threads, hence the
  interleaving of two requests within a coordinator or a node, and of other requests to the
  nodes during one operation of the coordinator (single accesses are atomic in
  the source, whole operations are not); the start and stop of the server threads
  (\<open>start_server\<close>) apart from the bound on their number; symbolic links and file permissions; the parsing of
  arguments by \<open>clap\<close> and the wait for a signal in cli_impl.rs; main.rs, lib.rs and time.rs, which
  only glue; the generator of random identifiers, whose draws are a stream of the environment;
  logging.
\<close>

end
